(* ===== verification/Prelude.thy ===== *)
theory Prelude
  imports Main "HOL-Library.Word" "HOL-Library.Monad_Syntax"
begin

text \<open>
  The vocabulary the components share: results and the question-mark operator, effects on an
  explicit world, early-exit traversals, big-endian bytes, hexadecimal and decimal text as the
  Rust standard library prints and parses it, and insertion-ordered maps.
\<close>

unbundle bit_operations_syntax

named_theorems result_simps \<open>unfolding of results, options and effects\<close>
named_theorems wire_simps \<open>text and byte encodings\<close>

section \<open>Machine integers\<close>

type_synonym u8 = "8 word"
type_synonym u32 = "32 word"
type_synonym u64 = "64 word"
type_synonym u128 = "128 word"

section \<open>Results and the question-mark operator\<close>

definition and_then :: "'e + 'a \<Rightarrow> ('a \<Rightarrow> 'e + 'b) \<Rightarrow> 'e + 'b" where
  "and_then r k = (case r of Inl e \<Rightarrow> Inl e | Inr x \<Rightarrow> k x)"

definition map_err :: "('e \<Rightarrow> 'f) \<Rightarrow> 'e + 'a \<Rightarrow> 'f + 'a" where
  "map_err f r = (case r of Inl e \<Rightarrow> Inl (f e) | Inr x \<Rightarrow> Inr x)"

definition ok_or :: "'e \<Rightarrow> 'a option \<Rightarrow> 'e + 'a" where
  "ok_or e r = (case r of None \<Rightarrow> Inl e | Some x \<Rightarrow> Inr x)"

definition result_ok :: "'e + 'a \<Rightarrow> 'a option" where
  "result_ok r = (case r of Inl e \<Rightarrow> None | Inr x \<Rightarrow> Some x)"

definition unwrap_or :: "'a \<Rightarrow> 'a option \<Rightarrow> 'a" where
  "unwrap_or d r = (case r of None \<Rightarrow> d | Some x \<Rightarrow> x)"

text \<open>
  \<open>iter().map(f).collect::<Result<Vec<_>, _>>()\<close>: elements are converted in order and the first
  error is the result.
\<close>

fun collect_result :: "('a \<Rightarrow> 'e + 'b) \<Rightarrow> 'a list \<Rightarrow> 'e + 'b list" where
  "collect_result f [] = Inr []"
| "collect_result f (x # xs) =
     and_then (f x) (\<lambda>y. and_then (collect_result f xs) (\<lambda>ys. Inr (y # ys)))"

lemma and_then_simps [simp, result_simps]:
  "and_then (Inl e) k = Inl e"
  "and_then (Inr x) k = k x"
  by (simp_all add: and_then_def)

lemma map_err_simps [simp, result_simps]:
  "map_err f (Inl e) = Inl (f e)"
  "map_err f (Inr x) = Inr x"
  by (simp_all add: map_err_def)

lemma ok_or_simps [simp, result_simps]:
  "ok_or e None = Inl e"
  "ok_or e (Some x) = Inr x"
  by (simp_all add: ok_or_def)

lemma result_ok_simps [simp, result_simps]:
  "result_ok (Inl e) = None"
  "result_ok (Inr x) = Some x"
  by (simp_all add: result_ok_def)

lemma unwrap_or_simps [simp, result_simps]:
  "unwrap_or d None = d"
  "unwrap_or d (Some x) = x"
  by (simp_all add: unwrap_or_def)

lemma and_then_Inr_iff: "and_then r k = Inr y \<longleftrightarrow> (\<exists>x. r = Inr x \<and> k x = Inr y)"
  by (cases r) auto

lemma and_then_Inl_iff:
  "and_then r k = Inl e \<longleftrightarrow> r = Inl e \<or> (\<exists>x. r = Inr x \<and> k x = Inl e)"
  by (cases r) auto

lemma map_err_Inr_iff: "map_err f r = Inr y \<longleftrightarrow> r = Inr y"
  by (cases r) auto

lemma map_err_Inl_iff: "map_err f r = Inl e \<longleftrightarrow> (\<exists>e'. r = Inl e' \<and> e = f e')"
  by (cases r) auto

lemma ok_or_Inr_iff: "ok_or e r = Inr y \<longleftrightarrow> r = Some y"
  by (cases r) auto

lemma ok_or_Inl_iff: "ok_or e r = Inl e' \<longleftrightarrow> r = None \<and> e' = e"
  by (cases r) auto

lemmas result_iffs =
  and_then_Inr_iff and_then_Inl_iff map_err_Inr_iff map_err_Inl_iff ok_or_Inr_iff ok_or_Inl_iff

lemma collect_result_Inr:
  "collect_result f xs = Inr ys \<longleftrightarrow> list_all2 (\<lambda>x y. f x = Inr y) xs ys"
proof (induction xs arbitrary: ys)
  case Nil
  then show ?case by auto
next
  case (Cons x xs)
  then show ?case by (cases ys) (auto simp: result_iffs)
qed

lemma collect_result_length: "collect_result f xs = Inr ys \<Longrightarrow> length ys = length xs"
  by (auto simp: collect_result_Inr dest: list_all2_lengthD)

lemma collect_result_Inl:
  "collect_result f xs = Inl e \<longleftrightarrow>
     (\<exists>ps x ss ys. xs = ps @ x # ss \<and> list_all2 (\<lambda>x y. f x = Inr y) ps ys \<and> f x = Inl e)"
proof (induction xs)
  case Nil
  then show ?case by simp
next
  case (Cons a xs)
  note IH = Cons.IH
  show ?case
  proof
    assume "collect_result f (a # xs) = Inl e"
    then consider "f a = Inl e" | b where "f a = Inr b" "collect_result f xs = Inl e"
      by (auto simp: result_iffs)
    then show "\<exists>ps x ss ys. a # xs = ps @ x # ss \<and> list_all2 (\<lambda>x y. f x = Inr y) ps ys \<and> f x = Inl e"
    proof cases
      case 1
      then show ?thesis by (intro exI[of _ "[]"]) auto
    next
      case 2
      with Cons.IH obtain ps x ss ys where
        "xs = ps @ x # ss" "list_all2 (\<lambda>x y. f x = Inr y) ps ys" "f x = Inl e"
        by blast
      with 2 show ?thesis
        by (intro exI[of _ "a # ps"] exI[of _ x] exI[of _ ss] exI[of _ "b # ys"]) simp
    qed
  next
    assume "\<exists>ps x ss ys. a # xs = ps @ x # ss \<and> list_all2 (\<lambda>x y. f x = Inr y) ps ys \<and> f x = Inl e"
    then obtain ps x ss ys where
      eq: "a # xs = ps @ x # ss" and ok: "list_all2 (\<lambda>x y. f x = Inr y) ps ys" and bad: "f x = Inl e"
      by blast
    show "collect_result f (a # xs) = Inl e"
    proof (cases ps)
      case Nil
      with eq bad show ?thesis by simp
    next
      case (Cons p ps')
      with ok obtain b ys' where fy: "f a = Inr b" and ok': "list_all2 (\<lambda>x y. f x = Inr y) ps' ys'"
        using eq by (auto simp: list_all2_Cons1)
      from Cons eq ok' bad have "collect_result f xs = Inl e"
        unfolding IH by auto
      with fy show ?thesis by simp
    qed
  qed
qed

lemma collect_result_map: "collect_result f (map g xs) = collect_result (f \<circ> g) xs"
  by (induction xs) auto

lemma collect_result_all: "(\<And>x. x \<in> set xs \<Longrightarrow> f x = Inr (g x)) \<Longrightarrow> collect_result f xs = Inr (map g xs)"
  by (induction xs) auto

section \<open>Effects\<close>

text \<open>
  An asynchronous operation is a function on an explicit world \<open>'w\<close> (the network, the clock, the
  file system, the caches): it returns its value and the world it leaves behind. A fallible one
  returns a result, and \<open>rio_bind\<close> is \<open>.await?\<close>: an error ends the computation with the world as
  it is at that moment.
\<close>

type_synonym ('w, 'a) io = "'w \<Rightarrow> 'a \<times> 'w"
type_synonym ('w, 'e, 'a) rio = "'w \<Rightarrow> ('e + 'a) \<times> 'w"

definition io_return :: "'a \<Rightarrow> ('w, 'a) io" where
  "io_return x = (\<lambda>w. (x, w))"

definition io_bind :: "('w, 'a) io \<Rightarrow> ('a \<Rightarrow> ('w, 'b) io) \<Rightarrow> ('w, 'b) io" where
  "io_bind m k = (\<lambda>w. case m w of (x, w') \<Rightarrow> k x w')"

definition rio_bind :: "('w, 'e, 'a) rio \<Rightarrow> ('a \<Rightarrow> ('w, 'e, 'b) rio) \<Rightarrow> ('w, 'e, 'b) rio" where
  "rio_bind m k = (\<lambda>w. case m w of (r, w') \<Rightarrow> (case r of Inl e \<Rightarrow> (Inl e, w') | Inr x \<Rightarrow> k x w'))"

definition rio_lift :: "'e + 'a \<Rightarrow> ('w, 'e, 'a) rio" where
  "rio_lift r = (\<lambda>w. (r, w))"

definition rio_map_err :: "('e \<Rightarrow> 'f) \<Rightarrow> ('w, 'e, 'a) rio \<Rightarrow> ('w, 'f, 'a) rio" where
  "rio_map_err f m = (\<lambda>w. case m w of (r, w') \<Rightarrow> (map_err f r, w'))"

text \<open>A sequential loop of fallible effects that stops at the first error.\<close>

fun rio_collect :: "('a \<Rightarrow> ('w, 'e, 'b) rio) \<Rightarrow> 'a list \<Rightarrow> ('w, 'e, 'b list) rio" where
  "rio_collect f [] = rio_lift (Inr [])"
| "rio_collect f (x # xs) =
     rio_bind (f x) (\<lambda>y. rio_bind (rio_collect f xs) (\<lambda>ys. rio_lift (Inr (y # ys))))"

lemma io_return_apply [simp, result_simps]: "io_return x w = (x, w)"
  by (simp add: io_return_def)

lemma rio_lift_apply [simp, result_simps]: "rio_lift r w = (r, w)"
  by (simp add: rio_lift_def)

lemma rio_bind_apply [result_simps]:
  "rio_bind m k w = (case m w of (r, w') \<Rightarrow> (case r of Inl e \<Rightarrow> (Inl e, w') | Inr x \<Rightarrow> k x w'))"
  by (simp add: rio_bind_def)

lemma rio_bind_lift [simp, result_simps]:
  "rio_bind (rio_lift (Inl e)) k = rio_lift (Inl e)"
  "rio_bind (rio_lift (Inr x)) k = k x"
  by (auto simp: rio_bind_def fun_eq_iff)

lemma rio_map_err_apply [result_simps]:
  "rio_map_err f m w = (case m w of (r, w') \<Rightarrow> (map_err f r, w'))"
  by (simp add: rio_map_err_def)

lemma rio_bind_Inr_iff:
  "rio_bind m k w = (Inr y, w'') \<longleftrightarrow> (\<exists>x w'. m w = (Inr x, w') \<and> k x w' = (Inr y, w''))"
  by (auto simp: rio_bind_def split: prod.splits sum.splits)

lemma rio_bind_Inl_iff:
  "rio_bind m k w = (Inl e, w'') \<longleftrightarrow>
     m w = (Inl e, w'') \<or> (\<exists>x w'. m w = (Inr x, w') \<and> k x w' = (Inl e, w''))"
  by (auto simp: rio_bind_def split: prod.splits sum.splits)

lemma rio_map_err_Inr_iff: "rio_map_err f m w = (Inr y, w') \<longleftrightarrow> m w = (Inr y, w')"
  by (auto simp: rio_map_err_def map_err_Inr_iff split: prod.splits)

lemma rio_map_err_Inl_iff:
  "rio_map_err f m w = (Inl e, w') \<longleftrightarrow> (\<exists>e'. m w = (Inl e', w') \<and> e = f e')"
  by (auto simp: rio_map_err_def map_err_Inl_iff split: prod.splits)

lemma rio_lift_Inr_iff: "rio_lift r w = (Inr y, w') \<longleftrightarrow> r = Inr y \<and> w' = w"
  by auto

lemma rio_lift_Inl_iff: "rio_lift r w = (Inl e, w') \<longleftrightarrow> r = Inl e \<and> w' = w"
  by auto

lemmas rio_iffs =
  rio_bind_Inr_iff rio_bind_Inl_iff rio_map_err_Inr_iff rio_map_err_Inl_iff
  rio_lift_Inr_iff rio_lift_Inl_iff

lemma rio_collect_Inr_Cons:
  "rio_collect f (x # xs) w = (Inr zs, w'') \<longleftrightarrow>
     (\<exists>y ys w'. f x w = (Inr y, w') \<and> rio_collect f xs w' = (Inr ys, w'') \<and> zs = y # ys)"
  by (auto simp: rio_iffs)

lemma rio_collect_length: "rio_collect f xs w = (Inr ys, w') \<Longrightarrow> length ys = length xs"
proof (induction xs arbitrary: ys w)
  case Nil
  then show ?case by simp
next
  case (Cons x xs)
  then show ?case unfolding rio_collect_Inr_Cons by auto
qed

text \<open>A reader (its answers do not depend on the history of calls) collects pointwise.\<close>

lemma rio_collect_reader:
  assumes "\<And>x w. x \<in> set xs \<Longrightarrow> fst (f x w) = Inr (g x)"
  shows "fst (rio_collect f xs w) = Inr (map g xs)"
  using assms
proof (induction xs arbitrary: w)
  case Nil
  then show ?case by simp
next
  case (Cons x xs)
  obtain w' where x: "f x w = (Inr (g x), w')"
    using Cons.prems[of x w] by (cases "f x w") auto
  have "fst (rio_collect f xs w') = Inr (map g xs)"
    by (rule Cons.IH) (simp add: Cons.prems)
  then obtain w'' where "rio_collect f xs w' = (Inr (map g xs), w'')"
    by (cases "rio_collect f xs w'") auto
  with x show ?case by (simp add: rio_bind_apply)
qed

section \<open>Insertion-ordered maps\<close>

text \<open>
  \<open>IndexMap\<close> and the iteration order of a \<open>HashMap\<close>: an association list with distinct keys.
  Inserting a present key replaces its value in place; a new key goes to the end. \<open>extend\<close> inserts
  the entries of the other map one after another.
\<close>

type_synonym ('k, 'v) index_map = "('k \<times> 'v) list"

fun im_insert :: "'k \<Rightarrow> 'v \<Rightarrow> ('k, 'v) index_map \<Rightarrow> ('k, 'v) index_map" where
  "im_insert k v [] = [(k, v)]"
| "im_insert k v ((k', v') # m) = (if k' = k then (k, v) # m else (k', v') # im_insert k v m)"

definition im_extend :: "('k, 'v) index_map \<Rightarrow> ('k \<times> 'v) list \<Rightarrow> ('k, 'v) index_map" where
  "im_extend m es = fold (\<lambda>(k, v) acc. im_insert k v acc) es m"

definition im_keys :: "('k, 'v) index_map \<Rightarrow> 'k list" where
  "im_keys m = map fst m"

text \<open>The contract of a map that is filled by insertion, and what every client derives from it.\<close>

locale insert_map =
  fixes ins :: "'k \<Rightarrow> 'v \<Rightarrow> 'm \<Rightarrow> 'm"
    and lookup :: "'m \<Rightarrow> 'k \<Rightarrow> 'v option"
    and invar :: "'m \<Rightarrow> bool"
  assumes lookup_ins: "lookup (ins k v m) = (lookup m)(k \<mapsto> v)"
    and invar_ins: "invar m \<Longrightarrow> invar (ins k v m)"
begin

lemma lookup_fold_ins:
  "lookup (fold (\<lambda>(k, v) acc. ins k v acc) es m) = lookup m ++ map_of (rev es)"
proof (induction es arbitrary: m)
  case Nil
  then show ?case by simp
next
  case (Cons e es)
  obtain k v where e: "e = (k, v)" by (cases e)
  show ?case
    by (auto simp: Cons.IH lookup_ins e map_add_def fun_eq_iff split: option.splits)
qed

lemma invar_fold_ins: "invar m \<Longrightarrow> invar (fold (\<lambda>(k, v) acc. ins k v acc) es m)"
  by (induction es arbitrary: m) (auto simp: invar_ins)

lemma dom_fold_ins:
  "dom (lookup (fold (\<lambda>(k, v) acc. ins k v acc) es m)) = dom (lookup m) \<union> fst ` set es"
  by (simp add: lookup_fold_ins dom_map_of_conv_image_fst Un_commute)

end

lemma map_of_im_insert: "map_of (im_insert k v m) = (map_of m)(k \<mapsto> v)"
  by (induction k v m rule: im_insert.induct) (auto simp: fun_eq_iff)

lemma set_keys_im_insert: "fst ` set (im_insert k v m) = insert k (fst ` set m)"
  by (induction k v m rule: im_insert.induct) auto

lemma distinct_im_insert:
  "distinct (map fst m) \<Longrightarrow> distinct (map fst (im_insert k v m))"
proof (induction k v m rule: im_insert.induct)
  case (1 k v)
  then show ?case by simp
next
  case (2 k v k' v' m)
  then show ?case using set_keys_im_insert[of k v m] by auto
qed

interpretation im: insert_map im_insert map_of "\<lambda>m. distinct (map fst m)"
  by unfold_locales (auto simp: map_of_im_insert intro: distinct_im_insert)

lemma map_of_im_extend: "map_of (im_extend m es) = map_of m ++ map_of (rev es)"
  unfolding im_extend_def by (rule im.lookup_fold_ins)

lemma distinct_im_extend: "distinct (map fst m) \<Longrightarrow> distinct (map fst (im_extend m es))"
  unfolding im_extend_def by (rule im.invar_fold_ins)

lemma dom_im_extend: "dom (map_of (im_extend m es)) = dom (map_of m) \<union> fst ` set es"
  unfolding im_extend_def by (rule im.dom_fold_ins)

lemma im_extend_Nil [simp]: "im_extend m [] = m"
  by (simp add: im_extend_def)

lemma im_extend_append: "im_extend m (xs @ ys) = im_extend (im_extend m xs) ys"
  by (simp add: im_extend_def)

lemma im_insert_fresh: "k \<notin> fst ` set m \<Longrightarrow> im_insert k v m = m @ [(k, v)]"
  by (induction k v m rule: im_insert.induct) auto

lemma im_extend_distinct:
  "distinct (map fst (m @ es)) \<Longrightarrow> im_extend m es = m @ es"
proof (induction es arbitrary: m)
  case Nil
  then show ?case by simp
next
  case (Cons e es)
  obtain k v where e: "e = (k, v)" by (cases e)
  have "im_insert k v m = m @ [(k, v)]"
    using Cons.prems e by (intro im_insert_fresh) force
  moreover have "im_extend (m @ [(k, v)]) es = (m @ [(k, v)]) @ es"
    using Cons.prems e by (intro Cons.IH) auto
  ultimately show ?case by (simp add: im_extend_def e)
qed

end
