(* ===== verification/Wire.thy ===== *)
theory Wire
  imports Prelude
begin

text \<open>
  Bytes and text as the Rust standard library treats them. A \<open>String\<close> is its UTF-8 bytes, one
  \<open>char\<close> per byte. The theory defines big-endian integers, \<open>format!("{:#x}", n)\<close>,
  \<open>from_str_radix(_, 16)\<close>, decimal printing, \<open>trim\<close>, \<open>trim_start_matches\<close>, \<open>contains\<close>,
  \<open>split\<close> and \<open>lines\<close>, and proves that hexadecimal text is read back as it was printed.
\<close>

section \<open>Big-endian integers\<close>

definition be_nat :: "u8 list \<Rightarrow> nat" where
  "be_nat bs = foldl (\<lambda>acc b. 256 * acc + unat b) 0 bs"

text \<open>The \<open>n\<close> low bytes of a number, most significant first.\<close>

fun nat_be :: "nat \<Rightarrow> nat \<Rightarrow> u8 list" where
  "nat_be 0 v = []"
| "nat_be (Suc n) v = nat_be n (v div 256) @ [word_of_nat (v mod 256)]"

definition as_bytes :: "string \<Rightarrow> u8 list" where
  "as_bytes s = map (\<lambda>c. word_of_nat (of_char c)) s"

definition bytes_to_string :: "u8 list \<Rightarrow> string" where
  "bytes_to_string bs = map (\<lambda>b. char_of (unat b)) bs"

lemma be_nat_Nil [simp]: "be_nat [] = 0"
  by (simp add: be_nat_def)

lemma be_nat_snoc [simp]: "be_nat (bs @ [b]) = 256 * be_nat bs + unat b"
  by (simp add: be_nat_def)

lemma be_nat_append: "be_nat (xs @ ys) = be_nat xs * 256 ^ length ys + be_nat ys"
proof (induction ys rule: rev_induct)
  case Nil
  then show ?case by simp
next
  case (snoc y ys)
  have "be_nat (xs @ ys @ [y]) = 256 * be_nat (xs @ ys) + unat y"
    using be_nat_snoc[of "xs @ ys" y] by simp
  then show ?case by (simp add: snoc algebra_simps)
qed

lemma be_nat_zeros [simp]: "be_nat (replicate n 0) = 0"
  by (induction n) (simp_all add: replicate_append_same [symmetric])

lemma be_nat_padded [simp]: "be_nat (replicate n 0 @ bs) = be_nat bs"
  by (simp add: be_nat_append)

lemma unat_u8_less: "unat (b :: u8) < 256"
  using unsigned_less[where 'b = 8 and 'a = nat, of b] by simp

lemma be_nat_less: "be_nat bs < 256 ^ length bs"
proof (induction bs rule: rev_induct)
  case Nil
  then show ?case by simp
next
  case (snoc b bs)
  have "unat b < 256" by (rule unat_u8_less)
  then have "256 * be_nat bs + unat b < 256 * (be_nat bs + 1)" by simp
  also have "\<dots> \<le> 256 * 256 ^ length bs" using snoc by (intro mult_le_mono2) simp
  finally show ?case by simp
qed

lemma be_nat_inj: "length xs = length ys \<Longrightarrow> be_nat xs = be_nat ys \<Longrightarrow> xs = ys"
proof (induction xs arbitrary: ys rule: rev_induct)
  case Nil
  then show ?case by simp
next
  case (snoc x xs)
  then obtain y ys' where ys: "ys = ys' @ [y]"
    by (cases ys rule: rev_cases) auto
  have x: "unat x < 256" and y: "unat y < 256"
    by (rule unat_u8_less)+
  have eq: "256 * be_nat xs + unat x = 256 * be_nat ys' + unat y"
    using snoc.prems ys by simp
  have hi: "be_nat xs = be_nat ys'"
    using arg_cong[OF eq, of "\<lambda>v. v div 256"] x y by simp
  with eq have "unat x = unat y" by simp
  then have "x = y" by (simp only: word_unat_eq_iff)
  moreover note hi
  moreover have "xs = ys'"
    using snoc.prems ys hi by (intro snoc.IH) auto
  ultimately show ?case using ys by simp
qed

lemma length_nat_be [simp]: "length (nat_be n v) = n"
  by (induction n v rule: nat_be.induct) auto

lemma be_nat_nat_be: "be_nat (nat_be n v) = v mod 256 ^ n"
proof (induction n v rule: nat_be.induct)
  case (1 v)
  then show ?case by simp
next
  case (2 n v)
  have "unat (word_of_nat (v mod 256) :: u8) = v mod 256"
    by (simp add: unat_of_nat)
  moreover have "256 * (v div 256 mod 256 ^ n) + v mod 256 = v mod (256 * 256 ^ n)"
    by (simp add: mod_mult2_eq)
  ultimately show ?case using 2 by simp
qed

lemma nat_be_be_nat: "nat_be (length bs) (be_nat bs) = bs"
  by (rule be_nat_inj) (use be_nat_less[of bs] in \<open>simp_all add: be_nat_nat_be\<close>)

lemma length_as_bytes [simp]: "length (as_bytes s) = length s"
  by (simp add: as_bytes_def)

lemma bytes_to_string_as_bytes [simp]: "bytes_to_string (as_bytes s) = s"
proof -
  have "unat (word_of_nat (of_char c) :: u8) = of_char c" for c :: char
    by (simp add: unat_of_nat)
  then show ?thesis by (simp add: bytes_to_string_def as_bytes_def o_def)
qed

lemma as_bytes_inj: "as_bytes s = as_bytes t \<Longrightarrow> s = t"
  by (metis bytes_to_string_as_bytes)

section \<open>Hexadecimal and decimal text\<close>

definition digit_char :: "nat \<Rightarrow> char" where
  "digit_char d = ''0123456789abcdef'' ! d"

fun nat_digits :: "nat \<Rightarrow> nat \<Rightarrow> nat list" where
  "nat_digits b n = (if b < 2 \<or> n < b then [n] else nat_digits b (n div b) @ [n mod b])"

declare nat_digits.simps [simp del]

text \<open>\<open>format!("{:x}", n)\<close>, \<open>format!("{:#x}", n)\<close> and \<open>n.to_string()\<close>.\<close>

definition lower_hex :: "nat \<Rightarrow> string" where
  "lower_hex n = map digit_char (nat_digits 16 n)"

definition fmt_hex :: "nat \<Rightarrow> string" where
  "fmt_hex n = ''0x'' @ lower_hex n"

definition dec_string :: "nat \<Rightarrow> string" where
  "dec_string n = map digit_char (nat_digits 10 n)"

text \<open>The value of one digit; both cases are accepted.\<close>

definition hex_val :: "char \<Rightarrow> nat option" where
  "hex_val c = (let v = (of_char c :: nat) in
     if 48 \<le> v \<and> v \<le> 57 then Some (v - 48)
     else if 97 \<le> v \<and> v \<le> 102 then Some (v - 87)
     else if 65 \<le> v \<and> v \<le> 70 then Some (v - 55)
     else None)"

fun hex_nat_acc :: "nat \<Rightarrow> string \<Rightarrow> nat option" where
  "hex_nat_acc acc [] = Some acc"
| "hex_nat_acc acc (c # cs) =
     (case hex_val c of None \<Rightarrow> None | Some d \<Rightarrow> hex_nat_acc (16 * acc + d) cs)"

text \<open>
  \<open>uN::from_str_radix(s, 16)\<close>: an optional plus sign, at least one digit, only hexadecimal digits
  and a value below \<open>2 ^ bits\<close>.
\<close>

definition from_str_radix16 :: "nat \<Rightarrow> string \<Rightarrow> nat option" where
  "from_str_radix16 bits s =
     (let ds = (if s \<noteq> [] \<and> tl s \<noteq> [] \<and> hd s = CHR ''+'' then tl s else s) in
      if ds = [] then None
      else case hex_nat_acc 0 ds of
             None \<Rightarrow> None
           | Some v \<Rightarrow> if v < 2 ^ bits then Some v else None)"

section \<open>String slicing\<close>

definition starts_with :: "string \<Rightarrow> string \<Rightarrow> bool" where
  "starts_with p s \<longleftrightarrow> take (length p) s = p"

text \<open>\<open>s.trim_start_matches(p)\<close> removes the prefix as often as it occurs.\<close>

function trim_start_matches :: "string \<Rightarrow> string \<Rightarrow> string" where
  "trim_start_matches p s =
     (if p \<noteq> [] \<and> starts_with p s then trim_start_matches p (drop (length p) s) else s)"
  by pat_completeness auto
termination
proof (relation "measure (\<lambda>(p, s). length s)")
  fix p s :: string
  assume "p \<noteq> [] \<and> starts_with p s"
  then have "0 < length p" and "s \<noteq> []" by (auto simp: starts_with_def)
  then show "((p, drop (length p) s), (p, s)) \<in> measure (\<lambda>(p, s). length s)" by simp
qed simp

declare trim_start_matches.simps [simp del]

definition trim_end_matches :: "string \<Rightarrow> string \<Rightarrow> string" where
  "trim_end_matches p s = rev (trim_start_matches (rev p) (rev s))"

text \<open>
  \<open>char::is_whitespace\<close> (Unicode \<open>White_Space\<close>) as UTF-8 byte sequences, and \<open>str::trim\<close>.
\<close>

definition byte_string :: "nat list \<Rightarrow> string" where
  "byte_string ns = map char_of ns"

definition whitespace :: "string list" where
  "whitespace = map byte_string
     ([[9], [10], [11], [12], [13], [32], [194, 133], [194, 160], [225, 154, 128],
       [226, 128, 168], [226, 128, 169], [226, 128, 175], [226, 129, 159], [227, 128, 128]]
      @ map (\<lambda>k. [226, 128, 128 + k]) [0..<11])"

fun strip_any :: "string list \<Rightarrow> string \<Rightarrow> string option" where
  "strip_any [] s = None"
| "strip_any (p # ps) s =
     (if p \<noteq> [] \<and> starts_with p s then Some (drop (length p) s) else strip_any ps s)"

lemma strip_any_length: "strip_any ps s = Some t \<Longrightarrow> length t < length s"
proof (induction ps)
  case Nil
  then show ?case by simp
next
  case (Cons p ps)
  show ?case
  proof (cases "p \<noteq> [] \<and> starts_with p s")
    case True
    then have "s \<noteq> []" "0 < length p" by (auto simp: starts_with_def)
    with True Cons.prems show ?thesis by auto
  next
    case False
    with Cons show ?thesis by auto
  qed
qed

function trim_start_any :: "string list \<Rightarrow> string \<Rightarrow> string" where
  "trim_start_any ps s = (case strip_any ps s of None \<Rightarrow> s | Some t \<Rightarrow> trim_start_any ps t)"
  by pat_completeness auto
termination
  by (relation "measure (\<lambda>(ps, s). length s)") (auto dest: strip_any_length)

declare trim_start_any.simps [simp del]

definition trim :: "string \<Rightarrow> string" where
  "trim s = rev (trim_start_any (map rev whitespace) (rev (trim_start_any whitespace s)))"

text \<open>\<open>s.contains(p)\<close>, \<open>s.replace(c, "")\<close>, \<open>s.split(c)\<close> and \<open>s.lines()\<close>.\<close>

fun str_contains :: "string \<Rightarrow> string \<Rightarrow> bool" where
  "str_contains p [] \<longleftrightarrow> p = []"
| "str_contains p (c # cs) \<longleftrightarrow> starts_with p (c # cs) \<or> str_contains p cs"

definition remove_char :: "char \<Rightarrow> string \<Rightarrow> string" where
  "remove_char c s = filter (\<lambda>x. x \<noteq> c) s"

fun split_char :: "char \<Rightarrow> string \<Rightarrow> string list" where
  "split_char c [] = [[]]"
| "split_char c (x # xs) =
     (if x = c then [] # split_char c xs
      else case split_char c xs of [] \<Rightarrow> [[x]] | l # ls \<Rightarrow> (x # l) # ls)"

definition strip_cr :: "string \<Rightarrow> string" where
  "strip_cr l = (if l \<noteq> [] \<and> last l = char_of (13 :: nat) then butlast l else l)"

text \<open>
  \<open>lines\<close> splits after each newline, drops a final empty piece and removes the carriage return
  before a newline; the last line keeps a carriage return that no newline follows.
\<close>

definition str_lines :: "string \<Rightarrow> string list" where
  "str_lines s =
     (let ps = split_char (char_of (10 :: nat)) s in
      map strip_cr (butlast ps) @ (if last ps = [] then [] else [last ps]))"

section \<open>Printing and parsing agree\<close>

lemma hex_val_digit_char: "d < 16 \<Longrightarrow> hex_val (digit_char d) = Some d"
proof -
  have "\<forall>d \<in> set [0..<16]. hex_val (digit_char d) = Some d"
    by code_simp
  then show "d < 16 \<Longrightarrow> hex_val (digit_char d) = Some d" by simp
qed

lemma digit_char_not_x: "d < 16 \<Longrightarrow> digit_char d \<noteq> CHR ''x'' \<and> digit_char d \<noteq> CHR ''+''"
proof -
  have "\<forall>d \<in> set [0..<16]. digit_char d \<noteq> CHR ''x'' \<and> digit_char d \<noteq> CHR ''+''"
    by code_simp
  then show "d < 16 \<Longrightarrow> digit_char d \<noteq> CHR ''x'' \<and> digit_char d \<noteq> CHR ''+''" by simp
qed

lemma nat_digits_small: "2 \<le> b \<Longrightarrow> d \<in> set (nat_digits b n) \<Longrightarrow> d < b"
proof (induction b n rule: nat_digits.induct)
  case (1 b n)
  show ?case
  proof (cases "b < 2 \<or> n < b")
    case True
    with 1 show ?thesis by (auto simp: nat_digits.simps[of b n])
  next
    case False
    with 1 show ?thesis by (auto simp: nat_digits.simps[of b n])
  qed
qed

lemma nat_digits_nonempty [simp]: "nat_digits b n \<noteq> []"
  by (simp add: nat_digits.simps[of b n])

lemma lower_hex_nonempty [simp]: "lower_hex n \<noteq> []"
  by (simp add: lower_hex_def)

lemma hex_nat_acc_append:
  "hex_nat_acc a (s @ t) = (case hex_nat_acc a s of None \<Rightarrow> None | Some v \<Rightarrow> hex_nat_acc v t)"
  by (induction a s rule: hex_nat_acc.induct) (auto split: option.splits)

lemma hex_nat_lower_hex: "hex_nat_acc 0 (lower_hex n) = Some n"
proof (induction n rule: less_induct)
  case (less n)
  show ?case
  proof (cases "n < 16")
    case True
    then show ?thesis
      by (simp add: lower_hex_def nat_digits.simps[of 16 n] hex_val_digit_char)
  next
    case False
    then have "hex_nat_acc 0 (lower_hex (n div 16)) = Some (n div 16)"
      by (intro less) simp
    moreover have "lower_hex n = lower_hex (n div 16) @ [digit_char (n mod 16)]"
      using False by (simp add: lower_hex_def nat_digits.simps[of 16 n])
    ultimately show ?thesis by (simp add: hex_nat_acc_append hex_val_digit_char)
  qed
qed

lemma lower_hex_inj: "lower_hex m = lower_hex n \<longleftrightarrow> m = n"
  by (metis hex_nat_lower_hex option.inject)

lemma fmt_hex_inj [simp]: "fmt_hex m = fmt_hex n \<longleftrightarrow> m = n"
  by (simp add: fmt_hex_def lower_hex_inj)

lemma lower_hex_no_x: "c \<in> set (lower_hex n) \<Longrightarrow> c \<noteq> CHR ''x'' \<and> c \<noteq> CHR ''+''"
  using digit_char_not_x nat_digits_small[of 16] by (auto simp: lower_hex_def)

lemma starts_0x_lower_hex: "\<not> starts_with ''0x'' (lower_hex n)"
proof
  assume "starts_with ''0x'' (lower_hex n)"
  then have "take 2 (lower_hex n) = ''0x''" by (simp add: starts_with_def numeral_2_eq_2)
  then have "CHR ''x'' \<in> set (take 2 (lower_hex n))" by simp
  then have "CHR ''x'' \<in> set (lower_hex n)" by (rule in_set_takeD)
  then show False using lower_hex_no_x by blast
qed

lemma trim_0x_fmt_hex: "trim_start_matches ''0x'' (fmt_hex n) = lower_hex n"
proof -
  have "trim_start_matches ''0x'' (fmt_hex n) = trim_start_matches ''0x'' (lower_hex n)"
    by (subst trim_start_matches.simps) (simp add: fmt_hex_def starts_with_def)
  also have "\<dots> = lower_hex n"
    by (subst trim_start_matches.simps) (simp add: starts_0x_lower_hex)
  finally show ?thesis .
qed

lemma from_str_radix16_lower_hex:
  "from_str_radix16 bits (lower_hex n) = (if n < 2 ^ bits then Some n else None)"
proof -
  have "hd (lower_hex n) \<noteq> CHR ''+''"
    using lower_hex_no_x[of "hd (lower_hex n)" n] by simp
  then show ?thesis
    by (simp add: from_str_radix16_def Let_def hex_nat_lower_hex)
qed

text \<open>
  Reading back what \<open>format!("{:#x}", n)\<close> printed: the idiom
  \<open>uN::from_str_radix(s.trim_start_matches("0x"), 16)\<close> of the sources.
\<close>

lemma parse_fmt_hex:
  "n < 2 ^ bits \<Longrightarrow> from_str_radix16 bits (trim_start_matches ''0x'' (fmt_hex n)) = Some n"
  by (simp add: trim_0x_fmt_hex from_str_radix16_lower_hex)

lemma from_str_radix16_bound: "from_str_radix16 bits s = Some v \<Longrightarrow> v < 2 ^ bits"
  by (auto simp: from_str_radix16_def Let_def split: if_splits option.splits)

end
