(* ===== verification/CliUtil.thy ===== *)
theory CliUtil
  imports Wire
begin

text \<open>
  \<open>snip36-core/src/cli_util.rs\<close>: reading hexadecimal values out of the output of a subprocess. The
  regular expressions come from \<open>regex_lite\<close> and are a parameter: compiling a pattern, testing a
  text and finding the first match.
\<close>

record 're regex_lib =
  re_new :: "string \<Rightarrow> 're option"
  re_is_match :: "'re \<Rightarrow> string \<Rightarrow> bool"
  re_find :: "'re \<Rightarrow> string \<Rightarrow> string option"

definition replace_char :: "char \<Rightarrow> string \<Rightarrow> string \<Rightarrow> string" where
  "replace_char c r s = concat (map (\<lambda>x. if x = c then r else [x]) s)"

definition HEX_PATTERN :: string where
  "HEX_PATTERN = ''0x[0-9a-fA-F]+''"

definition LONG_HEX_PATTERN :: string where
  "LONG_HEX_PATTERN = ''0x[0-9a-fA-F]{50,}''"

fun parse_hex_lines :: "'re regex_lib \<Rightarrow> 're \<Rightarrow> string list \<Rightarrow> string option" where
  "parse_hex_lines X re [] = None"
| "parse_hex_lines X re (line # ls) =
     (if re_is_match X re line then
        (case re_new X HEX_PATTERN of
           None \<Rightarrow> None
         | Some h \<Rightarrow> (case re_find X h line of
             Some m \<Rightarrow> Some m
           | None \<Rightarrow> parse_hex_lines X re ls))
      else parse_hex_lines X re ls)"

definition parse_hex_from_output :: "'re regex_lib \<Rightarrow> string \<Rightarrow> string \<Rightarrow> string option" where
  "parse_hex_from_output X key text =
     (case re_new X (''(?i)'' @ replace_char CHR ''_'' ''[_ ]'' key) of
        None \<Rightarrow> None
      | Some re \<Rightarrow> parse_hex_lines X re (str_lines text))"

definition parse_long_hex :: "'re regex_lib \<Rightarrow> string \<Rightarrow> string option" where
  "parse_long_hex X text = (case re_new X LONG_HEX_PATTERN of None \<Rightarrow> None | Some re \<Rightarrow> re_find X re text)"

record cmd_output =
  out_success :: bool
  out_stdout :: string
  out_stderr :: string

definition format_cmd_output :: "cmd_output \<Rightarrow> string" where
  "format_cmd_output out =
     (if out_stderr out \<noteq> [] then
        ''stdout: '' @ out_stdout out @ [char_of (10 :: nat)] @ ''stderr: '' @ out_stderr out
      else out_stdout out)"

section \<open>The value comes from the first matching line\<close>

definition hex_line :: "'re regex_lib \<Rightarrow> 're \<Rightarrow> 're \<Rightarrow> string \<Rightarrow> string option" where
  "hex_line X re h line = (if re_is_match X re line then re_find X h line else None)"

lemma parse_hex_lines_first:
  assumes "re_new X HEX_PATTERN = Some h"
  shows "parse_hex_lines X re ls = Some m \<longleftrightarrow>
     (\<exists>ps l ss. ls = ps @ l # ss \<and> (\<forall>p \<in> set ps. hex_line X re h p = None) \<and> hex_line X re h l = Some m)"
proof (induction ls)
  case Nil
  then show ?case by simp
next
  case (Cons a ls)
  show ?case
  proof (cases "hex_line X re h a")
    case None
    then have "parse_hex_lines X re (a # ls) = parse_hex_lines X re ls"
      using assms by (simp add: hex_line_def split: if_splits)
    moreover have "(\<exists>ps l ss. a # ls = ps @ l # ss \<and> (\<forall>p \<in> set ps. hex_line X re h p = None) \<and> hex_line X re h l = Some m)
      \<longleftrightarrow> (\<exists>ps l ss. ls = ps @ l # ss \<and> (\<forall>p \<in> set ps. hex_line X re h p = None) \<and> hex_line X re h l = Some m)"
      (is "?L \<longleftrightarrow> ?R")
    proof
      assume ?L
      then obtain ps l ss where *: "a # ls = ps @ l # ss" "\<forall>p \<in> set ps. hex_line X re h p = None"
        "hex_line X re h l = Some m" by blast
      then obtain ps' where "ps = a # ps'" using None by (cases ps) auto
      with * show ?R by auto
    next
      assume ?R
      then obtain ps l ss where "ls = ps @ l # ss" "\<forall>p \<in> set ps. hex_line X re h p = None"
        "hex_line X re h l = Some m" by blast
      then show ?L using None by (intro exI[of _ "a # ps"] exI[of _ l] exI[of _ ss]) simp
    qed
    ultimately show ?thesis using Cons.IH by simp
  next
    case (Some v)
    then have p: "parse_hex_lines X re (a # ls) = Some v"
      using assms by (simp add: hex_line_def split: if_splits)
    show ?thesis unfolding p
    proof
      assume "Some v = Some m"
      then show "\<exists>ps l ss. a # ls = ps @ l # ss \<and> (\<forall>p \<in> set ps. hex_line X re h p = None) \<and> hex_line X re h l = Some m"
        using Some by (intro exI[of _ "[]"] exI[of _ a] exI[of _ ls]) auto
    next
      assume "\<exists>ps l ss. a # ls = ps @ l # ss \<and> (\<forall>p \<in> set ps. hex_line X re h p = None) \<and> hex_line X re h l = Some m"
      then obtain ps l ss where *: "a # ls = ps @ l # ss" "\<forall>p \<in> set ps. hex_line X re h p = None"
        "hex_line X re h l = Some m" by blast
      then have "ps = []" using Some by (cases ps) auto
      with * Some show "Some v = Some m" by simp
    qed
  qed
qed

end
