(* ===== verification/Felt.thy ===== *)
theory Felt
  imports Wire
begin

text \<open>
  Field elements. \<open>Felt\<close> comes from the crate \<open>starknet_types_core\<close>, so it is a parameter of the
  model: a type \<open>'f\<close> and a record of the operations the sources call. The locale \<open>felt_library\<close>
  states the documented behaviour of these operations through the value \<open>to_biguint\<close>: numbers
  below the Stark prime, arithmetic modulo it, big-endian bytes and hexadecimal text. The type
  \<open>felt252\<close> with the record \<open>stark_felt\<close> is the field itself, and interprets the locale.
\<close>

definition stark_prime :: nat where
  "stark_prime = 2 ^ 251 + 17 * 2 ^ 192 + 1"

record 'f felt_lib =
  felt_to_biguint :: "'f \<Rightarrow> nat"
  felt_from_bytes_be :: "u8 list \<Rightarrow> 'f"
  felt_to_bytes_be :: "'f \<Rightarrow> u8 list"
  felt_from_u64 :: "u64 \<Rightarrow> 'f"
  felt_from_u128 :: "u128 \<Rightarrow> 'f"
  felt_add :: "'f \<Rightarrow> 'f \<Rightarrow> 'f"
  felt_mul :: "'f \<Rightarrow> 'f \<Rightarrow> 'f"
  felt_pow_felt :: "'f \<Rightarrow> 'f \<Rightarrow> 'f"
  felt_lower_hex :: "'f \<Rightarrow> string"
  felt_from_hex :: "string \<Rightarrow> string + 'f"
  felt_ZERO :: 'f
  felt_ONE :: 'f
  felt_TWO :: 'f
  felt_THREE :: 'f

lemma length_nat_digits:
  assumes "2 \<le> b" "n < b ^ k" "0 < k"
  shows "length (nat_digits b n) \<le> k"
  using assms
proof (induction b n arbitrary: k rule: nat_digits.induct)
  case (1 b n)
  show ?case
  proof (cases "n < b")
    case True
    with 1 show ?thesis by (simp add: nat_digits.simps[of b n])
  next
    case False
    have "k \<noteq> 1" using 1 False by auto
    with 1 obtain k' where k: "k = Suc k'" "0 < k'" by (cases k) auto
    have "n div b < b ^ k'"
      using 1 k by (simp add: less_mult_imp_div_less mult.commute)
    then have "length (nat_digits b (n div b)) \<le> k'"
      using 1 False k by simp
    with False 1 k show ?thesis by (simp add: nat_digits.simps[of b n])
  qed
qed

lemma stark_prime_less: "stark_prime < 16 ^ 63"
  by (simp add: stark_prime_def)

lemma length_lower_hex_felt: "n < stark_prime \<Longrightarrow> length (lower_hex n) \<le> 64"
  using length_nat_digits[of 16 n 63] stark_prime_less by (simp add: lower_hex_def)

section \<open>The contract of the field library\<close>

locale felt_library =
  fixes F :: "'f felt_lib"
  assumes biguint_less: "felt_to_biguint F x < stark_prime"
    and biguint_inj: "felt_to_biguint F x = felt_to_biguint F y \<Longrightarrow> x = y"
    and from_bytes_be: "felt_to_biguint F (felt_from_bytes_be F bs) = be_nat bs mod stark_prime"
    and to_bytes_be: "felt_to_bytes_be F x = nat_be 32 (felt_to_biguint F x)"
    and from_u64: "felt_to_biguint F (felt_from_u64 F a) = unat a"
    and from_u128: "felt_to_biguint F (felt_from_u128 F c) = unat c"
    and add: "felt_to_biguint F (felt_add F x y) =
                (felt_to_biguint F x + felt_to_biguint F y) mod stark_prime"
    and mul: "felt_to_biguint F (felt_mul F x y) =
                (felt_to_biguint F x * felt_to_biguint F y) mod stark_prime"
    and pow_felt: "felt_to_biguint F (felt_pow_felt F x y) =
                (felt_to_biguint F x ^ felt_to_biguint F y) mod stark_prime"
    and felt_to_hex: "felt_lower_hex F x = fmt_hex (felt_to_biguint F x)"
    and from_hex: "hex_nat_acc 0 s = Some v \<Longrightarrow> s \<noteq> [] \<Longrightarrow> length s \<le> 64 \<Longrightarrow> v < stark_prime \<Longrightarrow>
                \<exists>x. felt_from_hex F (''0x'' @ s) = Inr x \<and> felt_to_biguint F x = v"
    and ZERO: "felt_to_biguint F (felt_ZERO F) = 0"
    and ONE: "felt_to_biguint F (felt_ONE F) = 1"
    and TWO: "felt_to_biguint F (felt_TWO F) = 2"
    and THREE: "felt_to_biguint F (felt_THREE F) = 3"
begin

lemma felt_eq_iff: "x = y \<longleftrightarrow> felt_to_biguint F x = felt_to_biguint F y"
  using biguint_inj by blast

lemma from_hex_fmt_hex:
  assumes "v < stark_prime"
  shows "\<exists>x. felt_from_hex F (fmt_hex v) = Inr x \<and> felt_to_biguint F x = v"
  unfolding fmt_hex_def
  by (rule from_hex) (simp_all add: hex_nat_lower_hex length_lower_hex_felt assms)

text \<open>What the program prints with \<open>{:#x}\<close> it reads back with \<open>felt_from_hex\<close>.\<close>

lemma from_hex_to_hex: "felt_from_hex F (felt_lower_hex F x) = Inr x"
  using from_hex_fmt_hex[OF biguint_less[of x]] biguint_inj by (auto simp: felt_to_hex)

lemma to_hex_inj: "felt_lower_hex F x = felt_lower_hex F y \<longleftrightarrow> x = y"
  by (auto simp: felt_to_hex felt_eq_iff)

text \<open>Big-endian bytes of at most 31 places never wrap around the prime.\<close>

lemma from_bytes_be_short:
  assumes "length bs \<le> 31"
  shows "felt_to_biguint F (felt_from_bytes_be F bs) = be_nat bs"
proof -
  have "be_nat bs < 256 ^ length bs" by (rule be_nat_less)
  also have "\<dots> \<le> 256 ^ 31" using assms by (intro power_increasing) simp_all
  also have "(256 :: nat) ^ 31 < stark_prime" by (simp add: stark_prime_def)
  finally show ?thesis by (simp add: from_bytes_be)
qed

lemma from_hex_collect: "collect_result (felt_from_hex F) (map (felt_lower_hex F) xs) = Inr xs"
  by (induction xs) (simp_all add: from_hex_to_hex)

end

section \<open>The Stark field\<close>

typedef felt252 = "{n :: nat. n < stark_prime}"
  morphisms felt_value Felt252
  by (rule exI[of _ 0]) (simp add: stark_prime_def)

setup_lifting type_definition_felt252

lift_definition felt_of_nat :: "nat \<Rightarrow> felt252" is "\<lambda>n. n mod stark_prime"
  by (simp add: stark_prime_def)

instantiation felt252 :: linorder
begin

lift_definition less_eq_felt252 :: "felt252 \<Rightarrow> felt252 \<Rightarrow> bool" is "(\<le>)" .
lift_definition less_felt252 :: "felt252 \<Rightarrow> felt252 \<Rightarrow> bool" is "(<)" .

instance
  by (standard; transfer) auto

end

instantiation felt252 :: equal
begin

lift_definition equal_felt252 :: "felt252 \<Rightarrow> felt252 \<Rightarrow> bool" is "(=)" .

instance
  by (standard; transfer) (rule refl)

end

definition stark_from_hex :: "string \<Rightarrow> string + felt252" where
  "stark_from_hex s =
     (let ds = (if starts_with ''0x'' s then drop 2 s else s) in
      if ds = [] \<or> 64 < length ds then Inl ''invalid hex''
      else case hex_nat_acc 0 ds of
             None \<Rightarrow> Inl ''invalid hex''
           | Some v \<Rightarrow> if v < stark_prime then Inr (felt_of_nat v) else Inl ''overflow'')"

definition stark_felt :: "felt252 felt_lib" where
  "stark_felt = \<lparr>
     felt_to_biguint = felt_value,
     felt_from_bytes_be = (\<lambda>bs. felt_of_nat (be_nat bs)),
     felt_to_bytes_be = (\<lambda>x. nat_be 32 (felt_value x)),
     felt_from_u64 = (\<lambda>n. felt_of_nat (unat n)),
     felt_from_u128 = (\<lambda>n. felt_of_nat (unat n)),
     felt_add = (\<lambda>x y. felt_of_nat (felt_value x + felt_value y)),
     felt_mul = (\<lambda>x y. felt_of_nat (felt_value x * felt_value y)),
     felt_pow_felt = (\<lambda>x y. felt_of_nat (felt_value x ^ felt_value y)),
     felt_lower_hex = (\<lambda>x. fmt_hex (felt_value x)),
     felt_from_hex = stark_from_hex,
     felt_ZERO = felt_of_nat 0,
     felt_ONE = felt_of_nat 1,
     felt_TWO = felt_of_nat 2,
     felt_THREE = felt_of_nat 3 \<rparr>"

lemma felt_value_of_nat [simp]: "felt_value (felt_of_nat n) = n mod stark_prime"
  by transfer simp

lemma felt_value_less [simp]: "felt_value x < stark_prime"
  using felt_value[of x] by simp

lemma word_below_stark_prime:
  "unat (a :: u64) mod stark_prime = unat a" "unat (b :: u128) mod stark_prime = unat b"
  using unsigned_less[where 'b = 64 and 'a = nat, of a]
    unsigned_less[where 'b = 128 and 'a = nat, of b]
  by (simp_all add: stark_prime_def)

lemma stark_prime_not_one [simp]: "stark_prime \<noteq> Suc 0"
  by (simp add: stark_prime_def)

lemma small_below_stark_prime: "n < 4 \<Longrightarrow> n mod stark_prime = n"
  by (simp add: stark_prime_def)

lemma felt_of_nat_eq_iff: "felt_of_nat m = felt_of_nat n \<longleftrightarrow> m mod stark_prime = n mod stark_prime"
  by transfer simp

interpretation stark: felt_library stark_felt
proof unfold_locales
  fix s v
  assume "hex_nat_acc 0 s = Some v" "s \<noteq> []" "length s \<le> 64" "v < stark_prime"
  then show "\<exists>x. felt_from_hex stark_felt (''0x'' @ s) = Inr x \<and> felt_to_biguint stark_felt x = v"
    by (simp add: stark_felt_def stark_from_hex_def starts_with_def Let_def)
qed (simp_all add: stark_felt_def felt_value_inject word_below_stark_prime small_below_stark_prime)

lemma stark_felt_library: "felt_library stark_felt"
  by (rule stark.felt_library_axioms)

end
