(* ===== verification/Json.thy ===== *)
theory Json
  imports Wire
begin

text \<open>
  JSON values as the sources handle them through \<open>serde_json::Value\<close>: the constructors of the
  value type and the accessors \<open>get\<close>, \<open>as_str\<close>, \<open>as_u64\<close>, \<open>as_array\<close>, \<open>as_object\<close> and
  object update. Integers are kept exactly; a number that is not an integer is \<open>JFloat\<close> with its
  text. An object lists its members, and a key is looked up among them.
\<close>

datatype json =
    JNull
  | JBool bool
  | JNum int
  | JFloat string
  | JStr string
  | JArr "json list"
  | JObj "(string \<times> json) list"

fun json_get :: "string \<Rightarrow> json \<Rightarrow> json option" where
  "json_get k (JObj ms) = map_of ms k"
| "json_get k _ = None"

fun as_str :: "json \<Rightarrow> string option" where
  "as_str (JStr s) = Some s"
| "as_str _ = None"

fun as_u64 :: "json \<Rightarrow> u64 option" where
  "as_u64 (JNum i) = (if 0 \<le> i \<and> i < 2 ^ 64 then Some (word_of_int i) else None)"
| "as_u64 _ = None"

fun as_array :: "json \<Rightarrow> json list option" where
  "as_array (JArr xs) = Some xs"
| "as_array _ = None"

fun as_object :: "json \<Rightarrow> (string \<times> json) list option" where
  "as_object (JObj ms) = Some ms"
| "as_object _ = None"

text \<open>\<open>v[k] = x\<close> on an object.\<close>

fun json_set :: "string \<Rightarrow> json \<Rightarrow> json \<Rightarrow> json" where
  "json_set k x (JObj ms) = JObj (im_insert k x ms)"
| "json_set k x v = v"

text \<open>\<open>v.get(k).and_then(|x| x.as_str())\<close>\<close>

definition get_str :: "string \<Rightarrow> json \<Rightarrow> string option" where
  "get_str k v = Option.bind (json_get k v) as_str"

definition get_array :: "string \<Rightarrow> json \<Rightarrow> json list option" where
  "get_array k v = Option.bind (json_get k v) as_array"

text \<open>\<open>arr.iter().filter_map(|v| v.as_str().map(String::from)).collect()\<close>\<close>

definition str_elements :: "json list \<Rightarrow> string list" where
  "str_elements vs = List.map_filter as_str vs"

definition jnat :: "nat \<Rightarrow> json" where
  "jnat n = JNum (int n)"

definition ju64 :: "u64 \<Rightarrow> json" where
  "ju64 n = JNum (uint n)"

definition jstrs :: "string list \<Rightarrow> json" where
  "jstrs ss = JArr (map JStr ss)"

lemma as_u64_ju64 [simp, wire_simps]: "as_u64 (ju64 n) = Some n"
proof -
  have "uint n < 2 ^ 64"
    using unsigned_less[where 'b = 64 and 'a = int, of n] by simp
  then show ?thesis by (simp add: ju64_def)
qed

lemma as_u64_Some: "as_u64 v = Some n \<Longrightarrow> v = ju64 n"
  by (cases v) (auto simp: ju64_def unsigned_of_int take_bit_int_eq_self split: if_splits)

lemma str_elements_jstrs [simp, wire_simps]: "str_elements (map JStr ss) = ss"
  by (induction ss) (simp_all add: str_elements_def map_filter_simps)

lemma get_str_JObj [simp, wire_simps]:
  "get_str k (JObj ms) = Option.bind (map_of ms k) as_str"
  by (simp add: get_str_def)

lemma get_array_JObj [simp, wire_simps]:
  "get_array k (JObj ms) = Option.bind (map_of ms k) as_array"
  by (simp add: get_array_def)

lemma json_get_set:
  "json_get k' (json_set k x (JObj ms)) = (if k' = k then Some x else json_get k' (JObj ms))"
  by (simp add: map_of_im_insert)

end
