(* ===== verification/Signing.thy ===== *)
theory Signing
  imports Felt Json
begin

text \<open>
  \<open>crates/snip36-core/src/types.rs\<close> and \<open>signing.rs\<close>: resource bounds, the SNIP-36 invoke
  transaction hash, signing and the submission payload. Poseidon, Pedersen and ECDSA are the
  operations of the crate \<open>starknet_crypto\<close> and are a parameter, \<open>crypto_lib\<close>.
\<close>

section \<open>Types\<close>

record 'f crypto_lib =
  poseidon_hash_many :: "'f list \<Rightarrow> 'f"
  pedersen_hash :: "'f \<Rightarrow> 'f \<Rightarrow> 'f"
  rfc6979_generate_k :: "'f \<Rightarrow> 'f \<Rightarrow> 'f option \<Rightarrow> 'f"
  ecdsa_sign :: "'f \<Rightarrow> 'f \<Rightarrow> 'f \<Rightarrow> string + 'f \<times> 'f"

record resource_bound =
  max_amount :: u64
  max_price_per_unit :: u128

record resource_bounds =
  l1_gas :: resource_bound
  l2_gas :: resource_bound
  l1_data_gas :: resource_bound

definition SEPOLIA_GAS_PRICE_CEIL :: u128 where
  "SEPOLIA_GAS_PRICE_CEIL = 0x38d7ea4c68000"

definition resource_bounds_default :: resource_bounds where
  "resource_bounds_default = \<lparr>
     l1_gas = \<lparr> max_amount = 0x10000, max_price_per_unit = SEPOLIA_GAS_PRICE_CEIL \<rparr>,
     l2_gas = \<lparr> max_amount = 0x7000000, max_price_per_unit = 0x1dcd65000 \<rparr>,
     l1_data_gas = \<lparr> max_amount = 0x1b0, max_price_per_unit = SEPOLIA_GAS_PRICE_CEIL \<rparr> \<rparr>"

definition zero_fee :: resource_bounds where
  "zero_fee = \<lparr>
     l1_gas = \<lparr> max_amount = 0, max_price_per_unit = 0 \<rparr>,
     l2_gas = \<lparr> max_amount = 0x7000000, max_price_per_unit = 0 \<rparr>,
     l1_data_gas = \<lparr> max_amount = 0x1b0, max_price_per_unit = 0 \<rparr> \<rparr>"

definition resource_bound_json :: "resource_bound \<Rightarrow> json" where
  "resource_bound_json b = JObj
     [(''max_amount'', JStr (fmt_hex (unat (max_amount b)))),
      (''max_price_per_unit'', JStr (fmt_hex (unat (max_price_per_unit b))))]"

definition to_rpc_json :: "resource_bounds \<Rightarrow> json" where
  "to_rpc_json b = JObj
     [(''l1_gas'', resource_bound_json (l1_gas b)),
      (''l2_gas'', resource_bound_json (l2_gas b)),
      (''l1_data_gas'', resource_bound_json (l1_data_gas b))]"

definition to_gateway_json :: "resource_bounds \<Rightarrow> json" where
  "to_gateway_json b = JObj
     [(''L1_GAS'', resource_bound_json (l1_gas b)),
      (''L2_GAS'', resource_bound_json (l2_gas b)),
      (''L1_DATA_GAS'', resource_bound_json (l1_data_gas b))]"

record proof_output =
  po_proof_base64 :: string
  po_proof_facts :: "string list"

record 'f submit_params =
  sp_sender_address :: 'f
  sp_private_key :: 'f
  sp_calldata :: "'f list"
  sp_proof_base64 :: string
  sp_proof_facts :: "'f list"
  sp_nonce :: 'f
  sp_chain_id :: 'f
  sp_resource_bounds :: resource_bounds

definition STRK_TOKEN :: string where
  "STRK_TOKEN = ''0x04718f5a0fc34cc1af16a1cdee98ffb20c31f5cd61d6ab07201858f4287c938d''"

definition OZ_ACCOUNT_CLASS_HASH :: string where
  "OZ_ACCOUNT_CLASS_HASH = ''0x05b4b537eaa2399e3aa99c4e2e0208ebd6c71bc1467938cd52c798c601e43564''"

definition BALANCE_OF_SELECTOR :: string where
  "BALANCE_OF_SELECTOR = ''0x35a73cd311a05d46deda634c5ee045db92f811b4e74bca4437fcb5302b7af33''"

section \<open>Transaction hash\<close>

definition invoke_prefix :: "'f felt_lib \<Rightarrow> 'f" where
  "invoke_prefix F = felt_from_bytes_be F (as_bytes ''invoke'')"

definition chain_id_felt :: "'f felt_lib \<Rightarrow> string \<Rightarrow> 'f" where
  "chain_id_felt F chain_id = felt_from_bytes_be F (as_bytes chain_id)"

text \<open>\<open>u64::from_be_bytes\<close> of the eight-byte buffer with the name right-aligned.\<close>

definition resource_name_felt :: "string \<Rightarrow> u64" where
  "resource_name_felt name =
     (let bytes = as_bytes name; len = min (length bytes) 7
      in word_of_nat (be_nat (replicate (8 - len) 0 @ take len bytes)))"

definition concat_resource :: "'f felt_lib \<Rightarrow> u64 \<Rightarrow> u128 \<Rightarrow> string \<Rightarrow> 'f" where
  "concat_resource F amount price resource_name =
     (let name = (ucast (resource_name_felt resource_name) :: u128);
          high = push_bit 64 name OR ucast amount;
          low = price;
          high_felt = felt_from_u128 F high;
          shift = felt_pow_felt F (felt_from_u128 F (push_bit 64 1)) (felt_TWO F)
      in felt_add F (felt_mul F high_felt shift) (felt_from_u128 F low))"

definition concat_bound :: "'f felt_lib \<Rightarrow> resource_bound \<Rightarrow> string \<Rightarrow> 'f" where
  "concat_bound F b name = concat_resource F (max_amount b) (max_price_per_unit b) name"

definition tip_resource_bounds_preimage :: "'f felt_lib \<Rightarrow> 'f \<Rightarrow> resource_bounds \<Rightarrow> 'f list" where
  "tip_resource_bounds_preimage F tip bounds =
     [tip,
      concat_bound F (l1_gas bounds) ''L1_GAS'',
      concat_bound F (l2_gas bounds) ''L2_GAS'',
      concat_bound F (l1_data_gas bounds) ''L1_DATA'']"

definition compute_tip_resource_bounds_hash ::
  "'f felt_lib \<Rightarrow> 'f crypto_lib \<Rightarrow> 'f \<Rightarrow> resource_bounds \<Rightarrow> 'f" where
  "compute_tip_resource_bounds_hash F H tip bounds =
     poseidon_hash_many H (tip_resource_bounds_preimage F tip bounds)"

definition da_mode :: "'f felt_lib \<Rightarrow> u32 \<Rightarrow> u32 \<Rightarrow> 'f" where
  "da_mode F nonce_da_mode fee_da_mode =
     felt_from_u64 F (push_bit 32 (ucast nonce_da_mode) OR ucast fee_da_mode)"

definition invoke_v3_elements ::
  "'f felt_lib \<Rightarrow> 'f crypto_lib \<Rightarrow> 'f \<Rightarrow> 'f list \<Rightarrow> 'f \<Rightarrow> 'f \<Rightarrow> 'f \<Rightarrow> resource_bounds \<Rightarrow>
   'f list \<Rightarrow> 'f list \<Rightarrow> u32 \<Rightarrow> u32 \<Rightarrow> 'f list \<Rightarrow> 'f list" where
  "invoke_v3_elements F H sender_address calldata chain_id nonce tip resource_bounds
     paymaster_data account_deployment_data nonce_da_mode fee_da_mode proof_facts =
     [invoke_prefix F,
      felt_THREE F,
      sender_address,
      compute_tip_resource_bounds_hash F H tip resource_bounds,
      poseidon_hash_many H paymaster_data,
      chain_id,
      nonce,
      da_mode F nonce_da_mode fee_da_mode,
      poseidon_hash_many H account_deployment_data,
      poseidon_hash_many H calldata] @
     (if proof_facts \<noteq> [] then [poseidon_hash_many H proof_facts] else [])"

definition compute_invoke_v3_tx_hash ::
  "'f felt_lib \<Rightarrow> 'f crypto_lib \<Rightarrow> 'f \<Rightarrow> 'f list \<Rightarrow> 'f \<Rightarrow> 'f \<Rightarrow> 'f \<Rightarrow> resource_bounds \<Rightarrow>
   'f list \<Rightarrow> 'f list \<Rightarrow> u32 \<Rightarrow> u32 \<Rightarrow> 'f list \<Rightarrow> 'f" where
  "compute_invoke_v3_tx_hash F H sender_address calldata chain_id nonce tip resource_bounds
     paymaster_data account_deployment_data nonce_da_mode fee_da_mode proof_facts =
     poseidon_hash_many H
       (invoke_v3_elements F H sender_address calldata chain_id nonce tip resource_bounds
          paymaster_data account_deployment_data nonce_da_mode fee_da_mode proof_facts)"

section \<open>Signing and the submission payload\<close>

record 'f signature =
  sig_r :: 'f
  sig_s :: 'f

datatype sign_error = Ecdsa string

definition sign :: "'f crypto_lib \<Rightarrow> 'f \<Rightarrow> 'f \<Rightarrow> sign_error + 'f signature" where
  "sign H private_key message_hash =
     (let k = rfc6979_generate_k H message_hash private_key None
      in and_then (map_err Ecdsa (ecdsa_sign H private_key message_hash k))
           (\<lambda>(r, s). Inr \<lparr> sig_r = r, sig_s = s \<rparr>))"

definition sign_and_build_payload ::
  "'f felt_lib \<Rightarrow> 'f crypto_lib \<Rightarrow> 'f submit_params \<Rightarrow> sign_error + 'f \<times> json" where
  "sign_and_build_payload F H params =
     (let tx_hash = compute_invoke_v3_tx_hash F H
            (sp_sender_address params) (sp_calldata params) (sp_chain_id params) (sp_nonce params)
            (felt_ZERO F) (sp_resource_bounds params) [] [] 0 0 (sp_proof_facts params)
      in and_then (sign H (sp_private_key params) tx_hash) (\<lambda>sig.
         let calldata_hex = map (felt_lower_hex F) (sp_calldata params);
             proof_facts_hex = map (felt_lower_hex F) (sp_proof_facts params);
             payload = JObj
               [(''type'', JStr ''INVOKE_FUNCTION''),
                (''version'', JStr ''0x3''),
                (''sender_address'', JStr (felt_lower_hex F (sp_sender_address params))),
                (''calldata'', jstrs calldata_hex),
                (''nonce'', JStr (felt_lower_hex F (sp_nonce params))),
                (''resource_bounds'', to_gateway_json (sp_resource_bounds params)),
                (''tip'', JStr ''0x0''),
                (''paymaster_data'', JArr []),
                (''account_deployment_data'', JArr []),
                (''nonce_data_availability_mode'', JStr ''L1''),
                (''fee_data_availability_mode'', JStr ''L1''),
                (''signature'', jstrs [felt_lower_hex F (sig_r sig), felt_lower_hex F (sig_s sig)]),
                (''proof'', JStr (sp_proof_base64 params)),
                (''proof_facts'', jstrs proof_facts_hex)]
         in Inr (tx_hash, payload)))"

text \<open>The signed transaction as JSON, as the web prover and the applications hand it to the virtual OS.\<close>

definition web_tx_json ::
  "'f felt_lib \<Rightarrow> string \<Rightarrow> string list \<Rightarrow> u64 \<Rightarrow> resource_bounds \<Rightarrow> 'f signature \<Rightarrow> json" where
  "web_tx_json F account calldata nonce bounds sig = JObj
     [(''type'', JStr ''INVOKE''), (''version'', JStr ''0x3''), (''sender_address'', JStr account),
      (''calldata'', jstrs calldata), (''nonce'', JStr (fmt_hex (unat nonce))),
      (''resource_bounds'', to_rpc_json bounds), (''tip'', JStr ''0x0''),
      (''paymaster_data'', JArr []), (''account_deployment_data'', JArr []),
      (''nonce_data_availability_mode'', JStr ''L1''), (''fee_data_availability_mode'', JStr ''L1''),
      (''signature'', jstrs [felt_lower_hex F (sig_r sig), felt_lower_hex F (sig_s sig)])]"

definition felt_from_hex_msg :: "'f felt_lib \<Rightarrow> string \<Rightarrow> string + 'f" where
  "felt_from_hex_msg F hex_str =
     map_err (\<lambda>e. ''invalid felt hex '' @ [CHR 0x27] @ hex_str @ [CHR 0x27] @ '': '' @ e)
       (felt_from_hex F hex_str)"

lemma push_bit_or_nat:
  assumes "(b :: nat) < 2 ^ n"
  shows "push_bit n a OR b = a * 2 ^ n + b"
proof -
  have "take_bit n b = b" using assms by (simp add: take_bit_nat_eq_self)
  then have low: "bit b i \<Longrightarrow> i < n" for i by (metis bit_take_bit_iff)
  have "push_bit n a AND b = 0"
    by (auto simp: bit_eq_iff bit_and_iff bit_push_bit_iff dest: low)
  then have "push_bit n a + b = push_bit n a OR b" by (rule disjunctive_add_eq_or)
  then show ?thesis by (simp add: push_bit_eq_mult)
qed

lemma resource_name_felt_value:
  "unat (resource_name_felt name) = be_nat (take 7 (as_bytes name))"
proof -
  let ?b = "take 7 (as_bytes name)"
  have "be_nat ?b < 256 ^ length ?b" by (rule be_nat_less)
  also have "\<dots> \<le> 256 ^ 7" by (intro power_increasing) simp_all
  finally have "be_nat ?b < 2 ^ 64" by simp
  moreover have "take (min (length name) 7) (as_bytes name) = ?b"
    by (simp add: min_def)
  ultimately show ?thesis
    by (simp add: resource_name_felt_def Let_def unat_of_nat)
qed

lemma resource_name_felt_less: "unat (resource_name_felt name) < 2 ^ 56"
proof -
  have "be_nat (take 7 (as_bytes name)) < 256 ^ length (take 7 (as_bytes name))" by (rule be_nat_less)
  also have "\<dots> \<le> 256 ^ 7" by (intro power_increasing) simp_all
  finally show ?thesis by (simp add: resource_name_felt_value)
qed

lemma unat_concat_high:
  fixes n :: u64 and a :: u64
  assumes "unat n < 2 ^ 56"
  shows "unat (push_bit 64 (ucast n :: u128) OR ucast a) = unat n * 2 ^ 64 + unat a"
proof -
  have a: "unat a < 2 ^ 64" using unsigned_less[where 'b = 64 and 'a = nat, of a] by simp
  have n: "unat (ucast n :: u128) = unat n" and a': "unat (ucast a :: u128) = unat a"
    using a assms by (simp_all add: unsigned_ucast_eq take_bit_nat_eq_self)
  have "unat (push_bit 64 (ucast n :: u128)) = push_bit 64 (unat n)"
    using assms by (simp only: unsigned_push_bit_eq n) (simp add: take_bit_nat_eq_self push_bit_eq_mult)
  then show ?thesis by (simp add: unsigned_or_eq a' push_bit_or_nat[OF a])
qed

lemma unat_da_mode:
  fixes n f :: u32
  shows "unat (push_bit 32 (ucast n :: u64) OR ucast f) = unat n * 2 ^ 32 + unat f"
proof -
  have f: "unat f < 2 ^ 32" and n: "unat n < 2 ^ 32"
    using unsigned_less[where 'b = 32 and 'a = nat, of f] unsigned_less[where 'b = 32 and 'a = nat, of n]
    by simp_all
  have n': "unat (ucast n :: u64) = unat n" and f': "unat (ucast f :: u64) = unat f"
    using n f by (simp_all add: unsigned_ucast_eq take_bit_nat_eq_self)
  have "unat (push_bit 32 (ucast n :: u64)) = push_bit 32 (unat n)"
    using n by (simp only: unsigned_push_bit_eq n') (simp add: take_bit_nat_eq_self push_bit_eq_mult)
  then show ?thesis by (simp add: unsigned_or_eq f' push_bit_or_nat[OF f])
qed

context felt_library
begin

lemma concat_resource_value:
  "felt_to_biguint F (concat_resource F amount price name) =
     unat (resource_name_felt name) * 2 ^ 192 + unat amount * 2 ^ 128 + unat price"
proof -
  let ?n = "unat (resource_name_felt name)"
  have n: "?n < 2 ^ 56" by (rule resource_name_felt_less)
  have a: "unat amount < 2 ^ 64" and p: "unat price < 2 ^ 128"
    using unsigned_less[where 'b = 64 and 'a = nat, of amount]
      unsigned_less[where 'b = 128 and 'a = nat, of price] by simp_all
  have base: "unat (push_bit 64 1 :: u128) = 2 ^ 64"
    by (simp add: unsigned_push_bit_eq push_bit_eq_mult)
  have shift: "felt_to_biguint F (felt_pow_felt F (felt_from_u128 F (push_bit 64 1)) (felt_TWO F)) = 2 ^ 128"
    by (simp add: pow_felt from_u128 TWO base stark_prime_def)
  have bound: "(?n * 2 ^ 64 + unat amount) * 2 ^ 128 + unat price < stark_prime"
  proof -
    have "?n * 2 ^ 64 + unat amount < 2 ^ 120" using n a by simp
    then have "(?n * 2 ^ 64 + unat amount) * 2 ^ 128 + unat price < 2 ^ 248" using p by simp
    then show ?thesis by (simp add: stark_prime_def)
  qed
  have "felt_to_biguint F (concat_resource F amount price name) =
      ((?n * 2 ^ 64 + unat amount) * 2 ^ 128 mod stark_prime + unat price) mod stark_prime"
    by (simp only: concat_resource_def Let_def add mul from_u128 shift unat_concat_high[OF n])
  also have "\<dots> = (?n * 2 ^ 64 + unat amount) * 2 ^ 128 + unat price"
    using bound by (simp add: mod_add_left_eq)
  finally show ?thesis by (simp add: algebra_simps)
qed

end

section \<open>What the transaction hash commits to\<close>

record 'f invoke_v3 =
  iv_sender_address :: 'f
  iv_calldata :: "'f list"
  iv_chain_id :: 'f
  iv_nonce :: 'f
  iv_tip :: 'f
  iv_resource_bounds :: resource_bounds
  iv_paymaster_data :: "'f list"
  iv_account_deployment_data :: "'f list"
  iv_nonce_da_mode :: u32
  iv_fee_da_mode :: u32
  iv_proof_facts :: "'f list"

definition tx_elements :: "'f felt_lib \<Rightarrow> 'f crypto_lib \<Rightarrow> 'f invoke_v3 \<Rightarrow> 'f list" where
  "tx_elements F H t = invoke_v3_elements F H (iv_sender_address t) (iv_calldata t) (iv_chain_id t)
     (iv_nonce t) (iv_tip t) (iv_resource_bounds t) (iv_paymaster_data t)
     (iv_account_deployment_data t) (iv_nonce_da_mode t) (iv_fee_da_mode t) (iv_proof_facts t)"

definition tx_hash :: "'f felt_lib \<Rightarrow> 'f crypto_lib \<Rightarrow> 'f invoke_v3 \<Rightarrow> 'f" where
  "tx_hash F H t = compute_invoke_v3_tx_hash F H (iv_sender_address t) (iv_calldata t) (iv_chain_id t)
     (iv_nonce t) (iv_tip t) (iv_resource_bounds t) (iv_paymaster_data t)
     (iv_account_deployment_data t) (iv_nonce_da_mode t) (iv_fee_da_mode t) (iv_proof_facts t)"

text \<open>The lists that are hashed with Poseidon while the hash of \<open>t\<close> is computed.\<close>

definition hashed_lists :: "'f felt_lib \<Rightarrow> 'f crypto_lib \<Rightarrow> 'f invoke_v3 \<Rightarrow> 'f list set" where
  "hashed_lists F H t =
     {tip_resource_bounds_preimage F (iv_tip t) (iv_resource_bounds t), iv_paymaster_data t,
      iv_account_deployment_data t, iv_calldata t, tx_elements F H t} \<union>
     (if iv_proof_facts t = [] then {} else {iv_proof_facts t})"

lemma tx_hash_elements: "tx_hash F H t = poseidon_hash_many H (tx_elements F H t)"
  by (simp add: tx_hash_def tx_elements_def compute_invoke_v3_tx_hash_def)

lemma resource_bound_eqI:
  fixes b b' :: resource_bound
  assumes "max_amount b = max_amount b'" "max_price_per_unit b = max_price_per_unit b'"
  shows "b = b'"
  using assms by simp

lemma mixed_radix_inj:
  fixes a b c d k n m :: nat
  assumes "n + a * m + b = n + c * m + d" "b < m" "d < m"
  shows "a = c \<and> b = d"
proof -
  have eq: "a * m + b = c * m + d" using assms(1) by simp
  have "a = c" using arg_cong[OF eq, of "\<lambda>v. v div m"] assms(2,3) by simp
  with eq show ?thesis by simp
qed

context felt_library
begin

lemma concat_bound_inj: "concat_bound F b name = concat_bound F b' name \<longleftrightarrow> b = b'"
proof
  assume "concat_bound F b name = concat_bound F b' name"
  then have eq: "unat (resource_name_felt name) * 2 ^ 192 + unat (max_amount b) * 2 ^ 128 + unat (max_price_per_unit b)
      = unat (resource_name_felt name) * 2 ^ 192 + unat (max_amount b') * 2 ^ 128 + unat (max_price_per_unit b')"
    by (simp only: concat_bound_def felt_eq_iff concat_resource_value)
  have p: "unat (p :: u128) < 2 ^ 128" for p
    using unsigned_less[where 'b = 128 and 'a = nat, of p] by simp
  from mixed_radix_inj[OF eq p p]
  show "b = b'" by (intro resource_bound_eqI) (simp_all only: word_unat_eq_iff)
qed simp

lemma da_mode_inj: "da_mode F n f = da_mode F n' f' \<longleftrightarrow> n = n' \<and> f = f'"
proof
  assume "da_mode F n f = da_mode F n' f'"
  then have eq: "0 + unat n * 2 ^ 32 + unat f = 0 + unat n' * 2 ^ 32 + unat f'"
    by (simp only: da_mode_def felt_eq_iff from_u64 unat_da_mode add_0)
  have p: "unat (p :: u32) < 2 ^ 32" for p
    using unsigned_less[where 'b = 32 and 'a = nat, of p] by simp
  from mixed_radix_inj[OF eq p p] show "n = n' \<and> f = f'" by (simp only: word_unat_eq_iff)
qed simp

lemma tip_preimage_inj:
  "tip_resource_bounds_preimage F t b = tip_resource_bounds_preimage F t' b' \<longleftrightarrow> t = t' \<and> b = b'"
  by (auto simp: tip_resource_bounds_preimage_def concat_bound_inj)

lemma tx_hash_inj:
  assumes inj: "inj_on (poseidon_hash_many H) (hashed_lists F H t \<union> hashed_lists F H t')"
    and eq: "tx_hash F H t = tx_hash F H t'"
  shows "t = t'"
proof -
  have same: "poseidon_hash_many H xs = poseidon_hash_many H ys \<Longrightarrow> xs = ys"
    if "xs \<in> hashed_lists F H t" "ys \<in> hashed_lists F H t'" for xs ys
    using inj that by (auto dest: inj_onD)
  have el: "tx_elements F H t = tx_elements F H t'"
    by (rule same) (use eq in \<open>simp_all add: hashed_lists_def tx_hash_elements\<close>)
  have "length (tx_elements F H t) = length (tx_elements F H t')" using el by simp
  then have facts: "iv_proof_facts t = [] \<longleftrightarrow> iv_proof_facts t' = []"
    by (simp add: tx_elements_def invoke_v3_elements_def split: if_splits)
  note comp = el[unfolded tx_elements_def invoke_v3_elements_def compute_tip_resource_bounds_hash_def, simplified]
  have "iv_proof_facts t = iv_proof_facts t'"
  proof (cases "iv_proof_facts t = []")
    case True
    with facts show ?thesis by simp
  next
    case False
    then show ?thesis using comp facts by (intro same) (auto simp: hashed_lists_def)
  qed
  moreover have "iv_calldata t = iv_calldata t'"
    and "iv_paymaster_data t = iv_paymaster_data t'"
    and "iv_account_deployment_data t = iv_account_deployment_data t'"
    using comp by (auto intro!: same simp: hashed_lists_def)
  moreover have "tip_resource_bounds_preimage F (iv_tip t) (iv_resource_bounds t)
      = tip_resource_bounds_preimage F (iv_tip t') (iv_resource_bounds t')"
    using comp by (intro same) (auto simp: hashed_lists_def)
  moreover have "iv_nonce_da_mode t = iv_nonce_da_mode t' \<and> iv_fee_da_mode t = iv_fee_da_mode t'"
    using comp by (auto simp: da_mode_inj)
  moreover have "iv_sender_address t = iv_sender_address t'" "iv_chain_id t = iv_chain_id t'"
    "iv_nonce t = iv_nonce t'"
    using comp by auto
  ultimately show ?thesis by (auto simp: tip_preimage_inj)
qed

end

section \<open>What a gateway reads from the payload\<close>

definition get_felt :: "'f felt_lib \<Rightarrow> string \<Rightarrow> json \<Rightarrow> 'f option" where
  "get_felt F k v = Option.bind (get_str k v) (\<lambda>s. result_ok (felt_from_hex F s))"

definition get_felts :: "'f felt_lib \<Rightarrow> string \<Rightarrow> json \<Rightarrow> 'f list option" where
  "get_felts F k v = Option.bind (get_array k v)
     (\<lambda>xs. result_ok (collect_result (felt_from_hex F) (str_elements xs)))"

definition get_hex :: "nat \<Rightarrow> string \<Rightarrow> json \<Rightarrow> nat option" where
  "get_hex bits k v = Option.bind (get_str k v)
     (\<lambda>s. from_str_radix16 bits (trim_start_matches ''0x'' s))"

definition get_bound :: "string \<Rightarrow> json \<Rightarrow> resource_bound option" where
  "get_bound k v = do {
     b \<leftarrow> json_get k v;
     a \<leftarrow> get_hex 64 ''max_amount'' b;
     p \<leftarrow> get_hex 128 ''max_price_per_unit'' b;
     Some \<lparr> max_amount = word_of_nat a, max_price_per_unit = word_of_nat p \<rparr> }"

definition get_gateway_bounds :: "json \<Rightarrow> resource_bounds option" where
  "get_gateway_bounds v = do {
     a \<leftarrow> get_bound ''L1_GAS'' v;
     b \<leftarrow> get_bound ''L2_GAS'' v;
     c \<leftarrow> get_bound ''L1_DATA_GAS'' v;
     Some \<lparr> l1_gas = a, l2_gas = b, l1_data_gas = c \<rparr> }"

definition get_da_mode :: "string \<Rightarrow> json \<Rightarrow> u32 option" where
  "get_da_mode k v = Option.bind (get_str k v)
     (\<lambda>s. if s = ''L1'' then Some 0 else if s = ''L2'' then Some 1 else None)"

definition gateway_view :: "'f felt_lib \<Rightarrow> 'f \<Rightarrow> json \<Rightarrow> 'f invoke_v3 option" where
  "gateway_view F chain_id v = do {
     sender \<leftarrow> get_felt F ''sender_address'' v;
     calldata \<leftarrow> get_felts F ''calldata'' v;
     nonce \<leftarrow> get_felt F ''nonce'' v;
     tip \<leftarrow> get_felt F ''tip'' v;
     bounds \<leftarrow> Option.bind (json_get ''resource_bounds'' v) get_gateway_bounds;
     paymaster \<leftarrow> get_felts F ''paymaster_data'' v;
     deployment \<leftarrow> get_felts F ''account_deployment_data'' v;
     nonce_da \<leftarrow> get_da_mode ''nonce_data_availability_mode'' v;
     fee_da \<leftarrow> get_da_mode ''fee_data_availability_mode'' v;
     facts \<leftarrow> get_felts F ''proof_facts'' v;
     Some \<lparr> iv_sender_address = sender, iv_calldata = calldata, iv_chain_id = chain_id,
            iv_nonce = nonce, iv_tip = tip, iv_resource_bounds = bounds,
            iv_paymaster_data = paymaster, iv_account_deployment_data = deployment,
            iv_nonce_da_mode = nonce_da, iv_fee_da_mode = fee_da, iv_proof_facts = facts \<rparr> }"

definition submitted_tx :: "'f felt_lib \<Rightarrow> 'f submit_params \<Rightarrow> 'f invoke_v3" where
  "submitted_tx F p = \<lparr>
     iv_sender_address = sp_sender_address p, iv_calldata = sp_calldata p,
     iv_chain_id = sp_chain_id p, iv_nonce = sp_nonce p, iv_tip = felt_ZERO F,
     iv_resource_bounds = sp_resource_bounds p, iv_paymaster_data = [],
     iv_account_deployment_data = [], iv_nonce_da_mode = 0, iv_fee_da_mode = 0,
     iv_proof_facts = sp_proof_facts p \<rparr>"

lemma get_bound_json:
  assumes "json_get k v = Some (resource_bound_json b)"
  shows "get_bound k v = Some b"
proof -
  have "unat (max_amount b) < 2 ^ 64" "unat (max_price_per_unit b) < 2 ^ 128"
    using unsigned_less[where 'b = 64 and 'a = nat, of "max_amount b"]
      unsigned_less[where 'b = 128 and 'a = nat, of "max_price_per_unit b"] by simp_all
  with assms show ?thesis
    by (simp add: get_bound_def get_hex_def resource_bound_json_def parse_fmt_hex)
qed

lemma get_gateway_bounds_json: "get_gateway_bounds (to_gateway_json b) = Some b"
  by (simp add: get_gateway_bounds_def to_gateway_json_def get_bound_json)

lemma fmt_hex_0: "fmt_hex 0 = ''0x0''"
  by code_simp

context felt_library
begin

lemma get_felt_hex:
  "json_get k v = Some (JStr (felt_lower_hex F x)) \<Longrightarrow> get_felt F k v = Some x"
  by (simp add: get_felt_def get_str_def from_hex_to_hex)

lemma get_felts_hex:
  "json_get k v = Some (jstrs (map (felt_lower_hex F) xs)) \<Longrightarrow> get_felts F k v = Some xs"
  by (simp add: get_felts_def get_array_def jstrs_def from_hex_collect del: map_map)

lemma zero_hex: "felt_lower_hex F (felt_ZERO F) = ''0x0''"
  by (simp only: felt_to_hex ZERO fmt_hex_0)

lemma get_felt_zero: "json_get k v = Some (JStr ''0x0'') \<Longrightarrow> get_felt F k v = Some (felt_ZERO F)"
  by (rule get_felt_hex) (simp add: zero_hex)

lemma get_felts_empty: "json_get k v = Some (JArr []) \<Longrightarrow> get_felts F k v = Some []"
  by (rule get_felts_hex) (simp add: jstrs_def)

lemma sign_and_build_payload_view:
  assumes "sign_and_build_payload F H p = Inr (h, payload)"
  shows "gateway_view F (sp_chain_id p) payload = Some (submitted_tx F p)"
    and "h = tx_hash F H (submitted_tx F p)"
    and "\<exists>sig. sign H (sp_private_key p) h = Inr sig \<and>
           get_felts F ''signature'' payload = Some [sig_r sig, sig_s sig]"
    and "get_str ''proof'' payload = Some (sp_proof_base64 p)"
proof -
  let ?h = "tx_hash F H (submitted_tx F p)"
  from assms obtain sig where sig: "sign H (sp_private_key p) ?h = Inr sig" and h: "h = ?h"
    and pl: "payload = JObj
               [(''type'', JStr ''INVOKE_FUNCTION''),
                (''version'', JStr ''0x3''),
                (''sender_address'', JStr (felt_lower_hex F (sp_sender_address p))),
                (''calldata'', jstrs (map (felt_lower_hex F) (sp_calldata p))),
                (''nonce'', JStr (felt_lower_hex F (sp_nonce p))),
                (''resource_bounds'', to_gateway_json (sp_resource_bounds p)),
                (''tip'', JStr ''0x0''),
                (''paymaster_data'', JArr []),
                (''account_deployment_data'', JArr []),
                (''nonce_data_availability_mode'', JStr ''L1''),
                (''fee_data_availability_mode'', JStr ''L1''),
                (''signature'', jstrs (map (felt_lower_hex F) [sig_r sig, sig_s sig])),
                (''proof'', JStr (sp_proof_base64 p)),
                (''proof_facts'', jstrs (map (felt_lower_hex F) (sp_proof_facts p)))]"
    by (auto simp: sign_and_build_payload_def Let_def result_iffs tx_hash_def submitted_tx_def)
  show "h = ?h" by (rule h)
  show "\<exists>sig. sign H (sp_private_key p) h = Inr sig \<and>
           get_felts F ''signature'' payload = Some [sig_r sig, sig_s sig]"
    using sig h by (intro exI[of _ sig] conjI get_felts_hex) (simp_all add: pl)
  show "get_str ''proof'' payload = Some (sp_proof_base64 p)"
    by (simp add: pl)
  have "get_felt F ''sender_address'' payload = Some (sp_sender_address p)"
    and "get_felts F ''calldata'' payload = Some (sp_calldata p)"
    and "get_felt F ''nonce'' payload = Some (sp_nonce p)"
    and "get_felts F ''proof_facts'' payload = Some (sp_proof_facts p)"
    by (rule get_felt_hex get_felts_hex; simp add: pl)+
  moreover have "get_felt F ''tip'' payload = Some (felt_ZERO F)"
    by (rule get_felt_zero) (simp add: pl)
  moreover have "get_felts F ''paymaster_data'' payload = Some []"
    "get_felts F ''account_deployment_data'' payload = Some []"
    by (rule get_felts_empty; simp add: pl)+
  moreover have "Option.bind (json_get ''resource_bounds'' payload) get_gateway_bounds
      = Some (sp_resource_bounds p)"
    by (simp add: pl get_gateway_bounds_json)
  moreover have "get_da_mode ''nonce_data_availability_mode'' payload = Some 0"
    "get_da_mode ''fee_data_availability_mode'' payload = Some 0"
    by (simp_all add: get_da_mode_def pl)
  ultimately show "gateway_view F (sp_chain_id p) payload = Some (submitted_tx F p)"
    by (simp add: gateway_view_def submitted_tx_def)
qed

end

section \<open>A concrete instance for the witnesses\<close>

definition demo_crypto :: "felt252 crypto_lib" where
  "demo_crypto = \<lparr>
     poseidon_hash_many = (\<lambda>xs. felt_of_nat
        (length xs + 32 * (if 10 \<le> length xs then felt_value (xs ! 6) else 0))),
     pedersen_hash = (\<lambda>x y. felt_of_nat (3 * felt_value x + 5 * felt_value y + 1)),
     rfc6979_generate_k = (\<lambda>h k e. felt_of_nat 7),
     ecdsa_sign = (\<lambda>k h n. if felt_value k = 0 then Inl ''invalid private key'' else Inr (h, n)) \<rparr>"

definition demo_tx :: "nat \<Rightarrow> felt252 invoke_v3" where
  "demo_tx nonce = \<lparr>
     iv_sender_address = felt_of_nat 291, iv_calldata = map felt_of_nat [1, 2, 3],
     iv_chain_id = felt_of_nat 5, iv_nonce = felt_of_nat nonce, iv_tip = felt_of_nat 0,
     iv_resource_bounds = resource_bounds_default, iv_paymaster_data = [felt_of_nat 1],
     iv_account_deployment_data = map felt_of_nat [8, 9], iv_nonce_da_mode = 0,
     iv_fee_da_mode = 0, iv_proof_facts = map felt_of_nat [1, 2, 3, 4, 5] \<rparr>"

definition demo_params :: "felt252 submit_params" where
  "demo_params = \<lparr>
     sp_sender_address = felt_of_nat 291, sp_private_key = felt_of_nat 12,
     sp_calldata = map felt_of_nat [1, 2, 3], sp_proof_base64 = ''AAAA'',
     sp_proof_facts = [felt_of_nat 77], sp_nonce = felt_of_nat 4, sp_chain_id = felt_of_nat 5,
     sp_resource_bounds = resource_bounds_default \<rparr>"

text \<open>
  C22: the packed resource bound is exactly the 56-bit name, the 64-bit amount and the 128-bit price
  side by side; neither the shifts nor the field arithmetic loses a bit.
\<close>

lemma concat_resource_packs:
  assumes "felt_library F"
  shows "felt_to_biguint F (concat_resource F amount price name) =
           unat (resource_name_felt name) * 2 ^ 192 + unat amount * 2 ^ 128 + unat price"
  using assms by (rule felt_library.concat_resource_value)

theorem concat_resource_packs_witness:
  "felt_library stark_felt \<and>
   felt_to_biguint stark_felt (concat_resource stark_felt 0x10000 5 ''L1_GAS'') =
     unat (resource_name_felt ''L1_GAS'') * 2 ^ 192 + unat (0x10000 :: u64) * 2 ^ 128 + unat (5 :: u128)"
  using stark_felt_library concat_resource_packs[OF stark_felt_library] by blast

text \<open>
  C1: as long as Poseidon has no collision among the lists hashed for the two transactions, two
  transactions have the same hash only if every field agrees: sender, calldata, chain, nonce, tip,
  resource bounds, paymaster and deployment data, availability modes and the SNIP-36 proof facts,
  their absence included.
\<close>

theorem tx_hash_commits:
  assumes "felt_library F"
    and "inj_on (poseidon_hash_many H) (hashed_lists F H t \<union> hashed_lists F H t')"
  shows "tx_hash F H t = tx_hash F H t' \<longleftrightarrow> t = t'"
  using felt_library.tx_hash_inj[OF assms] by blast

lemma demo_hash_injective:
  "inj_on (poseidon_hash_many demo_crypto)
     (hashed_lists stark_felt demo_crypto (demo_tx 4) \<union> hashed_lists stark_felt demo_crypto (demo_tx 6))"
  by (simp add: hashed_lists_def demo_tx_def demo_crypto_def tx_elements_def invoke_v3_elements_def
      tip_resource_bounds_preimage_def inj_on_def felt_of_nat_eq_iff stark_prime_def)

theorem tx_hash_commits_witness:
  "felt_library stark_felt \<and>
   inj_on (poseidon_hash_many demo_crypto)
     (hashed_lists stark_felt demo_crypto (demo_tx 4) \<union> hashed_lists stark_felt demo_crypto (demo_tx 6)) \<and>
   tx_hash stark_felt demo_crypto (demo_tx 4) \<noteq> tx_hash stark_felt demo_crypto (demo_tx 6)"
proof -
  have "demo_tx 4 \<noteq> demo_tx 6"
    by (simp add: demo_tx_def felt_of_nat_eq_iff stark_prime_def)
  then show ?thesis
    using tx_hash_commits[OF stark_felt_library demo_hash_injective] stark_felt_library
      demo_hash_injective by blast
qed

text \<open>
  C8: the submission payload decodes to the very transaction whose hash was computed and signed: a
  gateway that parses the hexadecimal fields recomputes the returned hash, and the signature and
  the proof in the payload are the ones over that hash.
\<close>

theorem payload_matches_signed_hash:
  assumes "felt_library F" and "sign_and_build_payload F H p = Inr (h, payload)"
  shows "gateway_view F (sp_chain_id p) payload = Some (submitted_tx F p) \<and>
         h = tx_hash F H (submitted_tx F p) \<and>
         (\<exists>sig. sign H (sp_private_key p) h = Inr sig \<and>
            get_felts F ''signature'' payload = Some [sig_r sig, sig_s sig]) \<and>
         get_str ''proof'' payload = Some (sp_proof_base64 p)"
  using felt_library.sign_and_build_payload_view[OF assms] by blast

theorem payload_matches_signed_hash_witness:
  "\<exists>h payload. felt_library stark_felt \<and>
     sign_and_build_payload stark_felt demo_crypto demo_params = Inr (h, payload) \<and>
     gateway_view stark_felt (felt_of_nat 5) payload = Some (submitted_tx stark_felt demo_params)"
proof -
  obtain h payload where ok: "sign_and_build_payload stark_felt demo_crypto demo_params = Inr (h, payload)"
    by (auto simp: sign_and_build_payload_def sign_def demo_params_def demo_crypto_def Let_def stark_prime_def)
  from payload_matches_signed_hash[OF stark_felt_library ok] ok stark_felt_library
  show ?thesis by (auto simp: demo_params_def)
qed

end
