(* ===== verification/Config.thy ===== *)
theory Config
  imports Signing
begin

text \<open>
  \<open>crates/snip36-core/src/config.rs\<close>: the configuration read from the environment and the
  encoding of the chain id. The process environment is the state; loading a \<open>.env\<close> file
  (\<open>dotenvy\<close>), the existence of a path and the current directory are parameters.
\<close>

record config =
  rpc_url :: string
  account_address :: string
  private_key :: string
  chain_id :: string
  gateway_url :: "string option"
  project_dir :: string
  output_dir :: string
  deps_dir :: string

datatype config_error = Missing string | InvalidChainId string

type_synonym env = "string \<rightharpoonup> string"

record env_lib =
  el_exists :: "string \<Rightarrow> bool"
  el_from_path :: "string \<Rightarrow> env \<Rightarrow> env"
  el_dotenv :: "env \<Rightarrow> env"
  el_current_dir :: "string option"

text \<open>\<open>Path::join\<close>\<close>

definition path_join :: "string \<Rightarrow> string \<Rightarrow> string" where
  "path_join base rel =
     (if starts_with ''/'' rel then rel
      else if base = [] then rel
      else if last base = CHR ''/'' then base @ rel
      else base @ ''/'' @ rel)"

definition env_or_else :: "env \<Rightarrow> string \<Rightarrow> string \<Rightarrow> string option" where
  "env_or_else e k k' = (case e k of Some v \<Rightarrow> Some v | None \<Rightarrow> e k')"

definition load_env :: "env_lib \<Rightarrow> string option \<Rightarrow> env \<Rightarrow> env" where
  "load_env E env_file e =
     (case env_file of
        Some path \<Rightarrow> if el_exists E path then el_from_path E path e else e
      | None \<Rightarrow> el_dotenv E e)"

definition read_config :: "env_lib \<Rightarrow> env \<Rightarrow> config_error + config" where
  "read_config E e =
     and_then (ok_or (Missing ''STARKNET_RPC_URL'') (e ''STARKNET_RPC_URL'')) (\<lambda>rpc.
     and_then (ok_or (Missing ''STARKNET_ACCOUNT_ADDRESS'')
                (env_or_else e ''STARKNET_ACCOUNT_ADDRESS'' ''MASTER_ACCOUNT_ADDRESS'')) (\<lambda>account.
     and_then (ok_or (Missing ''STARKNET_PRIVATE_KEY'')
                (env_or_else e ''STARKNET_PRIVATE_KEY'' ''MASTER_PRIVATE_KEY'')) (\<lambda>key.
     let chain = unwrap_or ''SN_SEPOLIA'' (e ''STARKNET_CHAIN_ID'');
         gateway = (case e ''STARKNET_GATEWAY_URL'' of
                      Some s \<Rightarrow> if s = [] then None else Some s
                    | None \<Rightarrow> None);
         project = (case e ''SNIP36_PROJECT_DIR'' of
                      Some d \<Rightarrow> d
                    | None \<Rightarrow> unwrap_or ''.'' (el_current_dir E))
     in Inr \<lparr> rpc_url = rpc, account_address = account, private_key = key, chain_id = chain,
              gateway_url = gateway, project_dir = project,
              output_dir = path_join project ''output'', deps_dir = path_join project ''deps'' \<rparr>)))"

text \<open>\<open>Config::from_env\<close>: the environment after loading stays behind.\<close>

definition from_env :: "env_lib \<Rightarrow> string option \<Rightarrow> (env, config_error, config) rio" where
  "from_env E env_file e = (let e' = load_env E env_file e in (read_config E e', e'))"

definition invalid_chain_id_msg :: "string \<Rightarrow> string" where
  "invalid_chain_id_msg s =
     ''chain_id '' @ [CHR 0x27] @ s @ [CHR 0x27] @ '' is '' @ dec_string (length s) @ '' bytes, max is 31''"

definition config_chain_id_felt :: "'f felt_lib \<Rightarrow> config \<Rightarrow> config_error + 'f" where
  "config_chain_id_felt F c =
     (let bytes = as_bytes (chain_id c) in
      if length bytes > 31 then Inl (InvalidChainId (invalid_chain_id_msg (chain_id c)))
      else Inr (felt_from_bytes_be F (replicate (32 - length bytes) 0 @ bytes)))"

definition prover_bin :: "config \<Rightarrow> string" where
  "prover_bin c = path_join (deps_dir c) ''bin/stwo-run-and-prove''"

definition runner_bin :: "config \<Rightarrow> string" where
  "runner_bin c = path_join (deps_dir c) ''sequencer/target/release/starknet_transaction_prover''"

definition bootloader_program :: "config \<Rightarrow> string" where
  "bootloader_program c = path_join (deps_dir c) ''bin/bootloader_program.json''"

definition prover_params :: "config \<Rightarrow> string" where
  "prover_params c = path_join (project_dir c) ''sample-input/prover_params.json''"

definition contracts_dir :: "config \<Rightarrow> string" where
  "contracts_dir c = path_join (project_dir c) ''tests/contracts''"

definition sncast_account :: "env \<Rightarrow> string" where
  "sncast_account e = unwrap_or ''playground-master'' (e ''SNCAST_ACCOUNT'')"

section \<open>Chain ids as field elements\<close>

lemma be_nat_Cons: "be_nat (b # bs) = unat b * 256 ^ length bs + be_nat bs"
  using be_nat_append[of "[b]" bs] be_nat_snoc[of "[]" b] by simp

lemma be_nat_length:
  assumes "be_nat xs = be_nat ys" and "xs \<noteq> [] \<Longrightarrow> hd xs \<noteq> 0" and "ys \<noteq> [] \<Longrightarrow> hd ys \<noteq> 0"
  shows "length xs \<le> length ys"
proof (rule ccontr)
  assume less: "\<not> length xs \<le> length ys"
  then obtain b bs where xs: "xs = b # bs" by (cases xs) auto
  with assms(2) have "b \<noteq> 0" by simp
  then have "1 \<le> unat b" using unsigned_eq_0_iff[of b] by (metis less_one not_le)
  then have "1 * 256 ^ length bs \<le> unat b * 256 ^ length bs" by (rule mult_le_mono1)
  then have "256 ^ length bs \<le> be_nat xs" unfolding xs be_nat_Cons by linarith
  moreover have "be_nat ys < 256 ^ length ys" by (rule be_nat_less)
  moreover have "(256 :: nat) ^ length ys \<le> 256 ^ length bs"
    using less xs by (intro power_increasing) simp_all
  ultimately show False using assms(1) by simp
qed

lemma be_nat_no_leading_zero_inj:
  assumes "be_nat xs = be_nat ys" and "xs \<noteq> [] \<Longrightarrow> hd xs \<noteq> 0" and "ys \<noteq> [] \<Longrightarrow> hd ys \<noteq> 0"
  shows "xs = ys"
  using assms be_nat_length[of xs ys] be_nat_length[of ys xs] by (intro be_nat_inj) auto

lemma hd_as_bytes:
  assumes "s \<noteq> []" "hd s \<noteq> CHR 0x00"
  shows "hd (as_bytes s) \<noteq> 0"
proof
  assume "hd (as_bytes s) = 0"
  then have "bytes_to_string (as_bytes [hd s]) = bytes_to_string [0]"
    using assms(1) by (cases s) (simp_all add: as_bytes_def)
  then have "hd s = char_of (0 :: nat)"
    by (simp only: bytes_to_string_as_bytes) (simp add: bytes_to_string_def)
  moreover have "char_of (0 :: nat) = CHR 0x00" by code_simp
  ultimately show False using assms(2) by simp
qed

context felt_library
begin

lemma chain_id_felt_value:
  "length s \<le> 31 \<Longrightarrow> felt_to_biguint F (chain_id_felt F s) = be_nat (as_bytes s)"
  by (simp add: chain_id_felt_def from_bytes_be_short)

lemma config_chain_id_felt_eq:
  "config_chain_id_felt F c =
     (if length (chain_id c) \<le> 31 then Inr (chain_id_felt F (chain_id c))
      else Inl (InvalidChainId (invalid_chain_id_msg (chain_id c))))"
  by (auto simp: config_chain_id_felt_def Let_def chain_id_felt_def from_bytes_be felt_eq_iff)

lemma config_chain_id_felt_inj:
  assumes "config_chain_id_felt F c = Inr x" "config_chain_id_felt F c' = Inr x"
    and "chain_id c \<noteq> [] \<Longrightarrow> hd (chain_id c) \<noteq> CHR 0x00"
    and "chain_id c' \<noteq> [] \<Longrightarrow> hd (chain_id c') \<noteq> CHR 0x00"
  shows "chain_id c = chain_id c'"
proof -
  have "length (chain_id c) \<le> 31" "length (chain_id c') \<le> 31"
    and "chain_id_felt F (chain_id c) = chain_id_felt F (chain_id c')"
    using assms(1,2) by (auto simp: config_chain_id_felt_eq split: if_splits)
  then have "be_nat (as_bytes (chain_id c)) = be_nat (as_bytes (chain_id c'))"
    by (metis chain_id_felt_value)
  then have "as_bytes (chain_id c) = as_bytes (chain_id c')"
    using assms(3,4) hd_as_bytes by (intro be_nat_no_leading_zero_inj) (auto simp: as_bytes_def)
  then show ?thesis by (rule as_bytes_inj)
qed

end

text \<open>
  C0: the checked encoding of the configuration accepts exactly the chain ids of at most 31 bytes;
  it then agrees with the unchecked \<open>signing::chain_id_felt\<close>, and its value is the bytes read as a
  big-endian number, with no reduction modulo the prime.
\<close>

theorem config_chain_id_felt_correct:
  assumes "felt_library F"
  shows "config_chain_id_felt F c =
     (if length (chain_id c) \<le> 31 then Inr (chain_id_felt F (chain_id c))
      else Inl (InvalidChainId (invalid_chain_id_msg (chain_id c)))) \<and>
     (length (chain_id c) \<le> 31 \<longrightarrow>
        felt_to_biguint F (chain_id_felt F (chain_id c)) = be_nat (as_bytes (chain_id c)))"
  using felt_library.config_chain_id_felt_eq[OF assms] felt_library.chain_id_felt_value[OF assms]
  by blast

definition demo_config :: config where
  "demo_config = \<lparr> rpc_url = ''http://rpc'', account_address = ''0x1'', private_key = ''0x2'',
     chain_id = ''SN_SEPOLIA'', gateway_url = None, project_dir = ''.'',
     output_dir = ''./output'', deps_dir = ''./deps'' \<rparr>"

theorem config_chain_id_felt_correct_witness:
  "felt_library stark_felt \<and>
   config_chain_id_felt stark_felt demo_config = Inr (chain_id_felt stark_felt ''SN_SEPOLIA'') \<and>
   felt_to_biguint stark_felt (chain_id_felt stark_felt ''SN_SEPOLIA'') = 0x534e5f5345504f4c4941"
proof -
  have "be_nat (as_bytes ''SN_SEPOLIA'') = 0x534e5f5345504f4c4941" 
    by (simp add: be_nat_def as_bytes_def)
  then show ?thesis
    using config_chain_id_felt_correct[OF stark_felt_library, of demo_config] stark_felt_library
    by (simp add: demo_config_def)
qed

text \<open>
  Accepted chain ids that do not start with a NUL byte are told apart by their field elements,
  so a signature for one chain cannot be replayed on another through the encoding.
\<close>

lemma chain_id_encoding_injective:
  assumes "felt_library F"
    and "config_chain_id_felt F c = Inr x" and "config_chain_id_felt F c' = Inr x"
    and "chain_id c \<noteq> [] \<Longrightarrow> hd (chain_id c) \<noteq> CHR 0x00"
    and "chain_id c' \<noteq> [] \<Longrightarrow> hd (chain_id c') \<noteq> CHR 0x00"
  shows "chain_id c = chain_id c'"
  using felt_library.config_chain_id_felt_inj[OF assms] .

end
