(* ===== verification/Base64.thy ===== *)
theory Base64
  imports Wire
begin

text \<open>
  Base64. The sources call \<open>base64::encode\<close> and \<open>base64::decode\<close> of the crate \<open>base64\<close>, which
  are parameters of the proof codec; the locale \<open>base64_codec\<close> states what the program relies on:
  decoding gives back what was encoded, and encoded text is free of white space. The standard
  alphabet with padding interprets the locale.
\<close>

definition printable :: "char \<Rightarrow> bool" where
  "printable c \<longleftrightarrow> (33 :: nat) \<le> of_char c \<and> of_char c \<le> (126 :: nat)"

locale base64_codec =
  fixes encode :: "u8 list \<Rightarrow> string" and decode :: "string \<Rightarrow> string + u8 list"
  assumes decode_encode: "decode (encode bs) = Inr bs"
    and encode_printable: "c \<in> set (encode bs) \<Longrightarrow> printable c"
begin

lemma encode_inj: "encode bs = encode bs' \<longleftrightarrow> bs = bs'"
  by (metis decode_encode sum.inject(2))

end

section \<open>Trimming leaves printable text alone\<close>

lemma strip_any_None:
  "(\<And>p. p \<in> set ps \<Longrightarrow> p \<noteq> [] \<Longrightarrow> hd p \<noteq> hd s) \<Longrightarrow> s \<noteq> [] \<Longrightarrow> strip_any ps s = None"
proof (induction ps)
  case Nil
  then show ?case by simp
next
  case (Cons p ps)
  have "\<not> (p \<noteq> [] \<and> starts_with p s)"
  proof
    assume p: "p \<noteq> [] \<and> starts_with p s"
    then have "hd (take (length p) s) = hd p" by (simp add: starts_with_def)
    then have "hd s = hd p" using p Cons.prems(2) by (cases p; cases s) auto
    then show False using Cons.prems(1)[of p] p by simp
  qed
  with Cons show ?case by simp
qed

lemma strip_any_empty: "strip_any ps [] = None"
  by (induction ps) (auto simp: starts_with_def)

lemma whitespace_heads:
  "\<forall>p \<in> set whitespace. \<not> printable (hd p) \<and> \<not> printable (hd (rev p))"
  by code_simp

lemma trim_start_any_printable:
  assumes "\<forall>p \<in> set ps. p \<noteq> [] \<longrightarrow> \<not> printable (hd p)" and "\<forall>c \<in> set s. printable c"
  shows "trim_start_any ps s = s"
proof (cases "s = []")
  case True
  then show ?thesis by (subst trim_start_any.simps) (simp add: strip_any_empty)
next
  case False
  then have "printable (hd s)" using assms(2) by simp
  then have "strip_any ps s = None"
    using assms(1) False by (intro strip_any_None) auto
  then show ?thesis by (subst trim_start_any.simps) simp
qed

lemma trim_printable: "\<forall>c \<in> set s. printable c \<Longrightarrow> trim s = s"
  using whitespace_heads by (simp add: trim_def trim_start_any_printable)

section \<open>The standard alphabet\<close>

definition b64_chars :: string where
  "b64_chars = ''ABCDEFGHIJKLMNOPQRSTUVWXYZabcdefghijklmnopqrstuvwxyz0123456789+/''"

definition b64_char :: "nat \<Rightarrow> char" where
  "b64_char v = b64_chars ! v"

definition b64_val :: "char \<Rightarrow> nat option" where
  "b64_val c = (let v = (of_char c :: nat) in
     if 65 \<le> v \<and> v \<le> 90 then Some (v - 65)
     else if 97 \<le> v \<and> v \<le> 122 then Some (v - 71)
     else if 48 \<le> v \<and> v \<le> 57 then Some (v + 4)
     else if v = 43 then Some 62
     else if v = 47 then Some 63
     else None)"

definition b64_triple :: "nat \<Rightarrow> string" where
  "b64_triple n = map b64_char [n div 262144, n div 4096 mod 64, n div 64 mod 64, n mod 64]"

fun b64_encode :: "u8 list \<Rightarrow> string" where
  "b64_encode [] = []"
| "b64_encode [a] = take 2 (b64_triple (unat a * 65536)) @ ''==''"
| "b64_encode [a, b] = take 3 (b64_triple (unat a * 65536 + unat b * 256)) @ ''=''"
| "b64_encode (a # b # c # bs) =
     b64_triple (unat a * 65536 + unat b * 256 + unat c) @ b64_encode bs"

definition b64_quad :: "char \<Rightarrow> char \<Rightarrow> char \<Rightarrow> char \<Rightarrow> nat option" where
  "b64_quad p q r s = do {
     a \<leftarrow> b64_val p; b \<leftarrow> b64_val q; c \<leftarrow> b64_val r; d \<leftarrow> b64_val s;
     Some (a * 262144 + b * 4096 + c * 64 + d) }"

fun b64_decode :: "string \<Rightarrow> u8 list option" where
  "b64_decode [] = Some []"
| "b64_decode (p # q # r # s # rest) =
     (if s = CHR ''='' \<and> rest = [] then
        (if r = CHR ''='' then
           (case b64_quad p q CHR ''A'' CHR ''A'' of
              Some n \<Rightarrow> if n mod 65536 = 0 then Some [word_of_nat (n div 65536)] else None
            | None \<Rightarrow> None)
         else (case b64_quad p q r CHR ''A'' of
              Some n \<Rightarrow> if n mod 256 = 0 then Some [word_of_nat (n div 65536), word_of_nat (n div 256 mod 256)] else None
            | None \<Rightarrow> None))
      else (case (b64_quad p q r s, b64_decode rest) of
              (Some n, Some bs) \<Rightarrow> Some (word_of_nat (n div 65536) # word_of_nat (n div 256 mod 256)
                                         # word_of_nat (n mod 256) # bs)
            | _ \<Rightarrow> None))"
| "b64_decode _ = None"

definition b64_decode_result :: "string \<Rightarrow> string + u8 list" where
  "b64_decode_result s = ok_or ''Invalid base64'' (b64_decode s)"

lemma b64_vals: "map b64_val b64_chars = map Some [0..<64]"
  by code_simp

lemma b64_chars_ok: "\<forall>c \<in> set b64_chars. printable c \<and> c \<noteq> CHR ''=''"
  by code_simp

lemma length_b64_chars: "length b64_chars = 64"
  by code_simp

lemma b64_val_char: "v < 64 \<Longrightarrow> b64_val (b64_char v) = Some v"
  using arg_cong[OF b64_vals, of "\<lambda>xs. xs ! v"] by (simp add: b64_char_def length_b64_chars)

lemma b64_char_printable: "v < 64 \<Longrightarrow> printable (b64_char v) \<and> b64_char v \<noteq> CHR ''=''"
  using b64_chars_ok by (simp add: b64_char_def length_b64_chars)

lemma b64_char_0: "CHR ''A'' = b64_char 0"
  by code_simp

lemma b64_quad_chars:
  assumes "a < 64" "b < 64" "c < 64" "d < 64"
  shows "b64_quad (b64_char a) (b64_char b) (b64_char c) (b64_char d) =
         Some (a * 262144 + b * 4096 + c * 64 + d)"
  using assms by (simp add: b64_quad_def b64_val_char)

lemma b64_split:
  fixes n :: nat
  shows "n div 262144 * 262144 + n div 4096 mod 64 * 4096 + n div 64 mod 64 * 64 + n mod 64 = n"
proof -
  have "n = n div 64 * 64 + n mod 64"
    and "n div 64 = n div 4096 * 64 + n div 64 mod 64"
    and "n div 4096 = n div 262144 * 64 + n div 4096 mod 64"
    using div_mult_mod_eq[of n 64] div_mult_mod_eq[of "n div 64" 64]
      div_mult_mod_eq[of "n div 4096" 64]
    by (simp_all flip: div_mult2_eq)
  then show ?thesis by linarith
qed

lemma b64_quad_triple:
  assumes "n < 16777216"
  shows "b64_quad (b64_char (n div 262144)) (b64_char (n div 4096 mod 64))
           (b64_char (n div 64 mod 64)) (b64_char (n mod 64)) = Some n"
proof -
  have "n div 262144 < 64" using assms by (simp add: div_less_iff_less_mult)
  then show ?thesis by (simp add: b64_quad_chars b64_split)
qed

lemma word_of_nat_unat_u8: "word_of_nat (unat b) = (b :: u8)"
  by simp

lemma b64_bytes:
  fixes a b c :: u8
  defines "n \<equiv> unat a * 65536 + unat b * 256 + unat c"
  shows "n < 16777216" "word_of_nat (n div 65536) = a" "word_of_nat (n div 256 mod 256) = b"
    "word_of_nat (n mod 256) = c"
proof -
  have a: "unat a < 256" and b: "unat b < 256" and c: "unat c < 256" by (rule unat_u8_less)+
  show "n < 16777216" using a b c unfolding n_def by simp
  have n: "n = (unat a * 256 + unat b) * 256 + unat c" unfolding n_def by simp
  have "n div 256 = unat a * 256 + unat b" "n mod 256 = unat c"
    unfolding n using c by (simp_all only: mod_mult_self3 div_mult_self3 mod_less div_less)
  moreover from this have "n div 256 div 256 = unat a" "n div 256 mod 256 = unat b"
    using b by simp_all
  ultimately have "n div 65536 = unat a" "n div 256 mod 256 = unat b" "n mod 256 = unat c"
    by (simp_all flip: div_mult2_eq)
  then show "word_of_nat (n div 65536) = a" "word_of_nat (n div 256 mod 256) = b"
    "word_of_nat (n mod 256) = c"
    by (simp_all only: word_of_nat_unat_u8)
qed

lemma b64_triple_printable: "n < 16777216 \<Longrightarrow> c \<in> set (b64_triple n) \<Longrightarrow> printable c"
  using b64_char_printable by (auto simp: b64_triple_def div_less_iff_less_mult)

lemma b64_one_byte:
  fixes u :: nat
  shows "u * 65536 div 64 mod 64 = 0" "u * 65536 mod 64 = 0" "u * 65536 mod 65536 = 0"
proof -
  have "u * 65536 = u * 1024 * 64" and "u * 1024 = u * 16 * 64" by simp_all
  then have "u * 65536 div 64 = u * 16 * 64" and "u * 65536 mod 64 = 0" by (metis div_mult_self_is_m mod_mult_self2_is_0 zero_less_numeral)+
  then show "u * 65536 div 64 mod 64 = 0" "u * 65536 mod 64 = 0" "u * 65536 mod 65536 = 0"
    by simp_all
qed

lemma b64_two_bytes:
  fixes u v :: nat
  shows "(u * 65536 + v * 256) mod 64 = 0" "(u * 65536 + v * 256) mod 256 = 0"
proof -
  have "u * 65536 + v * 256 = (u * 1024 + v * 4) * 64" and "u * 65536 + v * 256 = (u * 256 + v) * 256"
    by simp_all
  then show "(u * 65536 + v * 256) mod 64 = 0" "(u * 65536 + v * 256) mod 256 = 0"
    by (metis mod_mult_self2_is_0)+
qed

lemma b64_encode_printable: "c \<in> set (b64_encode bs) \<Longrightarrow> printable c"
proof (induction bs rule: b64_encode.induct)
  case (2 a)
  have n: "unat a * 65536 < 16777216" using unat_u8_less[of a] by simp
  have "printable CHR ''=''" by code_simp
  then show ?case using 2 b64_triple_printable[OF n] by (auto dest!: in_set_takeD)
next
  case (3 a b)
  have n: "unat a * 65536 + unat b * 256 < 16777216"
    using unat_u8_less[of a] unat_u8_less[of b] by simp
  have "printable CHR ''=''" by code_simp
  then show ?case using 3 b64_triple_printable[OF n] by (auto dest!: in_set_takeD)
next
  case (4 a b c bs)
  then show ?case using b64_triple_printable[OF b64_bytes(1)[of a b c]] by auto
qed simp

lemma b64_decode_encode: "b64_decode (b64_encode bs) = Some bs"
proof (induction bs rule: b64_encode.induct)
  case 1
  then show ?case by simp
next
  case (2 a)
  have n: "unat a * 65536 < 16777216" using unat_u8_less[of a] by simp
  have B: "word_of_nat (unat a * 65536 div 65536) = a" using b64_bytes(2)[of a 0 0] by simp
  show ?case
    using b64_quad_triple[OF n] B b64_one_byte[of "unat a"]
    by (simp add: b64_triple_def b64_char_0)
next
  case (3 a b)
  have n: "unat a * 65536 + unat b * 256 < 16777216"
    using unat_u8_less[of a] unat_u8_less[of b] by simp
  have B: "word_of_nat ((unat a * 65536 + unat b * 256) div 65536) = a"
    "word_of_nat ((unat a * 65536 + unat b * 256) div 256 mod 256) = b"
    using b64_bytes(2,3)[of a b 0] by (simp_all only: unsigned_0 add_0_right)
  have ne: "b64_char (n mod 64) \<noteq> CHR ''=''" for n using b64_char_printable by simp
  define m where "m = unat a * 65536 + unat b * 256"
  have Q: "b64_quad (b64_char (m div 262144)) (b64_char (m div 4096 mod 64))
      (b64_char (m div 64 mod 64)) CHR ''A'' = Some m" and "m mod 256 = 0"
    using b64_quad_triple[OF n] b64_two_bytes[of "unat a" "unat b"]
    by (simp_all only: m_def b64_char_0)
  moreover have "b64_encode [a, b] = [b64_char (m div 262144), b64_char (m div 4096 mod 64),
      b64_char (m div 64 mod 64), CHR ''='']"
    by (simp only: b64_encode.simps b64_triple_def m_def) (simp add: take_Cons')
  ultimately show ?case using B[folded m_def] ne[of "m div 64"]
    by (simp only: b64_decode.simps) simp
next
  case (4 a b c bs)
  have ne: "b64_char (n mod 64) \<noteq> CHR ''=''" for n using b64_char_printable by simp
  then show ?case
    using 4 b64_quad_triple[OF b64_bytes(1)[of a b c]] b64_bytes(2-)[of a b c]
    by (simp add: b64_triple_def)
qed

interpretation b64: base64_codec b64_encode b64_decode_result
  by unfold_locales (simp_all add: b64_decode_result_def b64_decode_encode b64_encode_printable)

end
