(* ===== verification/ProofCodec.thy ===== *)
theory ProofCodec
  imports Felt Base64
begin

text \<open>
  \<open>snip36-core/src/proof.rs\<close>: proofs as base64 text, the conversion of the legacy proof format (a
  list of hexadecimal field elements) and the parsing of proof facts. The base64 functions, the
  field and the typed JSON reader are parameters.
\<close>

datatype proof_error = Base64Decode string | InvalidFelt string | InvalidJson string

definition decode_proof_base64 :: "(string \<Rightarrow> string + u8 list) \<Rightarrow> string \<Rightarrow> proof_error + u8 list" where
  "decode_proof_base64 decode b64 = map_err Base64Decode (decode (trim b64))"

definition encode_proof_base64 :: "(u8 list \<Rightarrow> string) \<Rightarrow> u8 list \<Rightarrow> string" where
  "encode_proof_base64 encode bytes = encode bytes"

text \<open>\<open>u32::from_be_bytes\<close> and \<open>to_be_bytes\<close>.\<close>

definition u32_from_be_bytes :: "u8 list \<Rightarrow> u32" where
  "u32_from_be_bytes bs = word_of_nat (be_nat bs)"

definition u32_to_be_bytes :: "u32 \<Rightarrow> u8 list" where
  "u32_to_be_bytes v = nat_be 4 (unat v)"

fun pack_felts :: "'f felt_lib \<Rightarrow> string list \<Rightarrow> u8 list \<Rightarrow> proof_error + u8 list" where
  "pack_felts F [] packed = Inr packed"
| "pack_felts F (felt_hex # felts) packed =
     and_then (map_err (\<lambda>e. InvalidFelt (felt_hex @ '': '' @ e)) (felt_from_hex F felt_hex))
       (\<lambda>felt. let bytes = felt_to_bytes_be F felt;
                   u32_val = u32_from_be_bytes [bytes ! 28, bytes ! 29, bytes ! 30, bytes ! 31]
               in pack_felts F felts (packed @ u32_to_be_bytes u32_val))"

definition cairo_serde_to_base64 ::
  "'f felt_lib \<Rightarrow> (u8 list \<Rightarrow> string) \<Rightarrow> string list \<Rightarrow> proof_error + string" where
  "cairo_serde_to_base64 F encode felts =
     and_then (pack_felts F felts []) (\<lambda>packed. Inr (encode_proof_base64 encode packed))"

definition parse_proof_facts_json ::
  "(string \<Rightarrow> string + string list) \<Rightarrow> string \<Rightarrow> proof_error + string list" where
  "parse_proof_facts_json from_str json_str = map_err InvalidJson (from_str json_str)"

section \<open>The packed words\<close>

definition low_u32_bytes :: "nat \<Rightarrow> u8 list" where
  "low_u32_bytes v = nat_be 4 (v mod 2 ^ 32)"

lemma nat_be_append: "nat_be (m + n) v = nat_be m (v div 256 ^ n) @ nat_be n v"
proof (induction n arbitrary: v)
  case 0
  then show ?case by simp
next
  case (Suc n)
  have "v div 256 div 256 ^ n = v div 256 ^ Suc n" by (simp add: div_mult2_eq)
  then show ?case using Suc[of "v div 256"] by simp
qed

lemma nat_be_mod: "nat_be n (v mod 256 ^ n) = nat_be n v"
proof -
  have "be_nat (nat_be n (v mod 256 ^ n)) = be_nat (nat_be n v)" by (simp add: be_nat_nat_be)
  then show ?thesis by (intro be_nat_inj) simp_all
qed

lemma nat_be_4:
  "nat_be 4 v = map word_of_nat [v div 256 div 256 div 256 mod 256, v div 256 div 256 mod 256,
     v div 256 mod 256, v mod 256]"
proof -
  have "(4 :: nat) = Suc (Suc (Suc (Suc 0)))" by simp
  then show ?thesis by (simp only: nat_be.simps) simp
qed

lemma drop_28: "length bs = 32 \<Longrightarrow> [bs ! 28, bs ! 29, bs ! 30, bs ! 31] = drop 28 bs"
  by (simp add: list_eq_iff_nth_eq nth_Cons' less_Suc_eq numeral_eq_Suc)

context felt_library
begin

lemma pack_one:
  "(let bytes = felt_to_bytes_be F x;
        u32_val = u32_from_be_bytes [bytes ! 28, bytes ! 29, bytes ! 30, bytes ! 31]
    in u32_to_be_bytes u32_val) = low_u32_bytes (felt_to_biguint F x)"
proof -
  let ?v = "felt_to_biguint F x"
  have "nat_be 32 ?v = nat_be 28 (?v div 256 ^ 4) @ nat_be 4 ?v"
    using nat_be_append[of 28 4 ?v] by simp
  then have "[felt_to_bytes_be F x ! 28, felt_to_bytes_be F x ! 29,
      felt_to_bytes_be F x ! 30, felt_to_bytes_be F x ! 31] = nat_be 4 ?v"
    by (subst drop_28) (simp_all add: to_bytes_be)
  moreover have "unat (u32_from_be_bytes (nat_be 4 ?v)) = ?v mod 2 ^ 32"
    by (simp add: u32_from_be_bytes_def be_nat_nat_be unat_of_nat)
  ultimately show ?thesis
    by (simp add: Let_def u32_to_be_bytes_def low_u32_bytes_def)
qed

lemma pack_felts_eq:
  "pack_felts F felts packed =
     and_then (collect_result (\<lambda>h. map_err (\<lambda>e. InvalidFelt (h @ '': '' @ e)) (felt_from_hex F h)) felts)
       (\<lambda>xs. Inr (packed @ concat (map (\<lambda>x. low_u32_bytes (felt_to_biguint F x)) xs)))"
proof (induction felts arbitrary: packed)
  case Nil
  then show ?case by simp
next
  case (Cons h felts)
  show ?case
  proof (cases "felt_from_hex F h")
    case (Inl e)
    then show ?thesis by simp
  next
    case (Inr x)
    then show ?thesis
      using pack_one[of x]
      by (cases "collect_result (\<lambda>h. map_err (\<lambda>e. InvalidFelt (h @ '': '' @ e)) (felt_from_hex F h)) felts")
         (simp_all add: Cons.IH Let_def)
  qed
qed

lemma cairo_serde_roundtrip:
  assumes "base64_codec encode decode"
  shows "and_then (cairo_serde_to_base64 F encode (map (felt_lower_hex F) xs))
           (decode_proof_base64 decode) =
         Inr (concat (map (\<lambda>x. low_u32_bytes (felt_to_biguint F x)) xs))"
proof -
  have "collect_result (\<lambda>h. map_err (\<lambda>e. InvalidFelt (h @ '': '' @ e)) (felt_from_hex F h))
          (map (felt_lower_hex F) xs) = Inr xs"
    by (induction xs) (simp_all add: from_hex_to_hex)
  moreover have "trim (encode bs) = encode bs" for bs
    using base64_codec.encode_printable[OF assms] by (intro trim_printable) blast
  ultimately show ?thesis
    using base64_codec.decode_encode[OF assms]
    by (simp add: cairo_serde_to_base64_def pack_felts_eq encode_proof_base64_def
        decode_proof_base64_def)
qed

end

text \<open>
  C40: the legacy proof conversion of the printed form of any field elements succeeds, and decoding
  the base64 text gives, in order, four big-endian bytes per element that hold its low 32 bits.
\<close>

theorem cairo_serde_decodes_low_words:
  assumes "felt_library F" and "base64_codec encode decode"
  shows "and_then (cairo_serde_to_base64 F encode (map (felt_lower_hex F) xs))
           (decode_proof_base64 decode) =
         Inr (concat (map (\<lambda>x. nat_be 4 (felt_to_biguint F x mod 2 ^ 32)) xs))"
  using felt_library.cairo_serde_roundtrip[OF assms] by (simp add: low_u32_bytes_def)

theorem cairo_serde_decodes_low_words_witness:
  "felt_library stark_felt \<and> base64_codec b64_encode b64_decode_result \<and>
   and_then (cairo_serde_to_base64 stark_felt b64_encode
       (map (felt_lower_hex stark_felt) [felt_of_nat 1, felt_of_nat 255, felt_of_nat 4294967296]))
     (decode_proof_base64 b64_decode_result) = Inr [0, 0, 0, 1, 0, 0, 0, 255, 0, 0, 0, 0]"
proof -
  have v: "felt_to_biguint stark_felt (felt_of_nat n) = n" if "n < 2 ^ 100" for n
    using that by (simp add: stark_felt_def stark_prime_def)
  have "concat (map (\<lambda>x. nat_be 4 (felt_to_biguint stark_felt x mod 2 ^ 32))
      [felt_of_nat 1, felt_of_nat 255, felt_of_nat 4294967296]) = [0, 0, 0, 1, 0, 0, 0, 255, 0, 0, 0, 0]"
    by (simp add: v nat_be_4)
  then show ?thesis
    using cairo_serde_decodes_low_words[OF stark_felt_library b64.base64_codec_axioms,
        of "[felt_of_nat 1, felt_of_nat 255, felt_of_nat 4294967296]"]
      stark_felt_library b64.base64_codec_axioms
    by simp
qed

text \<open>
  The legacy conversion fails exactly when one of the texts is not a field element, and then
  with the message of the first one that is not.
\<close>

lemma cairo_serde_first_error:
  assumes "felt_library F"
  shows "(cairo_serde_to_base64 F encode felts = Inl e) \<longleftrightarrow>
         (\<exists>ps h ss m. felts = ps @ h # ss \<and> (\<forall>p \<in> set ps. \<exists>x. felt_from_hex F p = Inr x) \<and>
            felt_from_hex F h = Inl m \<and> e = InvalidFelt (h @ '': '' @ m))"
proof -
  let ?f = "\<lambda>h. map_err (\<lambda>e. InvalidFelt (h @ '': '' @ e)) (felt_from_hex F h)"
  have ok: "(\<exists>ys. list_all2 (\<lambda>x y. ?f x = Inr y) ps ys) \<longleftrightarrow>
      (\<forall>p \<in> set ps. \<exists>x. felt_from_hex F p = Inr x)" for ps
    by (induction ps) (auto simp: list_all2_Cons1 map_err_Inr_iff)
  have "cairo_serde_to_base64 F encode felts = Inl e \<longleftrightarrow> collect_result ?f felts = Inl e"
    by (auto simp: cairo_serde_to_base64_def felt_library.pack_felts_eq[OF assms] result_iffs)
  then show ?thesis
    by (simp only: collect_result_Inl map_err_Inl_iff flip: ok) blast
qed

end
