(* ===== verification/Net.thy ===== *)
theory Net
  imports Json
begin

text \<open>
  The network and the clock, parameters of everything asynchronous: one HTTP POST of a JSON body
  (\<open>reqwest\<close>), the monotonic clock with its addition of a duration (\<open>instant\<close>), and two ways to
  sleep, the timer of \<open>rpc.rs\<close> (\<open>gloo_timers\<close>) and the runtime's (\<open>tokio\<close>), each acting on the world. A response is its status and its body, which is JSON
  or fails to parse as JSON. Times are in milliseconds. \<open>Instant + Duration\<close> panics when the sum is
  outside the platform's range, and the timer on a duration of more milliseconds than a \<open>u32\<close> holds:
  both are \<open>None\<close>.
\<close>

record http_response =
  resp_status :: nat
  resp_json :: "string + json"

record 'w net =
  http_send :: "string \<Rightarrow> json \<Rightarrow> ('w, string, http_response) rio"
  now :: "('w, nat) io"
  instant_add :: "nat \<Rightarrow> nat \<Rightarrow> nat option"
  gloo_sleep :: "nat \<Rightarrow> 'w \<Rightarrow> 'w option"
  sleep :: "nat \<Rightarrow> ('w, unit) io"

text \<open>\<open>status().is_success()\<close>\<close>

definition is_success :: "nat \<Rightarrow> bool" where
  "is_success s \<longleftrightarrow> 200 \<le> s \<and> s < 300"

definition from_secs :: "u64 \<Rightarrow> nat" where
  "from_secs s = unat s * 1000"

text \<open>The durations both accept: \<open>u32\<close> milliseconds.\<close>

definition u32_millis :: "nat \<Rightarrow> bool" where
  "u32_millis d \<longleftrightarrow> d < 2 ^ 32"

text \<open>
  The documented behaviour of the clock: \<open>now\<close> reads the time of the world and time never goes back;
  a duration of \<open>u32\<close> milliseconds can be added to a reading of the clock, whose range ends far
  from it, and slept; and a sleep lasts at least as long as asked.
\<close>

definition clock_laws :: "'w net \<Rightarrow> ('w \<Rightarrow> nat) \<Rightarrow> bool" where
  "clock_laws N time \<longleftrightarrow>
     (\<forall>w. fst (now N w) = time w \<and> time w \<le> time (snd (now N w))) \<and>
     (\<forall>url p w. time w \<le> time (snd (http_send N url p w))) \<and>
     (\<forall>d w. u32_millis d \<longrightarrow> instant_add N (time w) d = Some (time w + d)) \<and>
     (\<forall>d w. u32_millis d \<longrightarrow> (\<exists>w'. gloo_sleep N d w = Some w' \<and> time w + d \<le> time w')) \<and>
     (\<forall>d w. time w + d \<le> time (snd (sleep N d w)))"

lemma clock_now: "clock_laws N time \<Longrightarrow> now N w = (t, w') \<Longrightarrow> t = time w \<and> time w \<le> time w'"
  unfolding clock_laws_def by (metis fst_conv snd_conv)

lemma clock_add:
  "clock_laws N time \<Longrightarrow> u32_millis d \<Longrightarrow> now N w = (t, w') \<Longrightarrow> instant_add N t d = Some (time w + d)"
  using clock_now[of N time w t w'] by (simp add: clock_laws_def)

lemma clock_sleep:
  "clock_laws N time \<Longrightarrow> u32_millis d \<Longrightarrow> \<exists>w'. gloo_sleep N d w = Some w' \<and> time w + d \<le> time w'"
  by (simp add: clock_laws_def)

lemma clock_send: "clock_laws N time \<Longrightarrow> http_send N url p w = (r, w') \<Longrightarrow> time w \<le> time w'"
  unfolding clock_laws_def by (metis snd_conv)

lemma u32_millis_from_secs [simp]: "u32_millis (from_secs s) \<longleftrightarrow> unat s < 4294968"
  by (auto simp: u32_millis_def from_secs_def)

lemma from_secs_pos: "0 < s \<Longrightarrow> 0 < from_secs s"
  by (simp add: from_secs_def unat_gt_0 word_greater_zero_iff)

end
