(* ===== verification/StateReader.thy ===== *)
theory StateReader
  imports Felt Net
begin

text \<open>
  The crate \<open>blockifier-reexecution-wasm\<close>: the RPC objects, the asynchronous state reader with its
  error mapping, the blocking interface that refuses to work in a browser, and the chain
  information. Types of third-party crates the code only passes on (contract classes, versions,
  gas prices) are values of a type variable \<open>'x\<close>; conversions between them are parameters.
\<close>

section \<open>\<open>errors.rs\<close> and \<open>rpc_objects.rs\<close>\<close>

datatype reexecution_error =
    RpcRequest string
  | RpcStatus nat
  | RpcParse string
  | BlockNotFound
  | ContractAddressNotFound
  | ClassHashNotFound
  | InvalidParams string string "json option" json
  | TransactionExecution string
  | UnexpectedRpc int string
  | Serde string
  | State string
  | CompiledClass string

definition RPC_ERROR_CONTRACT_ADDRESS_NOT_FOUND :: int where
  "RPC_ERROR_CONTRACT_ADDRESS_NOT_FOUND = 20"

definition RPC_ERROR_BLOCK_NOT_FOUND :: int where
  "RPC_ERROR_BLOCK_NOT_FOUND = 24"

definition RPC_CLASS_HASH_NOT_FOUND :: int where
  "RPC_CLASS_HASH_NOT_FOUND = 28"

definition RPC_TRANSACTION_EXECUTION_ERROR :: int where
  "RPC_TRANSACTION_EXECUTION_ERROR = 41"

definition RPC_ERROR_INVALID_PARAMS :: int where
  "RPC_ERROR_INVALID_PARAMS = -32602"

lemmas rpc_codes =
  RPC_ERROR_CONTRACT_ADDRESS_NOT_FOUND_def RPC_ERROR_BLOCK_NOT_FOUND_def
  RPC_CLASS_HASH_NOT_FOUND_def RPC_TRANSACTION_EXECUTION_ERROR_def RPC_ERROR_INVALID_PARAMS_def

datatype 'f block_id = Latest | Pending | BlockHash 'f | Number u64

text \<open>
  The serialization the derive macros give. A field element (address, key, class hash, block hash)
  is written by its own crate, through the parameter \<open>ser\<close>.
\<close>

fun block_id_json :: "('f \<Rightarrow> json) \<Rightarrow> 'f block_id \<Rightarrow> json" where
  "block_id_json ser Latest = JStr ''latest''"
| "block_id_json ser Pending = JStr ''pending''"
| "block_id_json ser (BlockHash h) = JObj [(''block_hash'', ser h)]"
| "block_id_json ser (Number n) = JObj [(''block_number'', ju64 n)]"

definition get_nonce_params :: "('f \<Rightarrow> json) \<Rightarrow> 'f block_id \<Rightarrow> 'f \<Rightarrow> json" where
  "get_nonce_params ser b contract_address =
     JObj [(''block_id'', block_id_json ser b), (''contract_address'', ser contract_address)]"

definition get_storage_at_params :: "('f \<Rightarrow> json) \<Rightarrow> 'f block_id \<Rightarrow> 'f \<Rightarrow> 'f \<Rightarrow> json" where
  "get_storage_at_params ser b contract_address key =
     JObj [(''contract_address'', ser contract_address), (''key'', ser key),
           (''block_id'', block_id_json ser b)]"

definition get_class_hash_at_params :: "('f \<Rightarrow> json) \<Rightarrow> 'f block_id \<Rightarrow> 'f \<Rightarrow> json" where
  "get_class_hash_at_params ser b contract_address =
     JObj [(''contract_address'', ser contract_address), (''block_id'', block_id_json ser b)]"

definition get_block_with_tx_hashes_params :: "('f \<Rightarrow> json) \<Rightarrow> 'f block_id \<Rightarrow> json" where
  "get_block_with_tx_hashes_params ser b = JObj [(''block_id'', block_id_json ser b)]"

record gas_price_per_token =
  price_in_fri :: u128
  price_in_wei :: u128

datatype l1_da_mode = Calldata | Blob

record 'f block_header =
  bh_block_hash :: 'f
  bh_parent_hash :: 'f
  bh_block_number :: u64
  bh_sequencer_address :: 'f
  bh_new_root :: 'f
  bh_timestamp :: u64
  bh_l1_gas_price :: gas_price_per_token
  bh_l1_data_gas_price :: gas_price_per_token
  bh_l2_gas_price :: gas_price_per_token
  bh_l1_da_mode :: l1_da_mode
  bh_starknet_version :: string
  bh_state_diff_commitment :: 'f
  bh_event_commitment :: 'f
  bh_receipt_commitment :: 'f
  bh_transaction_commitment :: 'f
  bh_transaction_count :: nat
  bh_event_count :: nat
  bh_state_diff_length :: nat

record ('f, 'x) block_info =
  bi_block_number :: u64
  bi_sequencer_address :: 'f
  bi_block_timestamp :: u64
  bi_gas_prices :: 'x
  bi_use_kzg_da :: bool
  bi_starknet_version :: 'x

text \<open>
  What the reader uses of the other crates: serialization of field elements, the typed reading of a
  block header, \<open>NonzeroGasPrice::new\<close>, \<open>validated_gas_prices\<close> (wei and fri price of L1 gas, L1 data
  gas and L2 gas), the Starknet version, the contract class as the node sends it, and the
  compilation of classes.
\<close>

record ('f, 'x) reader_lib =
  ser_felt :: "'f \<Rightarrow> json"
  de_felt :: "json \<Rightarrow> string + 'f"
  felt_default :: 'f
  de_block_header :: "json \<Rightarrow> string + 'f block_header"
  nonzero_gas_price :: "u128 \<Rightarrow> 'x option"
  validated_gas_prices :: "'x \<Rightarrow> 'x \<Rightarrow> 'x \<Rightarrow> 'x \<Rightarrow> 'x \<Rightarrow> 'x \<Rightarrow> 'x"
  starknet_version_try_from :: "string \<Rightarrow> string + 'x"

definition parse_gas_price :: "('f, 'x) reader_lib \<Rightarrow> u128 \<Rightarrow> string + 'x" where
  "parse_gas_price L gas_price =
     ok_or (''invalid gas price: '' @ dec_string (unat gas_price)) (nonzero_gas_price L gas_price)"

definition header_try_into :: "('f, 'x) reader_lib \<Rightarrow> 'f block_header \<Rightarrow> string + ('f, 'x) block_info" where
  "header_try_into L h =
     and_then (parse_gas_price L (price_in_wei (bh_l1_gas_price h))) (\<lambda>p1.
     and_then (parse_gas_price L (price_in_fri (bh_l1_gas_price h))) (\<lambda>p2.
     and_then (parse_gas_price L (price_in_wei (bh_l1_data_gas_price h))) (\<lambda>p3.
     and_then (parse_gas_price L (price_in_fri (bh_l1_data_gas_price h))) (\<lambda>p4.
     and_then (parse_gas_price L (price_in_wei (bh_l2_gas_price h))) (\<lambda>p5.
     and_then (parse_gas_price L (price_in_fri (bh_l2_gas_price h))) (\<lambda>p6.
     and_then (starknet_version_try_from L (bh_starknet_version h)) (\<lambda>v.
       Inr \<lparr> bi_block_number = bh_block_number h,
             bi_sequencer_address = bh_sequencer_address h,
             bi_block_timestamp = bh_timestamp h,
             bi_gas_prices = validated_gas_prices L p1 p2 p3 p4 p5 p6,
             bi_use_kzg_da = (bh_l1_da_mode h = Blob),
             bi_starknet_version = v \<rparr>)))))))"

record rpc_spec_error =
  err_code :: int
  err_message :: string
  err_data :: "json option"

datatype rpc_response =
    RpcSuccess "string option" json u32
  | RpcFailure "string option" rpc_spec_error u32

text \<open>
  The untagged deserialization of a response. A derived struct reader takes an object with the
  fields by name, where a missing or null \<open>Option\<close> field is \<open>None\<close>, or an array with all fields in
  order; the first variant that fits is the result.
\<close>

definition struct_fields :: "string list \<Rightarrow> json \<Rightarrow> (string \<rightharpoonup> json) option" where
  "struct_fields names v =
     (case v of
        JObj ms \<Rightarrow> Some (map_of ms)
      | JArr xs \<Rightarrow> if length xs = length names then Some (map_of (zip names xs)) else None
      | _ \<Rightarrow> None)"

fun de_opt_string :: "json option \<Rightarrow> string option option" where
  "de_opt_string None = Some None"
| "de_opt_string (Some JNull) = Some None"
| "de_opt_string (Some (JStr s)) = Some (Some s)"
| "de_opt_string _ = None"

definition de_opt_value :: "json option \<Rightarrow> json option" where
  "de_opt_value v = (if v = Some JNull then None else v)"

fun de_u32 :: "json \<Rightarrow> u32 option" where
  "de_u32 (JNum i) = (if 0 \<le> i \<and> i < 2 ^ 32 then Some (word_of_int i) else None)"
| "de_u32 _ = None"

fun de_i32 :: "json \<Rightarrow> int option" where
  "de_i32 (JNum i) = (if - (2 ^ 31) \<le> i \<and> i < 2 ^ 31 then Some i else None)"
| "de_i32 _ = None"

definition de_success :: "json \<Rightarrow> rpc_response option" where
  "de_success v = do {
     fs \<leftarrow> struct_fields [''jsonrpc'', ''result'', ''id''] v;
     j \<leftarrow> de_opt_string (fs ''jsonrpc'');
     r \<leftarrow> fs ''result'';
     i \<leftarrow> Option.bind (fs ''id'') de_u32;
     Some (RpcSuccess j r i) }"

definition de_spec_error :: "json \<Rightarrow> rpc_spec_error option" where
  "de_spec_error v = do {
     fs \<leftarrow> struct_fields [''code'', ''message'', ''data''] v;
     c \<leftarrow> Option.bind (fs ''code'') de_i32;
     m \<leftarrow> Option.bind (fs ''message'') as_str;
     Some \<lparr> err_code = c, err_message = m, err_data = de_opt_value (fs ''data'') \<rparr> }"

definition de_failure :: "json \<Rightarrow> rpc_response option" where
  "de_failure v = do {
     fs \<leftarrow> struct_fields [''jsonrpc'', ''error'', ''id''] v;
     j \<leftarrow> de_opt_string (fs ''jsonrpc'');
     e \<leftarrow> Option.bind (fs ''error'') de_spec_error;
     i \<leftarrow> Option.bind (fs ''id'') de_u32;
     Some (RpcFailure j e i) }"

definition de_rpc_response :: "json \<Rightarrow> string + rpc_response" where
  "de_rpc_response v =
     (case de_success v of
        Some r \<Rightarrow> Inr r
      | None \<Rightarrow> ok_or ''data did not match any variant of untagged enum RpcResponse'' (de_failure v))"

section \<open>\<open>utils.rs\<close>: chain information\<close>

datatype chain_id = Mainnet | Sepolia | IntegrationSepolia | OtherChain string

record 'f chain_info =
  ci_chain_id :: chain_id
  strk_fee_token_address :: 'f
  eth_fee_token_address :: 'f
  is_l3 :: bool

text \<open>A panic (\<open>expect\<close>, \<open>unimplemented!\<close>) carries its message.\<close>

datatype panic = Panic string

definition STRK_FEE_CONTRACT_ADDRESS :: "'f felt_lib \<Rightarrow> ('f \<Rightarrow> string + 'f) \<Rightarrow> panic + 'f" where
  "STRK_FEE_CONTRACT_ADDRESS F address_try_from =
     and_then (map_err (\<lambda>_. Panic ''invalid STRK fee contract address'')
        (felt_from_hex F ''0x04718f5a0fc34cc1af16a1cdee98ffb20c31f5cd61d6ab07201858f4287c938d''))
       (\<lambda>x. map_err (\<lambda>_. Panic ''failed to convert STRK fee contract address'') (address_try_from x))"

definition ETH_FEE_CONTRACT_ADDRESS :: "'f felt_lib \<Rightarrow> ('f \<Rightarrow> string + 'f) \<Rightarrow> panic + 'f" where
  "ETH_FEE_CONTRACT_ADDRESS F address_try_from =
     and_then (map_err (\<lambda>_. Panic ''invalid ETH fee contract address'')
        (felt_from_hex F ''0x49d36570d4e46f48e99674bd3fcc84644ddd6b96f7c741b1562b82f9e004dc7''))
       (\<lambda>x. map_err (\<lambda>_. Panic ''failed to convert ETH fee contract address'') (address_try_from x))"

definition get_chain_info ::
  "'f felt_lib \<Rightarrow> ('f \<Rightarrow> string + 'f) \<Rightarrow> chain_id \<Rightarrow> 'f option \<Rightarrow> panic + 'f chain_info" where
  "get_chain_info F address_try_from chain strk_override =
     (case chain of
        OtherChain c \<Rightarrow> Inl (Panic (''Unknown chain ID '' @ c @ ''.''))
      | _ \<Rightarrow> and_then (STRK_FEE_CONTRACT_ADDRESS F address_try_from) (\<lambda>strk.
             and_then (ETH_FEE_CONTRACT_ADDRESS F address_try_from) (\<lambda>eth.
               Inr \<lparr> ci_chain_id = chain, strk_fee_token_address = unwrap_or strk strk_override,
                     eth_fee_token_address = eth, is_l3 = False \<rparr>)))"

section \<open>\<open>rpc_state_reader.rs\<close>\<close>

record 'f rpc_state_reader =
  rd_url :: string
  rd_json_rpc_version :: string
  rd_block_id :: "'f block_id"
  rd_chain_info :: "'f chain_info"

definition new_with_config_from_url ::
  "string \<Rightarrow> 'f chain_info \<Rightarrow> 'f block_id \<Rightarrow> 'f rpc_state_reader" where
  "new_with_config_from_url node_url info b =
     \<lparr> rd_url = node_url, rd_json_rpc_version = ''2.0'', rd_block_id = b, rd_chain_info = info \<rparr>"

definition map_spec_error :: "string \<Rightarrow> json \<Rightarrow> rpc_spec_error \<Rightarrow> reexecution_error" where
  "map_spec_error method params_json err =
     (let code = err_code err in
      if code = RPC_ERROR_BLOCK_NOT_FOUND then BlockNotFound
      else if code = RPC_ERROR_CONTRACT_ADDRESS_NOT_FOUND then ContractAddressNotFound
      else if code = RPC_CLASS_HASH_NOT_FOUND then ClassHashNotFound
      else if code = RPC_TRANSACTION_EXECUTION_ERROR then TransactionExecution (err_message err)
      else if code = RPC_ERROR_INVALID_PARAMS
        then InvalidParams method (err_message err) (err_data err) params_json
      else UnexpectedRpc code (err_message err))"

definition response_value :: "string \<Rightarrow> json \<Rightarrow> http_response \<Rightarrow> reexecution_error + json" where
  "response_value method params_json response =
     (if \<not> is_success (resp_status response) then Inl (RpcStatus (resp_status response))
      else and_then (map_err RpcParse (and_then (resp_json response) de_rpc_response))
        (\<lambda>rpc_response. case rpc_response of
           RpcSuccess _ result _ \<Rightarrow> Inr result
         | RpcFailure _ err _ \<Rightarrow> Inl (map_spec_error method params_json err)))"

definition send_rpc_request_async ::
  "'w net \<Rightarrow> 'f rpc_state_reader \<Rightarrow> string \<Rightarrow> json \<Rightarrow> ('w, reexecution_error, json) rio" where
  "send_rpc_request_async N rd method params_json =
     rio_bind (rio_map_err RpcRequest (http_send N (rd_url rd)
         (JObj [(''jsonrpc'', JStr (rd_json_rpc_version rd)), (''id'', jnat 0),
                (''method'', JStr method), (''params'', params_json)])))
       (\<lambda>response. rio_lift (response_value method params_json response))"

definition get_block_header :: "'f rpc_state_reader \<Rightarrow> reexecution_error + 'f block_header" where
  "get_block_header rd = Inl (State (''blocking rpc_state_reader::get_block_header is not '' @
     ''browser-safe; wasm callers must use async flow''))"

definition get_block_header_async ::
  "('f, 'x) reader_lib \<Rightarrow> 'w net \<Rightarrow> 'f rpc_state_reader \<Rightarrow>
     ('w, reexecution_error, 'f block_header) rio" where
  "get_block_header_async L N rd =
     rio_bind (send_rpc_request_async N rd ''starknet_getBlockWithTxHashes''
        (get_block_with_tx_hashes_params (ser_felt L) (rd_block_id rd)))
       (\<lambda>json. rio_lift (map_err Serde (de_block_header L json)))"

definition get_block_info_async ::
  "('f, 'x) reader_lib \<Rightarrow> 'w net \<Rightarrow> 'f rpc_state_reader \<Rightarrow>
     ('w, reexecution_error, ('f, 'x) block_info) rio" where
  "get_block_info_async L N rd =
     rio_bind (get_block_header_async L N rd) (\<lambda>h. rio_lift (map_err State (header_try_into L h)))"

text \<open>
  The common shape of the three state reads: a value of the node is read as a field element, and an
  unknown contract reads as the default.
\<close>

definition felt_or_default ::
  "('f, 'x) reader_lib \<Rightarrow> reexecution_error + json \<Rightarrow> reexecution_error + 'f" where
  "felt_or_default L r =
     (case r of
        Inr value \<Rightarrow> map_err Serde (de_felt L value)
      | Inl ContractAddressNotFound \<Rightarrow> Inr (felt_default L)
      | Inl e \<Rightarrow> Inl e)"

definition get_nonce_at_async ::
  "('f, 'x) reader_lib \<Rightarrow> 'w net \<Rightarrow> 'f rpc_state_reader \<Rightarrow> 'f \<Rightarrow> ('w, reexecution_error, 'f) rio" where
  "get_nonce_at_async L N rd contract_address w =
     (case send_rpc_request_async N rd ''starknet_getNonce''
             (get_nonce_params (ser_felt L) (rd_block_id rd) contract_address) w of
        (r, w') \<Rightarrow> (felt_or_default L r, w'))"

definition get_storage_at_async ::
  "('f, 'x) reader_lib \<Rightarrow> 'w net \<Rightarrow> 'f rpc_state_reader \<Rightarrow> 'f \<Rightarrow> 'f \<Rightarrow>
     ('w, reexecution_error, 'f) rio" where
  "get_storage_at_async L N rd contract_address key w =
     (case send_rpc_request_async N rd ''starknet_getStorageAt''
             (get_storage_at_params (ser_felt L) (rd_block_id rd) contract_address key) w of
        (r, w') \<Rightarrow> (felt_or_default L r, w'))"

definition get_class_hash_at_async ::
  "('f, 'x) reader_lib \<Rightarrow> 'w net \<Rightarrow> 'f rpc_state_reader \<Rightarrow> 'f \<Rightarrow> ('w, reexecution_error, 'f) rio" where
  "get_class_hash_at_async L N rd contract_address w =
     (case send_rpc_request_async N rd ''starknet_getClassHashAt''
             (get_class_hash_at_params (ser_felt L) (rd_block_id rd) contract_address) w of
        (r, w') \<Rightarrow> (felt_or_default L r, w'))"

section \<open>Contract classes\<close>

record 'f legacy_entry_point =
  le_offset :: u64
  le_selector :: 'f

record 'f legacy_class =
  lc_program :: "u8 list"
  lc_constructor :: "'f legacy_entry_point list"
  lc_external :: "'f legacy_entry_point list"
  lc_l1_handler :: "'f legacy_entry_point list"

datatype ('f, 'x) contract_class = Sierra 'x | Legacy "'f legacy_class"

record 'f entry_point_v0 =
  ep_offset :: nat
  ep_selector :: 'f

datatype entry_point_type = Constructor | External | L1Handler

record ('f, 'x) deprecated_class =
  dc_program :: 'x
  dc_entry_points_by_type :: "(entry_point_type \<times> 'f entry_point_v0 list) list"
  dc_abi :: "'x option"

datatype 'x runnable_compiled_class = RunnableV0 'x | RunnableV1 'x

datatype 'x compiled_classes = ClassesV0 'x | ClassesV1 'x 'x

text \<open>
  What the class operations use of other crates; \<open>usize_bits\<close> is the width of \<open>usize\<close> on the target
  (32 for WebAssembly).
\<close>

record ('f, 'x) class_lib =
  de_contract_class :: "json \<Rightarrow> string + ('f, 'x) contract_class"
  sierra_from :: "'x \<Rightarrow> 'x"
  extract_sierra_version :: "'x \<Rightarrow> string + 'x"
  json_to_string :: "json \<Rightarrow> string + string"
  casm_try_from_json_string :: "string \<Rightarrow> 'x \<Rightarrow> string + 'x"
  gz_decode :: "u8 list \<Rightarrow> string + string"
  parse_program :: "string \<Rightarrow> string + 'x"
  compiled_class_v0_try_from :: "('f, 'x) deprecated_class \<Rightarrow> string + 'x"
  usize_bits :: nat

text \<open>An operation that can also panic fails with one of these.\<close>

datatype 'e failure = Failed 'e | Panicked string

definition to_v0 :: "'f felt_lib \<Rightarrow> nat \<Rightarrow> 'f legacy_entry_point \<Rightarrow> panic + 'f entry_point_v0" where
  "to_v0 F bits ep =
     (if unat (le_offset ep) < 2 ^ bits
      then Inr \<lparr> ep_offset = unat (le_offset ep),
                 ep_selector = felt_from_bytes_be F (felt_to_bytes_be F (le_selector ep)) \<rparr>
      else Inl (Panic ''entry point offset overflow''))"

definition map_legacy_entry_points ::
  "'f felt_lib \<Rightarrow> nat \<Rightarrow> 'f legacy_class \<Rightarrow> panic + (entry_point_type \<times> 'f entry_point_v0 list) list" where
  "map_legacy_entry_points F bits c =
     and_then (collect_result (to_v0 F bits) (lc_constructor c)) (\<lambda>ctor.
     and_then (collect_result (to_v0 F bits) (lc_external c)) (\<lambda>ext.
     and_then (collect_result (to_v0 F bits) (lc_l1_handler c)) (\<lambda>l1.
       Inr [(Constructor, ctor), (External, ext), (L1Handler, l1)])))"

fun panicked :: "panic \<Rightarrow> 'e failure" where
  "panicked (Panic m) = Panicked m"

definition legacy_to_compiled_class_v0 ::
  "'f felt_lib \<Rightarrow> ('f, 'x) class_lib \<Rightarrow> 'f legacy_class \<Rightarrow> reexecution_error failure + 'x" where
  "legacy_to_compiled_class_v0 F C legacy =
     and_then (map_err (\<lambda>e. Failed (CompiledClass (''decompress legacy program: '' @ e)))
         (gz_decode C (lc_program legacy))) (\<lambda>program_json.
     and_then (map_err (\<lambda>e. Failed (CompiledClass (''parse legacy program: '' @ e)))
         (parse_program C program_json)) (\<lambda>program.
     and_then (map_err panicked (map_legacy_entry_points F (usize_bits C) legacy)) (\<lambda>eps.
       map_err (\<lambda>e. Failed (CompiledClass e)) (compiled_class_v0_try_from C
         \<lparr> dc_program = program, dc_entry_points_by_type = eps, dc_abi = None \<rparr>))))"

definition get_contract_class_async ::
  "'f felt_lib \<Rightarrow> ('f, 'x) reader_lib \<Rightarrow> ('f, 'x) class_lib \<Rightarrow> 'w net \<Rightarrow> 'f rpc_state_reader \<Rightarrow> 'f \<Rightarrow>
     ('w, reexecution_error, ('f, 'x) contract_class) rio" where
  "get_contract_class_async F L C N rd class_hash =
     rio_bind (send_rpc_request_async N rd ''starknet_getClass''
        (JObj [(''block_id'', block_id_json (ser_felt L) (rd_block_id rd)),
               (''class_hash'', JStr (felt_lower_hex F class_hash))]))
       (\<lambda>raw. rio_lift (map_err RpcParse (de_contract_class C raw)))"

text \<open>The Sierra branch the two class queries share: the compiled class and the Sierra class.\<close>

definition fetch_casm ::
  "'f felt_lib \<Rightarrow> ('f, 'x) class_lib \<Rightarrow> 'w net \<Rightarrow> 'f rpc_state_reader \<Rightarrow> 'f \<Rightarrow> 'x \<Rightarrow>
     ('w, reexecution_error failure, 'x \<times> 'x) rio" where
  "fetch_casm F C N rd class_hash sierra =
     (let sierra_api = sierra_from C sierra in
      rio_bind (rio_lift (map_err (\<lambda>e. Failed (CompiledClass (''extract sierra version: '' @ e)))
          (extract_sierra_version C sierra_api))) (\<lambda>version.
      rio_bind (rio_map_err Failed (send_rpc_request_async N rd ''starknet_getCompiledCasm''
          (JObj [(''class_hash'', JStr (felt_lower_hex F class_hash))]))) (\<lambda>casm_json.
      rio_bind (rio_lift (map_err (\<lambda>e. Failed (Serde e)) (json_to_string C casm_json))) (\<lambda>text.
        rio_lift (and_then (map_err (\<lambda>e. Failed (CompiledClass e)) (casm_try_from_json_string C text version))
          (\<lambda>compiled. Inr (compiled, sierra_api)))))))"

definition get_runnable_compiled_class_async ::
  "'f felt_lib \<Rightarrow> ('f, 'x) reader_lib \<Rightarrow> ('f, 'x) class_lib \<Rightarrow> 'w net \<Rightarrow> 'f rpc_state_reader \<Rightarrow> 'f \<Rightarrow>
     ('w, reexecution_error failure, 'x runnable_compiled_class) rio" where
  "get_runnable_compiled_class_async F L C N rd class_hash =
     rio_bind (rio_map_err Failed (get_contract_class_async F L C N rd class_hash)) (\<lambda>c. case c of
        Sierra sierra \<Rightarrow> rio_bind (fetch_casm F C N rd class_hash sierra)
          (\<lambda>(compiled, _). rio_lift (Inr (RunnableV1 compiled)))
      | Legacy legacy \<Rightarrow> rio_lift (and_then (legacy_to_compiled_class_v0 F C legacy)
          (\<lambda>compiled. Inr (RunnableV0 compiled))))"

definition get_compiled_classes_async ::
  "'f felt_lib \<Rightarrow> ('f, 'x) reader_lib \<Rightarrow> ('f, 'x) class_lib \<Rightarrow> 'w net \<Rightarrow> 'f rpc_state_reader \<Rightarrow> 'f \<Rightarrow>
     ('w, reexecution_error failure, 'x compiled_classes) rio" where
  "get_compiled_classes_async F L C N rd class_hash =
     rio_bind (rio_map_err Failed (get_contract_class_async F L C N rd class_hash)) (\<lambda>c. case c of
        Sierra sierra \<Rightarrow> rio_bind (fetch_casm F C N rd class_hash sierra)
          (\<lambda>(compiled, sierra_api). rio_lift (Inr (ClassesV1 compiled sierra_api)))
      | Legacy legacy \<Rightarrow> rio_lift (and_then (legacy_to_compiled_class_v0 F C legacy)
          (\<lambda>compiled. Inr (ClassesV0 compiled))))"

definition is_declared_async ::
  "'f felt_lib \<Rightarrow> ('f, 'x) reader_lib \<Rightarrow> ('f, 'x) class_lib \<Rightarrow> 'w net \<Rightarrow> 'f rpc_state_reader \<Rightarrow> 'f \<Rightarrow>
     ('w, reexecution_error, bool) rio" where
  "is_declared_async F L C N rd class_hash w =
     (case get_contract_class_async F L C N rd class_hash w of
        (r, w') \<Rightarrow> (case r of
            Inr _ \<Rightarrow> Inr True
          | Inl ClassHashNotFound \<Rightarrow> Inr False
          | Inl e \<Rightarrow> Inl e, w'))"

section \<open>The blocking interface\<close>

datatype state_error = StateReadError string

definition get_storage_at :: "'f rpc_state_reader \<Rightarrow> 'f \<Rightarrow> 'f \<Rightarrow> state_error + 'f" where
  "get_storage_at rd a k = Inl (StateReadError (''browser-safe rpc reader does not expose blocking '' @
     ''storage access; use get_storage_at_async''))"

definition get_nonce_at :: "'f rpc_state_reader \<Rightarrow> 'f \<Rightarrow> state_error + 'f" where
  "get_nonce_at rd a = Inl (StateReadError (''browser-safe rpc reader does not expose blocking '' @
     ''nonce access; use get_nonce_at_async''))"

definition get_class_hash_at :: "'f rpc_state_reader \<Rightarrow> 'f \<Rightarrow> state_error + 'f" where
  "get_class_hash_at rd a = Inl (StateReadError (''browser-safe rpc reader does not expose blocking '' @
     ''class hash access; use get_class_hash_at_async''))"

definition get_compiled_class :: "'f rpc_state_reader \<Rightarrow> 'f \<Rightarrow> state_error + 'x runnable_compiled_class" where
  "get_compiled_class rd c = Inl (StateReadError (''browser-safe rpc reader does not expose blocking '' @
     ''compiled class access; use get_runnable_compiled_class_async''))"

definition get_compiled_class_hash :: "'f rpc_state_reader \<Rightarrow> 'f \<Rightarrow> state_error + 'f" where
  "get_compiled_class_hash rd c =
     Inl (StateReadError ''browser-safe rpc reader does not support get_compiled_class_hash'')"

definition get_compiled_classes :: "'f rpc_state_reader \<Rightarrow> 'f \<Rightarrow> state_error + 'x compiled_classes" where
  "get_compiled_classes rd c = Inl (StateReadError (''browser-safe rpc reader does not expose blocking '' @
     ''compiled classes access; use get_compiled_classes_async''))"

definition is_declared :: "'f rpc_state_reader \<Rightarrow> 'f \<Rightarrow> state_error + bool" where
  "is_declared rd c = Inr True"

section \<open>Reads and their errors\<close>

lemma map_spec_error_iffs:
  "map_spec_error m p e = BlockNotFound \<longleftrightarrow> err_code e = RPC_ERROR_BLOCK_NOT_FOUND"
  "map_spec_error m p e = ContractAddressNotFound \<longleftrightarrow> err_code e = RPC_ERROR_CONTRACT_ADDRESS_NOT_FOUND"
  "map_spec_error m p e = ClassHashNotFound \<longleftrightarrow> err_code e = RPC_CLASS_HASH_NOT_FOUND"
  by (simp_all add: map_spec_error_def Let_def rpc_codes)

lemma response_value_Inr:
  "response_value m p resp = Inr v \<longleftrightarrow> is_success (resp_status resp) \<and>
     (\<exists>j i. and_then (resp_json resp) de_rpc_response = Inr (RpcSuccess j v i))"
  unfolding response_value_def
  by (cases "and_then (resp_json resp) de_rpc_response") (auto split: rpc_response.splits)

lemma response_value_Inl:
  assumes "e = ContractAddressNotFound \<or> e = ClassHashNotFound"
  shows "response_value m p resp = Inl e \<longleftrightarrow> is_success (resp_status resp) \<and>
     (\<exists>j se i. and_then (resp_json resp) de_rpc_response = Inr (RpcFailure j se i) \<and> map_spec_error m p se = e)"
  using assms unfolding response_value_def
  by (cases "and_then (resp_json resp) de_rpc_response") (auto split: rpc_response.splits)

lemma send_rpc_Inr:
  "send_rpc_request_async N rd m p w = (Inr v, w') \<longleftrightarrow>
     (\<exists>resp. http_send N (rd_url rd) (JObj [(''jsonrpc'', JStr (rd_json_rpc_version rd)),
         (''id'', jnat 0), (''method'', JStr m), (''params'', p)]) w = (Inr resp, w') \<and>
        response_value m p resp = Inr v)"
  by (auto simp: send_rpc_request_async_def rio_iffs)

lemma send_rpc_Inl:
  assumes "e = ContractAddressNotFound \<or> e = ClassHashNotFound"
  shows "send_rpc_request_async N rd m p w = (Inl e, w') \<longleftrightarrow>
     (\<exists>resp. http_send N (rd_url rd) (JObj [(''jsonrpc'', JStr (rd_json_rpc_version rd)),
         (''id'', jnat 0), (''method'', JStr m), (''params'', p)]) w = (Inr resp, w') \<and>
        response_value m p resp = Inl e)"
  using assms by (auto simp: send_rpc_request_async_def rio_iffs)

lemma felt_or_default_Inr:
  "felt_or_default L r = Inr x \<longleftrightarrow>
     (\<exists>v. r = Inr v \<and> de_felt L v = Inr x) \<or> (r = Inl ContractAddressNotFound \<and> x = felt_default L)"
  by (cases r) (auto simp: felt_or_default_def result_iffs split: reexecution_error.splits)

text \<open>
  A storage read succeeds in exactly two cases: the node answered with a value that reads as
  the returned field element, or it answered that the contract does not exist, and then the
  result is the default element. Every other answer, status or transport failure is an error.
\<close>

lemma get_storage_at_async_ok_iff:
  "get_storage_at_async L N rd a k w = (Inr x, w') \<longleftrightarrow>
     (\<exists>resp. http_send N (rd_url rd) (JObj [(''jsonrpc'', JStr (rd_json_rpc_version rd)),
         (''id'', jnat 0), (''method'', JStr ''starknet_getStorageAt''),
         (''params'', get_storage_at_params (ser_felt L) (rd_block_id rd) a k)]) w = (Inr resp, w') \<and>
       is_success (resp_status resp) \<and>
       ((\<exists>j v i. and_then (resp_json resp) de_rpc_response = Inr (RpcSuccess j v i) \<and> de_felt L v = Inr x) \<or>
        (\<exists>j e i. and_then (resp_json resp) de_rpc_response = Inr (RpcFailure j e i) \<and>
           err_code e = RPC_ERROR_CONTRACT_ADDRESS_NOT_FOUND \<and> x = felt_default L)))"
proof -
  let ?m = "''starknet_getStorageAt''"
  let ?p = "get_storage_at_params (ser_felt L) (rd_block_id rd) a k"
  have "get_storage_at_async L N rd a k w = (Inr x, w') \<longleftrightarrow>
      (\<exists>v. send_rpc_request_async N rd ?m ?p w = (Inr v, w') \<and> de_felt L v = Inr x) \<or>
      (send_rpc_request_async N rd ?m ?p w = (Inl ContractAddressNotFound, w') \<and> x = felt_default L)"
    by (auto simp: get_storage_at_async_def felt_or_default_Inr split: prod.splits)
  then show ?thesis
    by (auto simp: send_rpc_Inr send_rpc_Inl response_value_Inr response_value_Inl map_spec_error_iffs)
qed

text \<open>
  \<open>is_declared_async\<close> answers no only when the node reports an unknown class hash, and yes only
  when the node returned a class that could be read.
\<close>

lemma is_declared_async_iff:
  "(is_declared_async F L C N rd h w = (Inr False, w') \<longleftrightarrow>
      get_contract_class_async F L C N rd h w = (Inl ClassHashNotFound, w')) \<and>
   (is_declared_async F L C N rd h w = (Inr True, w') \<longleftrightarrow>
      (\<exists>c. get_contract_class_async F L C N rd h w = (Inr c, w')))"
  by (auto simp: is_declared_async_def split: prod.splits sum.splits reexecution_error.splits)

section \<open>Block headers\<close>

text \<open>\<open>NonzeroGasPrice::new\<close> refuses zero only.\<close>

definition nonzero_law :: "('f, 'x) reader_lib \<Rightarrow> bool" where
  "nonzero_law L \<longleftrightarrow> (\<forall>p. nonzero_gas_price L p = None \<longleftrightarrow> p = 0)"

definition header_prices :: "'f block_header \<Rightarrow> u128 list" where
  "header_prices h = [price_in_wei (bh_l1_gas_price h), price_in_fri (bh_l1_gas_price h),
     price_in_wei (bh_l1_data_gas_price h), price_in_fri (bh_l1_data_gas_price h),
     price_in_wei (bh_l2_gas_price h), price_in_fri (bh_l2_gas_price h)]"

lemma header_try_into_eq:
  "header_try_into L h =
     and_then (collect_result (parse_gas_price L) (header_prices h)) (\<lambda>ps.
     and_then (starknet_version_try_from L (bh_starknet_version h)) (\<lambda>v.
       Inr \<lparr> bi_block_number = bh_block_number h, bi_sequencer_address = bh_sequencer_address h,
             bi_block_timestamp = bh_timestamp h,
             bi_gas_prices = validated_gas_prices L (ps ! 0) (ps ! 1) (ps ! 2) (ps ! 3) (ps ! 4) (ps ! 5),
             bi_use_kzg_da = (bh_l1_da_mode h = Blob), bi_starknet_version = v \<rparr>))"
  by (auto simp: header_try_into_def header_prices_def and_then_def eval_nat_numeral split: sum.splits)

lemma parse_gas_prices_ok_iff:
  assumes "nonzero_law L"
  shows "(\<exists>ys. collect_result (parse_gas_price L) ps = Inr ys) \<longleftrightarrow> 0 \<notin> set ps"
proof (induction ps)
  case (Cons p ps)
  have "(\<exists>y. parse_gas_price L p = Inr y) \<longleftrightarrow> p \<noteq> 0"
    using assms by (simp add: parse_gas_price_def nonzero_law_def ok_or_Inr_iff flip: not_None_eq)
  with Cons show ?case by (auto simp: result_iffs)
qed simp

text \<open>
  A block header becomes block information exactly when its version is known and none of its
  six gas prices is zero, and then block number, sequencer and timestamp are kept and data
  availability is by blobs exactly in blob mode.
\<close>

lemma header_try_into_ok_iff:
  assumes "nonzero_law L"
  shows "((\<exists>info. header_try_into L h = Inr info) \<longleftrightarrow>
       0 \<notin> set (header_prices h) \<and> (\<exists>v. starknet_version_try_from L (bh_starknet_version h) = Inr v)) \<and>
    (\<forall>info. header_try_into L h = Inr info \<longrightarrow>
       bi_block_number info = bh_block_number h \<and> bi_sequencer_address info = bh_sequencer_address h \<and>
       bi_block_timestamp info = bh_timestamp h \<and> bi_use_kzg_da info = (bh_l1_da_mode h = Blob))"
proof (rule conjI)
  show "(\<exists>info. header_try_into L h = Inr info) \<longleftrightarrow>
       0 \<notin> set (header_prices h) \<and> (\<exists>v. starknet_version_try_from L (bh_starknet_version h) = Inr v)"
    using parse_gas_prices_ok_iff[OF assms, of "header_prices h"]
    unfolding header_try_into_eq by (simp add: result_iffs) blast
qed (auto simp: header_try_into_def result_iffs)

definition demo_header :: "u128 \<Rightarrow> felt252 block_header" where
  "demo_header p = (let z = felt_of_nat 0; g = \<lparr> price_in_fri = 5, price_in_wei = p \<rparr> in
     \<lparr> bh_block_hash = z, bh_parent_hash = z, bh_block_number = 7, bh_sequencer_address = z,
       bh_new_root = z, bh_timestamp = 99, bh_l1_gas_price = g, bh_l1_data_gas_price = g,
       bh_l2_gas_price = g, bh_l1_da_mode = Blob, bh_starknet_version = ''0.14.1'',
       bh_state_diff_commitment = z, bh_event_commitment = z, bh_receipt_commitment = z,
       bh_transaction_commitment = z, bh_transaction_count = 0, bh_event_count = 0,
       bh_state_diff_length = 0 \<rparr>)"

text \<open>A reader library over plain numbers: prices are themselves and one version is known.\<close>

definition demo_reader :: "(felt252, nat) reader_lib" where
  "demo_reader = \<lparr>
     ser_felt = (\<lambda>x. JStr (felt_lower_hex stark_felt x)),
     de_felt = (\<lambda>v. case v of JStr s \<Rightarrow> felt_from_hex stark_felt s | _ \<Rightarrow> Inl ''expected a string''),
     felt_default = felt_of_nat 0,
     de_block_header = (\<lambda>v. Inr (demo_header 3)),
     nonzero_gas_price = (\<lambda>p. if p = 0 then None else Some (unat p)),
     validated_gas_prices = (\<lambda>a b c d e f. a),
     starknet_version_try_from = (\<lambda>s. if s = ''0.14.1'' then Inr 14 else Inl ''unknown version'') \<rparr>"

section \<open>Legacy entry points\<close>

context felt_library
begin

lemma from_to_bytes: "felt_from_bytes_be F (felt_to_bytes_be F x) = x"
proof -
  have "(stark_prime :: nat) < 256 ^ 32" by (simp add: stark_prime_def)
  then have "felt_to_biguint F x < 256 ^ 32" using biguint_less[of x] by linarith
  then have "be_nat (felt_to_bytes_be F x) = felt_to_biguint F x"
    by (simp add: to_bytes_be be_nat_nat_be del: nat_be.simps)
  then show ?thesis using biguint_less[of x] by (simp add: felt_eq_iff from_bytes_be)
qed

lemma collect_to_v0:
  "\<forall>ep \<in> set eps. unat (le_offset ep) < 2 ^ bits \<Longrightarrow>
   collect_result (to_v0 F bits) eps =
     Inr (map (\<lambda>ep. \<lparr> ep_offset = unat (le_offset ep), ep_selector = le_selector ep \<rparr>) eps)"
  by (rule collect_result_all) (simp add: to_v0_def from_to_bytes)

text \<open>
  On a 64-bit target no offset overflows, and every entry point keeps its offset and its selector.
\<close>

lemma map_legacy_entry_points_64:
  "map_legacy_entry_points F 64 c =
     Inr (map (\<lambda>(t, eps). (t, map (\<lambda>ep. \<lparr> ep_offset = unat (le_offset ep), ep_selector = le_selector ep \<rparr>) eps))
       [(Constructor, lc_constructor c), (External, lc_external c), (L1Handler, lc_l1_handler c)])"
proof -
  have "unat (o64 :: u64) < 2 ^ 64" for o64
    using unsigned_less[where 'b = 64 and 'a = nat, of o64] by simp
  then have "collect_result (to_v0 F 64) eps =
     Inr (map (\<lambda>ep. \<lparr> ep_offset = unat (le_offset ep), ep_selector = le_selector ep \<rparr>) eps)" for eps
    by (intro collect_to_v0) simp
  then show ?thesis by (simp add: map_legacy_entry_points_def)
qed

end

end
