(* ===== verification/StateMaps.thy ===== *)
theory StateMaps
  imports StateReader
begin

text \<open>
  State maps and \<open>running/serde_utils.rs\<close>. \<open>StateMaps\<close> is a record of hash maps of the blockifier;
  each map is an association list with distinct keys, in iteration order. The second part reads the
  \<open>initial_reads\<close> that a simulation returns into state maps.
\<close>

record 'f state_maps =
  sm_nonces :: "('f, 'f) index_map"
  sm_class_hashes :: "('f, 'f) index_map"
  sm_storage :: "('f \<times> 'f, 'f) index_map"
  sm_compiled_class_hashes :: "('f, 'f) index_map"
  sm_declared_contracts :: "('f, bool) index_map"

definition state_maps_default :: "'f state_maps" where
  "state_maps_default = \<lparr> sm_nonces = [], sm_class_hashes = [], sm_storage = [],
     sm_compiled_class_hashes = [], sm_declared_contracts = [] \<rparr>"

definition state_maps_wf :: "'f state_maps \<Rightarrow> bool" where
  "state_maps_wf m \<longleftrightarrow> distinct (map fst (sm_nonces m)) \<and> distinct (map fst (sm_class_hashes m)) \<and>
     distinct (map fst (sm_storage m)) \<and> distinct (map fst (sm_compiled_class_hashes m)) \<and>
     distinct (map fst (sm_declared_contracts m))"

section \<open>Reading the initial reads\<close>

text \<open>The readers of addresses, storage keys and plain field elements come from other crates.\<close>

record 'f entry_lib =
  de_address :: "json \<Rightarrow> 'f option"
  de_storage_key :: "json \<Rightarrow> 'f option"
  de_value :: "json \<Rightarrow> 'f option"

fun de_bool :: "json \<Rightarrow> bool option" where
  "de_bool (JBool b) = Some b"
| "de_bool _ = None"

fun collect_option :: "('a \<Rightarrow> 'b option) \<Rightarrow> 'a list \<Rightarrow> 'b list option" where
  "collect_option f [] = Some []"
| "collect_option f (x # xs) =
     (case f x of None \<Rightarrow> None | Some y \<Rightarrow> map_option ((#) y) (collect_option f xs))"

definition de_storage_entry :: "'f entry_lib \<Rightarrow> json \<Rightarrow> (('f \<times> 'f) \<times> 'f) option" where
  "de_storage_entry E v = do {
     fs \<leftarrow> struct_fields [''contract_address'', ''key'', ''value''] v;
     a \<leftarrow> Option.bind (fs ''contract_address'') (de_address E);
     k \<leftarrow> Option.bind (fs ''key'') (de_storage_key E);
     x \<leftarrow> Option.bind (fs ''value'') (de_value E);
     Some ((a, k), x) }"

definition de_nonce_entry :: "'f entry_lib \<Rightarrow> json \<Rightarrow> ('f \<times> 'f) option" where
  "de_nonce_entry E v = do {
     fs \<leftarrow> struct_fields [''contract_address'', ''nonce''] v;
     a \<leftarrow> Option.bind (fs ''contract_address'') (de_address E);
     n \<leftarrow> Option.bind (fs ''nonce'') (de_value E);
     Some (a, n) }"

definition de_class_hash_entry :: "'f entry_lib \<Rightarrow> json \<Rightarrow> ('f \<times> 'f) option" where
  "de_class_hash_entry E v = do {
     fs \<leftarrow> struct_fields [''contract_address'', ''class_hash''] v;
     a \<leftarrow> Option.bind (fs ''contract_address'') (de_address E);
     c \<leftarrow> Option.bind (fs ''class_hash'') (de_value E);
     Some (a, c) }"

definition de_declared_entry :: "'f entry_lib \<Rightarrow> json \<Rightarrow> ('f \<times> bool) option" where
  "de_declared_entry E v = do {
     fs \<leftarrow> struct_fields [''class_hash'', ''is_declared''] v;
     c \<leftarrow> Option.bind (fs ''class_hash'') (de_value E);
     d \<leftarrow> Option.bind (fs ''is_declared'') de_bool;
     Some (c, d) }"

record 'f rpc_initial_reads =
  ir_storage :: "(('f \<times> 'f) \<times> 'f) list"
  ir_nonces :: "('f \<times> 'f) list"
  ir_class_hashes :: "('f \<times> 'f) list"
  ir_declared_contracts :: "('f \<times> bool) list"

text \<open>A field marked \<open>serde(default)\<close>: a missing one is the empty list.\<close>

definition de_vec_default :: "(json \<Rightarrow> 'a option) \<Rightarrow> json option \<Rightarrow> 'a list option" where
  "de_vec_default de v =
     (case v of None \<Rightarrow> Some [] | Some x \<Rightarrow> Option.bind (as_array x) (collect_option de))"

definition default_fields :: "string list \<Rightarrow> json \<Rightarrow> (string \<rightharpoonup> json) option" where
  "default_fields names v =
     (case v of
        JObj ms \<Rightarrow> Some (map_of ms)
      | JArr xs \<Rightarrow> if length xs \<le> length names then Some (map_of (zip names xs)) else None
      | _ \<Rightarrow> None)"

definition de_rpc_initial_reads :: "'f entry_lib \<Rightarrow> json \<Rightarrow> 'f rpc_initial_reads option" where
  "de_rpc_initial_reads E v = do {
     fs \<leftarrow> default_fields [''storage'', ''nonces'', ''class_hashes'', ''declared_contracts''] v;
     s \<leftarrow> de_vec_default (de_storage_entry E) (fs ''storage'');
     n \<leftarrow> de_vec_default (de_nonce_entry E) (fs ''nonces'');
     c \<leftarrow> de_vec_default (de_class_hash_entry E) (fs ''class_hashes'');
     d \<leftarrow> de_vec_default (de_declared_entry E) (fs ''declared_contracts'');
     Some \<lparr> ir_storage = s, ir_nonces = n, ir_class_hashes = c, ir_declared_contracts = d \<rparr> }"

definition reads_to_state_maps :: "'f rpc_initial_reads \<Rightarrow> 'f state_maps" where
  "reads_to_state_maps reads =
     (let maps = state_maps_default in
      maps\<lparr> sm_storage := im_extend (sm_storage maps) (ir_storage reads),
            sm_nonces := im_extend (sm_nonces maps) (ir_nonces reads),
            sm_class_hashes := im_extend (sm_class_hashes maps) (ir_class_hashes reads),
            sm_declared_contracts := im_extend (sm_declared_contracts maps) (ir_declared_contracts reads) \<rparr>)"

definition deserialize_rpc_initial_reads :: "'f entry_lib \<Rightarrow> json \<Rightarrow> string + 'f state_maps" where
  "deserialize_rpc_initial_reads E v =
     ok_or ''invalid initial reads'' (map_option reads_to_state_maps (de_rpc_initial_reads E v))"

section \<open>What is read back\<close>

lemma collect_option_map:
  "(\<And>x. x \<in> set xs \<Longrightarrow> f (g x) = Some x) \<Longrightarrow> collect_option f (map g xs) = Some xs"
  by (induction xs) auto

lemma reads_to_state_maps_wf: "state_maps_wf (reads_to_state_maps r)"
  by (simp add: state_maps_wf_def reads_to_state_maps_def state_maps_default_def Let_def
      distinct_im_extend)

text \<open>The node's rendering of state maps, for a serializer of field elements.\<close>

definition storage_entry_json :: "('f \<Rightarrow> json) \<Rightarrow> ('f \<times> 'f) \<times> 'f \<Rightarrow> json" where
  "storage_entry_json ser e = (case e of ((a, k), x) \<Rightarrow>
     JObj [(''contract_address'', ser a), (''key'', ser k), (''value'', ser x)])"

definition nonce_entry_json :: "('f \<Rightarrow> json) \<Rightarrow> 'f \<times> 'f \<Rightarrow> json" where
  "nonce_entry_json ser e = (case e of (a, n) \<Rightarrow>
     JObj [(''contract_address'', ser a), (''nonce'', ser n)])"

definition class_hash_entry_json :: "('f \<Rightarrow> json) \<Rightarrow> 'f \<times> 'f \<Rightarrow> json" where
  "class_hash_entry_json ser e = (case e of (a, c) \<Rightarrow>
     JObj [(''contract_address'', ser a), (''class_hash'', ser c)])"

definition declared_entry_json :: "('f \<Rightarrow> json) \<Rightarrow> 'f \<times> bool \<Rightarrow> json" where
  "declared_entry_json ser e = (case e of (c, d) \<Rightarrow>
     JObj [(''class_hash'', ser c), (''is_declared'', JBool d)])"

definition initial_reads_json :: "('f \<Rightarrow> json) \<Rightarrow> 'f rpc_initial_reads \<Rightarrow> json" where
  "initial_reads_json ser r = JObj
     [(''storage'', JArr (map (storage_entry_json ser) (ir_storage r))),
      (''nonces'', JArr (map (nonce_entry_json ser) (ir_nonces r))),
      (''class_hashes'', JArr (map (class_hash_entry_json ser) (ir_class_hashes r))),
      (''declared_contracts'', JArr (map (declared_entry_json ser) (ir_declared_contracts r)))]"

definition entry_codec :: "'f entry_lib \<Rightarrow> ('f \<Rightarrow> json) \<Rightarrow> bool" where
  "entry_codec E ser \<longleftrightarrow> (\<forall>x. de_address E (ser x) = Some x \<and> de_storage_key E (ser x) = Some x \<and>
     de_value E (ser x) = Some x)"

lemma de_initial_reads_json:
  assumes "entry_codec E ser"
  shows "de_rpc_initial_reads E (initial_reads_json ser r) = Some r"
proof -
  have "de_storage_entry E (storage_entry_json ser e) = Some e" for e
    using assms by (cases e) (auto simp: de_storage_entry_def storage_entry_json_def struct_fields_def entry_codec_def)
  moreover have "de_nonce_entry E (nonce_entry_json ser e) = Some e" for e
    using assms by (cases e) (auto simp: de_nonce_entry_def nonce_entry_json_def struct_fields_def entry_codec_def)
  moreover have "de_class_hash_entry E (class_hash_entry_json ser e) = Some e" for e
    using assms by (cases e) (auto simp: de_class_hash_entry_def class_hash_entry_json_def struct_fields_def entry_codec_def)
  moreover have "de_declared_entry E (declared_entry_json ser e) = Some e" for e
    using assms by (cases e) (auto simp: de_declared_entry_def declared_entry_json_def struct_fields_def entry_codec_def)
  ultimately show ?thesis
    by (simp add: de_rpc_initial_reads_def initial_reads_json_def default_fields_def
        de_vec_default_def collect_option_map)
qed

text \<open>
  C39: the initial reads a node renders are read back into well-formed state maps that hold, for
  each key, the last value given for it, and that declare no compiled class hashes.
\<close>

theorem deserialize_rpc_initial_reads_roundtrip:
  assumes "entry_codec E ser"
  shows "\<exists>maps. deserialize_rpc_initial_reads E (initial_reads_json ser r) = Inr maps \<and>
     state_maps_wf maps \<and>
     map_of (sm_storage maps) = map_of (rev (ir_storage r)) \<and>
     map_of (sm_nonces maps) = map_of (rev (ir_nonces r)) \<and>
     map_of (sm_class_hashes maps) = map_of (rev (ir_class_hashes r)) \<and>
     map_of (sm_declared_contracts maps) = map_of (rev (ir_declared_contracts r)) \<and>
     sm_compiled_class_hashes maps = []"
  using de_initial_reads_json[OF assms, of r]
  by (simp add: deserialize_rpc_initial_reads_def reads_to_state_maps_wf)
     (simp add: reads_to_state_maps_def state_maps_default_def Let_def map_of_im_extend)

definition demo_ser :: "felt252 \<Rightarrow> json" where
  "demo_ser x = JStr (felt_lower_hex stark_felt x)"

definition demo_entries :: "felt252 entry_lib" where
  "demo_entries = (let de = (\<lambda>v. Option.bind (as_str v) (\<lambda>s. result_ok (felt_from_hex stark_felt s)))
     in \<lparr> de_address = de, de_storage_key = de, de_value = de \<rparr>)"

definition demo_reads :: "felt252 rpc_initial_reads" where
  "demo_reads = (let f = felt_of_nat in
     \<lparr> ir_storage = [((f 1, f 2), f 3), ((f 1, f 2), f 4)], ir_nonces = [(f 1, f 7)],
       ir_class_hashes = [(f 1, f 9)], ir_declared_contracts = [(f 9, True)] \<rparr>)"

lemma demo_codec: "entry_codec demo_entries demo_ser"
  by (simp add: entry_codec_def demo_entries_def demo_ser_def Let_def stark.from_hex_to_hex)

theorem deserialize_rpc_initial_reads_roundtrip_witness:
  "entry_codec demo_entries demo_ser \<and>
   (\<exists>maps. deserialize_rpc_initial_reads demo_entries (initial_reads_json demo_ser demo_reads) = Inr maps \<and>
      map_of (sm_storage maps) (felt_of_nat 1, felt_of_nat 2) = Some (felt_of_nat 4))"
  using deserialize_rpc_initial_reads_roundtrip[OF demo_codec, of demo_reads] demo_codec
  by (auto simp: demo_reads_def Let_def)

end
