(* ===== verification/Executor.thy ===== *)
theory Executor
  imports StateMaps Signing
begin

text \<open>
  \<open>running/virtual_block_executor.rs\<close>: the virtual block executor. The blockifier (block context,
  transaction conversion, execution, class manager) is a parameter; the executor around it, with
  its prefetching, its state reader and its treatment of failed and reverted transactions, is
  modelled. The class manager is shared, so it is part of the world: an operation acts on the pair
  of the network world and the manager.
\<close>

section \<open>Transactions\<close>

datatype da_mode_api = DaL1 | DaL2

record 'f api_invoke_v3 =
  ai_resource_bounds :: resource_bounds
  ai_tip :: u64
  ai_signature :: "'f list"
  ai_nonce :: 'f
  ai_sender_address :: 'f
  ai_calldata :: "'f list"
  ai_nonce_da_mode :: da_mode_api
  ai_fee_da_mode :: da_mode_api
  ai_paymaster_data :: "'f list"
  ai_account_deployment_data :: "'f list"
  ai_proof_facts :: "'f list"

record 'f rpc_invoke_v3 = "'f api_invoke_v3" +
  ri_proof :: "u8 list"

datatype ('f, 'x) invoke_transaction = InvokeV3 "'f api_invoke_v3" | InvokeOther 'x

record execution_flags =
  only_query :: bool
  charge_fee :: bool
  validate :: bool
  strict_nonce_check :: bool

record 'f message_to_l1 =
  msg_from_address :: 'f
  msg_to_address :: 'f
  msg_payload :: "'f list"

section \<open>Block context\<close>

record 'x versioned_constants =
  vc_enable_casm_hash_migration :: bool
  vc_min_sierra_version_for_sierra_gas :: "nat \<times> nat \<times> nat"
  vc_rest :: 'x

record ('f, 'x) block_context =
  bc_block_info :: "('f, 'x) block_info"
  bc_chain_info :: "'f chain_info"
  bc_versioned_constants :: "'x versioned_constants"
  bc_bouncer_config :: 'x

record 'f header_commitments =
  hc_transaction_commitment :: 'f
  hc_event_commitment :: 'f
  hc_receipt_commitment :: 'f
  hc_state_diff_commitment :: 'f
  hc_concatenated_counts :: 'f

record ('f, 'x) base_block_info =
  bb_block_context :: "('f, 'x) block_context"
  bb_base_block_hash :: 'f
  bb_base_block_header_commitments :: "'f header_commitments"
  bb_prev_base_block_hash :: 'f

section \<open>The blockifier\<close>

text \<open>
  The executor sees of an execution output its revert error, the sorted messages of each call and
  the rest. An execution returns the outputs, the initial reads and the state diff of the block
  state (absent when the block state is gone), the executed class hashes behind the bouncer lock and
  the class manager.
\<close>

record ('f, 'x) execution_output =
  eo_revert_error :: "string option"
  eo_call_messages :: "'f message_to_l1 list list"
  eo_info :: 'x

record ('f, 'x, 'm) execution_run =
  run_results :: "(string + ('f, 'x) execution_output) list"
  run_block_state :: "((string + 'f state_maps) \<times> (string + 'f state_maps)) option"
  run_executed_class_hashes :: "string + 'f list"
  run_manager :: 'm

text \<open>The interface through which the blockifier reads state.\<close>

record ('f, 'x) state_reader =
  sr_storage_at :: "'f \<Rightarrow> 'f \<Rightarrow> state_error + 'f"
  sr_nonce_at :: "'f \<Rightarrow> state_error + 'f"
  sr_class_hash_at :: "'f \<Rightarrow> state_error + 'f"
  sr_compiled_class :: "'f \<Rightarrow> state_error + 'x runnable_compiled_class"
  sr_compiled_class_hash :: "'f \<Rightarrow> state_error + 'f"
  sr_compiled_classes :: "'f \<Rightarrow> state_error + 'x compiled_classes"
  sr_is_declared :: "'f \<Rightarrow> state_error + bool"

record ('f, 'x, 'm) blockifier =
  concat_counts :: "nat \<Rightarrow> nat \<Rightarrow> nat \<Rightarrow> l1_da_mode \<Rightarrow> 'f"
  latest_constants :: "'x versioned_constants"
  constants_get :: "'x \<Rightarrow> string + 'x versioned_constants"
  bouncer_config_default :: 'x
  max_possible_fee :: "('f, 'x) invoke_transaction \<Rightarrow> u128"
  transaction_from_api :: "('f, 'x) invoke_transaction \<Rightarrow> 'f \<Rightarrow> execution_flags \<Rightarrow> string + 'x"
  rpc_invoke_json :: "'f api_invoke_v3 \<Rightarrow> string + json"
  set_and_compile :: "'f \<Rightarrow> 'x compiled_classes \<Rightarrow> 'm \<Rightarrow> 'm"
  execute_txs :: "('f, 'x) state_reader \<Rightarrow> 'm \<Rightarrow> ('f, 'x) block_context \<Rightarrow> 'x list \<Rightarrow>
                  ('f, 'x, 'm) execution_run"
  hash_set_iter :: "'f list \<Rightarrow> 'f list"

section \<open>Errors and data\<close>

datatype 'f executor_error =
    ReexecutionError reexecution_error
  | TransactionExecutionError string
  | TransactionReverted 'f string
  | StateUnavailable
  | BouncerLockError string

record ('f, 'x) virtual_block_execution_data =
  vd_execution_outputs :: "('f, 'x) execution_output list"
  vd_initial_reads :: "'f state_maps"
  vd_state_diff :: "'f state_maps"
  vd_executed_class_hashes :: "'f list"
  vd_l2_to_l1_messages :: "'f message_to_l1 list"
  vd_base_block_info :: "('f, 'x) base_block_info"

record 'x executor_config =
  ec_prefetch_state :: bool
  ec_bouncer_config :: 'x
  ec_use_latest_versioned_constants :: bool

definition executor_config_default :: "('f, 'x, 'm) blockifier \<Rightarrow> 'x executor_config" where
  "executor_config_default B = \<lparr> ec_prefetch_state = True,
     ec_bouncer_config = bouncer_config_default B, ec_use_latest_versioned_constants = True \<rparr>"

record ('f, 'x) rpc_executor =
  ex_rpc_state_reader :: "'f rpc_state_reader"
  ex_validate_txs :: bool
  ex_config :: "'x executor_config"

definition executor_new ::
  "string \<Rightarrow> 'f chain_info \<Rightarrow> 'f block_id \<Rightarrow> 'x executor_config \<Rightarrow> ('f, 'x) rpc_executor" where
  "executor_new node_url info b config =
     \<lparr> ex_rpc_state_reader = new_with_config_from_url node_url info b, ex_validate_txs = True,
       ex_config = config \<rparr>"

section \<open>\<open>BaseBlockInfo::new\<close>\<close>

definition base_block_info_new ::
  "('f, 'x) reader_lib \<Rightarrow> ('f, 'x, 'm) blockifier \<Rightarrow> 'f block_header \<Rightarrow> 'f chain_info \<Rightarrow> bool \<Rightarrow>
     'f executor_error + ('f, 'x) base_block_info" where
  "base_block_info_new L B header info use_latest =
     (let commitments = \<lparr>
        hc_transaction_commitment = bh_transaction_commitment header,
        hc_event_commitment = bh_event_commitment header,
        hc_receipt_commitment = bh_receipt_commitment header,
        hc_state_diff_commitment = bh_state_diff_commitment header,
        hc_concatenated_counts = concat_counts B (bh_transaction_count header)
          (bh_event_count header) (bh_state_diff_length header) (bh_l1_da_mode header) \<rparr> in
      and_then (map_err (\<lambda>e. TransactionExecutionError
            (''Failed to convert block header to block info: '' @ e)) (header_try_into L header))
        (\<lambda>block_info.
      and_then (if use_latest then Inr (latest_constants B)
                else map_err (\<lambda>e. TransactionExecutionError (''Failed to get versioned constants: '' @ e))
                       (constants_get B (bi_starknet_version block_info)))
        (\<lambda>constants. Inr \<lparr>
           bb_block_context = \<lparr>
             bc_block_info = block_info, bc_chain_info = info,
             bc_versioned_constants = constants\<lparr> vc_enable_casm_hash_migration := False,
                vc_min_sierra_version_for_sierra_gas := (0, 0, 1) \<rparr>,
             bc_bouncer_config = bouncer_config_default B \<rparr>,
           bb_base_block_hash = bh_block_hash header,
           bb_base_block_header_commitments = commitments,
           bb_prev_base_block_hash = bh_parent_hash header \<rparr>)))"

section \<open>The simulated state reader\<close>

record 'f simulated_state_reader =
  ss_state_maps :: "'f state_maps"
  ss_rpc_state_reader :: "'f rpc_state_reader"

definition sim_get_storage_at :: "'f simulated_state_reader \<Rightarrow> 'f \<Rightarrow> 'f \<Rightarrow> state_error + 'f" where
  "sim_get_storage_at s a k =
     (case map_of (sm_storage (ss_state_maps s)) (a, k) of
        Some value \<Rightarrow> Inr value
      | None \<Rightarrow> get_storage_at (ss_rpc_state_reader s) a k)"

definition sim_get_nonce_at :: "'f simulated_state_reader \<Rightarrow> 'f \<Rightarrow> state_error + 'f" where
  "sim_get_nonce_at s a =
     (case map_of (sm_nonces (ss_state_maps s)) a of
        Some value \<Rightarrow> Inr value
      | None \<Rightarrow> get_nonce_at (ss_rpc_state_reader s) a)"

definition sim_get_class_hash_at :: "'f simulated_state_reader \<Rightarrow> 'f \<Rightarrow> state_error + 'f" where
  "sim_get_class_hash_at s a =
     (case map_of (sm_class_hashes (ss_state_maps s)) a of
        Some value \<Rightarrow> Inr value
      | None \<Rightarrow> get_class_hash_at (ss_rpc_state_reader s) a)"

definition sim_is_declared :: "'f simulated_state_reader \<Rightarrow> 'f \<Rightarrow> state_error + bool" where
  "sim_is_declared s c =
     (case map_of (sm_declared_contracts (ss_state_maps s)) c of
        Some value \<Rightarrow> Inr value
      | None \<Rightarrow> is_declared (ss_rpc_state_reader s) c)"

definition simulated_reader :: "'f simulated_state_reader \<Rightarrow> ('f, 'x) state_reader" where
  "simulated_reader s =
     \<lparr> sr_storage_at = sim_get_storage_at s, sr_nonce_at = sim_get_nonce_at s,
       sr_class_hash_at = sim_get_class_hash_at s,
       sr_compiled_class = get_compiled_class (ss_rpc_state_reader s),
       sr_compiled_class_hash = get_compiled_class_hash (ss_rpc_state_reader s),
       sr_compiled_classes = get_compiled_classes (ss_rpc_state_reader s),
       sr_is_declared = sim_is_declared s \<rparr>"

section \<open>The executor's operations\<close>

text \<open>An operation on the network leaves the class manager alone.\<close>

definition rio_fst :: "('w, 'e, 'a) rio \<Rightarrow> ('w \<times> 'm, 'e, 'a) rio" where
  "rio_fst op = (\<lambda>(w, m). case op w of (r, w') \<Rightarrow> (r, (w', m)))"

definition simulate_txs_json ::
  "('f, 'x, 'm) blockifier \<Rightarrow> (('f, 'x) invoke_transaction \<times> 'f) list \<Rightarrow> 'f executor_error + json list" where
  "simulate_txs_json B txs =
     collect_result (\<lambda>(tx, _). case tx of
         InvokeV3 v3 \<Rightarrow> map_err TransactionExecutionError (rpc_invoke_json B v3)
       | InvokeOther _ \<Rightarrow> Inl (TransactionExecutionError
           ''Only Invoke V3 transactions are supported for simulate'')) txs"

definition simulation_flags :: "bool \<Rightarrow> string list" where
  "simulation_flags validate_txs =
     [''RETURN_INITIAL_READS''] @ (if validate_txs then [] else [''SKIP_VALIDATE'']) @ [''SKIP_FEE_CHARGE'']"

definition simulate_and_get_initial_reads ::
  "('f, 'x) reader_lib \<Rightarrow> 'f entry_lib \<Rightarrow> ('f, 'x, 'm) blockifier \<Rightarrow> 'w net \<Rightarrow> ('f, 'x) rpc_executor \<Rightarrow>
     'f block_id \<Rightarrow> (('f, 'x) invoke_transaction \<times> 'f) list \<Rightarrow>
     ('w, 'f executor_error, 'f state_maps) rio" where
  "simulate_and_get_initial_reads L E B N ex b txs =
     rio_bind (rio_lift (simulate_txs_json B txs)) (\<lambda>rpc_txs.
     rio_bind (rio_map_err ReexecutionError (send_rpc_request_async N (ex_rpc_state_reader ex)
         ''starknet_simulateTransactions''
         (JObj [(''block_id'', block_id_json (ser_felt L) b), (''transactions'', JArr rpc_txs),
                (''simulation_flags'', jstrs (simulation_flags (ex_validate_txs ex)))]))) (\<lambda>result.
     rio_lift (and_then (ok_or (TransactionExecutionError
          (''simulateTransactions response missing initial_reads (ensure RETURN_INITIAL_READS '' @
           ''and v0.10 endpoint)'')) (json_get ''initial_reads'' result))
       (\<lambda>v. map_err (\<lambda>e. TransactionExecutionError (''Failed to deserialize initial_reads: '' @ e))
          (deserialize_rpc_initial_reads E v)))))"

definition base_block_info_async ::
  "('f, 'x) reader_lib \<Rightarrow> ('f, 'x, 'm) blockifier \<Rightarrow> 'w net \<Rightarrow> ('f, 'x) rpc_executor \<Rightarrow>
     ('w, 'f executor_error, ('f, 'x) base_block_info) rio" where
  "base_block_info_async L B N ex =
     rio_bind (rio_map_err ReexecutionError (get_block_header_async L N (ex_rpc_state_reader ex))) (\<lambda>header.
     rio_lift (and_then (base_block_info_new L B header (rd_chain_info (ex_rpc_state_reader ex))
          (ec_use_latest_versioned_constants (ex_config ex)))
       (\<lambda>info. Inr (info\<lparr> bb_block_context := (bb_block_context info)
            \<lparr> bc_bouncer_config := ec_bouncer_config (ex_config ex) \<rparr> \<rparr>))))"

fun failed_reexecution :: "reexecution_error failure \<Rightarrow> 'f executor_error failure" where
  "failed_reexecution (Failed e) = Failed (ReexecutionError e)"
| "failed_reexecution (Panicked m) = Panicked m"

text \<open>One class: skipped when it is the default hash, otherwise fetched and put into the manager.\<close>

definition prefetch_class ::
  "'f felt_lib \<Rightarrow> ('f, 'x) reader_lib \<Rightarrow> ('f, 'x) class_lib \<Rightarrow> ('f, 'x, 'm) blockifier \<Rightarrow> 'w net \<Rightarrow>
     ('f, 'x) rpc_executor \<Rightarrow> 'f \<Rightarrow> ('w \<times> 'm, 'f executor_error failure, unit) rio" where
  "prefetch_class F L C B N ex class_hash =
     (if class_hash = felt_default L then rio_lift (Inr ())
      else rio_bind (rio_fst (rio_map_err failed_reexecution
             (get_compiled_classes_async F L C N (ex_rpc_state_reader ex) class_hash)))
           (\<lambda>compiled (w, m). (Inr (), (w, set_and_compile B class_hash compiled m))))"

definition classes_to_fetch :: "('f, 'x, 'm) blockifier \<Rightarrow> 'f state_maps \<Rightarrow> 'f list" where
  "classes_to_fetch B maps =
     hash_set_iter B (map snd (sm_class_hashes maps) @ map fst (sm_declared_contracts maps))"

definition prefetch_classes_into_cache ::
  "'f felt_lib \<Rightarrow> ('f, 'x) reader_lib \<Rightarrow> ('f, 'x) class_lib \<Rightarrow> ('f, 'x, 'm) blockifier \<Rightarrow> 'w net \<Rightarrow>
     ('f, 'x) rpc_executor \<Rightarrow> 'f state_maps \<Rightarrow> ('w \<times> 'm, 'f executor_error failure, unit) rio" where
  "prefetch_classes_into_cache F L C B N ex maps =
     rio_bind (rio_collect (prefetch_class F L C B N ex) (classes_to_fetch B maps))
       (\<lambda>_. rio_lift (Inr ()))"

definition convert_invoke_txs ::
  "('f, 'x, 'm) blockifier \<Rightarrow> ('f, 'x) rpc_executor \<Rightarrow> (('f, 'x) invoke_transaction \<times> 'f) list \<Rightarrow>
     'f executor_error + 'x list" where
  "convert_invoke_txs B ex txs =
     collect_result (\<lambda>(invoke_tx, hash).
       map_err TransactionExecutionError (transaction_from_api B invoke_tx hash
         \<lparr> only_query = False, charge_fee = (max_possible_fee B invoke_tx > 0),
           validate = ex_validate_txs ex, strict_nonce_check = False \<rparr>)) txs"

text \<open>The loop over outputs and hashes that stops at the first reverted transaction.\<close>

fun check_reverted :: "(('f, 'x) execution_output \<times> 'f) list \<Rightarrow> 'f executor_error + unit" where
  "check_reverted [] = Inr ()"
| "check_reverted ((output, hash) # rest) =
     (case eo_revert_error output of
        Some revert_error \<Rightarrow> Inl (TransactionReverted hash revert_error)
      | None \<Rightarrow> check_reverted rest)"

definition collect_messages :: "('f, 'x) execution_output list \<Rightarrow> 'f message_to_l1 list" where
  "collect_messages outputs =
     fold (\<lambda>output l2_to_l1_messages. l2_to_l1_messages @ concat (eo_call_messages output)) outputs []"

definition finish_execution ::
  "('f, 'x) base_block_info \<Rightarrow> 'f list \<Rightarrow> ('f, 'x, 'm) execution_run \<Rightarrow>
     'f executor_error + ('f, 'x) virtual_block_execution_data" where
  "finish_execution info tx_hashes run =
     and_then (collect_result (map_err TransactionExecutionError) (run_results run)) (\<lambda>outputs.
     and_then (check_reverted (zip outputs tx_hashes)) (\<lambda>_.
     and_then (ok_or StateUnavailable (run_block_state run)) (\<lambda>(reads, diff).
     and_then (map_err (\<lambda>e. TransactionExecutionError (''Failed to get initial reads: '' @ e)) reads) (\<lambda>initial_reads.
     and_then (map_err (\<lambda>e. TransactionExecutionError (''Failed to get state diff: '' @ e)) diff) (\<lambda>state_diff.
     and_then (map_err BouncerLockError (run_executed_class_hashes run)) (\<lambda>executed.
       Inr \<lparr> vd_execution_outputs = outputs, vd_initial_reads = initial_reads,
             vd_state_diff = state_diff, vd_executed_class_hashes = executed,
             vd_l2_to_l1_messages = collect_messages outputs, vd_base_block_info = info \<rparr>))))))"

definition execute ::
  "'f felt_lib \<Rightarrow> ('f, 'x) reader_lib \<Rightarrow> 'f entry_lib \<Rightarrow> ('f, 'x) class_lib \<Rightarrow> ('f, 'x, 'm) blockifier \<Rightarrow>
     'w net \<Rightarrow> ('f, 'x) rpc_executor \<Rightarrow> 'f block_id \<Rightarrow> (('f, 'x) invoke_transaction \<times> 'f) list \<Rightarrow>
     ('w \<times> 'm, 'f executor_error failure, ('f, 'x) virtual_block_execution_data) rio" where
  "execute F L E C B N ex b txs =
     rio_bind (rio_map_err Failed (rio_fst (base_block_info_async L B N ex))) (\<lambda>info.
     rio_bind (if ec_prefetch_state (ex_config ex)
               then rio_map_err Failed (rio_fst (simulate_and_get_initial_reads L E B N ex b txs))
               else rio_lift (Inr state_maps_default)) (\<lambda>maps.
     rio_bind (prefetch_classes_into_cache F L C B N ex maps) (\<lambda>_.
     rio_bind (rio_lift (map_err Failed (convert_invoke_txs B ex txs))) (\<lambda>blockifier_txs (w, m).
       (let reader = simulated_reader \<lparr> ss_state_maps = maps, ss_rpc_state_reader = ex_rpc_state_reader ex \<rparr>;
            run = execute_txs B reader m (bb_block_context info) blockifier_txs
        in (map_err Failed (finish_execution info (map snd txs) run), (w, run_manager run)))))))"

section \<open>Reads of the simulated reader\<close>

lemmas blocking_reads =
  get_storage_at_def get_nonce_at_def get_class_hash_at_def get_compiled_class_def
  get_compiled_class_hash_def get_compiled_classes_def is_declared_def

text \<open>
  The state reader the blockifier runs on answers a storage, nonce or class hash read exactly
  from the prefetched state; a value that was not prefetched is an error, never a default.
\<close>

lemma simulated_reader_exact:
  "(sr_storage_at (simulated_reader s) a k = Inr v \<longleftrightarrow> map_of (sm_storage (ss_state_maps s)) (a, k) = Some v) \<and>
   (sr_nonce_at (simulated_reader s) a = Inr v \<longleftrightarrow> map_of (sm_nonces (ss_state_maps s)) a = Some v) \<and>
   (sr_class_hash_at (simulated_reader s) a = Inr v \<longleftrightarrow> map_of (sm_class_hashes (ss_state_maps s)) a = Some v)"
  by (simp add: simulated_reader_def sim_get_storage_at_def sim_get_nonce_at_def
      sim_get_class_hash_at_def blocking_reads split: option.splits)

section \<open>Prefetching\<close>

text \<open>Iterating over a \<open>HashSet\<close> visits each element once, in some order.\<close>

definition hash_set_law :: "('f, 'x, 'm) blockifier \<Rightarrow> bool" where
  "hash_set_law B \<longleftrightarrow> (\<forall>xs. set (hash_set_iter B xs) = set xs \<and> distinct (hash_set_iter B xs))"

lemma prefetch_class_ok:
  assumes "prefetch_class F L C B N ex h (w, m) = (Inr u, (w', m'))"
  shows "if h = felt_default L then m' = m else
     \<exists>c w1. get_compiled_classes_async F L C N (ex_rpc_state_reader ex) h w1 = (Inr c, w') \<and>
       m' = set_and_compile B h c m"
proof (cases "h = felt_default L")
  case False
  with assms obtain c where
    "get_compiled_classes_async F L C N (ex_rpc_state_reader ex) h w = (Inr c, w')"
    "m' = set_and_compile B h c m"
    by (auto simp: prefetch_class_def rio_iffs rio_fst_def split: prod.splits)
  with False show ?thesis by auto
qed (use assms in \<open>simp add: prefetch_class_def\<close>)

lemma prefetch_collect_ok:
  assumes "rio_collect (prefetch_class F L C B N ex) hs (w, m) = (Inr us, (w', m'))"
  shows "\<exists>cs. length cs = length (filter (\<lambda>h. h \<noteq> felt_default L) hs) \<and>
     m' = fold (\<lambda>(h, c). set_and_compile B h c) (zip (filter (\<lambda>h. h \<noteq> felt_default L) hs) cs) m \<and>
     (\<forall>(h, c) \<in> set (zip (filter (\<lambda>h. h \<noteq> felt_default L) hs) cs). \<exists>w1 w2.
        get_compiled_classes_async F L C N (ex_rpc_state_reader ex) h w1 = (Inr c, w2))"
  using assms
proof (induction hs arbitrary: w m us)
  case Nil
  then show ?case by simp
next
  case (Cons h hs)
  from Cons.prems obtain u us' w1 m1 where
    one: "prefetch_class F L C B N ex h (w, m) = (Inr u, (w1, m1))" and
    rest: "rio_collect (prefetch_class F L C B N ex) hs (w1, m1) = (Inr us', (w', m'))"
    unfolding rio_collect_Inr_Cons by auto
  from Cons.IH[OF rest] obtain cs where cs: "length cs = length (filter (\<lambda>h. h \<noteq> felt_default L) hs)"
    "m' = fold (\<lambda>(h, c). set_and_compile B h c) (zip (filter (\<lambda>h. h \<noteq> felt_default L) hs) cs) m1"
    "\<forall>(h, c) \<in> set (zip (filter (\<lambda>h. h \<noteq> felt_default L) hs) cs). \<exists>w1 w2.
        get_compiled_classes_async F L C N (ex_rpc_state_reader ex) h w1 = (Inr c, w2)" by blast
  show ?case
  proof (cases "h = felt_default L")
    case True
    then show ?thesis using prefetch_class_ok[OF one] cs by auto
  next
    case False
    with prefetch_class_ok[OF one] obtain c w0 where
      "get_compiled_classes_async F L C N (ex_rpc_state_reader ex) h w0 = (Inr c, w1)"
      "m1 = set_and_compile B h c m" by auto
    then show ?thesis using cs False by (intro exI[of _ "c # cs"]) auto
  qed
qed

text \<open>
  When prefetching succeeds, the class manager has been given exactly one compiled class, as
  the node served it, for every class hash that the prefetched state mentions as the class of a
  contract or as a declared class, except the default hash.
\<close>

lemma prefetch_classes_complete:
  assumes "hash_set_law B"
    and "prefetch_classes_into_cache F L C B N ex maps (w, m) = (Inr (), (w', m'))"
  shows "\<exists>hcs. m' = fold (\<lambda>(h, c). set_and_compile B h c) hcs m \<and> distinct (map fst hcs) \<and>
     fst ` set hcs = (snd ` set (sm_class_hashes maps) \<union> fst ` set (sm_declared_contracts maps)) - {felt_default L} \<and>
     (\<forall>(h, c) \<in> set hcs. \<exists>w1 w2.
        get_compiled_classes_async F L C N (ex_rpc_state_reader ex) h w1 = (Inr c, w2))"
proof -
  let ?hs = "filter (\<lambda>h. h \<noteq> felt_default L) (classes_to_fetch B maps)"
  from assms(2) obtain us where
    "rio_collect (prefetch_class F L C B N ex) (classes_to_fetch B maps) (w, m) = (Inr us, (w', m'))"
    by (auto simp: prefetch_classes_into_cache_def rio_iffs)
  from prefetch_collect_ok[OF this] obtain cs where "length cs = length ?hs"
    "m' = fold (\<lambda>(h, c). set_and_compile B h c) (zip ?hs cs) m"
    "\<forall>(h, c) \<in> set (zip ?hs cs). \<exists>w1 w2.
        get_compiled_classes_async F L C N (ex_rpc_state_reader ex) h w1 = (Inr c, w2)" by blast
  moreover from this have "map fst (zip ?hs cs) = ?hs" by simp
  moreover from this have "fst ` set (zip ?hs cs) = set ?hs" by (metis list.set_map)
  moreover have "distinct ?hs" "set ?hs = (snd ` set (sm_class_hashes maps) \<union>
      fst ` set (sm_declared_contracts maps)) - {felt_default L}"
    using assms(1) by (auto simp: hash_set_law_def classes_to_fetch_def)
  ultimately show ?thesis by (intro exI[of _ "zip ?hs cs"]) simp
qed

section \<open>Reverted transactions and messages\<close>

lemma check_reverted_Inr:
  "check_reverted xs = Inr u \<longleftrightarrow> (\<forall>(out, h) \<in> set xs. eo_revert_error out = None)"
  by (induction xs rule: check_reverted.induct) (auto split: option.splits)

lemma collect_messages_eq: "collect_messages outs = concat (map (\<lambda>out. concat (eo_call_messages out)) outs)"
proof -
  have "fold (\<lambda>out acc. acc @ concat (eo_call_messages out)) outs acc =
      acc @ concat (map (\<lambda>out. concat (eo_call_messages out)) outs)" for acc
    by (induction outs arbitrary: acc) auto
  then show ?thesis by (simp add: collect_messages_def)
qed

lemma finish_execution_Inr:
  "finish_execution info hs run = Inr d \<Longrightarrow>
     list_all2 (\<lambda>r out. r = Inr out) (run_results run) (vd_execution_outputs d) \<and>
     (\<forall>(out, h) \<in> set (zip (vd_execution_outputs d) hs). eo_revert_error out = None) \<and>
     vd_l2_to_l1_messages d = concat (map (\<lambda>out. concat (eo_call_messages out)) (vd_execution_outputs d)) \<and>
     run_block_state run = Some (Inr (vd_initial_reads d), Inr (vd_state_diff d)) \<and>
     run_executed_class_hashes run = Inr (vd_executed_class_hashes d) \<and> vd_base_block_info d = info"
  by (auto simp: finish_execution_def result_iffs collect_result_Inr check_reverted_Inr collect_messages_eq)

lemma execute_Inr_finish:
  assumes "execute F L E C B N ex b txs s = (Inr d, s')"
  shows "\<exists>info maps btxs m. convert_invoke_txs B ex txs = Inr btxs \<and>
     finish_execution info (map snd txs) (execute_txs B (simulated_reader
        \<lparr> ss_state_maps = maps, ss_rpc_state_reader = ex_rpc_state_reader ex \<rparr>) m
        (bb_block_context info) btxs) = Inr d"
  using assms by (cases s) (auto simp: execute_def rio_iffs Let_def result_iffs split: prod.splits)

text \<open>
  C18: when the virtual block executes, every transaction that was executed succeeded without
  reverting, and the messages to L1 are those of the execution outputs in order of transactions and
  calls; initial reads, state diff and class hashes are the ones of that execution.
\<close>

theorem execute_ok_no_reverts:
  assumes "execute F L E C B N ex b txs s = (Inr d, s')"
  shows "\<exists>maps m btxs. let run = execute_txs B (simulated_reader
         \<lparr> ss_state_maps = maps, ss_rpc_state_reader = ex_rpc_state_reader ex \<rparr>) m
         (bb_block_context (vd_base_block_info d)) btxs in
     convert_invoke_txs B ex txs = Inr btxs \<and>
     list_all2 (\<lambda>r out. r = Inr out) (run_results run) (vd_execution_outputs d) \<and>
     (\<forall>(out, h) \<in> set (zip (vd_execution_outputs d) (map snd txs)). eo_revert_error out = None) \<and>
     vd_l2_to_l1_messages d = concat (map (\<lambda>out. concat (eo_call_messages out)) (vd_execution_outputs d)) \<and>
     run_block_state run = Some (Inr (vd_initial_reads d), Inr (vd_state_diff d)) \<and>
     run_executed_class_hashes run = Inr (vd_executed_class_hashes d)"
proof -
  from execute_Inr_finish[OF assms] obtain info maps btxs m where
    c: "convert_invoke_txs B ex txs = Inr btxs" and
    f: "finish_execution info (map snd txs) (execute_txs B (simulated_reader
        \<lparr> ss_state_maps = maps, ss_rpc_state_reader = ex_rpc_state_reader ex \<rparr>) m
        (bb_block_context info) btxs) = Inr d" by blast
  have "info = vd_base_block_info d" using finish_execution_Inr[OF f] by simp
  then show ?thesis
    using finish_execution_Inr[OF f] c
    by (intro exI[of _ maps] exI[of _ m] exI[of _ btxs]) (simp add: Let_def)
qed

text \<open>
  After an execution whose transactions all ran, the first reverted one is reported with its
  own hash and its revert reason, and nothing else is reported as reverted.
\<close>

lemma finish_execution_reverted_iff:
  assumes "run_results run = map Inr outs" and "length hs = length outs"
  shows "finish_execution info hs run = Inl (TransactionReverted h msg) \<longleftrightarrow>
     (\<exists>i < length outs. eo_revert_error (outs ! i) = Some msg \<and> hs ! i = h \<and>
        (\<forall>j < i. eo_revert_error (outs ! j) = None))"
proof -
  have "collect_result (map_err TransactionExecutionError) (map Inr outs) = Inr outs"
    by (induction outs) auto
  then have "finish_execution info hs run = Inl (TransactionReverted h msg) \<longleftrightarrow>
      check_reverted (zip outs hs) = Inl (TransactionReverted h msg)"
    using assms(1) by (auto simp: finish_execution_def result_iffs)
  also have "\<dots> \<longleftrightarrow> (\<exists>i < length outs. eo_revert_error (outs ! i) = Some msg \<and> hs ! i = h \<and>
        (\<forall>j < i. eo_revert_error (outs ! j) = None))"
    using assms(2)
  proof (induction outs hs rule: list_induct2')
    case (4 out outs k hs)
    then show ?case
      by (cases "eo_revert_error out") (auto simp: All_less_Suc2 Ex_less_Suc2)
  qed simp_all
  finally show ?thesis .
qed

section \<open>A small blockifier for the witnesses\<close>

text \<open>
  Transactions and class data are numbers, the class manager is the list of classes it was given,
  the node answers every request, and an execution runs every transaction with one message each;
  the transaction 0 reverts.
\<close>

definition demo_answer_net :: "nat net" where
  "demo_answer_net = \<lparr>
     http_send = (\<lambda>url p t. (Inr \<lparr> resp_status = 200,
        resp_json = Inr (JObj [(''result'', JObj []), (''id'', JNum 0)]) \<rparr>, t + 1)),
     now = (\<lambda>t. (t, t)), instant_add = (\<lambda>t d. Some (t + d)),
     gloo_sleep = (\<lambda>d t. if u32_millis d then Some (t + d) else None), sleep = (\<lambda>d t. ((), t + d)) \<rparr>"

definition demo_classes :: "(felt252, nat) class_lib" where
  "demo_classes = \<lparr>
     de_contract_class = (\<lambda>v. Inr (Sierra 5)), sierra_from = (\<lambda>x. x),
     extract_sierra_version = (\<lambda>x. Inr 1), json_to_string = (\<lambda>v. Inr []),
     casm_try_from_json_string = (\<lambda>t v. Inr 7), gz_decode = (\<lambda>bs. Inl ''corrupt''),
     parse_program = (\<lambda>t. Inl ''bad program''), compiled_class_v0_try_from = (\<lambda>c. Inl ''bad class''),
     usize_bits = 32 \<rparr>"

definition demo_output :: "nat \<Rightarrow> (felt252, nat) execution_output" where
  "demo_output tx = \<lparr> eo_revert_error = (if tx = 0 then Some ''reverted'' else None),
     eo_call_messages = [[\<lparr> msg_from_address = felt_of_nat tx, msg_to_address = felt_of_nat 1, msg_payload = [] \<rparr>]],
     eo_info = tx \<rparr>"

definition demo_blockifier ::
  "(felt252, nat, (felt252 \<times> nat compiled_classes) list) blockifier" where
  "demo_blockifier = \<lparr>
     concat_counts = (\<lambda>a b c d. felt_of_nat 0),
     latest_constants = \<lparr> vc_enable_casm_hash_migration = True,
        vc_min_sierra_version_for_sierra_gas = (1, 7, 0), vc_rest = 0 \<rparr>,
     constants_get = (\<lambda>v. Inl ''unknown version''),
     bouncer_config_default = 0,
     max_possible_fee = (\<lambda>tx. 0),
     transaction_from_api = (\<lambda>tx h f. Inr (felt_value h)),
     rpc_invoke_json = (\<lambda>tx. Inr JNull),
     set_and_compile = (\<lambda>h c m. (h, c) # m),
     execute_txs = (\<lambda>rd m ctx txs. \<lparr> run_results = map (\<lambda>tx. Inr (demo_output tx)) txs,
        run_block_state = Some (Inr state_maps_default, Inr state_maps_default),
        run_executed_class_hashes = Inr [], run_manager = m \<rparr>),
     hash_set_iter = remdups \<rparr>"

definition demo_chain_info :: "felt252 chain_info" where
  "demo_chain_info = \<lparr> ci_chain_id = Sepolia, strk_fee_token_address = felt_of_nat 1,
     eth_fee_token_address = felt_of_nat 2, is_l3 = False \<rparr>"

definition demo_executor :: "(felt252, nat) rpc_executor" where
  "demo_executor = executor_new ''u'' demo_chain_info Latest
     \<lparr> ec_prefetch_state = False, ec_bouncer_config = 3, ec_use_latest_versioned_constants = True \<rparr>"

lemma demo_hash_set_law: "hash_set_law demo_blockifier"
  by (simp add: hash_set_law_def demo_blockifier_def)

lemma demo_send:
  "send_rpc_request_async demo_answer_net rd m p t = (Inr (JObj []), t + 1)"
  by (simp add: send_rpc_request_async_def rio_bind_apply rio_map_err_apply demo_answer_net_def
      response_value_def is_success_def de_rpc_response_def de_success_def struct_fields_def)

lemma demo_classes_async:
  "get_compiled_classes_async stark_felt demo_reader demo_classes demo_answer_net rd h t =
     (Inr (ClassesV1 7 5), t + 2)"
  by (simp add: get_compiled_classes_async_def get_contract_class_async_def fetch_casm_def
      rio_bind_apply rio_map_err_apply demo_send demo_classes_def)

lemma demo_base_block_info:
  "\<exists>info. base_block_info_async demo_reader demo_blockifier demo_answer_net demo_executor t = (Inr info, t + 1)"
proof -
  obtain bi where "header_try_into demo_reader (demo_header 3) = Inr bi"
    by (simp add: header_try_into_def parse_gas_price_def demo_reader_def demo_header_def Let_def)
  then show ?thesis
    by (simp add: base_block_info_async_def get_block_header_async_def rio_bind_apply rio_map_err_apply
        demo_send base_block_info_new_def Let_def demo_executor_def executor_new_def)
       (simp add: demo_reader_def demo_blockifier_def)
qed

lemma demo_execute:
  "\<exists>d. execute stark_felt demo_reader demo_entries demo_classes demo_blockifier demo_answer_net
     demo_executor Latest [(tx, felt_of_nat 4)] (0, []) = (Inr d, (1, []))"
proof -
  obtain info where i: "base_block_info_async demo_reader demo_blockifier demo_answer_net demo_executor 0 = (Inr info, 1)"
    using demo_base_block_info[of 0] by auto
  have "(4 :: nat) mod stark_prime = 4" by (simp add: stark_prime_def)
  then have c: "convert_invoke_txs demo_blockifier demo_executor [(tx, felt_of_nat 4)] = Inr [4]"
    by (simp add: convert_invoke_txs_def demo_blockifier_def)
  have p: "\<not> ec_prefetch_state (ex_config demo_executor)"
    by (simp add: demo_executor_def executor_new_def)
  have h: "classes_to_fetch demo_blockifier state_maps_default = []"
    by (simp add: classes_to_fetch_def state_maps_default_def demo_blockifier_def)
  have r: "\<exists>d. finish_execution info hs (execute_txs demo_blockifier rd m ctx [4]) = Inr d"
    "run_manager (execute_txs demo_blockifier rd m ctx [4]) = m" for hs rd m ctx
    by (cases hs; simp add: finish_execution_def demo_blockifier_def demo_output_def)+
  show ?thesis
    using r(1)[of "[felt_of_nat 4]"]
    by (simp add: execute_def rio_bind_apply rio_map_err_apply rio_fst_def i c p h r(2)
        prefetch_classes_into_cache_def Let_def) (metis map_err_simps(2))
qed

theorem execute_ok_no_reverts_witness:
  "\<exists>d s'. execute stark_felt demo_reader demo_entries demo_classes demo_blockifier demo_answer_net
      demo_executor Latest [(InvokeOther 0, felt_of_nat 4)] (0, []) = (Inr d, s') \<and>
    vd_l2_to_l1_messages d = concat (map (\<lambda>out. concat (eo_call_messages out)) (vd_execution_outputs d))"
proof -
  obtain d where d: "execute stark_felt demo_reader demo_entries demo_classes demo_blockifier demo_answer_net
      demo_executor Latest [(InvokeOther 0, felt_of_nat 4)] (0, []) = (Inr d, (1, []))"
    using demo_execute by blast
  with execute_ok_no_reverts[OF d] show ?thesis by (auto simp: Let_def)
qed

end
