(* ===== verification/ProofQuery.thy ===== *)
theory ProofQuery
  imports StateMaps
begin

text \<open>
  The query part of \<open>running/storage_proofs.rs\<close>: a storage proof query, its flattening into items,
  the split into chunks of bounded size and the merge of the chunk proofs. The proof types are the
  ones of \<open>starknet_rust_core\<close>; node maps are insertion-ordered maps. Addresses and class hashes are
  field elements.
\<close>

record 'f contract_storage_keys =
  csk_contract_address :: 'f
  csk_storage_keys :: "'f list"

record 'f proofs_query =
  q_class_hashes :: "'f list"
  q_contract_addresses :: "'f list"
  q_contract_storage_keys :: "'f contract_storage_keys list"

datatype 'f merkle_node = BinaryNode 'f 'f | EdgeNode 'f u64 'f

type_synonym 'f node_map = "('f, 'f merkle_node) index_map"

record 'f contract_leaf_data =
  leaf_nonce :: 'f
  leaf_class_hash :: 'f
  leaf_storage_root :: "'f option"

record 'f contracts_proof =
  cp_nodes :: "'f node_map"
  cp_contract_leaves_data :: "'f contract_leaf_data list"

record 'f global_roots =
  contracts_tree_root :: 'f
  classes_tree_root :: 'f
  gr_block_hash :: 'f

record 'f rpc_storage_proof =
  rp_classes_proof :: "'f node_map"
  rp_contracts_proof :: "'f contracts_proof"
  rp_contracts_storage_proofs :: "'f node_map list"
  rp_global_roots :: "'f global_roots"

definition MAX_KEYS_PER_REQUEST :: nat where
  "MAX_KEYS_PER_REQUEST = 100"

definition count_total_keys :: "'f proofs_query \<Rightarrow> nat" where
  "count_total_keys query =
     length (q_class_hashes query) + length (q_contract_addresses query) +
     sum_list (map (\<lambda>csk. length (csk_storage_keys csk)) (q_contract_storage_keys query))"

datatype 'f query_item = ClassHash 'f | ContractAddress 'f | StorageKey 'f 'f

definition flatten_csk :: "'f contract_storage_keys list \<Rightarrow> 'f query_item list" where
  "flatten_csk csks =
     concat (map (\<lambda>c. map (StorageKey (csk_contract_address c)) (csk_storage_keys c)) csks)"

definition flatten_query :: "'f proofs_query \<Rightarrow> 'f query_item list" where
  "flatten_query query =
     map ClassHash (q_class_hashes query) @ map ContractAddress (q_contract_addresses query) @
     flatten_csk (q_contract_storage_keys query)"

text \<open>\<open>match query.contract_storage_keys.last_mut()\<close>\<close>

definition push_storage_key :: "'f \<Rightarrow> 'f \<Rightarrow> 'f contract_storage_keys list \<Rightarrow> 'f contract_storage_keys list" where
  "push_storage_key a k csks =
     (if csks \<noteq> [] \<and> csk_contract_address (last csks) = a
      then butlast csks @ [(last csks)\<lparr> csk_storage_keys := csk_storage_keys (last csks) @ [k] \<rparr>]
      else csks @ [\<lparr> csk_contract_address = a, csk_storage_keys = [k] \<rparr>])"

fun collect_step :: "'f query_item \<Rightarrow> 'f proofs_query \<Rightarrow> 'f proofs_query" where
  "collect_step (ClassHash h) q = q\<lparr> q_class_hashes := q_class_hashes q @ [h] \<rparr>"
| "collect_step (ContractAddress a) q = q\<lparr> q_contract_addresses := q_contract_addresses q @ [a] \<rparr>"
| "collect_step (StorageKey a k) q =
     q\<lparr> q_contract_storage_keys := push_storage_key a k (q_contract_storage_keys q) \<rparr>"

definition proofs_query_default :: "'f proofs_query" where
  "proofs_query_default = \<lparr> q_class_hashes = [], q_contract_addresses = [], q_contract_storage_keys = [] \<rparr>"

definition collect_query :: "'f query_item list \<Rightarrow> 'f proofs_query" where
  "collect_query items = fold collect_step items proofs_query_default"

text \<open>\<open>slice::chunks\<close>\<close>

function chunks :: "nat \<Rightarrow> 'a list \<Rightarrow> 'a list list" where
  "chunks n xs = (if n = 0 \<or> xs = [] then [] else take n xs # chunks n (drop n xs))"
  by auto
termination by (relation "measure (\<lambda>(n, xs). length xs)") auto

declare chunks.simps [simp del]

definition split_query :: "'f proofs_query \<Rightarrow> nat \<Rightarrow> panic + 'f proofs_query list" where
  "split_query query max_keys =
     (if max_keys = 0 then Inl (Panic ''max_keys must be positive'')
      else Inr (map collect_query (chunks max_keys (flatten_query query))))"

section \<open>Merging\<close>

fun merge_storage ::
  "('f \<rightharpoonup> nat) \<Rightarrow> ('f contract_storage_keys \<times> 'f node_map) list \<Rightarrow> 'f node_map list \<Rightarrow>
     panic + 'f node_map list" where
  "merge_storage addr_to_idx [] acc = Inr acc"
| "merge_storage addr_to_idx ((csk, storage_proof) # rest) acc =
     (case addr_to_idx (csk_contract_address csk) of
        None \<Rightarrow> Inl (Panic ''chunk address not in original query'')
      | Some idx \<Rightarrow> merge_storage addr_to_idx rest (acc[idx := im_extend (acc ! idx) storage_proof]))"

fun merge_chunks ::
  "('f \<rightharpoonup> nat) \<Rightarrow> ('f proofs_query \<times> 'f rpc_storage_proof) list \<Rightarrow> 'f rpc_storage_proof \<Rightarrow>
     panic + 'f rpc_storage_proof" where
  "merge_chunks addr_to_idx [] acc = Inr acc"
| "merge_chunks addr_to_idx ((chunk_query, proof) # rest) acc =
     and_then (merge_storage addr_to_idx
         (zip (q_contract_storage_keys chunk_query) (rp_contracts_storage_proofs proof))
         (rp_contracts_storage_proofs acc))
       (\<lambda>storage. merge_chunks addr_to_idx rest (acc\<lparr>
          rp_classes_proof := im_extend (rp_classes_proof acc) (rp_classes_proof proof),
          rp_contracts_proof := \<lparr>
            cp_nodes = im_extend (cp_nodes (rp_contracts_proof acc)) (cp_nodes (rp_contracts_proof proof)),
            cp_contract_leaves_data = cp_contract_leaves_data (rp_contracts_proof acc) @
              cp_contract_leaves_data (rp_contracts_proof proof) \<rparr>,
          rp_contracts_storage_proofs := storage \<rparr>))"

definition addr_to_idx :: "'f proofs_query \<Rightarrow> 'f \<rightharpoonup> nat" where
  "addr_to_idx query = map_of (rev (zip (map csk_contract_address (q_contract_storage_keys query))
     [0..<length (q_contract_storage_keys query)]))"

definition merge_storage_proofs ::
  "'f rpc_storage_proof list \<Rightarrow> 'f proofs_query list \<Rightarrow> 'f proofs_query \<Rightarrow> panic + 'f rpc_storage_proof" where
  "merge_storage_proofs proofs split_queries original_query =
     (if length proofs \<noteq> length split_queries then Inl (Panic ''proofs/queries length mismatch'')
      else case proofs of
        [] \<Rightarrow> Inl (Panic ''cannot merge zero proofs'')
      | first # _ \<Rightarrow>
          merge_chunks (addr_to_idx original_query) (zip split_queries proofs)
            \<lparr> rp_classes_proof = [], rp_contracts_proof = \<lparr> cp_nodes = [], cp_contract_leaves_data = [] \<rparr>,
              rp_contracts_storage_proofs = replicate (length (q_contract_storage_keys original_query)) [],
              rp_global_roots = rp_global_roots first \<rparr>)"

section \<open>Splitting loses nothing\<close>

fun item_rank :: "'f query_item \<Rightarrow> nat" where
  "item_rank (ClassHash h) = 0"
| "item_rank (ContractAddress a) = 1"
| "item_rank (StorageKey a k) = 2"

lemma flatten_push: "flatten_csk (push_storage_key a k csks) = flatten_csk csks @ [StorageKey a k]"
  by (cases csks rule: rev_cases) (auto simp: push_storage_key_def flatten_csk_def)

lemma fold_collect_step:
  "q_class_hashes (fold collect_step xs q) =
     q_class_hashes q @ concat (map (\<lambda>i. case i of ClassHash h \<Rightarrow> [h] | _ \<Rightarrow> []) xs)"
  "q_contract_addresses (fold collect_step xs q) =
     q_contract_addresses q @ concat (map (\<lambda>i. case i of ContractAddress a \<Rightarrow> [a] | _ \<Rightarrow> []) xs)"
  "flatten_csk (q_contract_storage_keys (fold collect_step xs q)) =
     flatten_csk (q_contract_storage_keys q) @ filter (\<lambda>i. item_rank i = 2) xs"
proof (induction xs arbitrary: q)
  case (Cons i xs)
  { case 1 show ?case by (cases i) (simp_all add: Cons.IH) }
  { case 2 show ?case by (cases i) (simp_all add: Cons.IH) }
  { case 3 show ?case by (cases i) (simp_all add: Cons.IH flatten_push) }
qed simp_all

lemma flatten_collect:
  "flatten_query (collect_query xs) =
     filter (\<lambda>i. item_rank i = 0) xs @ filter (\<lambda>i. item_rank i = 1) xs @ filter (\<lambda>i. item_rank i = 2) xs"
proof -
  have "map ClassHash (concat (map (\<lambda>i. case i of ClassHash h \<Rightarrow> [h] | _ \<Rightarrow> []) xs)) =
      filter (\<lambda>i. item_rank i = 0) xs"
    by (induction xs) (auto split: query_item.splits)
  moreover have "map ContractAddress (concat (map (\<lambda>i. case i of ContractAddress a \<Rightarrow> [a] | _ \<Rightarrow> []) xs)) =
      filter (\<lambda>i. item_rank i = 1) xs"
    by (induction xs) (auto split: query_item.splits)
  ultimately show ?thesis
    by (simp add: flatten_query_def collect_query_def proofs_query_default_def fold_collect_step)
       (simp add: flatten_csk_def)
qed

lemma item_rank_cases: "item_rank i = 0 \<or> item_rank i = 1 \<or> item_rank i = 2"
  by (cases i) auto

lemma sorted_rank_filter:
  "sorted (map item_rank xs) \<Longrightarrow>
   filter (\<lambda>i. item_rank i = 0) xs @ filter (\<lambda>i. item_rank i = 1) xs @ filter (\<lambda>i. item_rank i = 2) xs = xs"
proof (induction xs)
  case (Cons i xs)
  have none: "filter (\<lambda>j. item_rank j = r) xs = []" if "r < item_rank i" for r
    using Cons.prems that by (auto simp: filter_empty_conv)
  show ?case
  proof (cases i)
    case (ClassHash h)
    then show ?thesis using Cons by simp
  next
    case (ContractAddress a)
    then show ?thesis using Cons none[of 0] by simp
  next
    case (StorageKey a k)
    then show ?thesis using Cons none[of 0] none[of 1] by simp
  qed
qed simp

lemma sorted_rank_flatten: "sorted (map item_rank (flatten_query q))"
proof -
  have r: "map item_rank (map ClassHash xs) = replicate (length xs) 0"
    "map item_rank (map ContractAddress xs) = replicate (length xs) 1" for xs :: "'a list"
    by (induction xs) auto
  have "map item_rank (flatten_csk cs) = replicate (length (flatten_csk cs)) 2" for cs :: "'a contract_storage_keys list"
    by (rule replicate_eqI) (auto simp: flatten_csk_def)
  then show ?thesis unfolding flatten_query_def map_append r by (simp add: sorted_append)
qed

lemma concat_chunks: "0 < n \<Longrightarrow> concat (chunks n xs) = xs"
  by (induction n xs rule: chunks.induct) (subst chunks.simps, simp)

lemma chunks_bounds: "c \<in> set (chunks n xs) \<Longrightarrow> c \<noteq> [] \<and> length c \<le> n"
proof (induction n xs rule: chunks.induct)
  case (1 n xs)
  then show ?case by (subst (asm) (2) chunks.simps) (auto split: if_splits)
qed

lemma chunks_sorted: "sorted (map item_rank xs) \<Longrightarrow> c \<in> set (chunks n xs) \<Longrightarrow> sorted (map item_rank c)"
proof (induction n xs rule: chunks.induct)
  case (1 n xs)
  have "sorted (map item_rank (drop n xs))" "sorted (map item_rank (take n xs))"
    using 1(2) by (simp_all add: sorted_wrt_take sorted_wrt_drop take_map[symmetric] drop_map[symmetric])
  moreover have "\<not> (n = 0 \<or> xs = []) \<and> (c = take n xs \<or> c \<in> set (chunks n (drop n xs)))"
    using 1(3) by (subst (asm) chunks.simps) (auto split: if_splits)
  ultimately show ?case using 1(1) by blast
qed

lemma length_flatten: "length (flatten_query q) = count_total_keys q"
  by (simp add: flatten_query_def flatten_csk_def count_total_keys_def length_concat comp_def)

lemma flatten_chunk:
  "c \<in> set (chunks n (flatten_query q)) \<Longrightarrow> flatten_query (collect_query c) = c"
  using sorted_rank_filter[OF chunks_sorted[OF sorted_rank_flatten, of c n q]]
  by (simp only: flatten_collect)

text \<open>
  C4: splitting a query for a positive bound never panics, and gives queries that together ask,
  in the same order, for exactly the class hashes, contracts and storage keys of the original one;
  each part is non-empty and within the bound.
\<close>

theorem split_query_lossless:
  assumes "0 < max_keys"
  shows "\<exists>parts. split_query q max_keys = Inr parts \<and>
     concat (map flatten_query parts) = flatten_query q \<and>
     (\<forall>part \<in> set parts. 0 < count_total_keys part \<and> count_total_keys part \<le> max_keys)"
proof -
  let ?cs = "chunks max_keys (flatten_query q)"
  have "map flatten_query (map collect_query ?cs) = ?cs"
    unfolding map_map by (rule map_idI) (simp add: flatten_chunk)
  moreover have "0 < count_total_keys (collect_query c) \<and> count_total_keys (collect_query c) \<le> max_keys"
    if "c \<in> set ?cs" for c
    using chunks_bounds[OF that] flatten_chunk[OF that] by (metis length_flatten length_greater_0_conv)
  ultimately show ?thesis
    using assms by (auto simp: split_query_def concat_chunks)
qed

definition demo_query :: "nat proofs_query" where
  "demo_query = \<lparr> q_class_hashes = [1, 2], q_contract_addresses = [10, 20],
     q_contract_storage_keys = [\<lparr> csk_contract_address = 10, csk_storage_keys = [5, 6, 7] \<rparr>,
       \<lparr> csk_contract_address = 20, csk_storage_keys = [] \<rparr>] \<rparr>"

theorem split_query_lossless_witness:
  "(0 :: nat) < 3 \<and> (\<exists>parts. split_query demo_query 3 = Inr parts \<and>
     concat (map flatten_query parts) = [ClassHash 1, ClassHash 2, ContractAddress 10, ContractAddress 20,
       StorageKey 10 5, StorageKey 10 6, StorageKey 10 7])"
  using split_query_lossless[of 3 demo_query]
  by (auto simp: demo_query_def flatten_query_def flatten_csk_def)

section \<open>Insertion-ordered maps under extension\<close>

lemma im_insert_comm:
  "k \<in> fst ` set m \<Longrightarrow> k \<noteq> k' \<Longrightarrow> im_insert k v (im_insert k' v' m) = im_insert k' v' (im_insert k v m)"
  by (induction k v m rule: im_insert.induct) auto

lemma im_insert_twice: "im_insert k v (im_insert k v' m) = im_insert k v m"
  by (induction k v m rule: im_insert.induct) auto

lemma im_insert_extend_comm:
  "k \<in> fst ` set m \<Longrightarrow> k \<notin> fst ` set ys \<Longrightarrow>
   im_insert k v (im_extend m ys) = im_extend (im_insert k v m) ys"
proof (induction ys arbitrary: m)
  case (Cons y ys)
  obtain k' v' where y: "y = (k', v')" by (cases y)
  have "k \<in> fst ` set (im_insert k' v' m)" using Cons.prems(1) by (simp add: set_keys_im_insert)
  then show ?case
    using Cons.IH[of "im_insert k' v' m"] Cons.prems y im_insert_comm[OF Cons.prems(1), of k' v v']
    by (simp add: im_extend_def)
qed (simp add: im_extend_def)

lemma im_extend_insert:
  "distinct (map fst ys) \<Longrightarrow> im_extend m (im_insert k v ys) = im_insert k v (im_extend m ys)"
proof (induction ys arbitrary: m)
  case Nil
  then show ?case by (simp add: im_extend_def)
next
  case (Cons y ys)
  obtain k' v' where y: "y = (k', v')" by (cases y)
  show ?case
  proof (cases "k' = k")
    case True
    then have "k \<in> fst ` set (im_insert k v' m)" "k \<notin> fst ` set ys"
      using Cons.prems y by (auto simp: set_keys_im_insert)
    from im_insert_extend_comm[OF this] show ?thesis
      using True y by (simp add: im_extend_def im_insert_twice)
  next
    case False
    then show ?thesis using Cons y by (simp add: im_extend_def)
  qed
qed

text \<open>Extending by a map that was itself built by insertions is extending by these insertions.\<close>

lemma im_extend_collected: "im_extend m (im_extend [] xs) = im_extend m xs"
proof (induction xs rule: rev_induct)
  case (snoc x xs)
  obtain k v where x: "x = (k, v)" by (cases x)
  have "im_extend [] (xs @ [x]) = im_insert k v (im_extend [] xs)"
    "im_extend m (xs @ [x]) = im_insert k v (im_extend m xs)"
    by (simp_all add: im_extend_def x)
  then show ?case using snoc by (simp add: im_extend_insert distinct_im_extend)
qed simp

section \<open>Merging the chunk proofs\<close>

text \<open>
  The documented behaviour of \<open>starknet_getStorageProof\<close>: the node maps collect the Merkle paths of
  the requested class hashes, contracts and keys, in order; the leaves and the storage proofs list
  one entry per requested contract. A node is given by its paths, leaves and roots.
\<close>

record 'f proof_node =
  pn_class_path :: "'f \<Rightarrow> ('f \<times> 'f merkle_node) list"
  pn_contract_path :: "'f \<Rightarrow> ('f \<times> 'f merkle_node) list"
  pn_leaf :: "'f \<Rightarrow> 'f contract_leaf_data"
  pn_storage_path :: "'f \<Rightarrow> 'f \<Rightarrow> ('f \<times> 'f merkle_node) list"
  pn_roots :: "'f global_roots"

definition storage_answer :: "'f proof_node \<Rightarrow> 'f contract_storage_keys \<Rightarrow> 'f node_map" where
  "storage_answer P csk = im_extend [] (concat (map (pn_storage_path P (csk_contract_address csk)) (csk_storage_keys csk)))"

definition proof_answer :: "'f proof_node \<Rightarrow> 'f proofs_query \<Rightarrow> 'f rpc_storage_proof" where
  "proof_answer P q = \<lparr>
     rp_classes_proof = im_extend [] (concat (map (pn_class_path P) (q_class_hashes q))),
     rp_contracts_proof = \<lparr>
       cp_nodes = im_extend [] (concat (map (pn_contract_path P) (q_contract_addresses q))),
       cp_contract_leaves_data = map (pn_leaf P) (q_contract_addresses q) \<rparr>,
     rp_contracts_storage_proofs = map (storage_answer P) (q_contract_storage_keys q),
     rp_global_roots = pn_roots P \<rparr>"

definition keys_of :: "'f \<Rightarrow> 'f contract_storage_keys list \<Rightarrow> 'f list" where
  "keys_of a csks = concat (map (\<lambda>c. if csk_contract_address c = a then csk_storage_keys c else []) csks)"

definition query_addresses :: "'f proofs_query \<Rightarrow> 'f list" where
  "query_addresses q = map csk_contract_address (q_contract_storage_keys q)"

lemma addr_to_idx_nth:
  assumes "distinct (query_addresses q)"
  shows "addr_to_idx q a = Some i \<longleftrightarrow> i < length (query_addresses q) \<and> query_addresses q ! i = a"
proof -
  let ?z = "zip (query_addresses q) [0..<length (query_addresses q)]"
  have "distinct (map fst ?z)" "distinct (map fst (rev ?z))" "set (rev ?z) = set ?z"
    using assms by (simp_all flip: rev_map)
  then have "map_of (rev ?z) = map_of ?z" using map_of_inject_set by metis
  then have "addr_to_idx q = map_of ?z"
    by (simp add: addr_to_idx_def query_addresses_def)
  moreover have "map_of ?z a = Some i \<longleftrightarrow> (a, i) \<in> set ?z"
    using \<open>distinct (map fst ?z)\<close> by (simp only: map_of_eq_Some_iff)
  ultimately show ?thesis by (auto simp: in_set_zip)
qed

lemma keys_of_simps:
  "keys_of a [] = []"
  "keys_of a (c # csks) = (if csk_contract_address c = a then csk_storage_keys c else []) @ keys_of a csks"
  by (simp_all add: keys_of_def)

lemma merge_storage_answers:
  assumes idx: "\<And>a i. idx a = Some i \<longleftrightarrow> i < length as \<and> as ! i = a" and "distinct as"
    and "csk_contract_address ` set csks \<subseteq> set as" and "length acc = length as"
  shows "\<exists>acc'. merge_storage idx (zip csks (map (storage_answer P) csks)) acc = Inr acc' \<and>
     length acc' = length as \<and>
     (\<forall>i < length as. acc' ! i = im_extend (acc ! i) (concat (map (pn_storage_path P (as ! i)) (keys_of (as ! i) csks))))"
  using assms(3,4)
proof (induction csks arbitrary: acc)
  case Nil
  then show ?case by (simp add: keys_of_def)
next
  case (Cons c csks)
  obtain j where j: "j < length as" "as ! j = csk_contract_address c"
    using Cons.prems(1) by (auto simp: in_set_conv_nth)
  then have idx_j: "idx (csk_contract_address c) = Some j" by (simp add: idx)
  let ?acc = "acc[j := im_extend (acc ! j) (storage_answer P c)]"
  obtain acc' where acc': "merge_storage idx (zip csks (map (storage_answer P) csks)) ?acc = Inr acc'"
    "length acc' = length as" and nth: "\<And>i. i < length as \<Longrightarrow> acc' ! i =
      im_extend (?acc ! i) (concat (map (pn_storage_path P (as ! i)) (keys_of (as ! i) csks)))"
    using Cons.IH[of ?acc] Cons.prems by auto
  have "acc' ! i = im_extend (acc ! i) (concat (map (pn_storage_path P (as ! i)) (keys_of (as ! i) (c # csks))))"
    if i: "i < length as" for i
  proof (cases "i = j")
    case True
    then have "?acc ! i = im_extend (acc ! i) (concat (map (pn_storage_path P (as ! i)) (csk_storage_keys c)))"
      using i Cons.prems(2) j by (simp add: storage_answer_def im_extend_collected)
    then show ?thesis using nth[OF i] j True by (simp add: keys_of_def im_extend_append)
  next
    case False
    then have "as ! i \<noteq> csk_contract_address c" using i j assms(2) by (metis nth_eq_iff_index_eq)
    then show ?thesis using nth[OF i] False by (simp add: keys_of_def)
  qed
  with acc' idx_j show ?case by auto
qed

text \<open>The class hashes, contracts and keys among a list of items.\<close>

definition item_classes :: "'f query_item list \<Rightarrow> 'f list" where
  "item_classes xs = concat (map (\<lambda>i. case i of ClassHash h \<Rightarrow> [h] | _ \<Rightarrow> []) xs)"

definition item_contracts :: "'f query_item list \<Rightarrow> 'f list" where
  "item_contracts xs = concat (map (\<lambda>i. case i of ContractAddress a \<Rightarrow> [a] | _ \<Rightarrow> []) xs)"

definition item_keys :: "'f \<Rightarrow> 'f query_item list \<Rightarrow> 'f list" where
  "item_keys a xs = concat (map (\<lambda>i. case i of StorageKey b k \<Rightarrow> if b = a then [k] else [] | _ \<Rightarrow> []) xs)"

lemma item_append [simp]:
  "item_classes (xs @ ys) = item_classes xs @ item_classes ys"
  "item_contracts (xs @ ys) = item_contracts xs @ item_contracts ys"
  "item_keys a (xs @ ys) = item_keys a xs @ item_keys a ys"
  by (simp_all add: item_classes_def item_contracts_def item_keys_def)

lemma item_empty [simp]: "item_classes [] = []" "item_contracts [] = []" "item_keys a [] = []"
  by (simp_all add: item_classes_def item_contracts_def item_keys_def)

lemma keys_of_flatten: "keys_of a csks = item_keys a (flatten_csk csks)"
proof (induction csks)
  case (Cons c csks)
  have "item_keys a (map (StorageKey b) ks) = (if b = a then ks else [])" for b ks
    by (induction ks) (simp_all add: item_keys_def)
  then show ?case using Cons by (simp add: keys_of_def flatten_csk_def)
qed (simp add: keys_of_def flatten_csk_def)

lemma collect_query_items:
  "q_class_hashes (collect_query xs) = item_classes xs"
  "q_contract_addresses (collect_query xs) = item_contracts xs"
  "keys_of a (q_contract_storage_keys (collect_query xs)) = item_keys a xs"
proof -
  show "q_class_hashes (collect_query xs) = item_classes xs"
    "q_contract_addresses (collect_query xs) = item_contracts xs"
    by (simp_all add: collect_query_def fold_collect_step proofs_query_default_def item_classes_def item_contracts_def)
  have "item_keys a (filter (\<lambda>i. item_rank i = 2) xs) = item_keys a xs"
    by (induction xs) (auto simp: item_keys_def split: query_item.splits)
  then show "keys_of a (q_contract_storage_keys (collect_query xs)) = item_keys a xs"
    by (simp add: keys_of_flatten collect_query_def fold_collect_step proofs_query_default_def)
       (simp add: flatten_csk_def)
qed

lemma flatten_query_items:
  "item_classes (flatten_query q) = q_class_hashes q"
  "item_contracts (flatten_query q) = q_contract_addresses q"
  "item_keys a (flatten_query q) = keys_of a (q_contract_storage_keys q)"
proof -
  have m: "item_classes (map ClassHash hs) = hs" "item_contracts (map ClassHash hs) = []"
    "item_keys a (map ClassHash hs) = []" "item_classes (map ContractAddress hs) = []"
    "item_contracts (map ContractAddress hs) = hs" "item_keys a (map ContractAddress hs) = []"
    for hs :: "'a list" and a
    by (induction hs) (simp_all add: item_classes_def item_contracts_def item_keys_def)
  have "item_classes (flatten_csk cs) = []" "item_contracts (flatten_csk cs) = []"
    for cs :: "'a contract_storage_keys list"
    by (auto simp: item_classes_def item_contracts_def flatten_csk_def)
  with m show "item_classes (flatten_query q) = q_class_hashes q"
    "item_contracts (flatten_query q) = q_contract_addresses q"
    "item_keys a (flatten_query q) = keys_of a (q_contract_storage_keys q)"
    by (simp_all add: flatten_query_def keys_of_flatten)
qed

lemma push_storage_key_addresses:
  "csk_contract_address ` set (push_storage_key a k csks) \<subseteq> insert a (csk_contract_address ` set csks)"
  by (cases csks rule: rev_cases) (auto simp: push_storage_key_def)

definition key_addresses :: "'f query_item list \<Rightarrow> 'f set" where
  "key_addresses xs = {a. \<exists>k. StorageKey a k \<in> set xs}"

lemma key_addresses_simps [simp]:
  "key_addresses (xs @ ys) = key_addresses xs \<union> key_addresses ys"
  "key_addresses (StorageKey a k # xs) = insert a (key_addresses xs)"
  "key_addresses (ClassHash h # xs) = key_addresses xs"
  "key_addresses (ContractAddress h # xs) = key_addresses xs"
  "key_addresses [] = {}"
  by (auto simp: key_addresses_def)

lemma collect_step_addresses:
  "csk_contract_address ` set (q_contract_storage_keys (collect_step i q)) \<subseteq>
     key_addresses [i] \<union> csk_contract_address ` set (q_contract_storage_keys q)"
proof (cases i)
  case (StorageKey a k)
  then show ?thesis using push_storage_key_addresses[of a k "q_contract_storage_keys q"] by simp
qed simp_all

lemma collect_query_addresses:
  assumes "key_addresses xs \<subseteq> S"
  shows "csk_contract_address ` set (q_contract_storage_keys (collect_query xs)) \<subseteq> S"
proof -
  have "csk_contract_address ` set (q_contract_storage_keys q) \<subseteq> S \<Longrightarrow>
      csk_contract_address ` set (q_contract_storage_keys (fold collect_step xs q)) \<subseteq> S" for q
    using assms
  proof (induction xs arbitrary: q)
    case (Cons i xs)
    have k: "key_addresses [i] \<subseteq> S" "key_addresses xs \<subseteq> S"
      using Cons.prems(2) key_addresses_simps(1)[of "[i]" xs] by simp_all
    have "csk_contract_address ` set (q_contract_storage_keys (collect_step i q)) \<subseteq> S"
      using collect_step_addresses[of i q] k(1) Cons.prems(1) by blast
    with k(2) show ?case using Cons.IH by simp
  qed simp
  then show ?thesis by (simp add: collect_query_def proofs_query_default_def)
qed

lemma merge_chunks_answers:
  assumes idx: "\<And>a i. idx a = Some i \<longleftrightarrow> i < length as \<and> as ! i = a" and "distinct as"
    and "key_addresses (concat xss) \<subseteq> set as"
    and "length (rp_contracts_storage_proofs acc) = length as"
  shows "\<exists>acc'. merge_chunks idx (map (\<lambda>xs. (collect_query xs, proof_answer P (collect_query xs))) xss) acc = Inr acc' \<and>
     rp_classes_proof acc' = im_extend (rp_classes_proof acc) (concat (map (pn_class_path P) (item_classes (concat xss)))) \<and>
     cp_nodes (rp_contracts_proof acc') = im_extend (cp_nodes (rp_contracts_proof acc))
       (concat (map (pn_contract_path P) (item_contracts (concat xss)))) \<and>
     cp_contract_leaves_data (rp_contracts_proof acc') =
       cp_contract_leaves_data (rp_contracts_proof acc) @ map (pn_leaf P) (item_contracts (concat xss)) \<and>
     length (rp_contracts_storage_proofs acc') = length as \<and>
     (\<forall>i < length as. rp_contracts_storage_proofs acc' ! i = im_extend (rp_contracts_storage_proofs acc ! i)
        (concat (map (pn_storage_path P (as ! i)) (item_keys (as ! i) (concat xss))))) \<and>
     rp_global_roots acc' = rp_global_roots acc"
  using assms(3,4)
proof (induction xss arbitrary: acc)
  case Nil
  then show ?case by simp
next
  case (Cons xs xss)
  let ?q = "collect_query xs"
  have "csk_contract_address ` set (q_contract_storage_keys ?q) \<subseteq> set as"
    using Cons.prems(1) by (intro collect_query_addresses) auto
  from merge_storage_answers[OF idx assms(2) this Cons.prems(2), of P] obtain st where
    st: "merge_storage idx (zip (q_contract_storage_keys ?q) (rp_contracts_storage_proofs (proof_answer P ?q)))
        (rp_contracts_storage_proofs acc) = Inr st" "length st = length as"
    and st_nth: "\<And>i. i < length as \<Longrightarrow> st ! i = im_extend (rp_contracts_storage_proofs acc ! i)
        (concat (map (pn_storage_path P (as ! i)) (item_keys (as ! i) xs)))"
    by (auto simp: proof_answer_def collect_query_items)
  let ?acc = "acc\<lparr>
          rp_classes_proof := im_extend (rp_classes_proof acc) (rp_classes_proof (proof_answer P ?q)),
          rp_contracts_proof := \<lparr>
            cp_nodes = im_extend (cp_nodes (rp_contracts_proof acc)) (cp_nodes (rp_contracts_proof (proof_answer P ?q))),
            cp_contract_leaves_data = cp_contract_leaves_data (rp_contracts_proof acc) @
              cp_contract_leaves_data (rp_contracts_proof (proof_answer P ?q)) \<rparr>,
          rp_contracts_storage_proofs := st \<rparr>"
  have step: "merge_chunks idx (map (\<lambda>xs. (collect_query xs, proof_answer P (collect_query xs))) (xs # xss)) acc =
      merge_chunks idx (map (\<lambda>xs. (collect_query xs, proof_answer P (collect_query xs))) xss) ?acc"
    using st(1) by simp
  have fields: "rp_classes_proof ?acc = im_extend (rp_classes_proof acc) (concat (map (pn_class_path P) (item_classes xs)))"
    "cp_nodes (rp_contracts_proof ?acc) = im_extend (cp_nodes (rp_contracts_proof acc)) (concat (map (pn_contract_path P) (item_contracts xs)))"
    "cp_contract_leaves_data (rp_contracts_proof ?acc) = cp_contract_leaves_data (rp_contracts_proof acc) @ map (pn_leaf P) (item_contracts xs)"
    by (simp_all add: proof_answer_def collect_query_items im_extend_collected)
  obtain acc' where "merge_chunks idx (map (\<lambda>xs. (collect_query xs, proof_answer P (collect_query xs))) xss) ?acc = Inr acc'"
     "rp_classes_proof acc' = im_extend (rp_classes_proof ?acc) (concat (map (pn_class_path P) (item_classes (concat xss))))"
     "cp_nodes (rp_contracts_proof acc') = im_extend (cp_nodes (rp_contracts_proof ?acc))
       (concat (map (pn_contract_path P) (item_contracts (concat xss))))"
     "cp_contract_leaves_data (rp_contracts_proof acc') =
       cp_contract_leaves_data (rp_contracts_proof ?acc) @ map (pn_leaf P) (item_contracts (concat xss))"
     "length (rp_contracts_storage_proofs acc') = length as"
     "\<forall>i < length as. rp_contracts_storage_proofs acc' ! i = im_extend (rp_contracts_storage_proofs ?acc ! i)
        (concat (map (pn_storage_path P (as ! i)) (item_keys (as ! i) (concat xss))))"
     "rp_global_roots acc' = rp_global_roots ?acc"
    using Cons.IH[of ?acc] Cons.prems(1) st(2) by auto
  then show ?case unfolding step fields by (auto simp: im_extend_append st_nth)
qed

lemma storage_proofs_of_items:
  assumes "distinct (query_addresses q)" "i < length (query_addresses q)"
  shows "item_keys (query_addresses q ! i) (flatten_query q) = csk_storage_keys (q_contract_storage_keys q ! i)"
proof -
  let ?cs = "q_contract_storage_keys q"
  have "keys_of (csk_contract_address (cs ! i)) cs = csk_storage_keys (cs ! i)"
    if "distinct (map csk_contract_address cs)" "i < length cs" for cs :: "'a contract_storage_keys list" and i
    using that
  proof (induction cs arbitrary: i)
    case (Cons c cs)
    have none: "keys_of a cs = []" if "a \<notin> csk_contract_address ` set cs" for a
      using that by (auto simp: keys_of_def)
    show ?case
    proof (cases i)
      case 0
      then show ?thesis using Cons.prems none by (simp add: keys_of_simps)
    next
      case (Suc j)
      then have "csk_contract_address c \<noteq> csk_contract_address (cs ! j)"
        using Cons.prems by (metis distinct.simps(2) length_Cons list.simps(9) not_less_eq nth_map nth_mem length_map)
      then show ?thesis using Cons Suc by (simp add: keys_of_simps)
    qed
  qed simp
  from this[of ?cs i] show ?thesis
    using assms by (simp add: flatten_query_items query_addresses_def)
qed

text \<open>The merge of the answers to the parts of a split query is the answer to the query.\<close>

lemma merge_split_answers:
  assumes "distinct (query_addresses q)" and "0 < n" and "flatten_query q \<noteq> []"
  defines "parts \<equiv> map collect_query (chunks n (flatten_query q))"
  shows "merge_storage_proofs (map (proof_answer P) parts) parts q = Inr (proof_answer P q)"
proof -
  let ?xss = "chunks n (flatten_query q)"
  have ne: "?xss \<noteq> []" using assms(2,3) by (subst chunks.simps) simp
  have keys: "key_addresses (concat ?xss) \<subseteq> set (query_addresses q)"
    unfolding concat_chunks[OF assms(2)]
    by (auto simp: key_addresses_def flatten_query_def flatten_csk_def query_addresses_def)
  let ?acc = "\<lparr> rp_classes_proof = [], rp_contracts_proof = \<lparr> cp_nodes = [], cp_contract_leaves_data = [] \<rparr>,
      rp_contracts_storage_proofs = replicate (length (q_contract_storage_keys q)) [], rp_global_roots = pn_roots P \<rparr>"
  have len: "length (rp_contracts_storage_proofs ?acc) = length (query_addresses q)"
    by (simp add: query_addresses_def)
  obtain acc' where m: "merge_chunks (addr_to_idx q) (map (\<lambda>xs. (collect_query xs, proof_answer P (collect_query xs))) ?xss) ?acc = Inr acc'"
    and c: "rp_classes_proof acc' = im_extend [] (concat (map (pn_class_path P) (q_class_hashes q)))"
    "cp_nodes (rp_contracts_proof acc') = im_extend [] (concat (map (pn_contract_path P) (q_contract_addresses q)))"
    "cp_contract_leaves_data (rp_contracts_proof acc') = map (pn_leaf P) (q_contract_addresses q)"
    "rp_global_roots acc' = pn_roots P"
    and l: "length (rp_contracts_storage_proofs acc') = length (query_addresses q)"
    and s0: "\<forall>i < length (query_addresses q). rp_contracts_storage_proofs acc' ! i =
       im_extend (replicate (length (q_contract_storage_keys q)) [] ! i)
         (concat (map (pn_storage_path P (query_addresses q ! i)) (item_keys (query_addresses q ! i) (flatten_query q))))"
    using merge_chunks_answers[OF addr_to_idx_nth[OF assms(1)] assms(1) keys len, of P]
    unfolding concat_chunks[OF assms(2)] flatten_query_items(1,2) by auto
  have s: "rp_contracts_storage_proofs acc' ! i = im_extend [] (concat (map (pn_storage_path P
      (query_addresses q ! i)) (csk_storage_keys (q_contract_storage_keys q ! i))))"
    if "i < length (query_addresses q)" for i
    using s0 that storage_proofs_of_items[OF assms(1) that] by (simp add: query_addresses_def)
  have "rp_contracts_storage_proofs acc' = map (storage_answer P) (q_contract_storage_keys q)"
    using l s by (intro nth_equalityI) (auto simp: query_addresses_def storage_answer_def)
  then have "acc' = proof_answer P q" using c by (cases "rp_contracts_proof acc'") (simp add: proof_answer_def)
  moreover have "zip parts (map (proof_answer P) parts) = map (\<lambda>xs. (collect_query xs, proof_answer P (collect_query xs))) ?xss"
    unfolding parts_def map_map zip_map_map zip_same_conv_map by (simp add: comp_def)
  ultimately show ?thesis
    using m ne by (cases ?xss) (simp_all add: merge_storage_proofs_def parts_def proof_answer_def)
qed

end
