(* ===== verification/Committer.thy ===== *)
theory Committer
  imports ProofQuery
begin

text \<open>
  \<open>running/committer_utils.rs\<close>: the state diff handed to the committer, its validation, the facts
  database built from a storage proof, and the commitment. Node and leaf serialization, leaf hashes,
  database keys and the committer itself come from other crates and are parameters. The database is
  a map from byte keys to byte values.
\<close>

type_synonym db_map = "(u8 list, u8 list) index_map"

record 'f state_diff =
  sd_address_to_class_hash :: "('f, 'f) index_map"
  sd_address_to_nonce :: "('f, 'f) index_map"
  sd_class_hash_to_compiled_class_hash :: "('f, 'f) index_map"
  sd_storage_updates :: "('f, ('f, 'f) index_map) index_map"

datatype 'f diff_violation =
    StorageDeletion 'f 'f
  | ContractDeployments "('f, 'f) index_map"
  | ContractDeclarations "('f, 'f) index_map"

datatype 'f proof_provider_error =
    InvalidStateDiff "'f diff_violation"
  | ProviderRpc string
  | SerializationError string
  | InvalidProofResponse string
  | BlockCommitmentError string

datatype 'f leaf = ContractLeaf 'f 'f 'f | StorageLeaf 'f 'f | CompiledClassLeaf 'f

record 'f facts_lib =
  create_db_key :: "u8 list \<Rightarrow> u8 list \<Rightarrow> u8 list \<Rightarrow> u8 list"
  inner_node_prefix :: "u8 list"
  fact_separator :: "u8 list"
  serialize_node :: "'f \<Rightarrow> 'f merkle_node \<Rightarrow> string + u8 list"
  serialize_binary :: "'f \<Rightarrow> 'f \<Rightarrow> 'f \<Rightarrow> string + u8 list"
  compute_leaf_hash :: "'f leaf \<Rightarrow> 'f"
  leaf_db_key :: "'f leaf \<Rightarrow> u8 list \<Rightarrow> u8 list"
  serialize_leaf :: "'f \<Rightarrow> 'f leaf \<Rightarrow> string + u8 list"
  storage_diff_from :: "('f \<times> 'f, 'f) index_map \<Rightarrow> ('f, ('f, 'f) index_map) index_map"

definition state_maps_to_committer_state_diff :: "'f facts_lib \<Rightarrow> 'f state_maps \<Rightarrow> 'f state_diff" where
  "state_maps_to_committer_state_diff D maps = \<lparr>
     sd_address_to_class_hash = sm_class_hashes maps,
     sd_address_to_nonce = sm_nonces maps,
     sd_class_hash_to_compiled_class_hash = sm_compiled_class_hashes maps,
     sd_storage_updates = storage_diff_from D (sm_storage maps) \<rparr>"

fun check_deletions_at :: "'f felt_lib \<Rightarrow> 'f \<Rightarrow> ('f \<times> 'f) list \<Rightarrow> 'f proof_provider_error + unit" where
  "check_deletions_at F address [] = Inr ()"
| "check_deletions_at F address ((key, v) # rest) =
     (if v = felt_ZERO F then Inl (InvalidStateDiff (StorageDeletion address key))
      else check_deletions_at F address rest)"

fun check_deletions ::
  "'f felt_lib \<Rightarrow> ('f \<times> ('f \<times> 'f) list) list \<Rightarrow> 'f proof_provider_error + unit" where
  "check_deletions F [] = Inr ()"
| "check_deletions F ((address, diffs) # rest) =
     and_then (check_deletions_at F address diffs) (\<lambda>_. check_deletions F rest)"

definition validate_virtual_os_state_diff ::
  "'f felt_lib \<Rightarrow> 'f state_diff \<Rightarrow> 'f proof_provider_error + unit" where
  "validate_virtual_os_state_diff F diff =
     and_then (check_deletions F (sd_storage_updates diff)) (\<lambda>_.
       if sd_address_to_class_hash diff \<noteq> []
       then Inl (InvalidStateDiff (ContractDeployments (sd_address_to_class_hash diff)))
       else if sd_class_hash_to_compiled_class_hash diff \<noteq> []
       then Inl (InvalidStateDiff (ContractDeclarations (sd_class_hash_to_compiled_class_hash diff)))
       else Inr ())"

section \<open>The facts database\<close>

definition inner_key :: "'f felt_lib \<Rightarrow> 'f facts_lib \<Rightarrow> 'f \<Rightarrow> u8 list" where
  "inner_key F D hash = create_db_key D (inner_node_prefix D) (fact_separator D) (felt_to_bytes_be F hash)"

fun insert_inner_nodes ::
  "'f felt_lib \<Rightarrow> 'f facts_lib \<Rightarrow> 'f node_map \<Rightarrow> db_map \<Rightarrow> 'f proof_provider_error + db_map" where
  "insert_inner_nodes F D [] db = Inr db"
| "insert_inner_nodes F D ((hash, node) # nodes) db =
     and_then (map_err SerializationError (serialize_node D hash node))
       (\<lambda>value. insert_inner_nodes F D nodes (im_insert (inner_key F D hash) value db))"

definition insert_leaf_node ::
  "'f felt_lib \<Rightarrow> 'f facts_lib \<Rightarrow> 'f leaf \<Rightarrow> db_map \<Rightarrow> 'f proof_provider_error + db_map" where
  "insert_leaf_node F D leaf db =
     (let leaf_hash = compute_leaf_hash D leaf;
          key = leaf_db_key D leaf (felt_to_bytes_be F leaf_hash)
      in and_then (map_err SerializationError (serialize_leaf D leaf_hash leaf))
           (\<lambda>serialized. Inr (im_insert key serialized db)))"

fun insert_leaves ::
  "'f felt_lib \<Rightarrow> 'f facts_lib \<Rightarrow> 'f leaf list \<Rightarrow> db_map \<Rightarrow> 'f proof_provider_error + db_map" where
  "insert_leaves F D [] db = Inr db"
| "insert_leaves F D (leaf # leaves) db =
     and_then (insert_leaf_node F D leaf db) (insert_leaves F D leaves)"

definition leaves_mismatch :: "nat \<Rightarrow> nat \<Rightarrow> 'f proof_provider_error" where
  "leaves_mismatch addresses_len leaves_len = InvalidProofResponse
     (''Contract leaves length mismatch: expected '' @ dec_string addresses_len @
      '' leaves for requested contracts, got '' @ dec_string leaves_len)"

definition insert_contract_leaves ::
  "'f felt_lib \<Rightarrow> 'f facts_lib \<Rightarrow> 'f rpc_storage_proof \<Rightarrow> 'f proofs_query \<Rightarrow> db_map \<Rightarrow>
     'f proof_provider_error + db_map" where
  "insert_contract_leaves F D proof query db =
     (let data = cp_contract_leaves_data (rp_contracts_proof proof);
          leaves_len = length data;
          addresses_len = length (q_contract_addresses query)
      in if leaves_len \<noteq> addresses_len then Inl (leaves_mismatch addresses_len leaves_len)
         else insert_leaves F D
           (map (\<lambda>(leaf, _). ContractLeaf (leaf_nonce leaf) (leaf_class_hash leaf)
                    (unwrap_or (felt_ZERO F) (leaf_storage_root leaf)))
             (zip data (q_contract_addresses query))) db)"

definition insert_storage_leaves ::
  "'f felt_lib \<Rightarrow> 'f facts_lib \<Rightarrow> 'f state_maps \<Rightarrow> db_map \<Rightarrow> 'f proof_provider_error + db_map" where
  "insert_storage_leaves F D reads db =
     insert_leaves F D (map (\<lambda>((address, _), v). StorageLeaf address v) (sm_storage reads)) db"

definition insert_compiled_class_leaves ::
  "'f felt_lib \<Rightarrow> 'f facts_lib \<Rightarrow> 'f state_maps \<Rightarrow> db_map \<Rightarrow> 'f proof_provider_error + db_map" where
  "insert_compiled_class_leaves F D reads db =
     insert_leaves F D (map (\<lambda>(_, v). CompiledClassLeaf v) (sm_compiled_class_hashes reads)) db"

text \<open>\<open>db_map.entry(key).or_insert_with(...)\<close>\<close>

definition or_insert :: "'k \<Rightarrow> 'v \<Rightarrow> ('k, 'v) index_map \<Rightarrow> ('k, 'v) index_map" where
  "or_insert k v m = (case map_of m k of Some _ \<Rightarrow> m | None \<Rightarrow> im_insert k v m)"

definition add_dummy_node_for_orphan_child ::
  "'f felt_lib \<Rightarrow> 'f facts_lib \<Rightarrow> 'f list \<Rightarrow> u8 list \<Rightarrow> 'f \<Rightarrow> db_map \<Rightarrow> db_map" where
  "add_dummy_node_for_orphan_child F D has_preimage dummy_value child_hash db =
     (if child_hash \<notin> set has_preimage then or_insert (inner_key F D child_hash) dummy_value db else db)"

fun add_dummies_of_node ::
  "'f felt_lib \<Rightarrow> 'f facts_lib \<Rightarrow> 'f list \<Rightarrow> u8 list \<Rightarrow> 'f merkle_node \<Rightarrow> db_map \<Rightarrow> db_map" where
  "add_dummies_of_node F D has_preimage dummy (BinaryNode left right) db =
     add_dummy_node_for_orphan_child F D has_preimage dummy right
       (add_dummy_node_for_orphan_child F D has_preimage dummy left db)"
| "add_dummies_of_node F D has_preimage dummy (EdgeNode path len child) db =
     add_dummy_node_for_orphan_child F D has_preimage dummy child db"

definition add_dummy_nodes_for_orphan_hashes ::
  "'f felt_lib \<Rightarrow> 'f facts_lib \<Rightarrow> 'f node_map \<Rightarrow> db_map \<Rightarrow> 'f proof_provider_error + db_map" where
  "add_dummy_nodes_for_orphan_hashes F D nodes db =
     and_then (map_err SerializationError (serialize_binary D (felt_ZERO F) (felt_ZERO F) (felt_ZERO F)))
       (\<lambda>dummy_value. Inr (fold (\<lambda>(_, node). add_dummies_of_node F D (map fst nodes) dummy_value node) nodes db))"

fun for_each_result :: "('a \<Rightarrow> 's \<Rightarrow> 'e + 's) \<Rightarrow> 'a list \<Rightarrow> 's \<Rightarrow> 'e + 's" where
  "for_each_result f [] s = Inr s"
| "for_each_result f (x # xs) s = and_then (f x s) (for_each_result f xs)"

definition proof_node_maps :: "'f rpc_storage_proof \<Rightarrow> 'f node_map list" where
  "proof_node_maps proof =
     cp_nodes (rp_contracts_proof proof) # rp_classes_proof proof # rp_contracts_storage_proofs proof"

text \<open>The real entries: all inner nodes, then contract, storage and class leaves.\<close>

definition insert_proof_facts ::
  "'f felt_lib \<Rightarrow> 'f facts_lib \<Rightarrow> 'f rpc_storage_proof \<Rightarrow> 'f proofs_query \<Rightarrow> 'f state_maps \<Rightarrow>
     'f proof_provider_error + db_map" where
  "insert_proof_facts F D proof query reads =
     and_then (for_each_result (insert_inner_nodes F D) (proof_node_maps proof) []) (\<lambda>db.
     and_then (insert_contract_leaves F D proof query db) (\<lambda>db.
     and_then (insert_storage_leaves F D reads db) (\<lambda>db.
       insert_compiled_class_leaves F D reads db)))"

definition create_facts_db_from_storage_proof ::
  "'f felt_lib \<Rightarrow> 'f facts_lib \<Rightarrow> 'f rpc_storage_proof \<Rightarrow> 'f proofs_query \<Rightarrow> 'f state_maps \<Rightarrow>
     'f proof_provider_error + db_map" where
  "create_facts_db_from_storage_proof F D proof query reads =
     and_then (insert_proof_facts F D proof query reads)
       (for_each_result (add_dummy_nodes_for_orphan_hashes F D) (proof_node_maps proof))"

section \<open>Commitment\<close>

record 'f state_roots =
  contracts_trie_root_hash :: 'f
  classes_trie_root_hash :: 'f

record ('f, 'x) committer =
  commit_block :: "'f state_diff \<Rightarrow> 'f state_roots \<Rightarrow> db_map \<Rightarrow> string + 'x"
  write_forest :: "'x \<Rightarrow> db_map \<Rightarrow> string + db_map"
  forest_contract_root :: "'x \<Rightarrow> 'f"
  forest_class_root :: "'x \<Rightarrow> 'f"

definition commit_state_diff ::
  "('f, 'x) committer \<Rightarrow> 'f \<Rightarrow> 'f \<Rightarrow> 'f state_diff \<Rightarrow> db_map \<Rightarrow>
     'f proof_provider_error + ('f state_roots \<times> db_map)" where
  "commit_state_diff K contracts_root classes_root diff facts_db =
     and_then (map_err BlockCommitmentError (commit_block K diff
         \<lparr> contracts_trie_root_hash = contracts_root, classes_trie_root_hash = classes_root \<rparr> facts_db))
       (\<lambda>forest. and_then (map_err SerializationError (write_forest K forest facts_db))
          (\<lambda>facts_db'. Inr (\<lparr> contracts_trie_root_hash = forest_contract_root K forest,
              classes_trie_root_hash = forest_class_root K forest \<rparr>, facts_db')))"

section \<open>Validation\<close>

lemma check_deletions_at_Inr:
  "check_deletions_at F a diffs = Inr u \<longleftrightarrow> felt_ZERO F \<notin> snd ` set diffs"
  by (induction F a diffs rule: check_deletions_at.induct) auto

lemma check_deletions_Inr:
  "check_deletions F upds = Inr u \<longleftrightarrow> (\<forall>(a, diffs) \<in> set upds. felt_ZERO F \<notin> snd ` set diffs)"
  by (induction F upds rule: check_deletions.induct) (auto simp: result_iffs check_deletions_at_Inr)

lemma validate_state_diff_iff:
  "validate_virtual_os_state_diff F diff = Inr () \<longleftrightarrow>
     (\<forall>(a, diffs) \<in> set (sd_storage_updates diff). \<forall>(k, v) \<in> set diffs. v \<noteq> felt_ZERO F) \<and>
     sd_address_to_class_hash diff = [] \<and> sd_class_hash_to_compiled_class_hash diff = []"
proof -
  have "felt_ZERO F \<notin> snd ` set diffs \<longleftrightarrow> (\<forall>(k, v) \<in> set diffs. v \<noteq> felt_ZERO F)" for diffs :: "('a \<times> 'a) list"
    by force
  then show ?thesis by (auto simp: validate_virtual_os_state_diff_def result_iffs check_deletions_Inr)
qed

text \<open>
  The validation accepts a state diff exactly when it deletes no storage, deploys or replaces no
  contract and declares no class; nonces and storage writes are allowed.
\<close>

lemma validate_virtual_os_state_diff_iff:
  "validate_virtual_os_state_diff F diff = Inr () \<longleftrightarrow>
     (\<forall>(a, diffs) \<in> set (sd_storage_updates diff). \<forall>(k, v) \<in> set diffs. v \<noteq> felt_ZERO F) \<and>
     sd_address_to_class_hash diff = [] \<and> sd_class_hash_to_compiled_class_hash diff = []"
  by (rule validate_state_diff_iff)

section \<open>The database covers the proof\<close>

fun node_children :: "'f merkle_node \<Rightarrow> 'f list" where
  "node_children (BinaryNode left right) = [left, right]"
| "node_children (EdgeNode path len child) = [child]"

text \<open>One database extends another by entries with a given value only.\<close>

definition extends_by :: "'v \<Rightarrow> ('k, 'v) index_map \<Rightarrow> ('k, 'v) index_map \<Rightarrow> bool" where
  "extends_by v m m' \<longleftrightarrow> map_of m \<subseteq>\<^sub>m map_of m' \<and>
     (\<forall>k \<in> dom (map_of m') - dom (map_of m). map_of m' k = Some v)"

lemma extends_by_refl [simp]: "extends_by v m m"
  by (simp add: extends_by_def)

lemma extends_by_trans: "extends_by v m1 m2 \<Longrightarrow> extends_by v m2 m3 \<Longrightarrow> extends_by v m1 m3"
  unfolding extends_by_def map_le_def by (metis Diff_iff domIff)

lemma extends_by_dom: "extends_by v m m' \<Longrightarrow> dom (map_of m) \<subseteq> dom (map_of m')"
  by (simp add: extends_by_def map_le_implies_dom_le)

lemma or_insert_extends: "extends_by v m (or_insert k v m) \<and> k \<in> dom (map_of (or_insert k v m))"
  by (auto simp: extends_by_def or_insert_def map_le_def map_of_im_insert split: option.splits)

lemma add_dummy_extends:
  "extends_by d db (add_dummy_node_for_orphan_child F D has d c db) \<and>
   (c \<notin> set has \<longrightarrow> inner_key F D c \<in> dom (map_of (add_dummy_node_for_orphan_child F D has d c db)))"
  using or_insert_extends[of d db "inner_key F D c"]
  by (simp add: add_dummy_node_for_orphan_child_def del: domIff)

lemma add_dummies_of_node_extends:
  "extends_by d db (add_dummies_of_node F D has d n db) \<and>
   (\<forall>c \<in> set (node_children n). c \<notin> set has \<longrightarrow> inner_key F D c \<in> dom (map_of (add_dummies_of_node F D has d n db)))"
proof (cases n)
  case (BinaryNode l r)
  let ?db1 = "add_dummy_node_for_orphan_child F D has d l db"
  have 1: "extends_by d db ?db1" "l \<notin> set has \<Longrightarrow> inner_key F D l \<in> dom (map_of ?db1)"
    using add_dummy_extends[of d db F D "has" l] by blast+
  let ?db2 = "add_dummy_node_for_orphan_child F D has d r ?db1"
  have 2: "extends_by d ?db1 ?db2" "r \<notin> set has \<Longrightarrow> inner_key F D r \<in> dom (map_of ?db2)"
    using add_dummy_extends[of d ?db1 F D "has" r] by blast+
  have "extends_by d db ?db2" using extends_by_trans[OF 1(1) 2(1)] .
  moreover have "l \<notin> set has \<Longrightarrow> inner_key F D l \<in> dom (map_of ?db2)"
    using 1(2) extends_by_dom[OF 2(1)] by blast
  ultimately show ?thesis using 2(2) BinaryNode by simp
next
  case (EdgeNode p len c)
  then show ?thesis using add_dummy_extends[of d db F D "has" c] by simp
qed

lemma fold_dummies_extends:
  "extends_by d db (fold (\<lambda>(_, node). add_dummies_of_node F D has d node) nodes db) \<and>
   (\<forall>(h, n) \<in> set nodes. \<forall>c \<in> set (node_children n). c \<notin> set has \<longrightarrow>
      inner_key F D c \<in> dom (map_of (fold (\<lambda>(_, node). add_dummies_of_node F D has d node) nodes db)))"
proof (induction nodes arbitrary: db)
  case Nil
  then show ?case by simp
next
  case (Cons hn nodes)
  obtain h n where hn: "hn = (h, n)" by (cases hn)
  let ?db1 = "add_dummies_of_node F D has d n db"
  let ?db2 = "fold (\<lambda>(_, node). add_dummies_of_node F D has d node) nodes ?db1"
  have 1: "extends_by d db ?db1" "\<forall>c \<in> set (node_children n). c \<notin> set has \<longrightarrow> inner_key F D c \<in> dom (map_of ?db1)"
    using add_dummies_of_node_extends[of d db F D "has" n] by blast+
  have 2: "extends_by d ?db1 ?db2" "\<forall>(h, n) \<in> set nodes. \<forall>c \<in> set (node_children n). c \<notin> set has \<longrightarrow>
      inner_key F D c \<in> dom (map_of ?db2)"
    using Cons.IH[of ?db1] by blast+
  have "\<forall>c \<in> set (node_children n). c \<notin> set has \<longrightarrow> inner_key F D c \<in> dom (map_of ?db2)"
    using 1(2) extends_by_dom[OF 2(1)] by (meson subsetD)
  then show ?case
    using extends_by_trans[OF 1(1) 2(1)] 2(2) hn by (simp del: domIff)
qed

lemma orphans_mono:
  assumes "\<forall>(h, n) \<in> set nodes. \<forall>c \<in> set (node_children n). c \<notin> S \<longrightarrow> inner_key F D c \<in> A" and "A \<subseteq> B"
  shows "\<forall>(h, n) \<in> set nodes. \<forall>c \<in> set (node_children n). c \<notin> S \<longrightarrow> inner_key F D c \<in> B"
  using assms by (simp add: case_prod_beta) blast

lemma for_each_dummies:
  assumes "for_each_result (add_dummy_nodes_for_orphan_hashes F D) nss db = Inr db'"
    and "nss \<noteq> []"
  shows "\<exists>d. serialize_binary D (felt_ZERO F) (felt_ZERO F) (felt_ZERO F) = Inr d \<and> extends_by d db db' \<and>
     (\<forall>nodes \<in> set nss. \<forall>(h, n) \<in> set nodes. \<forall>c \<in> set (node_children n). c \<notin> fst ` set nodes \<longrightarrow>
        inner_key F D c \<in> dom (map_of db'))"
proof -
  from assms obtain d where d: "serialize_binary D (felt_ZERO F) (felt_ZERO F) (felt_ZERO F) = Inr d"
    by (cases nss) (auto simp: result_iffs add_dummy_nodes_for_orphan_hashes_def)
  have "extends_by d db db' \<and>
     (\<forall>nodes \<in> set nss. \<forall>(h, n) \<in> set nodes. \<forall>c \<in> set (node_children n). c \<notin> fst ` set nodes \<longrightarrow>
        inner_key F D c \<in> dom (map_of db'))"
    using assms(1)
  proof (induction nss arbitrary: db)
    case Nil
    then show ?case by simp
  next
    case (Cons nodes nss)
    let ?db1 = "fold (\<lambda>(_, node). add_dummies_of_node F D (map fst nodes) d node) nodes db"
    have "add_dummy_nodes_for_orphan_hashes F D nodes db = Inr ?db1"
      by (simp add: add_dummy_nodes_for_orphan_hashes_def d)
    with Cons.prems have r: "for_each_result (add_dummy_nodes_for_orphan_hashes F D) nss ?db1 = Inr db'"
      by simp
    have 1: "extends_by d db ?db1" "\<forall>(h, n) \<in> set nodes. \<forall>c \<in> set (node_children n). c \<notin> fst ` set nodes \<longrightarrow>
        inner_key F D c \<in> dom (map_of ?db1)"
      using fold_dummies_extends[of d db F D "map fst nodes" nodes] by (simp_all del: domIff)
    note 2 = Cons.IH[OF r]
    have "dom (map_of ?db1) \<subseteq> dom (map_of db')" by (rule extends_by_dom[OF conjunct1[OF 2]])
    then have "\<forall>(h, n) \<in> set nodes. \<forall>c \<in> set (node_children n). c \<notin> fst ` set nodes \<longrightarrow>
        inner_key F D c \<in> dom (map_of db')" by (rule orphans_mono[OF 1(2)])
    moreover have "extends_by d db db'" by (rule extends_by_trans[OF 1(1) conjunct1[OF 2]])
    ultimately show ?case using conjunct2[OF 2] by (simp only: list.simps(15) ball_simps)
  qed
  with d show ?thesis by blast
qed

lemma dom_im_insert: "dom (map_of (im_insert k v m)) = insert k (dom (map_of m))"
  unfolding map_of_im_insert dom_fun_upd by simp

lemma insert_inner_nodes_dom:
  "insert_inner_nodes F D nodes db = Inr db' \<Longrightarrow>
     dom (map_of db') = dom (map_of db) \<union> inner_key F D ` fst ` set nodes"
proof (induction F D nodes db rule: insert_inner_nodes.induct)
  case (2 F D hash node nodes db)
  then obtain v where v: "serialize_node D hash node = Inr v"
    "insert_inner_nodes F D nodes (im_insert (inner_key F D hash) v db) = Inr db'"
    by (auto simp: result_iffs)
  with "2.IH"[of v] show ?case by (simp add: dom_im_insert)
qed simp

lemma for_each_inner_nodes_dom:
  "for_each_result (insert_inner_nodes F D) nss db = Inr db' \<Longrightarrow>
     dom (map_of db') = dom (map_of db) \<union> (\<Union>nodes \<in> set nss. inner_key F D ` fst ` set nodes)"
proof (induction nss arbitrary: db)
  case (Cons nodes nss)
  from Cons.prems obtain db1 where "insert_inner_nodes F D nodes db = Inr db1"
    "for_each_result (insert_inner_nodes F D) nss db1 = Inr db'"
    by (auto simp: result_iffs)
  with Cons.IH[of db1] insert_inner_nodes_dom[of F D nodes db db1] show ?case by auto
qed simp

lemma insert_leaves_dom: "insert_leaves F D leaves db = Inr db' \<Longrightarrow> dom (map_of db) \<subseteq> dom (map_of db')"
proof (induction leaves arbitrary: db)
  case (Cons leaf leaves)
  then show ?case
    by (fastforce simp: result_iffs insert_leaf_node_def Let_def map_of_im_insert)
qed simp

lemma insert_proof_facts_dom:
  assumes "insert_proof_facts F D proof query reads = Inr db"
  shows "(\<Union>nodes \<in> set (proof_node_maps proof). inner_key F D ` fst ` set nodes) \<subseteq> dom (map_of db)"
proof -
  from assms obtain d1 d2 d3 where "for_each_result (insert_inner_nodes F D) (proof_node_maps proof) [] = Inr d1"
    "insert_contract_leaves F D proof query d1 = Inr d2" "insert_storage_leaves F D reads d2 = Inr d3"
    "insert_compiled_class_leaves F D reads d3 = Inr db"
    by (auto simp: insert_proof_facts_def result_iffs)
  moreover from this have "dom (map_of d1) \<subseteq> dom (map_of d2)" "dom (map_of d2) \<subseteq> dom (map_of d3)"
    "dom (map_of d3) \<subseteq> dom (map_of db)"
    unfolding insert_contract_leaves_def insert_storage_leaves_def insert_compiled_class_leaves_def Let_def
    by (simp_all add: insert_leaves_dom split: if_splits)
  ultimately show ?thesis using for_each_inner_nodes_dom[of F D "proof_node_maps proof" "[]" d1] by simp
qed

text \<open>
  C19: when the facts database is built, every node of the proof and every child that a node of the
  proof refers to has an inner entry, so a walk that starts at a node of one of its trees and follows the
  children that the tree has for its nodes never misses the entry of an inner node; and the dummy entries
  only fill keys that no real node or leaf has.
\<close>

theorem create_facts_db_complete:
  assumes "create_facts_db_from_storage_proof F D proof query reads = Inr db"
  shows "\<exists>real dummy. insert_proof_facts F D proof query reads = Inr real \<and>
     serialize_binary D (felt_ZERO F) (felt_ZERO F) (felt_ZERO F) = Inr dummy \<and>
     map_of real \<subseteq>\<^sub>m map_of db \<and>
     (\<forall>k \<in> dom (map_of db) - dom (map_of real). map_of db k = Some dummy) \<and>
     (\<forall>nodes \<in> set (proof_node_maps proof). \<forall>(h, n) \<in> set nodes.
        inner_key F D h \<in> dom (map_of real) \<and>
        (\<forall>c \<in> set (node_children n). inner_key F D c \<in> dom (map_of db)) \<and>
        (\<forall>c. (h, c) \<in> {(a, b). \<exists>m. (a, m) \<in> set nodes \<and> b \<in> set (node_children m)}\<^sup>* \<longrightarrow>
           inner_key F D c \<in> dom (map_of db)))"
proof -
  from assms obtain real where r: "insert_proof_facts F D proof query reads = Inr real"
    and f: "for_each_result (add_dummy_nodes_for_orphan_hashes F D) (proof_node_maps proof) real = Inr db"
    by (auto simp: create_facts_db_from_storage_proof_def result_iffs)
  have "proof_node_maps proof \<noteq> []" by (simp add: proof_node_maps_def)
  from for_each_dummies[OF f this] obtain d where
    d: "serialize_binary D (felt_ZERO F) (felt_ZERO F) (felt_ZERO F) = Inr d" and e: "extends_by d real db"
    and c: "\<forall>nodes \<in> set (proof_node_maps proof). \<forall>(h, n) \<in> set nodes. \<forall>c \<in> set (node_children n).
        c \<notin> fst ` set nodes \<longrightarrow> inner_key F D c \<in> dom (map_of db)" by blast
  have keys: "inner_key F D h \<in> dom (map_of real)"
    if "nodes \<in> set (proof_node_maps proof)" "h \<in> fst ` set nodes" for nodes h
    using insert_proof_facts_dom[OF r] that by blast
  have child: "inner_key F D c \<in> dom (map_of db)"
    if "nodes \<in> set (proof_node_maps proof)" "(h, n) \<in> set nodes" "c \<in> set (node_children n)" for nodes h n c
  proof (cases "c \<in> fst ` set nodes")
    case True
    then show ?thesis using keys[OF that(1)] extends_by_dom[OF e] by blast
  next
    case False
    then show ?thesis using c that by blast
  qed
  have "inner_key F D h \<in> dom (map_of real)"
    if "nodes \<in> set (proof_node_maps proof)" "(h, n) \<in> set nodes" for nodes h n
    using keys[OF that(1), of h] that(2) by force
  moreover have "inner_key F D c \<in> dom (map_of db)"
    if nodes: "nodes \<in> set (proof_node_maps proof)" "(h, n) \<in> set nodes"
      and walk: "(h, c) \<in> {(a, b). \<exists>m. (a, m) \<in> set nodes \<and> b \<in> set (node_children m)}\<^sup>*" for nodes h n c
    using walk
  proof (cases rule: rtranclE)
    case base
    then show ?thesis using keys[OF nodes(1), of h] nodes(2) extends_by_dom[OF e] by force
  next
    case (step b)
    then show ?thesis using child[OF nodes(1)] by blast
  qed
  ultimately have "\<forall>nodes \<in> set (proof_node_maps proof). \<forall>(h, n) \<in> set nodes.
        inner_key F D h \<in> dom (map_of real) \<and>
        (\<forall>c \<in> set (node_children n). inner_key F D c \<in> dom (map_of db)) \<and>
        (\<forall>c. (h, c) \<in> {(a, b). \<exists>m. (a, m) \<in> set nodes \<and> b \<in> set (node_children m)}\<^sup>* \<longrightarrow>
           inner_key F D c \<in> dom (map_of db))" using child by blast
  then show ?thesis using r d e unfolding extends_by_def by blast
qed

definition demo_facts :: "felt252 facts_lib" where
  "demo_facts = \<lparr>
     create_db_key = (\<lambda>p s b. p @ s @ b), inner_node_prefix = [1], fact_separator = [58],
     serialize_node = (\<lambda>h n. Inr [7]), serialize_binary = (\<lambda>h l r. Inr [0]),
     compute_leaf_hash = (\<lambda>l. felt_of_nat 9), leaf_db_key = (\<lambda>l b. 2 # b),
     serialize_leaf = (\<lambda>h l. Inr [8]), storage_diff_from = (\<lambda>m. []) \<rparr>"

definition demo_proof :: "felt252 rpc_storage_proof" where
  "demo_proof = \<lparr>
     rp_classes_proof = [],
     rp_contracts_proof = \<lparr> cp_nodes = [(felt_of_nat 1, BinaryNode (felt_of_nat 2) (felt_of_nat 3))],
       cp_contract_leaves_data = [] \<rparr>,
     rp_contracts_storage_proofs = [],
     rp_global_roots = \<lparr> contracts_tree_root = felt_of_nat 1, classes_tree_root = felt_of_nat 0,
       gr_block_hash = felt_of_nat 0 \<rparr> \<rparr>"

lemma demo_facts_db:
  "\<exists>db. create_facts_db_from_storage_proof stark_felt demo_facts demo_proof proofs_query_default state_maps_default = Inr db"
  by (simp add: create_facts_db_from_storage_proof_def insert_proof_facts_def proof_node_maps_def
      demo_proof_def demo_facts_def insert_contract_leaves_def proofs_query_default_def
      insert_storage_leaves_def insert_compiled_class_leaves_def state_maps_default_def
      add_dummy_nodes_for_orphan_hashes_def Let_def)

theorem create_facts_db_complete_witness:
  "\<exists>db. create_facts_db_from_storage_proof stark_felt demo_facts demo_proof proofs_query_default
        state_maps_default = Inr db \<and>
     inner_key stark_felt demo_facts (felt_of_nat 1) \<in> dom (map_of db) \<and>
     inner_key stark_felt demo_facts (felt_of_nat 3) \<in> dom (map_of db)"
proof -
  obtain db where db: "create_facts_db_from_storage_proof stark_felt demo_facts demo_proof
      proofs_query_default state_maps_default = Inr db"
    using demo_facts_db by blast
  have n: "[(felt_of_nat 1, BinaryNode (felt_of_nat 2) (felt_of_nat 3))] \<in> set (proof_node_maps demo_proof)"
    by (simp add: proof_node_maps_def demo_proof_def)
  from create_facts_db_complete[OF db] obtain real where "map_of real \<subseteq>\<^sub>m map_of db"
    "\<forall>nodes \<in> set (proof_node_maps demo_proof). \<forall>(h, n) \<in> set nodes.
        inner_key stark_felt demo_facts h \<in> dom (map_of real) \<and>
        (\<forall>c \<in> set (node_children n). inner_key stark_felt demo_facts c \<in> dom (map_of db))"
    by blast
  with n have "inner_key stark_felt demo_facts (felt_of_nat 1) \<in> dom (map_of real)"
    "inner_key stark_felt demo_facts (felt_of_nat 3) \<in> dom (map_of db)" by force+
  then show ?thesis using db map_le_implies_dom_le[OF \<open>map_of real \<subseteq>\<^sub>m map_of db\<close>] by blast
qed

end
