(* ===== verification/StorageProofs.thy ===== *)
theory StorageProofs
  imports Executor Committer
begin

text \<open>
  The provider part of \<open>running/storage_proofs.rs\<close>: the query of an execution, fetching the proofs
  in one or several requests, and the commitment information with and without state changes. The
  JSON-RPC provider, the Patricia tree utilities and \<open>create_commitment_infos\<close> are parameters.
\<close>

record 'f commitment_info =
  cm_previous_root :: 'f
  cm_updated_root :: 'f
  cm_tree_height :: nat
  cm_commitment_facts :: "('f, 'f list) index_map"

record 'f state_commitment_infos =
  sc_contracts_trie_commitment_info :: "'f commitment_info"
  sc_classes_trie_commitment_info :: "'f commitment_info"
  sc_storage_tries_commitment_infos :: "('f, 'f commitment_info) index_map"

record ('f, 'x) os_lib =
  preimage_from :: "'f merkle_node \<Rightarrow> 'x"
  flatten_preimages :: "('f, 'x) index_map \<Rightarrow> ('f, 'f list) index_map"
  ACTUAL_HEIGHT :: nat
  create_commitment_infos ::
    "'f state_roots \<Rightarrow> 'f state_roots \<Rightarrow> db_map \<Rightarrow> 'x \<Rightarrow> string + 'f state_commitment_infos"
  state_maps_keys :: "'f state_maps \<Rightarrow> 'x"
  contract_address_try_from :: "'f \<Rightarrow> string + 'f"
  get_contract_addresses :: "'f state_maps \<Rightarrow> 'f list"

text \<open>\<open>Provider::get_storage_proof\<close>: block number, class hashes, contract addresses, storage keys.\<close>

type_synonym ('w, 'f) proof_client =
  "u64 \<Rightarrow> 'f list \<Rightarrow> 'f list \<Rightarrow> 'f contract_storage_keys list \<Rightarrow> ('w, string, 'f rpc_storage_proof) rio"

record 'f storage_proofs =
  sp_extended_initial_reads :: "'f state_maps"
  sp_commitment_infos :: "'f state_commitment_infos"

record storage_proof_config =
  include_state_changes :: bool

definition storage_proof_config_default :: storage_proof_config where
  "storage_proof_config_default = \<lparr> include_state_changes = True \<rparr>"

section \<open>The query\<close>

text \<open>\<open>storage_by_address.entry(*address).or_default().push(key)\<close>\<close>

definition push_key :: "'f \<times> 'f \<Rightarrow> ('f, 'f list) index_map \<Rightarrow> ('f, 'f list) index_map" where
  "push_key ak m = (case ak of (address, key) \<Rightarrow> im_insert address (unwrap_or [] (map_of m address) @ [key]) m)"

definition prepare_query ::
  "('f :: linorder, 'x) os_lib \<Rightarrow> ('f, 'x) virtual_block_execution_data \<Rightarrow> 'f proofs_query" where
  "prepare_query O' data =
     (let class_hashes = vd_executed_class_hashes data;
          reads = vd_initial_reads data;
          contract_addresses = sort (get_contract_addresses O' reads);
          storage_by_address = fold push_key (map fst (sm_storage reads)) []
      in \<lparr> q_class_hashes = class_hashes, q_contract_addresses = contract_addresses,
           q_contract_storage_keys = map (\<lambda>address. \<lparr> csk_contract_address = address,
              csk_storage_keys = unwrap_or [] (map_of storage_by_address address) \<rparr>) contract_addresses \<rparr>)"

section \<open>Fetching\<close>

definition fetch_single_proof ::
  "('w, 'f) proof_client \<Rightarrow> u64 \<Rightarrow> 'f proofs_query \<Rightarrow>
     ('w, 'f proof_provider_error failure, 'f rpc_storage_proof) rio" where
  "fetch_single_proof client block query =
     rio_map_err (\<lambda>e. Failed (ProviderRpc e))
       (client block (q_class_hashes query) (q_contract_addresses query) (q_contract_storage_keys query))"

definition fetch_proofs ::
  "('w, 'f) proof_client \<Rightarrow> u64 \<Rightarrow> 'f proofs_query \<Rightarrow>
     ('w, 'f proof_provider_error failure, 'f rpc_storage_proof) rio" where
  "fetch_proofs client block query =
     (if count_total_keys query \<le> MAX_KEYS_PER_REQUEST then fetch_single_proof client block query
      else rio_bind (rio_lift (map_err panicked (split_query query MAX_KEYS_PER_REQUEST))) (\<lambda>parts.
           rio_bind (rio_collect (fetch_single_proof client block) parts) (\<lambda>proofs.
             rio_lift (map_err panicked (merge_storage_proofs proofs parts query)))))"

section \<open>Commitment information\<close>

definition rpc_nodes_to_preimage_map :: "('f, 'x) os_lib \<Rightarrow> 'f node_map \<Rightarrow> ('f, 'x) index_map" where
  "rpc_nodes_to_preimage_map O' nodes = im_extend [] (map (\<lambda>(hash, node). (hash, preimage_from O' node)) nodes)"

definition node_facts :: "('f, 'x) os_lib \<Rightarrow> 'f node_map \<Rightarrow> ('f, 'f list) index_map" where
  "node_facts O' nodes = flatten_preimages O' (rpc_nodes_to_preimage_map O' nodes)"

definition create_commitment_infos_with_state_changes ::
  "'f felt_lib \<Rightarrow> 'f facts_lib \<Rightarrow> ('f, 'x) committer \<Rightarrow> ('f, 'x) os_lib \<Rightarrow> 'f rpc_storage_proof \<Rightarrow>
     'f proofs_query \<Rightarrow> 'f state_maps \<Rightarrow> 'f state_maps \<Rightarrow> 'f proof_provider_error + 'f state_commitment_infos" where
  "create_commitment_infos_with_state_changes F D K O' proof query extended_reads diff =
     and_then (create_facts_db_from_storage_proof F D proof query extended_reads) (\<lambda>facts_db.
     (let contracts_root = contracts_tree_root (rp_global_roots proof);
          classes_root = classes_tree_root (rp_global_roots proof);
          committer_diff = state_maps_to_committer_state_diff D diff in
     and_then (validate_virtual_os_state_diff F committer_diff) (\<lambda>_.
     and_then (commit_state_diff K contracts_root classes_root committer_diff facts_db) (\<lambda>(new_roots, map_storage).
     and_then (map_err BlockCommitmentError (create_commitment_infos O'
          \<lparr> contracts_trie_root_hash = contracts_root, classes_trie_root_hash = classes_root \<rparr>
          new_roots map_storage (state_maps_keys O' extended_reads))) (\<lambda>infos.
       Inr (infos\<lparr> sc_classes_trie_commitment_info := (sc_classes_trie_commitment_info infos)
          \<lparr> cm_commitment_facts := im_extend (cm_commitment_facts (sc_classes_trie_commitment_info infos))
              (node_facts O' (rp_classes_proof proof)) \<rparr> \<rparr>))))))"

definition static_commitment_info :: "('f, 'x) os_lib \<Rightarrow> 'f \<Rightarrow> 'f node_map \<Rightarrow> 'f commitment_info" where
  "static_commitment_info O' root nodes = \<lparr> cm_previous_root = root, cm_updated_root = root,
     cm_tree_height = ACTUAL_HEIGHT O', cm_commitment_facts = node_facts O' nodes \<rparr>"

definition storage_info_entry ::
  "'f felt_lib \<Rightarrow> ('f, 'x) os_lib \<Rightarrow> ('f \<rightharpoonup> 'f contract_leaf_data) \<Rightarrow> 'f contract_storage_keys \<times> 'f node_map \<Rightarrow>
     'f proof_provider_error + 'f \<times> 'f commitment_info" where
  "storage_info_entry F O' addr_to_leaf entry = (case entry of (csk, storage_proof) \<Rightarrow>
     and_then (map_err (\<lambda>e. InvalidProofResponse (''Invalid contract address in storage keys: '' @ e))
         (contract_address_try_from O' (csk_contract_address csk))) (\<lambda>addr.
     and_then (ok_or (InvalidProofResponse (''Contract address '' @ felt_lower_hex F addr @
           '' in storage_keys not found in contract_addresses'')) (addr_to_leaf addr)) (\<lambda>leaf.
       Inr (addr, static_commitment_info O' (unwrap_or (felt_ZERO F) (leaf_storage_root leaf)) storage_proof))))"

definition build_storage_commitment_infos ::
  "'f felt_lib \<Rightarrow> ('f, 'x) os_lib \<Rightarrow> 'f rpc_storage_proof \<Rightarrow> 'f proofs_query \<Rightarrow>
     'f proof_provider_error + ('f, 'f commitment_info) index_map" where
  "build_storage_commitment_infos F O' proof query =
     (let storage_proofs = rp_contracts_storage_proofs proof; csks = q_contract_storage_keys query in
      if length storage_proofs \<noteq> length csks
      then Inl (InvalidProofResponse (''Storage proofs length mismatch: expected '' @ dec_string (length csks) @
        '' proofs for contracts with storage keys, got '' @ dec_string (length storage_proofs)))
      else (let addr_to_leaf = map_of (rev (zip (q_contract_addresses query)
                 (cp_contract_leaves_data (rp_contracts_proof proof))))
            in and_then (collect_result (storage_info_entry F O' addr_to_leaf) (zip csks storage_proofs))
                 (\<lambda>entries. Inr (im_extend [] entries))))"

definition create_commitment_infos_without_state_changes ::
  "'f felt_lib \<Rightarrow> ('f, 'x) os_lib \<Rightarrow> 'f rpc_storage_proof \<Rightarrow> 'f proofs_query \<Rightarrow>
     'f proof_provider_error + 'f state_commitment_infos" where
  "create_commitment_infos_without_state_changes F O' proof query =
     and_then (build_storage_commitment_infos F O' proof query) (\<lambda>storage_infos. Inr \<lparr>
       sc_contracts_trie_commitment_info = static_commitment_info O'
         (contracts_tree_root (rp_global_roots proof)) (cp_nodes (rp_contracts_proof proof)),
       sc_classes_trie_commitment_info = static_commitment_info O'
         (classes_tree_root (rp_global_roots proof)) (rp_classes_proof proof),
       sc_storage_tries_commitment_infos = storage_infos \<rparr>)"

section \<open>\<open>get_storage_proofs\<close>\<close>

definition extend_initial_reads ::
  "'f proofs_query \<Rightarrow> 'f rpc_storage_proof \<Rightarrow> 'f state_maps \<Rightarrow> 'f state_maps" where
  "extend_initial_reads query proof reads =
     (let leaves = zip (cp_contract_leaves_data (rp_contracts_proof proof)) (q_contract_addresses query);
          maps = fold (\<lambda>(leaf, addr) maps. maps\<lparr>
             sm_class_hashes := im_insert addr (leaf_class_hash leaf) (sm_class_hashes maps),
             sm_nonces := im_insert addr (leaf_nonce leaf) (sm_nonces maps) \<rparr>) leaves state_maps_default
      in maps\<lparr> sm_storage := im_extend (sm_storage maps) (sm_storage reads) \<rparr>)"

definition get_storage_proofs ::
  "('f :: linorder) felt_lib \<Rightarrow> 'f facts_lib \<Rightarrow> ('f, 'x) committer \<Rightarrow> ('f, 'x) os_lib \<Rightarrow> ('w, 'f) proof_client \<Rightarrow>
     u64 \<Rightarrow> ('f, 'x) virtual_block_execution_data \<Rightarrow> storage_proof_config \<Rightarrow>
     ('w, 'f proof_provider_error failure, 'f storage_proofs) rio" where
  "get_storage_proofs F D K O' client block data config =
     (let query = prepare_query O' data in
      rio_bind (fetch_proofs client block query) (\<lambda>proof.
      let leaves_len = length (cp_contract_leaves_data (rp_contracts_proof proof));
          addresses_len = length (q_contract_addresses query) in
      if leaves_len \<noteq> addresses_len then rio_lift (Inl (Failed (leaves_mismatch addresses_len leaves_len)))
      else let extended = extend_initial_reads query proof (vd_initial_reads data) in
      rio_lift (map_err Failed (and_then
        (if include_state_changes config
         then create_commitment_infos_with_state_changes F D K O' proof query extended (vd_state_diff data)
         else create_commitment_infos_without_state_changes F O' proof query)
        (\<lambda>infos. Inr \<lparr> sp_extended_initial_reads = extended, sp_commitment_infos = infos \<rparr>)))))"

section \<open>Requests of bounded size give the whole proof\<close>

text \<open>A node that answers every storage proof request from the same paths and leaves.\<close>

definition pointwise_node :: "'f proof_node \<Rightarrow> ('w, 'f) proof_client \<Rightarrow> bool" where
  "pointwise_node P client \<longleftrightarrow> (\<forall>block hs as csks w.
     fst (client block hs as csks w) = Inr (proof_answer P
       \<lparr> q_class_hashes = hs, q_contract_addresses = as, q_contract_storage_keys = csks \<rparr>))"

lemma fetch_single_pointwise:
  assumes "pointwise_node P client"
  shows "fst (fetch_single_proof client block q w) = Inr (proof_answer P q)"
proof -
  have "fst (client block (q_class_hashes q) (q_contract_addresses q) (q_contract_storage_keys q) w) =
      Inr (proof_answer P q)"
    using assms unfolding pointwise_node_def by (cases q) simp
  then show ?thesis
    by (cases "client block (q_class_hashes q) (q_contract_addresses q) (q_contract_storage_keys q) w")
       (simp add: fetch_single_proof_def rio_map_err_apply)
qed

text \<open>
  C5: against a node that answers pointwise, fetching the proofs of a query with distinct contracts
  never panics and gives, for a query of any size, exactly the proof that one single request for the
  whole query would give.
\<close>

theorem fetch_proofs_as_single_request:
  assumes "pointwise_node P client" and "distinct (map csk_contract_address (q_contract_storage_keys q))"
  shows "fst (fetch_proofs client block q w) = Inr (proof_answer P q)"
proof (cases "count_total_keys q \<le> MAX_KEYS_PER_REQUEST")
  case True
  then show ?thesis using fetch_single_pointwise[OF assms(1)] by (simp add: fetch_proofs_def)
next
  case False
  have max: "0 < MAX_KEYS_PER_REQUEST" by (simp add: MAX_KEYS_PER_REQUEST_def)
  let ?parts = "map collect_query (chunks MAX_KEYS_PER_REQUEST (flatten_query q))"
  have split: "split_query q MAX_KEYS_PER_REQUEST = Inr ?parts"
    using max by (simp add: split_query_def)
  have "fst (rio_collect (fetch_single_proof client block) ?parts w) = Inr (map (proof_answer P) ?parts)"
    by (rule rio_collect_reader) (rule fetch_single_pointwise[OF assms(1)])
  then obtain w' where c: "rio_collect (fetch_single_proof client block) ?parts w = (Inr (map (proof_answer P) ?parts), w')"
    by (metis prod.collapse)
  have "flatten_query q \<noteq> []" using False length_flatten[of q] by auto
  then have "merge_storage_proofs (map (proof_answer P) ?parts) ?parts q = Inr (proof_answer P q)"
    using assms(2) max by (intro merge_split_answers) (simp_all add: query_addresses_def)
  then show ?thesis
    using False split c by (simp add: fetch_proofs_def rio_bind_apply)
qed

definition demo_node :: "nat proof_node" where
  "demo_node = \<lparr>
     pn_class_path = (\<lambda>h. [(h, BinaryNode h h)]), pn_contract_path = (\<lambda>a. [(a, EdgeNode a 1 a)]),
     pn_leaf = (\<lambda>a. \<lparr> leaf_nonce = a, leaf_class_hash = a, leaf_storage_root = None \<rparr>),
     pn_storage_path = (\<lambda>a k. [(0, BinaryNode 1 2), (a + k, EdgeNode k 3 a)]),
     pn_roots = \<lparr> contracts_tree_root = 1, classes_tree_root = 2, gr_block_hash = 3 \<rparr> \<rparr>"

definition demo_client :: "(nat, nat) proof_client" where
  "demo_client block hs as csks w = (Inr (proof_answer demo_node
     \<lparr> q_class_hashes = hs, q_contract_addresses = as, q_contract_storage_keys = csks \<rparr>), Suc w)"

definition demo_big_query :: "nat proofs_query" where
  "demo_big_query = \<lparr> q_class_hashes = [1, 2], q_contract_addresses = [10, 20],
     q_contract_storage_keys = [\<lparr> csk_contract_address = 10, csk_storage_keys = [0..<250] \<rparr>,
       \<lparr> csk_contract_address = 20, csk_storage_keys = [] \<rparr>] \<rparr>"

theorem fetch_proofs_as_single_request_witness:
  "pointwise_node demo_node demo_client \<and> MAX_KEYS_PER_REQUEST < count_total_keys demo_big_query \<and>
   fst (fetch_proofs demo_client 5 demo_big_query 0) = Inr (proof_answer demo_node demo_big_query)"
proof -
  have n: "pointwise_node demo_node demo_client" by (simp add: pointwise_node_def demo_client_def)
  have d: "distinct (map csk_contract_address (q_contract_storage_keys demo_big_query))"
    and c: "MAX_KEYS_PER_REQUEST < count_total_keys demo_big_query"
    by (simp_all add: demo_big_query_def count_total_keys_def MAX_KEYS_PER_REQUEST_def)
  show ?thesis using fetch_proofs_as_single_request[OF n d] n c by blast
qed

section \<open>The query of an execution\<close>

lemma fold_push_key:
  "unwrap_or [] (map_of (fold push_key ks m) a) =
     unwrap_or [] (map_of m a) @ map snd (filter (\<lambda>(b, k). b = a) ks)"
proof (induction ks arbitrary: m)
  case (Cons ak ks)
  obtain b k where "ak = (b, k)" by (cases ak)
  then show ?case by (simp add: Cons.IH) (auto simp: push_key_def map_of_im_insert)
qed simp

text \<open>\<open>StateMaps::get_contract_addresses\<close> is the set of the addresses that occur in the maps.\<close>

definition contract_addresses_law :: "('f, 'x) os_lib \<Rightarrow> bool" where
  "contract_addresses_law O' \<longleftrightarrow> (\<forall>maps. distinct (get_contract_addresses O' maps) \<and>
     set (get_contract_addresses O' maps) =
       fst ` set (sm_nonces maps) \<union> fst ` set (sm_class_hashes maps) \<union> fst ` fst ` set (sm_storage maps))"

text \<open>
  C36: the query asks for every contract the execution read, once and in ascending order, and for
  each contract exactly the storage keys that were read of it, each once when the reads are
  well formed; so it satisfies what the merge of partial proofs needs.
\<close>

theorem prepare_query_complete:
  assumes "contract_addresses_law O'" and "state_maps_wf (vd_initial_reads data)"
  shows "let q = prepare_query O' data; reads = vd_initial_reads data in
     sorted (q_contract_addresses q) \<and> distinct (q_contract_addresses q) \<and>
     set (q_contract_addresses q) = fst ` set (sm_nonces reads) \<union> fst ` set (sm_class_hashes reads) \<union>
       fst ` fst ` set (sm_storage reads) \<and>
     map csk_contract_address (q_contract_storage_keys q) = q_contract_addresses q \<and>
     (\<forall>c \<in> set (q_contract_storage_keys q). distinct (csk_storage_keys c) \<and>
        set (csk_storage_keys c) = {k. (csk_contract_address c, k) \<in> fst ` set (sm_storage reads)}) \<and>
     q_class_hashes q = vd_executed_class_hashes data"
proof -
  let ?ks = "map fst (sm_storage (vd_initial_reads data))"
  have dist: "distinct ?ks" using assms(2) by (simp add: state_maps_wf_def)
  have keys: "unwrap_or [] (map_of (fold push_key ?ks []) a) = map snd (filter (\<lambda>(b, k). b = a) ?ks)" for a
    by (simp add: fold_push_key)
  have inj: "distinct (map snd (filter (\<lambda>(b, k). b = a) ks))" if "distinct ks" for a :: 'a and ks :: "('a \<times> 'a) list"
    using that by (induction ks) (auto split: prod.splits)
  have set: "set (map snd (filter (\<lambda>(b, k). b = a) ?ks)) = {k. (a, k) \<in> fst ` set (sm_storage (vd_initial_reads data))}" for a
    by force
  show ?thesis
    using assms(1) inj[OF dist] set
    by (simp add: prepare_query_def Let_def keys contract_addresses_law_def comp_def)
qed

section \<open>What a returned proof guarantees\<close>

lemma with_state_changes_valid:
  "create_commitment_infos_with_state_changes F D K O' proof query reads diff = Inr infos \<Longrightarrow>
     validate_virtual_os_state_diff F (state_maps_to_committer_state_diff D diff) = Inr ()"
  by (auto simp: create_commitment_infos_with_state_changes_def Let_def result_iffs)

lemma extend_initial_reads_fields:
  "sm_storage (extend_initial_reads q proof reads) = im_extend [] (sm_storage reads)"
  "sm_declared_contracts (extend_initial_reads q proof reads) = []"
  "sm_compiled_class_hashes (extend_initial_reads q proof reads) = []"
  "map_of (sm_nonces (extend_initial_reads q proof reads)) =
     map_of (rev (zip (q_contract_addresses q) (map leaf_nonce (cp_contract_leaves_data (rp_contracts_proof proof)))))"
  "map_of (sm_class_hashes (extend_initial_reads q proof reads)) =
     map_of (rev (zip (q_contract_addresses q) (map leaf_class_hash (cp_contract_leaves_data (rp_contracts_proof proof)))))"
proof -
  let ?f = "\<lambda>(leaf, addr) maps. maps\<lparr>
      sm_class_hashes := im_insert addr (leaf_class_hash leaf) (sm_class_hashes maps),
      sm_nonces := im_insert addr (leaf_nonce leaf) (sm_nonces maps) \<rparr>"
  have f: "sm_storage (fold ?f (zip ls as) m) = sm_storage m"
    "sm_declared_contracts (fold ?f (zip ls as) m) = sm_declared_contracts m"
    "sm_compiled_class_hashes (fold ?f (zip ls as) m) = sm_compiled_class_hashes m"
    "sm_nonces (fold ?f (zip ls as) m) = im_extend (sm_nonces m) (zip as (map leaf_nonce ls))"
    "sm_class_hashes (fold ?f (zip ls as) m) = im_extend (sm_class_hashes m) (zip as (map leaf_class_hash ls))"
    for m :: "'a state_maps" and ls :: "'a contract_leaf_data list" and as
    by (induction ls as arbitrary: m rule: list_induct2') (simp_all add: im_extend_def)
  show "sm_storage (extend_initial_reads q proof reads) = im_extend [] (sm_storage reads)"
    "sm_declared_contracts (extend_initial_reads q proof reads) = []"
    "sm_compiled_class_hashes (extend_initial_reads q proof reads) = []"
    "map_of (sm_nonces (extend_initial_reads q proof reads)) =
       map_of (rev (zip (q_contract_addresses q) (map leaf_nonce (cp_contract_leaves_data (rp_contracts_proof proof)))))"
    "map_of (sm_class_hashes (extend_initial_reads q proof reads)) =
       map_of (rev (zip (q_contract_addresses q) (map leaf_class_hash (cp_contract_leaves_data (rp_contracts_proof proof)))))"
    by (simp_all add: extend_initial_reads_def Let_def f state_maps_default_def map_of_im_extend)
qed

text \<open>
  C20: when storage proofs are returned, the node answered with one leaf per requested contract, the
  extended reads have the storage of the execution and the nonces and class hashes of these leaves
  and nothing declared; and when state changes are included, the state diff deletes no storage,
  deploys no contract and declares no class.
\<close>

theorem get_storage_proofs_sound:
  assumes "get_storage_proofs F D K O' client block data config w = (Inr sp, w')"
    and "state_maps_wf (vd_initial_reads data)"
  shows "\<exists>proof. let q = prepare_query O' data; ext = sp_extended_initial_reads sp;
        leaves = cp_contract_leaves_data (rp_contracts_proof proof);
        diff = state_maps_to_committer_state_diff D (vd_state_diff data) in
     fetch_proofs client block q w = (Inr proof, w') \<and> length leaves = length (q_contract_addresses q) \<and>
     sm_storage ext = sm_storage (vd_initial_reads data) \<and> sm_declared_contracts ext = [] \<and>
     map_of (sm_nonces ext) = map_of (rev (zip (q_contract_addresses q) (map leaf_nonce leaves))) \<and>
     map_of (sm_class_hashes ext) = map_of (rev (zip (q_contract_addresses q) (map leaf_class_hash leaves))) \<and>
     (include_state_changes config \<longrightarrow>
        (\<forall>(a, diffs) \<in> set (sd_storage_updates diff). \<forall>(k, v) \<in> set diffs. v \<noteq> felt_ZERO F) \<and>
        sd_address_to_class_hash diff = [] \<and> sd_class_hash_to_compiled_class_hash diff = [])"
proof -
  let ?q = "prepare_query O' data"
  from assms(1) obtain pf infos where f: "fetch_proofs client block ?q w = (Inr pf, w')"
    and l: "length (cp_contract_leaves_data (rp_contracts_proof pf)) = length (q_contract_addresses ?q)"
    and e: "sp_extended_initial_reads sp = extend_initial_reads ?q pf (vd_initial_reads data)"
    and c: "(if include_state_changes config
         then create_commitment_infos_with_state_changes F D K O' pf ?q
           (extend_initial_reads ?q pf (vd_initial_reads data)) (vd_state_diff data)
         else create_commitment_infos_without_state_changes F O' pf ?q) = Inr infos"
    by (auto simp: get_storage_proofs_def Let_def rio_iffs result_iffs split: if_splits)
  have v: "include_state_changes config \<Longrightarrow>
      validate_virtual_os_state_diff F (state_maps_to_committer_state_diff D (vd_state_diff data)) = Inr ()"
    using c with_state_changes_valid by metis
  have st: "im_extend [] (sm_storage (vd_initial_reads data)) = sm_storage (vd_initial_reads data)"
    using im_extend_distinct[of "[]" "sm_storage (vd_initial_reads data)"] assms(2) by (simp add: state_maps_wf_def)
  show ?thesis
    using f l v unfolding Let_def e extend_initial_reads_fields st validate_state_diff_iff by blast
qed

definition demo_os :: "(felt252, nat) os_lib" where
  "demo_os = \<lparr>
     preimage_from = (\<lambda>n. 0), flatten_preimages = (\<lambda>m. []), ACTUAL_HEIGHT = 251,
     create_commitment_infos = (\<lambda>old new db keys. let info = (\<lambda>r r'. \<lparr> cm_previous_root = r,
        cm_updated_root = r', cm_tree_height = 251, cm_commitment_facts = [] \<rparr>) in Inr \<lparr>
        sc_contracts_trie_commitment_info = info (contracts_trie_root_hash old) (contracts_trie_root_hash new),
        sc_classes_trie_commitment_info = info (classes_trie_root_hash old) (classes_trie_root_hash new),
        sc_storage_tries_commitment_infos = [] \<rparr>),
     state_maps_keys = (\<lambda>m. 0), contract_address_try_from = Inr,
     get_contract_addresses = (\<lambda>m. remdups (map fst (sm_nonces m) @ map fst (sm_class_hashes m) @
        map (\<lambda>x. fst (fst x)) (sm_storage m))) \<rparr>"

definition demo_committer :: "(felt252, nat) committer" where
  "demo_committer = \<lparr> commit_block = (\<lambda>d r db. Inr 0), write_forest = (\<lambda>f db. Inr db),
     forest_contract_root = (\<lambda>f. felt_of_nat 5), forest_class_root = (\<lambda>f. felt_of_nat 6) \<rparr>"

definition demo_data :: "felt252 state_maps \<Rightarrow> (felt252, nat) virtual_block_execution_data" where
  "demo_data reads = (let z = felt_of_nat 0 in \<lparr> vd_execution_outputs = [], vd_initial_reads = reads,
     vd_state_diff = state_maps_default, vd_executed_class_hashes = [], vd_l2_to_l1_messages = [],
     vd_base_block_info = \<lparr>
       bb_block_context = \<lparr>
         bc_block_info = \<lparr> bi_block_number = 7, bi_sequencer_address = z, bi_block_timestamp = 0,
           bi_gas_prices = 0, bi_use_kzg_da = True, bi_starknet_version = 0 \<rparr>,
         bc_chain_info = demo_chain_info, bc_versioned_constants = latest_constants demo_blockifier,
         bc_bouncer_config = 0 \<rparr>,
       bb_base_block_hash = z,
       bb_base_block_header_commitments = \<lparr> hc_transaction_commitment = z, hc_event_commitment = z,
         hc_receipt_commitment = z, hc_state_diff_commitment = z, hc_concatenated_counts = z \<rparr>,
       bb_prev_base_block_hash = z \<rparr> \<rparr>)"

lemma demo_addresses_law: "contract_addresses_law demo_os"
  by (auto simp: contract_addresses_law_def demo_os_def image_image)

theorem prepare_query_complete_witness:
  "contract_addresses_law demo_os \<and>
   (let reads = state_maps_default\<lparr> sm_storage := [((felt_of_nat 4, felt_of_nat 5), felt_of_nat 6)] \<rparr> in
    state_maps_wf reads \<and> set (q_contract_addresses (prepare_query demo_os (demo_data reads))) = {felt_of_nat 4})"
proof -
  let ?reads = "state_maps_default\<lparr> sm_storage := [((felt_of_nat 4, felt_of_nat 5), felt_of_nat 6)] \<rparr>"
  have w: "state_maps_wf (vd_initial_reads (demo_data ?reads))"
    by (simp add: state_maps_wf_def state_maps_default_def demo_data_def Let_def)
  have r: "vd_initial_reads (demo_data ?reads) = ?reads" by (simp add: demo_data_def Let_def)
  show ?thesis
    using prepare_query_complete[OF demo_addresses_law w] w demo_addresses_law
    unfolding r by (simp add: Let_def state_maps_default_def)
qed

lemma demo_get_storage_proofs:
  assumes "vd_initial_reads data = state_maps_default" "vd_state_diff data = state_maps_default"
    "vd_executed_class_hashes data = []"
  shows "\<exists>sp. get_storage_proofs stark_felt demo_facts demo_committer demo_os (\<lambda>b h a c w. (Inr demo_proof, Suc w))
     block data storage_proof_config_default w = (Inr sp, Suc w)"
proof -
  have q: "prepare_query demo_os data = proofs_query_default"
    using assms by (simp add: prepare_query_def Let_def demo_os_def state_maps_default_def proofs_query_default_def)
  have e: "extend_initial_reads proofs_query_default demo_proof (vd_initial_reads data) = state_maps_default"
    using assms by (simp add: extend_initial_reads_def Let_def demo_proof_def state_maps_default_def)
  obtain db where db: "create_facts_db_from_storage_proof stark_felt demo_facts demo_proof proofs_query_default state_maps_default = Inr db"
    using demo_facts_db by blast
  have v: "validate_virtual_os_state_diff stark_felt (state_maps_to_committer_state_diff demo_facts (vd_state_diff data)) = Inr ()"
    using assms by (simp add: validate_virtual_os_state_diff_def state_maps_to_committer_state_diff_def
        state_maps_default_def demo_facts_def)
  have "\<exists>infos. create_commitment_infos_with_state_changes stark_felt demo_facts demo_committer demo_os demo_proof
      proofs_query_default state_maps_default (vd_state_diff data) = Inr infos"
    using db v by (simp add: create_commitment_infos_with_state_changes_def commit_state_diff_def Let_def
        demo_committer_def) (simp add: demo_os_def Let_def)
  moreover have "fetch_proofs (\<lambda>b h a c w. (Inr demo_proof, Suc w)) block proofs_query_default w = (Inr demo_proof, Suc w)"
    by (simp add: fetch_proofs_def count_total_keys_def proofs_query_default_def fetch_single_proof_def
        rio_map_err_apply)
  ultimately show ?thesis
    by (auto simp: get_storage_proofs_def q e Let_def rio_bind_apply storage_proof_config_default_def)
       (simp_all add: demo_proof_def proofs_query_default_def)
qed

theorem get_storage_proofs_sound_witness:
  "\<exists>sp w'. get_storage_proofs stark_felt demo_facts demo_committer demo_os (\<lambda>b h a c w. (Inr demo_proof, Suc w))
       7 (demo_data state_maps_default) storage_proof_config_default 0 = (Inr sp, w') \<and>
     state_maps_wf (vd_initial_reads (demo_data state_maps_default)) \<and>
     sm_declared_contracts (sp_extended_initial_reads sp) = []"
proof -
  obtain sp where sp: "get_storage_proofs stark_felt demo_facts demo_committer demo_os (\<lambda>b h a c w. (Inr demo_proof, Suc w))
     7 (demo_data state_maps_default) storage_proof_config_default 0 = (Inr sp, 1)"
    using demo_get_storage_proofs[of "demo_data state_maps_default" 7 0] by (auto simp: demo_data_def Let_def)
  have w: "state_maps_wf (vd_initial_reads (demo_data state_maps_default))"
    by (simp add: state_maps_wf_def state_maps_default_def demo_data_def Let_def)
  from get_storage_proofs_sound[OF sp w] show ?thesis using sp w by (auto simp: Let_def)
qed

end
