(* ===== verification/Runner.thy ===== *)
theory Runner
  imports StorageProofs
begin

text \<open>
  \<open>running/classes_provider.rs\<close> and \<open>running/runner.rs\<close>: collecting the compiled classes, building
  the hints of the virtual OS and running it. The OS itself, the conversion of compiled classes and
  the transaction hash are parameters.
\<close>

section \<open>Classes\<close>

datatype 'f maybe_relocatable = RInt 'f | RRelocatable nat nat

record ('f, 'x) casm_contract_class =
  cc_prime :: nat
  cc_compiler_version :: string
  cc_bytecode :: "nat list"
  cc_bytecode_segment_lengths :: "'x option"
  cc_hints :: 'x
  cc_pythonic_hints :: "'x option"
  cc_entry_points_by_type :: 'x

text \<open>What the provider uses of a compiled class: its bytecode, its segment sizes, hints and entry points.\<close>

record ('f, 'x) casm_lib =
  cl_program_data :: "'x \<Rightarrow> 'f maybe_relocatable list"
  cl_segment_sizes :: "'x \<Rightarrow> 'x"
  cl_casm_hints :: "'x \<Rightarrow> string + 'x"
  cl_entry_points :: "'x \<Rightarrow> 'x"
  cl_felt_prime :: nat
  cl_compiled_class_hash :: "('f, 'x) casm_contract_class \<Rightarrow> nat"

datatype 'f classes_provider_error =
    GetClassesError reexecution_error
  | DeprecatedContractError 'f
  | InvalidBytecodeElement
  | ClassStateError string
  | HintsConversionError string

definition compiled_class_v1_to_casm ::
  "'f felt_lib \<Rightarrow> ('f, 'x) casm_lib \<Rightarrow> 'x \<Rightarrow> 'f classes_provider_error + ('f, 'x) casm_contract_class" where
  "compiled_class_v1_to_casm F A class =
     and_then (collect_result (\<lambda>m. case m of
          RInt felt \<Rightarrow> Inr (felt_to_biguint F felt)
        | RRelocatable _ _ \<Rightarrow> Inl InvalidBytecodeElement) (cl_program_data A class)) (\<lambda>bytecode.
     and_then (map_err HintsConversionError (cl_casm_hints A class)) (\<lambda>hints. Inr \<lparr>
       cc_prime = cl_felt_prime A, cc_compiler_version = [], cc_bytecode = bytecode,
       cc_bytecode_segment_lengths = Some (cl_segment_sizes A class), cc_hints = hints,
       cc_pythonic_hints = None, cc_entry_points_by_type = cl_entry_points A class \<rparr>))"

text \<open>\<open>BigUint::to_bytes_be\<close>: the bytes without leading zeros, and a single zero byte for zero.\<close>

definition biguint_bytes :: "nat \<Rightarrow> u8 list" where
  "biguint_bytes n = map word_of_nat (nat_digits 256 n)"

definition casm_compiled_class_hash ::
  "'f felt_lib \<Rightarrow> ('f, 'x) casm_lib \<Rightarrow> ('f, 'x) casm_contract_class \<Rightarrow> 'f" where
  "casm_compiled_class_hash F A casm =
     (let bytes = biguint_bytes (cl_compiled_class_hash A casm);
          offset = 32 - length bytes;
          padded = replicate offset 0 @ drop (length bytes - 32) bytes
      in felt_from_bytes_be F padded)"

record ('f, 'x) classes_input =
  in_compiled_classes :: "('f, ('f, 'x) casm_contract_class) index_map"
  in_class_hash_to_compiled_class_hash :: "('f, 'f) index_map"

fun failed_get_classes :: "reexecution_error failure \<Rightarrow> 'f classes_provider_error failure" where
  "failed_get_classes (Failed e) = Failed (GetClassesError e)"
| "failed_get_classes (Panicked m) = Panicked m"

definition get_class_entry ::
  "'f felt_lib \<Rightarrow> ('f, 'x) reader_lib \<Rightarrow> ('f, 'x) class_lib \<Rightarrow> ('f, 'x) casm_lib \<Rightarrow> 'w net \<Rightarrow>
     'f rpc_state_reader \<Rightarrow> 'f \<Rightarrow> ('w, 'f classes_provider_error failure, 'f \<times> 'f \<times> ('f, 'x) casm_contract_class) rio" where
  "get_class_entry F L C A N rd class_hash =
     rio_bind (rio_map_err failed_get_classes (get_runnable_compiled_class_async F L C N rd class_hash)) (\<lambda>runnable.
       rio_lift (case runnable of
          RunnableV0 _ \<Rightarrow> Inl (Failed (DeprecatedContractError class_hash))
        | RunnableV1 compiled \<Rightarrow> and_then (map_err Failed (compiled_class_v1_to_casm F A compiled))
            (\<lambda>casm. Inr (class_hash, casm_compiled_class_hash F A casm, casm))))"

definition get_classes ::
  "'f felt_lib \<Rightarrow> ('f, 'x) reader_lib \<Rightarrow> ('f, 'x) class_lib \<Rightarrow> ('f, 'x) casm_lib \<Rightarrow> 'w net \<Rightarrow>
     'f rpc_state_reader \<Rightarrow> 'f list \<Rightarrow> ('w, 'f classes_provider_error failure, ('f, 'x) classes_input) rio" where
  "get_classes F L C A N rd executed_class_hashes =
     rio_bind (rio_collect (get_class_entry F L C A N rd) executed_class_hashes) (\<lambda>entries.
       rio_lift (Inr \<lparr>
         in_compiled_classes = im_extend [] (map (\<lambda>(h, cch, casm). (cch, casm)) entries),
         in_class_hash_to_compiled_class_hash = im_extend [] (map (\<lambda>(h, cch, casm). (h, cch)) entries) \<rparr>))"

section \<open>Hints of the virtual OS\<close>

record ('f, 'x) virtual_os_block_input =
  vi_contract_state_commitment_info :: "'f commitment_info"
  vi_address_to_storage_commitment_info :: "('f, 'f commitment_info) index_map"
  vi_contract_class_commitment_info :: "'f commitment_info"
  vi_chain_id :: chain_id
  vi_strk_fee_token_address :: 'f
  vi_transactions :: "(('f, 'x) invoke_transaction \<times> 'f) list"
  vi_tx_execution_infos :: "'x list"
  vi_block_info :: "('f, 'x) block_info"
  vi_initial_reads :: "'f state_maps"
  vi_base_block_hash :: 'f
  vi_base_block_header_commitments :: "'f header_commitments"
  vi_prev_base_block_hash :: 'f
  vi_compiled_classes :: "('f, ('f, 'x) casm_contract_class) index_map"

record ('f, 'x) os_block_input =
  ob_block_hash_commitments :: "'f header_commitments"
  ob_contract_state_commitment_info :: "'f commitment_info"
  ob_address_to_storage_commitment_info :: "('f, 'f commitment_info) index_map"
  ob_contract_class_commitment_info :: "'f commitment_info"
  ob_transactions :: "(('f, 'x) invoke_transaction \<times> 'f) list"
  ob_tx_execution_infos :: "'x list"
  ob_prev_block_hash :: 'f
  ob_block_info :: "('f, 'x) block_info"
  ob_initial_reads :: "'f state_maps"
  ob_declared_class_hash_to_component_hashes :: "('f, 'x) index_map"
  ob_new_block_hash :: 'f
  ob_old_block_number_and_hash :: "(u64 \<times> 'f) option"
  ob_class_hashes_to_migrate :: "'f list"

record ('f, 'x) os_hints =
  oh_os_block_inputs :: "('f, 'x) os_block_input list"
  oh_deprecated_compiled_classes :: "('f, 'x) index_map"
  oh_compiled_classes :: "('f, ('f, 'x) casm_contract_class) index_map"
  oh_debug_mode :: bool
  oh_full_output :: bool
  oh_use_kzg_da :: bool
  oh_chain_id :: chain_id
  oh_strk_fee_token_address :: 'f
  oh_public_keys :: "'f list option"
  oh_rng_seed_salt :: "'f option"

definition os_hints_from :: "('f, 'x) virtual_os_block_input \<Rightarrow> ('f, 'x) os_hints" where
  "os_hints_from i = \<lparr>
     oh_os_block_inputs = [\<lparr>
       ob_block_hash_commitments = vi_base_block_header_commitments i,
       ob_contract_state_commitment_info = vi_contract_state_commitment_info i,
       ob_address_to_storage_commitment_info = vi_address_to_storage_commitment_info i,
       ob_contract_class_commitment_info = vi_contract_class_commitment_info i,
       ob_transactions = vi_transactions i,
       ob_tx_execution_infos = vi_tx_execution_infos i,
       ob_prev_block_hash = vi_prev_base_block_hash i,
       ob_block_info = vi_block_info i,
       ob_initial_reads = vi_initial_reads i,
       ob_declared_class_hash_to_component_hashes = [],
       ob_new_block_hash = vi_base_block_hash i,
       ob_old_block_number_and_hash = None,
       ob_class_hashes_to_migrate = [] \<rparr>],
     oh_deprecated_compiled_classes = [],
     oh_compiled_classes = vi_compiled_classes i,
     oh_debug_mode = False, oh_full_output = False, oh_use_kzg_da = False,
     oh_chain_id = vi_chain_id i, oh_strk_fee_token_address = vi_strk_fee_token_address i,
     oh_public_keys = None, oh_rng_seed_salt = None \<rparr>"

section \<open>The runner\<close>

datatype 'f runner_error =
    ClassesProvider "'f classes_provider_error"
  | ProofProvider "'f proof_provider_error"
  | VirtualBlockExecutor "'f executor_error"
  | OsExecution string
  | InputGenerationError string
  | TransactionHashError string

text \<open>
  All the parameters of a run: the field, the readers and compilers, the blockifier, the committer,
  the OS utilities, and for the OS run the conversion of an execution output, the hash of a
  transaction on a chain and \<open>run_virtual_os\<close>, which returns the Cairo PIE.
\<close>

record ('f, 'x, 'm, 'w) runner_env =
  re_felt :: "'f felt_lib"
  re_reader :: "('f, 'x) reader_lib"
  re_entries :: "'f entry_lib"
  re_classes :: "('f, 'x) class_lib"
  re_casm :: "('f, 'x) casm_lib"
  re_blockifier :: "('f, 'x, 'm) blockifier"
  re_facts :: "'f facts_lib"
  re_committer :: "('f, 'x) committer"
  re_os :: "('f, 'x) os_lib"
  re_net :: "'w net"
  re_client :: "string \<Rightarrow> ('w, 'f) proof_client"
  re_central_execution_info :: "('f, 'x) execution_output \<Rightarrow> 'x"
  re_transaction_hash :: "('f, 'x) invoke_transaction \<Rightarrow> chain_id \<Rightarrow> string + 'f"
  re_run_virtual_os :: "('f, 'x) os_hints \<Rightarrow> string + 'x"

record 'x runner_config =
  rc_storage_proof_config :: storage_proof_config
  rc_executor_config :: "'x executor_config"

record ('f, 'x) runner =
  rn_classes_reader :: "'f rpc_state_reader"
  rn_storage_url :: string
  rn_executor :: "('f, 'x) rpc_executor"
  rn_config :: "'x runner_config"
  rn_block_id :: "'f block_id"
  rn_chain_id :: chain_id

record ('f, 'x) runner_output =
  ro_cairo_pie :: 'x
  ro_l2_to_l1_messages :: "'f message_to_l1 list"

definition virtual_os_block_input_of ::
  "('f, 'x, 'm, 'w) runner_env \<Rightarrow> ('f, 'x) virtual_block_execution_data \<Rightarrow> ('f, 'x) classes_input \<Rightarrow>
     'f storage_proofs \<Rightarrow> (('f, 'x) invoke_transaction \<times> 'f) list \<Rightarrow> ('f, 'x) virtual_os_block_input" where
  "virtual_os_block_input_of R data classes proofs txs =
     (let base = vd_base_block_info data; ctx = bb_block_context base;
          reads = sp_extended_initial_reads proofs;
          extended = reads\<lparr>
            sm_compiled_class_hashes := im_extend (sm_compiled_class_hashes reads)
              (in_class_hash_to_compiled_class_hash classes),
            sm_declared_contracts := [] \<rparr>
      in \<lparr> vi_contract_state_commitment_info = sc_contracts_trie_commitment_info (sp_commitment_infos proofs),
           vi_address_to_storage_commitment_info = sc_storage_tries_commitment_infos (sp_commitment_infos proofs),
           vi_contract_class_commitment_info = sc_classes_trie_commitment_info (sp_commitment_infos proofs),
           vi_chain_id = ci_chain_id (bc_chain_info ctx),
           vi_strk_fee_token_address = strk_fee_token_address (bc_chain_info ctx),
           vi_transactions = txs,
           vi_tx_execution_infos = map (re_central_execution_info R) (vd_execution_outputs data),
           vi_block_info = bc_block_info ctx,
           vi_initial_reads = extended,
           vi_base_block_hash = bb_base_block_hash base,
           vi_base_block_header_commitments = bb_base_block_header_commitments base,
           vi_prev_base_block_hash = bb_prev_base_block_hash base,
           vi_compiled_classes = in_compiled_classes classes \<rparr>)"

definition create_virtual_os_hints ::
  "('f :: linorder, 'x, 'm, 'w) runner_env \<Rightarrow> ('f, 'x) runner \<Rightarrow> ('f, 'x) virtual_block_execution_data \<Rightarrow>
     (('f, 'x) invoke_transaction \<times> 'f) list \<Rightarrow> ('w, 'f runner_error failure, ('f, 'x) os_hints) rio" where
  "create_virtual_os_hints R rn data txs =
     (let block_number = bi_block_number (bc_block_info (bb_block_context (vd_base_block_info data))) in
      rio_bind (rio_map_err (map_failure ClassesProvider) (get_classes (re_felt R) (re_reader R)
          (re_classes R) (re_casm R) (re_net R) (rn_classes_reader rn) (vd_executed_class_hashes data))) (\<lambda>classes.
      rio_bind (rio_map_err (map_failure ProofProvider) (get_storage_proofs (re_felt R) (re_facts R)
          (re_committer R) (re_os R) (re_client R (rn_storage_url rn)) block_number data
          (rc_storage_proof_config (rn_config rn)))) (\<lambda>proofs.
        rio_lift (Inr (os_hints_from (virtual_os_block_input_of R data classes proofs txs))))))"

definition hash_transactions ::
  "('f, 'x, 'm, 'w) runner_env \<Rightarrow> chain_id \<Rightarrow> ('f, 'x) invoke_transaction list \<Rightarrow>
     'f runner_error + (('f, 'x) invoke_transaction \<times> 'f) list" where
  "hash_transactions R chain txs = collect_result (\<lambda>tx. and_then
     (map_err TransactionHashError (re_transaction_hash R tx chain)) (\<lambda>h. Inr (tx, h))) txs"

definition runner_run_virtual_os ::
  "('f :: linorder, 'x, 'm, 'w) runner_env \<Rightarrow> ('f, 'x) runner \<Rightarrow> ('f, 'x) invoke_transaction list \<Rightarrow>
     ('w \<times> 'm, 'f runner_error failure, ('f, 'x) runner_output) rio" where
  "runner_run_virtual_os R rn txs =
     rio_bind (rio_lift (map_err Failed (hash_transactions R (rn_chain_id rn) txs))) (\<lambda>txs_with_hashes.
     rio_bind (rio_map_err (map_failure VirtualBlockExecutor) (execute (re_felt R) (re_reader R)
         (re_entries R) (re_classes R) (re_blockifier R) (re_net R) (rn_executor rn) (rn_block_id rn)
         txs_with_hashes)) (\<lambda>data.
     rio_bind (rio_fst (create_virtual_os_hints R rn data txs_with_hashes)) (\<lambda>os_hints.
       rio_lift (map_err (\<lambda>e. Failed (OsExecution e)) (and_then (re_run_virtual_os R os_hints)
         (\<lambda>pie. Inr \<lparr> ro_cairo_pie = pie, ro_l2_to_l1_messages = vd_l2_to_l1_messages data \<rparr>))))))"

section \<open>\<open>RpcRunnerFactory\<close>\<close>

record ('f, 'x) rpc_runner_factory =
  rf_node_url :: string
  rf_chain_info :: "'f chain_info"
  rf_runner_config :: "'x runner_config"

definition create_runner :: "('f, 'x) rpc_runner_factory \<Rightarrow> 'f block_id \<Rightarrow> ('f, 'x) runner" where
  "create_runner factory b = \<lparr>
     rn_classes_reader = new_with_config_from_url (rf_node_url factory) (rf_chain_info factory) b,
     rn_storage_url = rf_node_url factory,
     rn_executor = executor_new (rf_node_url factory) (rf_chain_info factory) b
        (rc_executor_config (rf_runner_config factory)),
     rn_config = rf_runner_config factory,
     rn_block_id = b,
     rn_chain_id = ci_chain_id (rf_chain_info factory) \<rparr>"

definition factory_run_virtual_os ::
  "('f :: linorder, 'x, 'm, 'w) runner_env \<Rightarrow> ('f, 'x) rpc_runner_factory \<Rightarrow> 'f block_id \<Rightarrow>
     ('f, 'x) invoke_transaction list \<Rightarrow> ('w \<times> 'm, 'f runner_error failure, ('f, 'x) runner_output) rio" where
  "factory_run_virtual_os R factory b txs = runner_run_virtual_os R (create_runner factory b) txs"

section \<open>Compiled class hashes\<close>

lemma be_nat_biguint_bytes: "be_nat (biguint_bytes n) = n"
proof (induction n rule: less_induct)
  case (less n)
  have unat_mod: "unat (word_of_nat (k mod 256) :: u8) = k mod 256" for k
    by (simp add: unat_of_nat)
  show ?case
  proof (cases "n < 256")
    case True
    then show ?thesis
      using unat_mod[of n] be_nat_snoc[of "[]" "word_of_nat n"] by (simp add: biguint_bytes_def nat_digits.simps[of 256 n])
  next
    case False
    then have "be_nat (biguint_bytes n) = 256 * be_nat (biguint_bytes (n div 256)) + n mod 256"
      using unat_mod[of n] by (simp add: biguint_bytes_def nat_digits.simps[of 256 n])
    also have "\<dots> = n" using less[of "n div 256"] False by simp
    finally show ?thesis .
  qed
qed

lemma length_biguint_bytes: "n < 256 ^ k \<Longrightarrow> 0 < k \<Longrightarrow> length (biguint_bytes n) \<le> k"
  using length_nat_digits[of 256 n k] by (simp add: biguint_bytes_def)

text \<open>
  The compiled class hash of a class is its hash as a field element: for every hash of at most
  32 bytes the padding is exact, and the value is only reduced modulo the field prime.
\<close>

lemma casm_compiled_class_hash_value:
  assumes "felt_library F" and "cl_compiled_class_hash A casm < 256 ^ 32"
  shows "felt_to_biguint F (casm_compiled_class_hash F A casm) = cl_compiled_class_hash A casm mod stark_prime"
proof -
  let ?b = "biguint_bytes (cl_compiled_class_hash A casm)"
  have "length ?b \<le> 32" using length_biguint_bytes[OF assms(2)] by simp
  then have "casm_compiled_class_hash F A casm = felt_from_bytes_be F (replicate (32 - length ?b) 0 @ ?b)"
    by (simp add: casm_compiled_class_hash_def Let_def)
  then show ?thesis
    by (simp add: felt_library.from_bytes_be[OF assms(1)] be_nat_biguint_bytes)
qed

section \<open>Classes of a run\<close>

lemma get_class_entry_Inr:
  assumes "get_class_entry F L C A N rd h w = (Inr (h', cch, casm), w')"
  shows "h' = h \<and> cch = casm_compiled_class_hash F A casm \<and>
     (\<exists>compiled. get_runnable_compiled_class_async F L C N rd h w = (Inr (RunnableV1 compiled), w') \<and>
        compiled_class_v1_to_casm F A compiled = Inr casm)"
proof -
  from assms obtain runnable where r: "get_runnable_compiled_class_async F L C N rd h w = (Inr runnable, w')"
    and k: "(case runnable of RunnableV0 _ \<Rightarrow> Inl (Failed (DeprecatedContractError h))
        | RunnableV1 compiled \<Rightarrow> and_then (map_err Failed (compiled_class_v1_to_casm F A compiled))
            (\<lambda>casm. Inr (h, casm_compiled_class_hash F A casm, casm))) = Inr (h', cch, casm)"
    unfolding get_class_entry_def rio_iffs by blast
  then show ?thesis by (cases runnable) (auto simp: result_iffs)
qed

lemma get_class_entries_Inr:
  assumes "rio_collect (get_class_entry F L C A N rd) hs w = (Inr entries, w')"
  shows "map fst entries = hs \<and> (\<forall>(h, cch, casm) \<in> set entries. cch = casm_compiled_class_hash F A casm \<and>
     (\<exists>compiled w1 w2. get_runnable_compiled_class_async F L C N rd h w1 = (Inr (RunnableV1 compiled), w2) \<and>
        compiled_class_v1_to_casm F A compiled = Inr casm))"
  using assms
proof (induction hs arbitrary: w entries)
  case Nil
  then show ?case by simp
next
  case (Cons h hs)
  then obtain e es w1 where e: "get_class_entry F L C A N rd h w = (Inr e, w1)"
    and r: "rio_collect (get_class_entry F L C A N rd) hs w1 = (Inr es, w')" and "entries = e # es"
    unfolding rio_collect_Inr_Cons by blast
  moreover obtain h' cch casm where "e = (h', cch, casm)" by (cases e)
  ultimately show ?case using Cons.IH[OF r] get_class_entry_Inr[of F L C A N rd h w h' cch casm w1] by auto
qed

lemma map_of_distinct_keys:
  "distinct (map fst es) \<Longrightarrow> (k, v) \<in> set es \<Longrightarrow> map_of (im_extend [] es) k = Some v"
  using im_extend_distinct[of "[]" es] by simp

text \<open>
  When the classes of a run are collected, every executed class was served in a compiled form
  that the OS supports, its hash is mapped to the compiled class hash of that class, and the OS input
  holds, for every compiled class hash that is mapped to, a class with this hash.
\<close>

lemma get_classes_complete:
  assumes "get_classes F L C A N rd hs w = (Inr classes, w')" and "distinct hs"
  shows "dom (map_of (in_class_hash_to_compiled_class_hash classes)) = set hs \<and>
     (\<forall>h \<in> set hs. \<exists>compiled casm w1 w2.
        get_runnable_compiled_class_async F L C N rd h w1 = (Inr (RunnableV1 compiled), w2) \<and>
        compiled_class_v1_to_casm F A compiled = Inr casm \<and>
        map_of (in_class_hash_to_compiled_class_hash classes) h = Some (casm_compiled_class_hash F A casm)) \<and>
     (\<forall>cch \<in> ran (map_of (in_class_hash_to_compiled_class_hash classes)). \<exists>casm.
        map_of (in_compiled_classes classes) cch = Some casm \<and> cch = casm_compiled_class_hash F A casm)"
proof -
  from assms(1) obtain es where c: "rio_collect (get_class_entry F L C A N rd) hs w = (Inr es, w')"
    and classes: "in_compiled_classes classes = im_extend [] (map (\<lambda>(h, cch, casm). (cch, casm)) es)"
    "in_class_hash_to_compiled_class_hash classes = im_extend [] (map (\<lambda>(h, cch, casm). (h, cch)) es)"
    by (auto simp: get_classes_def rio_iffs)
  have hs: "map fst es = hs" and es: "\<forall>(h, cch, casm) \<in> set es. cch = casm_compiled_class_hash F A casm \<and>
     (\<exists>compiled w1 w2. get_runnable_compiled_class_async F L C N rd h w1 = (Inr (RunnableV1 compiled), w2) \<and>
        compiled_class_v1_to_casm F A compiled = Inr casm)"
    using get_class_entries_Inr[OF c] by blast+
  have fst_eq: "map fst (map (\<lambda>(h, cch, casm). (h, cch)) es) = hs"
    using hs by (auto simp: comp_def split_beta)
  have dom: "dom (map_of (in_class_hash_to_compiled_class_hash classes)) = set hs"
    unfolding classes dom_im_extend fst_eq[symmetric] set_map by simp
  have entry: "map_of (in_class_hash_to_compiled_class_hash classes) h = Some cch"
    if "(h, cch, casm) \<in> set es" for h cch casm
  proof -
    have "(h, cch) \<in> set (map (\<lambda>(h, cch, casm). (h, cch)) es)" using that by force
    moreover have "distinct (map fst (map (\<lambda>(h, cch, casm). (h, cch)) es))"
      unfolding fst_eq by (rule assms(2))
    ultimately show ?thesis unfolding classes by (intro map_of_distinct_keys)
  qed
  have "\<exists>compiled casm w1 w2.
        get_runnable_compiled_class_async F L C N rd h w1 = (Inr (RunnableV1 compiled), w2) \<and>
        compiled_class_v1_to_casm F A compiled = Inr casm \<and>
        map_of (in_class_hash_to_compiled_class_hash classes) h = Some (casm_compiled_class_hash F A casm)"
    if "h \<in> set hs" for h
  proof -
    from that hs obtain cch casm where i: "(h, cch, casm) \<in> set es" by force
    have "cch = casm_compiled_class_hash F A casm"
      "\<exists>compiled w1 w2. get_runnable_compiled_class_async F L C N rd h w1 = (Inr (RunnableV1 compiled), w2) \<and>
        compiled_class_v1_to_casm F A compiled = Inr casm"
      using bspec[OF es i] by simp_all
    with entry[OF i] show ?thesis by blast
  qed
  moreover have "\<exists>casm. map_of (in_compiled_classes classes) cch = Some casm \<and> cch = casm_compiled_class_hash F A casm"
    if "cch \<in> ran (map_of (in_class_hash_to_compiled_class_hash classes))" for cch
  proof -
    from that obtain h where h: "map_of (in_class_hash_to_compiled_class_hash classes) h = Some cch"
      by (auto simp: ran_def)
    then have "h \<in> set hs" using dom by blast
    with hs obtain cch' casm where i: "(h, cch', casm) \<in> set es" by force
    then have "cch \<in> fst ` set (map (\<lambda>(h, cch, casm). (cch, casm)) es)" using entry[OF i] h by force
    then obtain casm' where m: "map_of (in_compiled_classes classes) cch = Some casm'"
      unfolding classes using dom_im_extend[of "[]" "map (\<lambda>(h, cch, casm). (cch, casm)) es"] by blast
    have "(cch, casm') \<in> set (map (\<lambda>(h, cch, casm). (cch, casm)) es)"
      using m unfolding classes map_of_im_extend by (auto dest!: map_of_SomeD simp flip: rev_map)
    with es m show ?thesis by auto
  qed
  ultimately show ?thesis using dom by blast
qed

lemma get_classes_dom:
  assumes "get_classes F L C A N rd hs w = (Inr classes, w')"
  shows "dom (map_of (in_class_hash_to_compiled_class_hash classes)) = set hs"
proof -
  from assms obtain es where c: "rio_collect (get_class_entry F L C A N rd) hs w = (Inr es, w')"
    and classes: "in_class_hash_to_compiled_class_hash classes = im_extend [] (map (\<lambda>(h, cch, casm). (h, cch)) es)"
    by (auto simp: get_classes_def rio_iffs)
  from get_class_entries_Inr[OF c] have hs: "map fst es = hs" by blast
  show ?thesis unfolding classes dom_im_extend hs[symmetric] set_map by (simp add: image_image split_beta)
qed

lemma get_classes_distinct:
  assumes "get_classes F L C A N rd hs w = (Inr classes, w')"
  shows "distinct (map fst (in_class_hash_to_compiled_class_hash classes))"
  using assms by (auto simp: get_classes_def rio_iffs intro!: distinct_im_extend)

lemma map_of_im_extend_new:
  assumes "distinct (map fst es)" and "map_of es k = Some v"
  shows "map_of (im_extend ms es) k = Some v"
proof -
  have "distinct (map fst (rev es))" using assms(1) by (simp add: rev_map flip: rev_map)
  then have "map_of (rev es) k = Some v" using map_of_SomeD[OF assms(2)] by (simp add: map_of_eq_Some_iff)
  then show ?thesis by (simp add: map_of_im_extend)
qed

text \<open>
  C3: a run that returns has hashed every transaction for its chain and executed them on the given block,
  without a revert among those that ran; it has given the OS exactly these transactions with their
  hashes and execution infos, and reads with no declared contracts; it has collected the classes of that
  execution, and the reads of the OS hold for every executed class the compiled class hash that was
  computed for it; the messages it returns are those of the execution, in order.
\<close>

theorem run_virtual_os_sound:
  fixes R :: "('f :: linorder, 'x, 'm, 'w) runner_env"
  assumes "runner_run_virtual_os R rn txs s = (Inr out, s')"
  shows "\<exists>hashed data s1 classes w w1 hints input.
     execute (re_felt R) (re_reader R) (re_entries R) (re_classes R) (re_blockifier R) (re_net R)
       (rn_executor rn) (rn_block_id rn) hashed s = (Inr data, s1) \<and>
     list_all2 (\<lambda>tx (tx', h). tx' = tx \<and> re_transaction_hash R tx (rn_chain_id rn) = Inr h) txs hashed \<and>
     (\<forall>(o', h) \<in> set (zip (vd_execution_outputs data) (map snd hashed)). eo_revert_error o' = None) \<and>
     ro_l2_to_l1_messages out = concat (map (\<lambda>o'. concat (eo_call_messages o')) (vd_execution_outputs data)) \<and>
     re_run_virtual_os R hints = Inr (ro_cairo_pie out) \<and>
     oh_os_block_inputs hints = [input] \<and> ob_transactions input = hashed \<and>
     ob_tx_execution_infos input = map (re_central_execution_info R) (vd_execution_outputs data) \<and>
     sm_declared_contracts (ob_initial_reads input) = [] \<and>
     get_classes (re_felt R) (re_reader R) (re_classes R) (re_casm R) (re_net R) (rn_classes_reader rn)
       (vd_executed_class_hashes data) w = (Inr classes, w1) \<and>
     (\<forall>h \<in> set (vd_executed_class_hashes data). \<exists>cch.
        map_of (in_class_hash_to_compiled_class_hash classes) h = Some cch \<and>
        map_of (sm_compiled_class_hashes (ob_initial_reads input)) h = Some cch)"
proof -
  from assms obtain hashed data hints s1 s2 where
    h: "hash_transactions R (rn_chain_id rn) txs = Inr hashed" and
    x: "execute (re_felt R) (re_reader R) (re_entries R) (re_classes R) (re_blockifier R) (re_net R)
         (rn_executor rn) (rn_block_id rn) hashed s = (Inr data, s1)" and
    c: "rio_fst (create_virtual_os_hints R rn data hashed) s1 = (Inr hints, s2)" and
    o': "\<exists>pie. re_run_virtual_os R hints = Inr pie \<and>
        \<lparr> ro_cairo_pie = pie, ro_l2_to_l1_messages = vd_l2_to_l1_messages data \<rparr> = out"
    unfolding runner_run_virtual_os_def rio_iffs result_iffs sum.inject by blast
  from o' have r: "re_run_virtual_os R hints = Inr (ro_cairo_pie out)"
    and m: "ro_l2_to_l1_messages out = vd_l2_to_l1_messages data" by auto
  have hl: "list_all2 (\<lambda>tx (tx', h). tx' = tx \<and> re_transaction_hash R tx (rn_chain_id rn) = Inr h) txs hashed"
    using h unfolding hash_transactions_def collect_result_Inr by (rule list_all2_mono) (auto simp: result_iffs)
  from execute_Inr_finish[OF x] obtain info maps btxs m' where
    f: "finish_execution info (map snd hashed) (execute_txs (re_blockifier R) (simulated_reader
        \<lparr> ss_state_maps = maps, ss_rpc_state_reader = ex_rpc_state_reader (rn_executor rn) \<rparr>) m'
        (bb_block_context info) btxs) = Inr data"
    by blast
  note fin = finish_execution_Inr[OF f]
  from c obtain classes proofs w w1 where
    k: "get_classes (re_felt R) (re_reader R) (re_classes R) (re_casm R) (re_net R) (rn_classes_reader rn)
          (vd_executed_class_hashes data) w = (Inr classes, w1)" and
    hints: "hints = os_hints_from (virtual_os_block_input_of R data classes proofs hashed)"
    by (cases s1) (auto simp: rio_fst_def create_virtual_os_hints_def Let_def rio_iffs split: prod.splits)
  have cch: "\<forall>h \<in> set (vd_executed_class_hashes data). \<exists>cch.
        map_of (in_class_hash_to_compiled_class_hash classes) h = Some cch \<and>
        map_of (im_extend ms (in_class_hash_to_compiled_class_hash classes)) h = Some cch" for ms
    using get_classes_dom[OF k] map_of_im_extend_new[OF get_classes_distinct[OF k], of _ _ ms] by blast
  obtain input ms where i: "oh_os_block_inputs hints = [input]" "ob_transactions input = hashed"
    "ob_tx_execution_infos input = map (re_central_execution_info R) (vd_execution_outputs data)"
    "sm_declared_contracts (ob_initial_reads input) = []"
    "sm_compiled_class_hashes (ob_initial_reads input) = im_extend ms (in_class_hash_to_compiled_class_hash classes)"
    by (simp add: hints os_hints_from_def virtual_os_block_input_of_def Let_def)
  have msg: "vd_l2_to_l1_messages data = concat (map (\<lambda>o'. concat (eo_call_messages o')) (vd_execution_outputs data))"
    and rev: "\<forall>(o', h) \<in> set (zip (vd_execution_outputs data) (map snd hashed)). eo_revert_error o' = None"
    using fin by blast+
  note all = x hl rev m[unfolded msg] r i(1-4) k cch[of ms, folded i(5)]
  show ?thesis
    by (intro exI[of _ hashed] exI[of _ data] exI[of _ s1] exI[of _ classes] exI[of _ w] exI[of _ w1] exI[of _ hints] exI[of _ input] conjI)
      (rule all)+
qed

section \<open>A run for the witnesses\<close>

definition demo_casm :: "(felt252, nat) casm_lib" where
  "demo_casm = \<lparr> cl_program_data = (\<lambda>c. [RInt (felt_of_nat c)]), cl_segment_sizes = (\<lambda>c. 1),
     cl_casm_hints = (\<lambda>c. Inr 0), cl_entry_points = (\<lambda>c. 0), cl_felt_prime = stark_prime,
     cl_compiled_class_hash = (\<lambda>casm. 1000 + length (cc_bytecode casm)) \<rparr>"

definition demo_env :: "(felt252, nat, (felt252 \<times> nat compiled_classes) list, nat) runner_env" where
  "demo_env = \<lparr> re_felt = stark_felt, re_reader = demo_reader, re_entries = demo_entries,
     re_classes = demo_classes, re_casm = demo_casm, re_blockifier = demo_blockifier,
     re_facts = demo_facts, re_committer = demo_committer, re_os = demo_os, re_net = demo_answer_net,
     re_client = (\<lambda>url b h a c w. (Inr demo_proof, Suc w)),
     re_central_execution_info = eo_info, re_transaction_hash = (\<lambda>tx c. Inr (felt_of_nat 4)),
     re_run_virtual_os = (\<lambda>hints. Inr (length (oh_os_block_inputs hints))) \<rparr>"

definition demo_runner :: "(felt252, nat) runner" where
  "demo_runner = \<lparr> rn_classes_reader = new_with_config_from_url ''u'' demo_chain_info Latest,
     rn_storage_url = ''u'', rn_executor = demo_executor,
     rn_config = \<lparr> rc_storage_proof_config = storage_proof_config_default,
       rc_executor_config = ex_config demo_executor \<rparr>,
     rn_block_id = Latest, rn_chain_id = Sepolia \<rparr>"

lemma demo_run:
  "\<exists>out. runner_run_virtual_os demo_env demo_runner [tx] (0, []) = (Inr out, (2, []))"
proof -
  obtain d where d: "execute stark_felt demo_reader demo_entries demo_classes demo_blockifier demo_answer_net
      demo_executor Latest [(tx, felt_of_nat 4)] (0, []) = (Inr d, (1, []))"
    using demo_execute by blast
  from execute_Inr_finish[OF d] obtain info maps btxs m where
    "finish_execution info [felt_of_nat 4] (execute_txs demo_blockifier (simulated_reader
        \<lparr> ss_state_maps = maps, ss_rpc_state_reader = ex_rpc_state_reader demo_executor \<rparr>) m
        (bb_block_context info) btxs) = Inr d" by auto
  note fin = finish_execution_Inr[OF this]
  have fields: "vd_initial_reads d = state_maps_default" "vd_state_diff d = state_maps_default"
    "vd_executed_class_hashes d = []"
    using fin by (auto simp: demo_blockifier_def)
  from demo_get_storage_proofs[OF this] obtain sp where
    sp: "get_storage_proofs stark_felt demo_facts demo_committer demo_os (\<lambda>b h a c w. (Inr demo_proof, Suc w))
       (bi_block_number (bc_block_info (bb_block_context (vd_base_block_info d)))) d storage_proof_config_default (Suc 0) = (Inr sp, Suc (Suc 0))"
    by metis
  show ?thesis
    by (simp add: runner_run_virtual_os_def demo_env_def demo_runner_def rio_bind_apply rio_map_err_apply
        rio_fst_def d create_virtual_os_hints_def hash_transactions_def Let_def get_classes_def fields(3) sp)
qed

theorem run_virtual_os_sound_witness:
  "\<exists>out s'. runner_run_virtual_os demo_env demo_runner [InvokeOther 0] (0, []) = (Inr out, s') \<and>
     (\<exists>hints input. re_run_virtual_os demo_env hints = Inr (ro_cairo_pie out) \<and> oh_os_block_inputs hints = [input] \<and>
        ob_transactions input = [(InvokeOther 0, felt_of_nat 4)])"
proof -
  obtain out where out: "runner_run_virtual_os demo_env demo_runner [InvokeOther 0] (0, []) = (Inr out, (2, []))"
    using demo_run by blast
  from run_virtual_os_sound[OF out] obtain hashed hints input where
    "list_all2 (\<lambda>tx (tx', h). tx' = tx \<and> re_transaction_hash demo_env tx (rn_chain_id demo_runner) = Inr h) [InvokeOther 0] hashed"
    "re_run_virtual_os demo_env hints = Inr (ro_cairo_pie out)" "oh_os_block_inputs hints = [input]"
    "ob_transactions input = hashed" by blast
  moreover from this(1) have "hashed = [(InvokeOther 0, felt_of_nat 4)]"
    by (auto simp: list_all2_Cons1 demo_env_def)
  ultimately show ?thesis using out by blast
qed

lemma demo_runnable:
  "get_runnable_compiled_class_async stark_felt demo_reader demo_classes demo_answer_net rd h t =
     (Inr (RunnableV1 7), t + 2)"
  by (simp add: get_runnable_compiled_class_async_def get_contract_class_async_def fetch_casm_def
      rio_bind_apply rio_map_err_apply demo_send demo_classes_def)

definition demo_class :: "(felt252, nat) casm_contract_class" where
  "demo_class = \<lparr> cc_prime = stark_prime, cc_compiler_version = ''2.12.0'', cc_bytecode = [1, 2],
     cc_bytecode_segment_lengths = None, cc_hints = 0, cc_pythonic_hints = None, cc_entry_points_by_type = 0 \<rparr>"

end
