(* ===== verification/Prover.thy ===== *)
theory Prover
  imports Runner
begin

text \<open>
  \<open>config.rs\<close>, \<open>proving/prover.rs\<close> and \<open>proving/virtual_snos_prover.rs\<close> of the transaction prover, and
  the crate \<open>snip36-virtual-os\<close>: input validation, one run of the virtual OS, the proof, and the
  artifacts. The Stwo prover, the proof facts and the typed JSON conversions are parameters; so is the
  feature flag that compiles the in-memory prover in.
\<close>

section \<open>Parameters and configuration\<close>

datatype ('f, 'x) rpc_transaction =
    RpcInvoke "'f rpc_invoke_v3"
  | RpcDeclare 'x
  | RpcDeployAccount 'x

record ('f, 'x, 'm, 'w) prover_env =
  pe_runner :: "('f, 'x, 'm, 'w) runner_env"
  pe_stwo_proving :: bool
  pe_manager_config_default :: 'x
  pe_manager_start :: "'x \<Rightarrow> 'm"
  pe_url_parse :: "string \<Rightarrow> string option"
  pe_address_try_from :: "'f \<Rightarrow> string + 'f"
  pe_prepare_precomputes :: "string + 'x"
  pe_recursive_prove :: "'x \<Rightarrow> 'x \<Rightarrow> string + u8 list \<times> 'x"
  pe_try_into_proof_facts :: "'x \<Rightarrow> string + 'f list"
  pe_bounds_max_possible_fee :: "resource_bounds \<Rightarrow> u64 \<Rightarrow> u128"
  pe_parse_transaction :: "json \<Rightarrow> string + ('f, 'x) rpc_transaction"
  pe_parse_address :: "string \<Rightarrow> string + 'f"
  pe_facts_json :: "'f list \<Rightarrow> string + json"
  pe_messages_json :: "'f message_to_l1 list \<Rightarrow> string + json"

record ('f, 'x) prover_config =
  pc_rpc_node_url :: string
  pc_chain_id :: chain_id
  pc_strk_fee_token_address :: "'f option"
  pc_validate_zero_fee_fields :: bool
  pc_runner_config :: "'x runner_config"
  pc_contract_class_manager_config :: 'x

definition prover_config_default :: "('f, 'x, 'm, 'w) prover_env \<Rightarrow> ('f, 'x) prover_config" where
  "prover_config_default P = \<lparr>
     pc_rpc_node_url = [], pc_chain_id = Sepolia, pc_strk_fee_token_address = None,
     pc_validate_zero_fee_fields = True,
     pc_runner_config = \<lparr> rc_storage_proof_config = storage_proof_config_default,
       rc_executor_config = executor_config_default (re_blockifier (pe_runner P)) \<rparr>,
     pc_contract_class_manager_config = pe_manager_config_default P \<rparr>"

section \<open>The prover\<close>

datatype 'f snos_prover_error =
    InvalidTransactionType string
  | InvalidTransactionInput string
  | ValidationError string
  | ProgramOutputError string
  | RunnerError "'f runner_error"
  | ProvingError string

record ('f, 'x) virtual_snos_prover =
  vp_runner :: "('f, 'x) rpc_runner_factory"
  vp_validate_zero_fee_fields :: bool
  vp_precomputes :: "'x option"

record 'f prove_transaction_result =
  pr_proof :: "u8 list"
  pr_proof_facts :: "'f list"
  pr_l2_to_l1_messages :: "'f message_to_l1 list"

definition precomputes_of :: "('f, 'x, 'm, 'w) prover_env \<Rightarrow> panic + 'x option" where
  "precomputes_of P =
     (if pe_stwo_proving P
      then and_then (map_err (\<lambda>e. Panic (''Failed to prepare recursive prover precomputes: '' @ e))
             (pe_prepare_precomputes P)) (\<lambda>x. Inr (Some x))
      else Inr None)"

text \<open>\<open>VirtualSnosProver::new\<close>: the prover and the class manager it starts.\<close>

definition prover_new ::
  "('f, 'x, 'm, 'w) prover_env \<Rightarrow> ('f, 'x) prover_config \<Rightarrow> panic + ('f, 'x) virtual_snos_prover \<times> 'm" where
  "prover_new P config =
     (let manager = pe_manager_start P (pc_contract_class_manager_config config) in
      and_then (ok_or (Panic ''Invalid RPC node URL in config'') (pe_url_parse P (pc_rpc_node_url config))) (\<lambda>node_url.
      and_then (get_chain_info (re_felt (pe_runner P)) (pe_address_try_from P) (pc_chain_id config)
         (pc_strk_fee_token_address config)) (\<lambda>info.
      and_then (precomputes_of P) (\<lambda>pre.
        Inr (\<lparr> vp_runner = \<lparr> rf_node_url = node_url, rf_chain_info = info,
                rf_runner_config = pc_runner_config config \<rparr>,
               vp_validate_zero_fee_fields = pc_validate_zero_fee_fields config,
               vp_precomputes = pre \<rparr>, manager)))))"

definition from_runner ::
  "('f, 'x, 'm, 'w) prover_env \<Rightarrow> ('f, 'x) rpc_runner_factory \<Rightarrow> panic + ('f, 'x) virtual_snos_prover" where
  "from_runner P runner = and_then (precomputes_of P) (\<lambda>pre. Inr \<lparr>
     vp_runner = runner, vp_validate_zero_fee_fields = True, vp_precomputes = pre \<rparr>)"

definition disable_fee_validation :: "('f, 'x) virtual_snos_prover \<Rightarrow> ('f, 'x) virtual_snos_prover" where
  "disable_fee_validation p = p\<lparr> vp_validate_zero_fee_fields := False \<rparr>"

definition extract_rpc_invoke_tx ::
  "('f, 'x) rpc_transaction \<Rightarrow> 'f snos_prover_error + 'f rpc_invoke_v3" where
  "extract_rpc_invoke_tx tx = (case tx of
     RpcInvoke invoke_v3 \<Rightarrow> Inr invoke_v3
   | RpcDeclare _ \<Rightarrow> Inl (InvalidTransactionType
       ''Declare transactions are not supported; only Invoke transactions are allowed'')
   | RpcDeployAccount _ \<Rightarrow> Inl (InvalidTransactionType
       ''DeployAccount transactions are not supported; only Invoke transactions are allowed''))"

definition validate_transaction_input ::
  "('f, 'x, 'm, 'w) prover_env \<Rightarrow> 'f rpc_invoke_v3 \<Rightarrow> bool \<Rightarrow> 'f snos_prover_error + unit" where
  "validate_transaction_input P tx validate_zero_fee_fields =
     (if ri_proof tx \<noteq> [] then Inl (InvalidTransactionInput ''The proof field must be empty on input.'')
      else if ai_proof_facts tx \<noteq> []
      then Inl (InvalidTransactionInput ''The proof_facts field must be empty on input.'')
      else if validate_zero_fee_fields
      then (let max_fee = pe_bounds_max_possible_fee P (ai_resource_bounds tx) (ai_tip tx) in
            if max_fee \<noteq> 0
            then Inl (InvalidTransactionInput (''Max possible fee must be zero, got: '' @ dec_string (unat max_fee) @ ''.''))
            else Inr ())
      else Inr ())"

text \<open>\<open>prover.rs\<close>: the proof and the program output.\<close>

definition prove :: "('f, 'x, 'm, 'w) prover_env \<Rightarrow> 'x \<Rightarrow> 'x \<Rightarrow> 'f snos_prover_error + u8 list \<times> 'x" where
  "prove P cairo_pie precomputes = map_err ProvingError (pe_recursive_prove P cairo_pie precomputes)"

definition prove_virtual_snos_run ::
  "('f, 'x, 'm, 'w) prover_env \<Rightarrow> ('f, 'x) virtual_snos_prover \<Rightarrow> ('f, 'x) runner_output \<Rightarrow>
     'f snos_prover_error failure + 'f prove_transaction_result" where
  "prove_virtual_snos_run P p runner_output =
     (case vp_precomputes p of
        None \<Rightarrow> Inl (Panicked (''In-memory proving requires the `stwo_proving` feature flag and a nightly '' @
                  ''Rust toolchain.''))
      | Some precomputes \<Rightarrow>
          and_then (map_err Failed (prove P (ro_cairo_pie runner_output) precomputes)) (\<lambda>(pf, program_output).
          and_then (map_err (\<lambda>e. Failed (ProgramOutputError e)) (pe_try_into_proof_facts P program_output)) (\<lambda>facts.
            Inr \<lparr> pr_proof = pf, pr_proof_facts = facts,
                  pr_l2_to_l1_messages = ro_l2_to_l1_messages runner_output \<rparr>)))"

definition prove_transaction ::
  "('f :: linorder, 'x, 'm, 'w) prover_env \<Rightarrow> ('f, 'x) virtual_snos_prover \<Rightarrow> 'f block_id \<Rightarrow> ('f, 'x) rpc_transaction \<Rightarrow>
     ('w \<times> 'm, 'f snos_prover_error failure, 'f prove_transaction_result) rio" where
  "prove_transaction P p b transaction =
     (if b = Pending then rio_lift (Inl (Failed (ValidationError
        ''Pending blocks are not supported; only finalized blocks can be proven.'')))
      else rio_bind (rio_lift (map_err Failed (extract_rpc_invoke_tx transaction))) (\<lambda>invoke_v3.
           rio_bind (rio_lift (map_err Failed (validate_transaction_input P invoke_v3 (vp_validate_zero_fee_fields p)))) (\<lambda>_.
           rio_bind (rio_map_err (map_failure RunnerError) (factory_run_virtual_os (pe_runner P) (vp_runner p) b
               [InvokeV3 (api_invoke_v3.truncate invoke_v3)])) (\<lambda>runner_output.
             rio_lift (prove_virtual_snos_run P p runner_output)))))"

section \<open>\<open>snip36-virtual-os\<close>\<close>

record ('f, 'x) virtual_os_config =
  vo_rpc_url :: string
  vo_block_number :: u64
  vo_strk_fee_token :: "string option"
  vo_chain_id :: chain_id
  vo_transaction :: "('f, 'x) rpc_transaction"

record virtual_os_artifacts =
  va_proof :: string
  va_proof_facts :: json
  va_l2_to_l1_messages :: json

text \<open>An \<open>eyre\<close> report carries the message of the error it wraps, or the prover's error.\<close>

datatype 'f report = Report string | ProverReport "'f snos_prover_error"

definition vos_prove_transaction ::
  "('f :: linorder, 'x, 'm, 'w) prover_env \<Rightarrow> ('f, 'x) prover_config \<Rightarrow> u64 \<Rightarrow> ('f, 'x) rpc_transaction \<Rightarrow>
     ('w, 'f report failure, 'f prove_transaction_result) rio" where
  "vos_prove_transaction P config block transaction w =
     (case prover_new P config of
        Inl p \<Rightarrow> (Inl (panicked p), w)
      | Inr (prover, manager) \<Rightarrow>
          (case rio_map_err (map_failure ProverReport)
                  (prove_transaction P prover (Number block) transaction) (w, manager) of
             (r, (w', _)) \<Rightarrow> (r, w')))"

text \<open>\<open>String::from_utf8\<close>\<close>

definition utf8_cont :: "u8 \<Rightarrow> bool" where
  "utf8_cont b \<longleftrightarrow> 0x80 \<le> b \<and> b \<le> 0xBF"

fun utf8_valid :: "u8 list \<Rightarrow> bool" where
  "utf8_valid [] = True"
| "utf8_valid (b # bs) =
     (if b < 0x80 then utf8_valid bs
      else case bs of
        [] \<Rightarrow> False
      | c # cs \<Rightarrow>
          if 0xC2 \<le> b \<and> b \<le> 0xDF then utf8_cont c \<and> utf8_valid cs
          else (case cs of
            [] \<Rightarrow> False
          | d # ds \<Rightarrow>
              if 0xE0 \<le> b \<and> b \<le> 0xEF then
                utf8_cont c \<and> (b = 0xE0 \<longrightarrow> 0xA0 \<le> c) \<and> (b = 0xED \<longrightarrow> c \<le> 0x9F) \<and> utf8_cont d \<and> utf8_valid ds
              else (case ds of
                [] \<Rightarrow> False
              | e # es \<Rightarrow> 0xF0 \<le> b \<and> b \<le> 0xF4 \<and> utf8_cont c \<and> (b = 0xF0 \<longrightarrow> 0x90 \<le> c) \<and>
                  (b = 0xF4 \<longrightarrow> c \<le> 0x8F) \<and> utf8_cont d \<and> utf8_cont e \<and> utf8_valid es)))"

definition from_utf8 :: "u8 list \<Rightarrow> string + string" where
  "from_utf8 bs = (if utf8_valid bs then Inr (bytes_to_string bs) else Inl ''invalid utf-8 sequence'')"

definition vos_run_virtual_os ::
  "('f :: linorder, 'x, 'm, 'w) prover_env \<Rightarrow> ('f, 'x) virtual_os_config \<Rightarrow>
     ('w, 'f report failure, virtual_os_artifacts) rio" where
  "vos_run_virtual_os P config =
     (let base = (prover_config_default P)\<lparr> pc_rpc_node_url := vo_rpc_url config, pc_chain_id := vo_chain_id config \<rparr> in
      rio_bind (rio_lift (case vo_strk_fee_token config of
          None \<Rightarrow> Inr base
        | Some address \<Rightarrow> and_then (map_err (\<lambda>e. Failed (Report e)) (pe_parse_address P address))
            (\<lambda>a. Inr (base\<lparr> pc_strk_fee_token_address := Some a \<rparr>)))) (\<lambda>prover_config.
      rio_bind (vos_prove_transaction P prover_config (vo_block_number config) (vo_transaction config)) (\<lambda>result.
      rio_lift (
        and_then (map_err (\<lambda>e. Failed (Report e)) (from_utf8 (pr_proof result))) (\<lambda>pf.
        and_then (map_err (\<lambda>e. Failed (Report e)) (pe_facts_json P (pr_proof_facts result))) (\<lambda>facts.
        and_then (map_err (\<lambda>e. Failed (Report e)) (pe_messages_json P (pr_l2_to_l1_messages result))) (\<lambda>msgs.
          Inr \<lparr> va_proof = trim pf, va_proof_facts = facts, va_l2_to_l1_messages = msgs \<rparr>)))))))"

definition parse_transaction_json ::
  "('f, 'x, 'm, 'w) prover_env \<Rightarrow> json \<Rightarrow> 'f report + ('f, 'x) rpc_transaction" where
  "parse_transaction_json P v = map_err Report (pe_parse_transaction P v)"

text \<open>\<open>std::fs::read\<close> and \<open>serde_json::from_slice\<close> are the file system and the JSON reader.\<close>

definition load_transaction_json ::
  "('f, 'x, 'm, 'w) prover_env \<Rightarrow> (string \<Rightarrow> string + u8 list) \<Rightarrow> (u8 list \<Rightarrow> string + json) \<Rightarrow> string \<Rightarrow>
     'f report + ('f, 'x) rpc_transaction" where
  "load_transaction_json P read from_slice path =
     and_then (map_err Report (and_then (read path) from_slice)) (parse_transaction_json P)"

section \<open>Input validation\<close>

lemma validate_transaction_input_Inr:
  "validate_transaction_input P tx flag = Inr u \<longleftrightarrow>
     ri_proof tx = [] \<and> ai_proof_facts tx = [] \<and>
     (flag \<longrightarrow> pe_bounds_max_possible_fee P (ai_resource_bounds tx) (ai_tip tx) = 0)"
  by (auto simp: validate_transaction_input_def Let_def)

lemma extract_rpc_invoke_tx_Inr: "extract_rpc_invoke_tx tx = Inr v \<longleftrightarrow> tx = RpcInvoke v"
  by (cases tx) (auto simp: extract_rpc_invoke_tx_def)

lemma prove_transaction_Inr:
  assumes "prove_transaction P p b tx s = (Inr res, s')"
  shows "b \<noteq> Pending \<and> (\<exists>v out. tx = RpcInvoke v \<and>
     validate_transaction_input P v (vp_validate_zero_fee_fields p) = Inr () \<and>
     factory_run_virtual_os (pe_runner P) (vp_runner p) b [InvokeV3 (api_invoke_v3.truncate v)] s = (Inr out, s') \<and>
     prove_virtual_snos_run P p out = Inr res)"
  using assms
  by (simp add: prove_transaction_def rio_iffs result_iffs extract_rpc_invoke_tx_Inr split: if_splits) blast

lemma prove_virtual_snos_run_Inr:
  assumes "prove_virtual_snos_run P p out = Inr res"
  shows "\<exists>pre program_output. vp_precomputes p = Some pre \<and>
     pe_recursive_prove P (ro_cairo_pie out) pre = Inr (pr_proof res, program_output) \<and>
     pe_try_into_proof_facts P program_output = Inr (pr_proof_facts res) \<and>
     pr_l2_to_l1_messages res = ro_l2_to_l1_messages out"
  using assms
  by (auto simp: prove_virtual_snos_run_def prove_def result_iffs split: option.splits)

text \<open>
  C2: a proof is only returned for an invoke transaction on a block that is not pending, with empty
  proof and proof facts and, unless fee validation is off, a maximal fee of zero; the proof is the
  recursive proof of the Cairo PIE of the virtual OS run on exactly this transaction, its facts are
  those of that proof's output, and the messages are those of the run.
\<close>

theorem prove_transaction_sound:
  assumes "prove_transaction P p b tx s = (Inr res, s')"
  shows "b \<noteq> Pending \<and> (\<exists>v out pre program_output. tx = RpcInvoke v \<and>
     ri_proof v = [] \<and> ai_proof_facts v = [] \<and>
     (vp_validate_zero_fee_fields p \<longrightarrow> pe_bounds_max_possible_fee P (ai_resource_bounds v) (ai_tip v) = 0) \<and>
     factory_run_virtual_os (pe_runner P) (vp_runner p) b [InvokeV3 (api_invoke_v3.truncate v)] s = (Inr out, s') \<and>
     vp_precomputes p = Some pre \<and>
     pe_recursive_prove P (ro_cairo_pie out) pre = Inr (pr_proof res, program_output) \<and>
     pe_try_into_proof_facts P program_output = Inr (pr_proof_facts res) \<and>
     pr_l2_to_l1_messages res = ro_l2_to_l1_messages out)"
proof -
  from prove_transaction_Inr[OF assms] obtain v out where
    b: "b \<noteq> Pending" and v: "tx = RpcInvoke v" "validate_transaction_input P v (vp_validate_zero_fee_fields p) = Inr ()"
    and o': "factory_run_virtual_os (pe_runner P) (vp_runner p) b [InvokeV3 (api_invoke_v3.truncate v)] s = (Inr out, s')"
    and r: "prove_virtual_snos_run P p out = Inr res" by blast
  show ?thesis
    using b v(1) o' prove_virtual_snos_run_Inr[OF r] v(2)[unfolded validate_transaction_input_Inr] by blast
qed

text \<open>
  C37: a transaction that must not be proven is refused before anything happens: for a pending block,
  a declare or deploy-account transaction, a transaction that already carries a proof or proof facts,
  or one with a non-zero fee while fees are validated, the prover returns the corresponding input
  error and the network and the class manager are untouched.
\<close>

theorem prove_transaction_refuses:
  assumes "b = Pending \<or> (\<exists>d. tx = RpcDeclare d) \<or> (\<exists>d. tx = RpcDeployAccount d) \<or>
     (\<exists>v. tx = RpcInvoke v \<and> (ri_proof v \<noteq> [] \<or> ai_proof_facts v \<noteq> [] \<or>
        vp_validate_zero_fee_fields p \<and> pe_bounds_max_possible_fee P (ai_resource_bounds v) (ai_tip v) \<noteq> 0))"
  shows "\<exists>e m. prove_transaction P p b tx s = (Inl (Failed e), s) \<and>
     e = (if b = Pending then ValidationError m
          else case tx of RpcInvoke v \<Rightarrow> InvalidTransactionInput m | _ \<Rightarrow> InvalidTransactionType m)"
proof (cases "b = Pending")
  case True
  then show ?thesis by (simp add: prove_transaction_def)
next
  case False
  show ?thesis
  proof (cases tx)
    case (RpcInvoke v)
    with assms False have "\<exists>m. validate_transaction_input P v (vp_validate_zero_fee_fields p) = Inl (InvalidTransactionInput m)"
      by (auto simp: validate_transaction_input_def Let_def)
    then show ?thesis using False RpcInvoke
      by (auto simp: prove_transaction_def extract_rpc_invoke_tx_def)
  qed (use False in \<open>simp_all add: prove_transaction_def extract_rpc_invoke_tx_def\<close>)
qed

section \<open>A prover for the witnesses\<close>

definition demo_prover_env ::
  "(felt252, nat, (felt252 \<times> nat compiled_classes) list, nat) prover_env" where
  "demo_prover_env = \<lparr> pe_runner = demo_env, pe_stwo_proving = True, pe_manager_config_default = 0,
     pe_manager_start = (\<lambda>c. []), pe_url_parse = Some, pe_address_try_from = Inr,
     pe_prepare_precomputes = Inr 11, pe_recursive_prove = (\<lambda>pie pre. Inr ([65, 66], pie)),
     pe_try_into_proof_facts = (\<lambda>out. Inr [felt_of_nat out]),
     pe_bounds_max_possible_fee = (\<lambda>b tip. if b = zero_fee then 0 else 1),
     pe_parse_transaction = (\<lambda>v. Inl ''no transaction''), pe_parse_address = felt_from_hex stark_felt,
     pe_facts_json = (\<lambda>fs. Inr (JArr [])), pe_messages_json = (\<lambda>ms. Inr (JArr [])) \<rparr>"

definition demo_prover :: "(felt252, nat) virtual_snos_prover" where
  "demo_prover = \<lparr> vp_runner = \<lparr> rf_node_url = ''u'', rf_chain_info = demo_chain_info,
       rf_runner_config = rn_config demo_runner \<rparr>,
     vp_validate_zero_fee_fields = True, vp_precomputes = Some 11 \<rparr>"

definition demo_rpc_tx :: "resource_bounds \<Rightarrow> felt252 rpc_invoke_v3" where
  "demo_rpc_tx bounds = \<lparr> ai_resource_bounds = bounds, ai_tip = 0, ai_signature = [], ai_nonce = felt_of_nat 0,
     ai_sender_address = felt_of_nat 3, ai_calldata = [], ai_nonce_da_mode = DaL1, ai_fee_da_mode = DaL1,
     ai_paymaster_data = [], ai_account_deployment_data = [], ai_proof_facts = [], ri_proof = [] \<rparr>"

lemma demo_create_runner: "create_runner (vp_runner demo_prover) Latest = demo_runner"
  by (simp add: create_runner_def demo_prover_def demo_runner_def demo_executor_def executor_new_def demo_chain_info_def)

theorem prove_transaction_sound_witness:
  "\<exists>res s'. prove_transaction demo_prover_env demo_prover Latest (RpcInvoke (demo_rpc_tx zero_fee)) (0, []) = (Inr res, s') \<and>
     (\<exists>out. factory_run_virtual_os demo_env (vp_runner demo_prover) Latest
          [InvokeV3 (api_invoke_v3.truncate (demo_rpc_tx zero_fee))] (0, []) = (Inr out, s') \<and>
        pr_l2_to_l1_messages res = ro_l2_to_l1_messages out)"
proof -
  let ?v = "demo_rpc_tx zero_fee"
  obtain out where out: "runner_run_virtual_os demo_env demo_runner [InvokeV3 (api_invoke_v3.truncate ?v)] (0, []) = (Inr out, (2, []))"
    using demo_run by blast
  have valid: "validate_transaction_input demo_prover_env ?v (vp_validate_zero_fee_fields demo_prover) = Inr ()"
    by (simp add: validate_transaction_input_Inr demo_rpc_tx_def demo_prover_env_def)
  obtain res where r: "prove_transaction demo_prover_env demo_prover Latest (RpcInvoke ?v) (0, []) = (Inr res, (2, []))"
    using out valid
    by (simp add: prove_transaction_def extract_rpc_invoke_tx_def rio_bind_apply rio_map_err_apply
        factory_run_virtual_os_def demo_create_runner)
       (simp add: demo_prover_env_def demo_prover_def prove_virtual_snos_run_def prove_def)
  show ?thesis using prove_transaction_sound[OF r] r by (auto simp: demo_prover_env_def)
qed

theorem prove_transaction_refuses_witness:
  "(\<exists>e m. prove_transaction demo_prover_env demo_prover Latest (RpcInvoke (demo_rpc_tx resource_bounds_default)) (0, []) =
      (Inl (Failed e), (0, [])) \<and> e = InvalidTransactionInput m) \<and>
   (\<exists>e m. prove_transaction demo_prover_env demo_prover Pending (RpcDeclare 0) (5, []) =
      (Inl (Failed e), (5, [])) \<and> e = ValidationError m)"
proof -
  let ?v = "demo_rpc_tx resource_bounds_default"
  have "resource_bounds_default \<noteq> zero_fee" by (simp add: resource_bounds_default_def zero_fee_def)
  then have "vp_validate_zero_fee_fields demo_prover \<and>
      pe_bounds_max_possible_fee demo_prover_env (ai_resource_bounds ?v) (ai_tip ?v) \<noteq> 0"
    by (simp add: demo_prover_def demo_prover_env_def demo_rpc_tx_def)
  then show ?thesis
    using prove_transaction_refuses[of Latest "RpcInvoke ?v" demo_prover demo_prover_env "(0, [])"]
      prove_transaction_refuses[of Pending "RpcDeclare 0" demo_prover demo_prover_env "(5, [])"]
    by auto
qed

end
