(* ===== verification/Rpc.thy ===== *)
theory Rpc
  imports Net
begin

text \<open>
  \<open>snip36-core/src/rpc.rs\<close>: the JSON-RPC client. An error that quotes a JSON value carries the value itself. The polling
  loops are partial functions: not returning, forever or by a panic of the clock's arithmetic or of
  the sleep, is the value \<open>None\<close>, and the theorems prove that they return when time passes and the
  durations are within the timer's range.
\<close>

type_synonym starknet_rpc = string

datatype rpc_error =
    Http string
  | JsonRpc json
  | Unexpected string json
  | TxTimeout string u64
  | TxRejected json
  | BlockTimeout u64 u64

definition call_raw :: "'w net \<Rightarrow> starknet_rpc \<Rightarrow> json \<Rightarrow> ('w, rpc_error, json) rio" where
  "call_raw N url payload = rio_map_err Http (rio_bind (http_send N url payload)
     (\<lambda>resp. rio_lift (resp_json resp)))"

definition rpc_payload :: "string \<Rightarrow> json \<Rightarrow> json" where
  "rpc_payload method params = JObj
     [(''jsonrpc'', JStr ''2.0''), (''method'', JStr method), (''params'', params), (''id'', jnat 1)]"

definition response_result :: "json \<Rightarrow> rpc_error + json" where
  "response_result resp =
     (case json_get ''error'' resp of
        Some error \<Rightarrow> Inl (JsonRpc error)
      | None \<Rightarrow> ok_or (Unexpected ''response'' resp) (json_get ''result'' resp))"

definition call :: "'w net \<Rightarrow> starknet_rpc \<Rightarrow> string \<Rightarrow> json \<Rightarrow> ('w, rpc_error, json) rio" where
  "call N url method params =
     rio_bind (call_raw N url (rpc_payload method params)) (\<lambda>resp. rio_lift (response_result resp))"

definition block_number :: "'w net \<Rightarrow> starknet_rpc \<Rightarrow> ('w, rpc_error, u64) rio" where
  "block_number N url =
     rio_bind (call N url ''starknet_blockNumber'' (JObj []))
       (\<lambda>result. rio_lift (ok_or (Unexpected ''expected u64 block number'' result) (as_u64 result)))"

definition rpc_chain_id :: "'w net \<Rightarrow> starknet_rpc \<Rightarrow> ('w, rpc_error, string) rio" where
  "rpc_chain_id N url =
     rio_bind (call N url ''starknet_chainId'' (JObj []))
       (\<lambda>result. rio_lift (ok_or (Unexpected ''expected string chain id'' result) (as_str result)))"

definition parse_u64_hex :: "string \<Rightarrow> u64 option" where
  "parse_u64_hex s = map_option word_of_nat (from_str_radix16 64 (trim_start_matches ''0x'' s))"

definition get_nonce_at_block ::
  "'w net \<Rightarrow> starknet_rpc \<Rightarrow> string \<Rightarrow> json \<Rightarrow> ('w, rpc_error, u64) rio" where
  "get_nonce_at_block N url address block_id =
     rio_bind (call N url ''starknet_getNonce''
        (JObj [(''block_id'', block_id), (''contract_address'', JStr address)]))
       (\<lambda>result. rio_lift (and_then (ok_or (Unexpected ''expected hex nonce'' result) (as_str result))
          (\<lambda>hex_str. ok_or (Unexpected ''invalid nonce hex'' (JStr hex_str)) (parse_u64_hex hex_str))))"

definition get_nonce :: "'w net \<Rightarrow> starknet_rpc \<Rightarrow> string \<Rightarrow> ('w, rpc_error, u64) rio" where
  "get_nonce N url address w =
     (case get_nonce_at_block N url address (JStr ''pre_confirmed'') w of
        (Inr n, w') \<Rightarrow> (Inr n, w')
      | (Inl _, w') \<Rightarrow> get_nonce_at_block N url address (JStr ''latest'') w')"

definition starknet_call ::
  "'w net \<Rightarrow> starknet_rpc \<Rightarrow> string \<Rightarrow> string \<Rightarrow> string list \<Rightarrow> ('w, rpc_error, string list) rio" where
  "starknet_call N url contract_address selector calldata =
     rio_bind (call N url ''starknet_call''
        (JObj [(''request'', JObj [(''contract_address'', JStr contract_address),
                                   (''entry_point_selector'', JStr selector),
                                   (''calldata'', jstrs calldata)]),
               (''block_id'', JStr ''latest'')]))
       (\<lambda>result. rio_lift (and_then (ok_or (Unexpected ''expected array'' result) (as_array result))
          (\<lambda>arr. Inr (str_elements arr))))"

definition get_transaction :: "'w net \<Rightarrow> starknet_rpc \<Rightarrow> string \<Rightarrow> ('w, rpc_error, json) rio" where
  "get_transaction N url tx_hash =
     call N url ''starknet_getTransactionByHash'' (JObj [(''transaction_hash'', JStr tx_hash)])"

definition get_receipt :: "'w net \<Rightarrow> starknet_rpc \<Rightarrow> string \<Rightarrow> ('w, rpc_error, json) rio" where
  "get_receipt N url tx_hash =
     call N url ''starknet_getTransactionReceipt'' (JObj [(''transaction_hash'', JStr tx_hash)])"

definition get_class :: "'w net \<Rightarrow> starknet_rpc \<Rightarrow> string \<Rightarrow> ('w, rpc_error, json) rio" where
  "get_class N url class_hash =
     call N url ''starknet_getClass''
       (JObj [(''block_id'', JStr ''latest''), (''class_hash'', JStr class_hash)])"

definition add_invoke_transaction :: "'w net \<Rightarrow> starknet_rpc \<Rightarrow> json \<Rightarrow> ('w, rpc_error, string) rio" where
  "add_invoke_transaction N url invoke_tx =
     rio_bind (call N url ''starknet_addInvokeTransaction'' (JObj [(''invoke_transaction'', invoke_tx)]))
       (\<lambda>result. rio_lift (ok_or (Unexpected ''no transaction_hash in'' result)
          (get_str ''transaction_hash'' result)))"

section \<open>Polling\<close>

datatype receipt_verdict = ReceiptRejected | ReceiptAccepted | ReceiptPending

definition classify_receipt :: "json \<Rightarrow> receipt_verdict" where
  "classify_receipt receipt =
     (let status = unwrap_or [] (get_str ''finality_status'' receipt);
          execution_status = get_str ''execution_status'' receipt;
          has_block = (json_get ''block_number'' receipt \<noteq> None)
      in if status = ''REJECTED'' \<or> execution_status = Some ''REVERTED'' then ReceiptRejected
         else if (status = ''ACCEPTED_ON_L2'' \<or> status = ''ACCEPTED_ON_L1'') \<and> has_block \<and>
                 (execution_status = None \<or> execution_status = Some ''SUCCEEDED'') then ReceiptAccepted
         else ReceiptPending)"

text \<open>One round after the deadline test: an answer, or nothing and another round.\<close>

definition poll_receipt ::
  "'w net \<Rightarrow> starknet_rpc \<Rightarrow> string \<Rightarrow> ('w, (rpc_error + json) option) io" where
  "poll_receipt N url tx_hash w =
     (case get_receipt N url tx_hash w of
        (Inl _, w') \<Rightarrow> (None, w')
      | (Inr receipt, w') \<Rightarrow>
          (case classify_receipt receipt of
             ReceiptRejected \<Rightarrow> Some (Inl (TxRejected receipt))
           | ReceiptAccepted \<Rightarrow> Some (Inr receipt)
           | ReceiptPending \<Rightarrow> None, w'))"

definition poll_block :: "'w net \<Rightarrow> starknet_rpc \<Rightarrow> u64 \<Rightarrow> ('w, (rpc_error + u64) option) io" where
  "poll_block N url block w =
     (case block_number N url w of
        (Inl _, w') \<Rightarrow> (None, w')
      | (Inr current, w') \<Rightarrow> (if current > block then Some (Inr current) else None, w'))"

text \<open>The loop both operations share: deadline, round, pause.\<close>

partial_function (option) poll_until ::
  "'w net \<Rightarrow> ('w, ('e + 'a) option) io \<Rightarrow> 'e \<Rightarrow> nat \<Rightarrow> nat \<Rightarrow> 'w \<Rightarrow> (('e + 'a) \<times> 'w) option" where
  "poll_until N round timeout_err deadline interval w =
     (case now N w of
        (t, w1) \<Rightarrow>
          if t \<ge> deadline then Some (Inl timeout_err, w1)
          else (case round w1 of
                  (Some r, w2) \<Rightarrow> Some (r, w2)
                | (None, w2) \<Rightarrow>
                    Option.bind (gloo_sleep N interval w2)
                      (poll_until N round timeout_err deadline interval)))"

definition wait_for_tx ::
  "'w net \<Rightarrow> starknet_rpc \<Rightarrow> string \<Rightarrow> u64 \<Rightarrow> u64 \<Rightarrow> 'w \<Rightarrow> ((rpc_error + json) \<times> 'w) option" where
  "wait_for_tx N url tx_hash timeout_secs poll_interval_secs w =
     (case now N w of
        (t, w') \<Rightarrow> Option.bind (instant_add N t (from_secs timeout_secs)) (\<lambda>deadline.
           poll_until N (poll_receipt N url tx_hash) (TxTimeout tx_hash timeout_secs)
             deadline (from_secs poll_interval_secs) w'))"

definition wait_for_block_after ::
  "'w net \<Rightarrow> starknet_rpc \<Rightarrow> u64 \<Rightarrow> u64 \<Rightarrow> u64 \<Rightarrow> 'w \<Rightarrow> ((rpc_error + u64) \<times> 'w) option" where
  "wait_for_block_after N url block timeout_secs poll_interval_secs w =
     (case now N w of
        (t, w') \<Rightarrow> Option.bind (instant_add N t (from_secs timeout_secs)) (\<lambda>deadline.
           poll_until N (poll_block N url block) (BlockTimeout block timeout_secs)
             deadline (from_secs poll_interval_secs) w'))"

definition receipt_block_number :: "json \<Rightarrow> u64 option" where
  "receipt_block_number receipt =
     (case json_get ''block_number'' receipt of
        None \<Rightarrow> None
      | Some bn \<Rightarrow>
          (case as_u64 bn of
             Some n \<Rightarrow> Some n
           | None \<Rightarrow> (case as_str bn of Some s \<Rightarrow> parse_u64_hex s | None \<Rightarrow> None)))"

section \<open>Time\<close>

lemma clock_call: "clock_laws N time \<Longrightarrow> call N url m p w = (r, w') \<Longrightarrow> time w \<le> time w'"
  by (auto simp: call_def call_raw_def rio_bind_apply rio_lift_apply rio_map_err_apply
      split: prod.splits sum.splits dest: clock_send)

lemma clock_poll_receipt:
  "clock_laws N time \<Longrightarrow> poll_receipt N url h w = (r, w') \<Longrightarrow> time w \<le> time w'"
  by (auto simp: poll_receipt_def get_receipt_def split: prod.splits sum.splits dest: clock_call)

lemma clock_poll_block:
  "clock_laws N time \<Longrightarrow> poll_block N url b w = (r, w') \<Longrightarrow> time w \<le> time w'"
  by (auto simp: poll_block_def block_number_def rio_bind_apply split: prod.splits sum.splits
      dest: clock_call)

text \<open>
  A polling loop with a positive pause returns: with the answer of one of its rounds, or with the
  timeout error once the deadline has passed.
\<close>

lemma poll_until_returns:
  assumes laws: "clock_laws N time" and interval: "0 < interval" "u32_millis interval"
    and round: "\<forall>w. time w \<le> time (snd (round w))"
  shows "\<exists>r w'. poll_until N round err deadline interval w = Some (r, w') \<and> time w \<le> time w' \<and>
           ((r = Inl err \<and> deadline \<le> time w') \<or>
            (\<exists>w1. time w \<le> time w1 \<and> round w1 = (Some r, w')))"
proof (induction "deadline - time w" arbitrary: w rule: less_induct)
  case less
  obtain t w1 where n: "now N w = (t, w1)" by fastforce
  from clock_now[OF laws n] have t: "t = time w" "time w \<le> time w1" by auto
  show ?case
  proof (cases "t \<ge> deadline")
    case True
    then show ?thesis using n t by (subst poll_until.simps) auto
  next
    case False
    obtain r w2 where r: "round w1 = (r, w2)" by fastforce
    from round r have t2: "time w1 \<le> time w2" by (metis snd_conv)
    show ?thesis
    proof (cases r)
      case (Some a)
      have "poll_until N round err deadline interval w = Some (a, w2)"
        using n r False Some by (subst poll_until.simps) simp
      then show ?thesis using r Some t t2 False by (intro exI[of _ a] exI[of _ w2]) auto
    next
      case None
      obtain v where v: "gloo_sleep N interval w2 = Some v" and s: "time w2 + interval \<le> time v"
        using clock_sleep[OF laws interval(2)] by blast
      then have "deadline - time v < deadline - time w" using interval t t2 False by linarith
      from less(1)[OF this] obtain b w3 where
        "poll_until N round err deadline interval v = Some (b, w3)" "time v \<le> time w3"
        "(b = Inl err \<and> deadline \<le> time w3) \<or>
         (\<exists>w1. time v \<le> time w1 \<and> round w1 = (Some b, w3))" by blast
      moreover have "poll_until N round err deadline interval w =
          poll_until N round err deadline interval v"
        using n r False None v by (subst poll_until.simps) simp
      ultimately show ?thesis using s t t2 by (intro exI[of _ b] exI[of _ w3]) force
    qed
  qed
qed

lemma poll_receipt_Some:
  "poll_receipt N url h w = (Some r, w') \<longleftrightarrow>
     (\<exists>receipt. get_receipt N url h w = (Inr receipt, w') \<and>
        ((classify_receipt receipt = ReceiptRejected \<and> r = Inl (TxRejected receipt)) \<or>
         (classify_receipt receipt = ReceiptAccepted \<and> r = Inr receipt)))"
  by (auto simp: poll_receipt_def split: prod.splits sum.splits receipt_verdict.splits)

lemma poll_block_Some:
  "poll_block N url b w = (Some r, w') \<longleftrightarrow>
     (\<exists>n. block_number N url w = (Inr n, w') \<and> b < n \<and> r = Inr n)"
  by (auto simp: poll_block_def split: prod.splits sum.splits)

lemma classify_accepted:
  "classify_receipt receipt = ReceiptAccepted \<longleftrightarrow>
     get_str ''finality_status'' receipt \<in> {Some ''ACCEPTED_ON_L2'', Some ''ACCEPTED_ON_L1''} \<and>
     json_get ''block_number'' receipt \<noteq> None \<and>
     get_str ''execution_status'' receipt \<in> {None, Some ''SUCCEEDED''}"
  by (cases "get_str ''finality_status'' receipt") (auto simp: classify_receipt_def Let_def)

lemma classify_rejected:
  "classify_receipt receipt = ReceiptRejected \<longleftrightarrow>
     get_str ''finality_status'' receipt = Some ''REJECTED'' \<or>
     get_str ''execution_status'' receipt = Some ''REVERTED''"
  by (cases "get_str ''finality_status'' receipt") (auto simp: classify_receipt_def Let_def)

text \<open>
  C21: \<open>wait_for_tx\<close> with a positive polling interval returns, and does not panic, when the timeout
  and the interval are durations of \<open>u32\<close> milliseconds (the timer refuses longer pauses). It returns a receipt only when
  the node gave that receipt with an accepted finality status, a block number and no execution
  status other than success; it reports a rejection only for a receipt that is rejected or
  reverted; and its only other error is the timeout, after the timeout has elapsed.
\<close>

theorem wait_for_tx_returns:
  assumes "clock_laws N time" and "0 < poll_interval_secs"
    and "u32_millis (from_secs poll_interval_secs)" and "u32_millis (from_secs timeout_secs)"
  shows "\<exists>r w'. wait_for_tx N url tx_hash timeout_secs poll_interval_secs w = Some (r, w') \<and>
     ((\<exists>receipt w1. r = Inr receipt \<and> get_receipt N url tx_hash w1 = (Inr receipt, w') \<and>
         get_str ''finality_status'' receipt \<in> {Some ''ACCEPTED_ON_L2'', Some ''ACCEPTED_ON_L1''} \<and>
         json_get ''block_number'' receipt \<noteq> None \<and>
         get_str ''execution_status'' receipt \<in> {None, Some ''SUCCEEDED''}) \<or>
      (\<exists>receipt w1. r = Inl (TxRejected receipt) \<and> get_receipt N url tx_hash w1 = (Inr receipt, w') \<and>
         (get_str ''finality_status'' receipt = Some ''REJECTED'' \<or>
          get_str ''execution_status'' receipt = Some ''REVERTED'')) \<or>
      (r = Inl (TxTimeout tx_hash timeout_secs) \<and> time w + from_secs timeout_secs \<le> time w'))"
proof -
  obtain t w0 where n: "now N w = (t, w0)" by fastforce
  have round: "\<forall>w. time w \<le> time (snd (poll_receipt N url tx_hash w))"
    using clock_poll_receipt[OF assms(1)] by (metis prod.collapse)
  from poll_until_returns[OF assms(1) from_secs_pos[OF assms(2)] assms(3) round]
  obtain r w' where
    "wait_for_tx N url tx_hash timeout_secs poll_interval_secs w = Some (r, w')"
    "(r = Inl (TxTimeout tx_hash timeout_secs) \<and> time w + from_secs timeout_secs \<le> time w') \<or>
     (\<exists>w1. poll_receipt N url tx_hash w1 = (Some r, w'))"
    unfolding wait_for_tx_def n prod.case clock_add[OF assms(1,4) n] bind.bind_lunit by metis
  then show ?thesis
    unfolding poll_receipt_Some classify_accepted classify_rejected by blast
qed

text \<open>
  Under the same bounds \<open>wait_for_block_after\<close> returns: with a block number the node reported that is greater than the given one, or with the timeout error after the timeout
  has elapsed.
\<close>

lemma wait_for_block_after_returns:
  assumes "clock_laws N time" and "0 < poll_interval_secs"
    and "u32_millis (from_secs poll_interval_secs)" and "u32_millis (from_secs timeout_secs)"
  shows "\<exists>r w'. wait_for_block_after N url block timeout_secs poll_interval_secs w = Some (r, w') \<and>
     ((\<exists>n w1. r = Inr n \<and> block < n \<and> block_number N url w1 = (Inr n, w')) \<or>
      (r = Inl (BlockTimeout block timeout_secs) \<and> time w + from_secs timeout_secs \<le> time w'))"
proof -
  obtain t w0 where n: "now N w = (t, w0)" by fastforce
  have round: "\<forall>w. time w \<le> time (snd (poll_block N url block w))"
    using clock_poll_block[OF assms(1)] by (metis prod.collapse)
  from poll_until_returns[OF assms(1) from_secs_pos[OF assms(2)] assms(3) round]
  obtain r w' where
    "wait_for_block_after N url block timeout_secs poll_interval_secs w = Some (r, w')"
    "(r = Inl (BlockTimeout block timeout_secs) \<and> time w + from_secs timeout_secs \<le> time w') \<or>
     (\<exists>w1. poll_block N url block w1 = (Some r, w'))"
    unfolding wait_for_block_after_def n prod.case clock_add[OF assms(1,4) n] bind.bind_lunit by metis
  then show ?thesis unfolding poll_block_Some by blast
qed

section \<open>A node for the witnesses\<close>

text \<open>The world is the time; the node answers after five seconds and a new block has come.\<close>

definition demo_receipt :: json where
  "demo_receipt = JObj [(''finality_status'', JStr ''ACCEPTED_ON_L2''), (''block_number'', ju64 8)]"

definition demo_net :: "json \<Rightarrow> nat net" where
  "demo_net answer = \<lparr> http_send = (\<lambda>url p t. (if t < 5000 then Inl ''refused''
         else Inr \<lparr> resp_status = 200, resp_json = Inr (JObj [(''result'', answer)]) \<rparr>, t)),
                     now = (\<lambda>t. (t, t)), instant_add = (\<lambda>t d. Some (t + d)),
                     gloo_sleep = (\<lambda>d t. if u32_millis d then Some (t + d) else None), sleep = (\<lambda>d t. ((), t + d)) \<rparr>"

lemma demo_clock: "clock_laws (demo_net a) (\<lambda>t. t)"
  by (simp add: clock_laws_def demo_net_def)

lemma demo_call:
  "call (demo_net a) url m p t = (if t < 5000 then Inl (Http ''refused'') else Inr a, t)"
  by (simp add: demo_net_def call_def call_raw_def rio_bind_apply rio_map_err_apply response_result_def)

theorem wait_for_tx_returns_witness:
  "clock_laws (demo_net demo_receipt) (\<lambda>t. t) \<and> (0 :: u64) < 2 \<and>
   u32_millis (from_secs 2) \<and> u32_millis (from_secs 60) \<and>
   (\<exists>r w'. wait_for_tx (demo_net demo_receipt) ''u'' ''0x1'' 60 2 0 = Some (r, w') \<and>
      (r = Inr demo_receipt \<or> r = Inl (TxTimeout ''0x1'' 60)))"
proof -
  have "r = Inr demo_receipt" if "get_receipt (demo_net demo_receipt) u h w1 = (r, w')" "r = Inr v" for u h r w1 w' v
    using that by (auto simp: get_receipt_def demo_call split: if_splits)
  moreover have "get_str ''finality_status'' demo_receipt = Some ''ACCEPTED_ON_L2''"
    "get_str ''execution_status'' demo_receipt = None"
    by (simp_all add: demo_receipt_def)
  ultimately show ?thesis
    using wait_for_tx_returns[OF demo_clock[of demo_receipt], of 2 60 "''u''" "''0x1''" 0] demo_clock[of demo_receipt]
    by (fastforce simp: u32_millis_def from_secs_def)
qed

section \<open>Numbers on the wire\<close>

lemma parse_u64_hex_fmt: "parse_u64_hex (fmt_hex (unat n)) = Some n"
proof -
  have "unat n < 2 ^ 64" using unsigned_less[where 'b = 64 and 'a = nat, of n] by simp
  then show ?thesis
    by (simp add: parse_u64_hex_def trim_0x_fmt_hex from_str_radix16_lower_hex)
qed

text \<open>
  The block number of a receipt is read back whether the node writes it as an integer or as a
  hexadecimal string.
\<close>

lemma receipt_block_number_roundtrip:
  "receipt_block_number (json_set ''block_number'' (ju64 n) (JObj ms)) = Some n \<and>
   receipt_block_number (json_set ''block_number'' (JStr (fmt_hex (unat n))) (JObj ms)) = Some n"
  by (simp add: receipt_block_number_def parse_u64_hex_fmt map_of_im_insert)

text \<open>
  The nonce comes from the pre-confirmed block when the node serves it there, and otherwise
  from the latest block; a nonce served as a hexadecimal number of 64 bits is returned as it is.
\<close>

lemma get_nonce_prefers_pre_confirmed:
  assumes "call N url ''starknet_getNonce'' (JObj [(''block_id'', JStr ''pre_confirmed''),
             (''contract_address'', JStr address)]) w = (r1, w1)"
    and "call N url ''starknet_getNonce'' (JObj [(''block_id'', JStr ''latest''),
             (''contract_address'', JStr address)]) w1 = (Inr (JStr (fmt_hex (unat m))), w2)"
  shows "get_nonce N url address w =
     (if \<exists>n. r1 = Inr (JStr n) \<and> parse_u64_hex n \<noteq> None
      then (case r1 of Inr (JStr n) \<Rightarrow> (Inr (the (parse_u64_hex n)), w1)) else (Inr m, w2))"
proof -
  have l: "get_nonce_at_block N url address (JStr ''latest'') w1 = (Inr m, w2)"
    using assms(2) by (simp add: get_nonce_at_block_def rio_bind_apply parse_u64_hex_fmt)
  have "get_nonce_at_block N url address (JStr ''pre_confirmed'') w =
     (and_then r1 (\<lambda>result. and_then (ok_or (Unexpected ''expected hex nonce'' result) (as_str result))
          (\<lambda>h. ok_or (Unexpected ''invalid nonce hex'' (JStr h)) (parse_u64_hex h))), w1)"
    using assms(1) by (simp add: get_nonce_at_block_def rio_bind_apply split: sum.splits)
  moreover have "as_str v = Some s \<longleftrightarrow> v = JStr s" for v s by (cases v) auto
  ultimately show ?thesis
    using l by (auto simp: get_nonce_def ok_or_def split: sum.splits option.splits json.splits)
qed

end
