(* ===== verification/WebProver.thy ===== *)
theory WebProver
  imports Prover Rpc
begin

text \<open>
  The crate \<open>snip36-web-prover\<close>: \<open>prove_block\<close> fetches the nonce at the reference block, hashes and
  signs a zero-fee invoke transaction and has it proven by the virtual OS. The JavaScript binding
  around it converts its arguments and its result; the conversions are parameters.
\<close>

record prove_block_args =
  pb_reference_block :: u64
  pb_account_address :: string
  pb_private_key :: string
  pb_chain_id :: string
  pb_rpc_url :: string
  pb_calldata_strs :: "string list"

record prove_block_result =
  br_tx_json :: json
  br_proof :: string
  br_proof_facts :: json
  br_messages :: json
  br_tx_hash :: string
  br_signature :: "string list"

datatype 'f web_prover_error =
    ParseCalldata string
  | InvalidAccountAddress string
  | InvalidPrivateKey string
  | NonceAtBlock u64 rpc_error
  | SigningFailed sign_error
  | RunVirtualOs "'f report"
  | ReadProofFile string string
  | MissingProofFile string
  | RpcSubmission rpc_error

definition web_os_config ::
  "prove_block_args \<Rightarrow> chain_id \<Rightarrow> ('f, 'x) rpc_transaction \<Rightarrow> ('f, 'x) virtual_os_config" where
  "web_os_config args chain transaction = \<lparr>
     vo_rpc_url = pb_rpc_url args, vo_block_number = pb_reference_block args,
     vo_strk_fee_token = Some STRK_TOKEN, vo_chain_id = chain, vo_transaction = transaction \<rparr>"

text \<open>\<open>ChainId::from\<close> is a parameter; the client of the reference node is its URL.\<close>

definition prove_block ::
  "('f :: linorder, 'x, 'm, 'w) prover_env \<Rightarrow> 'f crypto_lib \<Rightarrow> (string \<Rightarrow> chain_id) \<Rightarrow> starknet_rpc \<Rightarrow> prove_block_args \<Rightarrow>
     ('w, 'f web_prover_error failure, prove_block_result) rio" where
  "prove_block P H chain_id_from rpc args =
     (let F = re_felt (pe_runner P); N = re_net (pe_runner P) in
      rio_bind (rio_lift (map_err Failed (collect_result
          (\<lambda>h. map_err ParseCalldata (felt_from_hex_msg F h)) (pb_calldata_strs args)))) (\<lambda>calldata_felts.
      rio_bind (rio_lift (map_err (\<lambda>e. Failed (InvalidAccountAddress e))
          (felt_from_hex_msg F (pb_account_address args)))) (\<lambda>sender_felt.
      rio_bind (rio_lift (map_err (\<lambda>e. Failed (InvalidPrivateKey e))
          (felt_from_hex_msg F (pb_private_key args)))) (\<lambda>private_key_felt.
      rio_bind (rio_map_err (\<lambda>e. Failed (NonceAtBlock (pb_reference_block args) e))
          (get_nonce_at_block N rpc (pb_account_address args)
            (JObj [(''block_number'', ju64 (pb_reference_block args))]))) (\<lambda>nonce.
      let standard_tx_hash = compute_invoke_v3_tx_hash F H sender_felt calldata_felts
            (chain_id_felt F (pb_chain_id args)) (felt_from_u64 F nonce) (felt_ZERO F) zero_fee [] [] 0 0 [] in
      rio_bind (rio_lift (map_err (\<lambda>e. Failed (SigningFailed e)) (sign H private_key_felt standard_tx_hash))) (\<lambda>sig.
      let tx_json = web_tx_json F (pb_account_address args) (pb_calldata_strs args) nonce zero_fee sig in
      rio_bind (rio_lift (map_err (\<lambda>e. Failed (RunVirtualOs e)) (parse_transaction_json P tx_json))) (\<lambda>transaction.
      rio_bind (rio_map_err (map_failure RunVirtualOs) (vos_run_virtual_os P
          (web_os_config args (chain_id_from (pb_chain_id args)) transaction))) (\<lambda>artifacts.
      rio_lift (Inr \<lparr> br_tx_json = tx_json, br_proof = trim (va_proof artifacts),
          br_proof_facts = va_proof_facts artifacts, br_messages = va_l2_to_l1_messages artifacts,
          br_tx_hash = felt_lower_hex F standard_tx_hash,
          br_signature = [felt_lower_hex F (sig_r sig), felt_lower_hex F (sig_s sig)] \<rparr>))))))))) "

text \<open>The binding: an error is the text of one of these.\<close>

datatype 'f js_error = InvalidArgs string | ProveBlockError "'f web_prover_error" | ResultError string

definition prove_block_wasm ::
  "('j \<Rightarrow> string + prove_block_args) \<Rightarrow> (prove_block_result \<Rightarrow> string + 'j) \<Rightarrow> ('f :: linorder, 'x, 'm, 'w) prover_env \<Rightarrow> 'f crypto_lib \<Rightarrow>
     (string \<Rightarrow> chain_id) \<Rightarrow> 'j \<Rightarrow> ('w, 'f js_error failure, 'j) rio" where
  "prove_block_wasm from_value to_value P H chain_id_from v =
     rio_bind (rio_lift (map_err (\<lambda>e. Failed (InvalidArgs e)) (from_value v))) (\<lambda>args.
     rio_bind (rio_map_err (map_failure ProveBlockError) (prove_block P H chain_id_from (pb_rpc_url args) args)) (\<lambda>result.
       rio_lift (map_err (\<lambda>e. Failed (ResultError e)) (to_value result))))"

text \<open>The binding returns the converted result of one run on the converted arguments, and an argument that cannot be
  converted leaves the world as it is.\<close>

lemma prove_block_wasm_Inr:
  "prove_block_wasm from_value to_value P H chain_id_from v w = (Inr out, w') \<longleftrightarrow>
     (\<exists>args result. from_value v = Inr args \<and> prove_block P H chain_id_from (pb_rpc_url args) args w = (Inr result, w') \<and>
        to_value result = Inr out)"
  by (auto simp: prove_block_wasm_def rio_bind_Inr_iff rio_map_err_Inr_iff rio_lift_Inr_iff map_err_Inr_iff)

lemma prove_block_wasm_invalid:
  assumes "from_value v = Inl e"
  shows "prove_block_wasm from_value to_value P H chain_id_from v w = (Inl (Failed (InvalidArgs e)), w)"
  using assms by (simp add: prove_block_wasm_def rio_bind_def rio_lift_def map_err_def)

section \<open>The transaction that is proven\<close>

text \<open>
  The documented behaviour of the typed reader of transactions, member by member: what an invoke
  transaction that it has read holds, for whatever text the JSON has in that member.
\<close>

definition felt_member :: "'f felt_lib \<Rightarrow> string \<Rightarrow> json \<Rightarrow> 'f \<Rightarrow> bool" where
  "felt_member F k j x \<longleftrightarrow> (\<forall>s. json_get k j = Some (JStr s) \<longrightarrow> felt_from_hex F s = Inr x)"

definition felts_member :: "'f felt_lib \<Rightarrow> string \<Rightarrow> json \<Rightarrow> 'f list \<Rightarrow> bool" where
  "felts_member F k j xs \<longleftrightarrow> (\<forall>ss. json_get k j = Some (jstrs ss) \<longrightarrow> collect_result (felt_from_hex F) ss = Inr xs)"

definition hex_member :: "nat \<Rightarrow> string \<Rightarrow> json \<Rightarrow> nat \<Rightarrow> bool" where
  "hex_member bits k j n \<longleftrightarrow>
     (\<forall>s. json_get k j = Some (JStr s) \<longrightarrow> from_str_radix16 bits (trim_start_matches ''0x'' s) = Some n)"

definition bound_member :: "string \<Rightarrow> json \<Rightarrow> resource_bound \<Rightarrow> bool" where
  "bound_member k j b \<longleftrightarrow> (\<forall>r. json_get k j = Some r \<longrightarrow>
     hex_member 64 ''max_amount'' r (unat (max_amount b)) \<and>
     hex_member 128 ''max_price_per_unit'' r (unat (max_price_per_unit b)))"

definition bounds_member :: "string \<Rightarrow> json \<Rightarrow> resource_bounds \<Rightarrow> bool" where
  "bounds_member k j b \<longleftrightarrow> (\<forall>r. json_get k j = Some r \<longrightarrow> bound_member ''l1_gas'' r (l1_gas b) \<and>
     bound_member ''l2_gas'' r (l2_gas b) \<and> bound_member ''l1_data_gas'' r (l1_data_gas b))"

definition da_member :: "string \<Rightarrow> json \<Rightarrow> da_mode_api \<Rightarrow> bool" where
  "da_member k j m \<longleftrightarrow> (json_get k j = Some (JStr ''L1'') \<longrightarrow> m = DaL1) \<and> (json_get k j = Some (JStr ''L2'') \<longrightarrow> m = DaL2)"

definition invoke_members :: "'f felt_lib \<Rightarrow> json \<Rightarrow> 'f rpc_invoke_v3 \<Rightarrow> bool" where
  "invoke_members F j v \<longleftrightarrow>
     felt_member F ''sender_address'' j (ai_sender_address v) \<and> felts_member F ''calldata'' j (ai_calldata v) \<and>
     felt_member F ''nonce'' j (ai_nonce v) \<and> bounds_member ''resource_bounds'' j (ai_resource_bounds v) \<and>
     hex_member 64 ''tip'' j (unat (ai_tip v)) \<and> felts_member F ''paymaster_data'' j (ai_paymaster_data v) \<and>
     felts_member F ''account_deployment_data'' j (ai_account_deployment_data v) \<and>
     da_member ''nonce_data_availability_mode'' j (ai_nonce_da_mode v) \<and>
     da_member ''fee_data_availability_mode'' j (ai_fee_da_mode v) \<and>
     felts_member F ''signature'' j (ai_signature v) \<and> felts_member F ''proof_facts'' j (ai_proof_facts v) \<and>
     (json_get ''proof_facts'' j = None \<longrightarrow> ai_proof_facts v = []) \<and> (json_get ''proof'' j = None \<longrightarrow> ri_proof v = [])"

definition invoke_parse_law :: "('f, 'x, 'm, 'w) prover_env \<Rightarrow> bool" where
  "invoke_parse_law P \<longleftrightarrow> (\<forall>j tx. pe_parse_transaction P j = Inr tx \<and> json_get ''type'' j = Some (JStr ''INVOKE'') \<and>
     json_get ''version'' j = Some (JStr ''0x3'') \<longrightarrow>
     (\<exists>v. tx = RpcInvoke v \<and> invoke_members (re_felt (pe_runner P)) j v))"

text \<open>The maximal fee is zero when no price and no tip is positive.\<close>

definition free_fee_law :: "('f, 'x, 'm, 'w) prover_env \<Rightarrow> bool" where
  "free_fee_law P \<longleftrightarrow> (\<forall>b. max_price_per_unit (l1_gas b) = 0 \<and> max_price_per_unit (l2_gas b) = 0 \<and>
     max_price_per_unit (l1_data_gas b) = 0 \<longrightarrow> pe_bounds_max_possible_fee P b 0 = 0)"

definition refusal :: "'f snos_prover_error \<Rightarrow> bool" where
  "refusal e \<longleftrightarrow> (\<exists>m. e = ValidationError m \<or> e = InvalidTransactionType m \<or> e = InvalidTransactionInput m)"

lemma jstrs_eq_iff: "jstrs a = jstrs b \<longleftrightarrow> a = b"
  by (simp add: jstrs_def inj_map_eq_map inj_def)

lemma hex_word: "from_str_radix16 LENGTH('a) (trim_start_matches ''0x'' (fmt_hex (unat w))) = Some (unat (w :: 'a :: len word))"
  using unsigned_less[where 'b = 'a and 'a = nat, of w] by (simp add: trim_0x_fmt_hex from_str_radix16_lower_hex)

lemma bound_member_json:
  assumes "json_get k j = Some (resource_bound_json b)" and "bound_member k j c"
  shows "c = b"
proof -
  have "unat (max_amount c) = unat (max_amount b)" "unat (max_price_per_unit c) = unat (max_price_per_unit b)"
    using assms hex_word[of "max_amount b"] hex_word[of "max_price_per_unit b"]
    by (simp_all add: bound_member_def hex_member_def resource_bound_json_def)
  then show ?thesis by (intro resource_bound.equality) (simp_all add: word_unat_eq_iff)
qed

lemma bounds_member_json:
  assumes "json_get k j = Some (to_rpc_json b)" and "bounds_member k j c"
  shows "c = b"
proof -
  have g: "json_get ''l1_gas'' (to_rpc_json b) = Some (resource_bound_json (l1_gas b))"
    "json_get ''l2_gas'' (to_rpc_json b) = Some (resource_bound_json (l2_gas b))"
    "json_get ''l1_data_gas'' (to_rpc_json b) = Some (resource_bound_json (l1_data_gas b))"
    by (simp_all add: to_rpc_json_def)
  have m: "bound_member ''l1_gas'' (to_rpc_json b) (l1_gas c)" "bound_member ''l2_gas'' (to_rpc_json b) (l2_gas c)"
    "bound_member ''l1_data_gas'' (to_rpc_json b) (l1_data_gas c)" using assms by (simp_all add: bounds_member_def)
  show ?thesis
    by (rule resource_bounds.equality) (simp_all add: bound_member_json[OF g(1) m(1)] bound_member_json[OF g(2) m(2)] bound_member_json[OF g(3) m(3)])
qed

text \<open>The transaction that is read from the JSON of \<open>prove_block\<close>.\<close>

lemma web_tx_parsed:
  assumes "invoke_parse_law P" and "F = re_felt (pe_runner P)"
    and "pe_parse_transaction P (web_tx_json F account calldata nonce bounds sig) = Inr tx"
  shows "\<exists>v. tx = RpcInvoke v \<and> ai_resource_bounds v = bounds \<and> ai_tip v = 0 \<and> ri_proof v = [] \<and> ai_proof_facts v = [] \<and>
     felt_from_hex F account = Inr (ai_sender_address v) \<and> collect_result (felt_from_hex F) calldata = Inr (ai_calldata v) \<and>
     felt_from_hex F (fmt_hex (unat nonce)) = Inr (ai_nonce v) \<and> ai_paymaster_data v = [] \<and> ai_account_deployment_data v = [] \<and>
     ai_nonce_da_mode v = DaL1 \<and> ai_fee_da_mode v = DaL1 \<and>
     collect_result (felt_from_hex F) [felt_lower_hex F (sig_r sig), felt_lower_hex F (sig_s sig)] = Inr (ai_signature v)"
proof -
  let ?j = "web_tx_json F account calldata nonce bounds sig"
  obtain v where v: "tx = RpcInvoke v" "invoke_members F ?j v"
    using assms unfolding invoke_parse_law_def by (force simp: web_tx_json_def)
  have "''0x0'' = fmt_hex (unat (0 :: u64))" by (simp add: fmt_hex_def lower_hex_def nat_digits.simps digit_char_def)
  then have "unat (ai_tip v) = unat (0 :: u64)"
    using v(2) hex_word[of "0 :: u64"] by (simp add: invoke_members_def hex_member_def web_tx_json_def)
  then have tip: "ai_tip v = 0" by (simp only: word_unat_eq_iff)
  have bounds: "ai_resource_bounds v = bounds"
    using v(2) by (intro bounds_member_json[of "''resource_bounds''" ?j]) (simp_all add: invoke_members_def web_tx_json_def)
  have empty: "JArr [] = jstrs []" by (simp add: jstrs_def)
  show ?thesis using v bounds tip
    by (simp add: invoke_members_def felt_member_def felts_member_def da_member_def web_tx_json_def empty jstrs_eq_iff)
qed

lemma zero_fee_valid:
  assumes "invoke_parse_law P" and "free_fee_law P"
    and "pe_parse_transaction P (web_tx_json (re_felt (pe_runner P)) account calldata nonce zero_fee sig) = Inr tx"
  shows "\<exists>v. tx = RpcInvoke v \<and> (\<forall>flag. validate_transaction_input P v flag = Inr ())"
proof -
  from web_tx_parsed[OF assms(1) refl assms(3)] obtain v where v: "tx = RpcInvoke v" "ai_resource_bounds v = zero_fee" "ai_tip v = 0"
    "ri_proof v = []" "ai_proof_facts v = []" by blast
  have "pe_bounds_max_possible_fee P zero_fee 0 = 0"
    using assms(2) unfolding free_fee_law_def by (simp add: zero_fee_def)
  with v show ?thesis by (simp add: validate_transaction_input_Inr)
qed

lemma prove_virtual_snos_run_not_refused:
  "prove_virtual_snos_run P p out = Inl (Failed e) \<Longrightarrow> \<not> refusal e"
  by (auto simp: prove_virtual_snos_run_def prove_def result_iffs refusal_def split: option.splits)

lemma prove_transaction_not_refused:
  assumes "validate_transaction_input P v (vp_validate_zero_fee_fields p) = Inr ()" and "b \<noteq> Pending"
    and "prove_transaction P p b (RpcInvoke v) s = (Inl (Failed e), s')"
  shows "\<not> refusal e"
proof -
  have "map_failure RunnerError f = Failed e \<Longrightarrow> \<not> refusal e" for f
    by (cases f) (auto simp: refusal_def)
  moreover from assms have "(\<exists>f. Failed e = map_failure RunnerError f) \<or> (\<exists>out. prove_virtual_snos_run P p out = Inl (Failed e))"
    by (auto simp: prove_transaction_def extract_rpc_invoke_tx_def rio_iffs)
  ultimately show ?thesis using prove_virtual_snos_run_not_refused by metis
qed

lemma panicked_not_Failed [simp]: "panicked q \<noteq> Failed x"
  by (cases q) auto

lemma map_failure_Failed: "map_failure g f = Failed x \<longleftrightarrow> (\<exists>y. f = Failed y \<and> x = g y)"
  by (cases f) auto

lemma collect_calldata_error: "collect_result (\<lambda>h. map_err ParseCalldata (g h)) hs \<noteq> Inl (RunVirtualOs r)"
  by (auto simp: collect_result_Inl result_iffs)

lemma vos_prove_transaction_not_refused:
  assumes "\<And>flag. validate_transaction_input P v flag = Inr ()"
    and "vos_prove_transaction P config block (RpcInvoke v) w = (Inl (Failed (ProverReport e)), w')"
  shows "\<not> refusal e"
proof -
  from assms(2) obtain p m s' f where "prove_transaction P p (Number block) (RpcInvoke v) (w, m) = (Inl f, s')"
    "map_failure ProverReport f = Failed (ProverReport e)"
    by (auto simp: vos_prove_transaction_def rio_map_err_apply map_err_Inl_iff split: sum.splits prod.splits)
  moreover from this(2) have "f = Failed e" by (cases f) auto
  ultimately show ?thesis
    using prove_transaction_not_refused[OF assms(1), where b = "Number block" and s = "(w, m)"] by blast
qed

lemma vos_run_virtual_os_not_refused:
  assumes "\<And>flag. validate_transaction_input P v flag = Inr ()" and "vo_transaction config = RpcInvoke v"
    and "vos_run_virtual_os P config w = (Inl (Failed (ProverReport e)), w')"
  shows "\<not> refusal e"
  using assms(3) vos_prove_transaction_not_refused[OF assms(1)] assms(2)
  by (auto simp: vos_run_virtual_os_def Let_def rio_iffs result_iffs split: option.splits)

text \<open>
  C0: the prover never refuses the transaction that \<open>prove_block\<close> builds: whatever the arguments, the
  network and the run give, no error of the input validation (pending block, transaction type, proof
  fields, non-zero fee) comes out of it.
\<close>

theorem prove_block_never_refused:
  assumes "invoke_parse_law P" and "free_fee_law P"
    and "prove_block P H chain_id_from rpc args w = (Inl (Failed (RunVirtualOs (ProverReport e))), w')"
  shows "\<not> refusal e"
proof -
  let ?F = "re_felt (pe_runner P)"
  from assms(3) obtain nonce sig tx w1 f where
    tx: "pe_parse_transaction P (web_tx_json ?F (pb_account_address args) (pb_calldata_strs args) nonce zero_fee sig) = Inr tx"
    and f: "vos_run_virtual_os P (web_os_config args (chain_id_from (pb_chain_id args)) tx) w1 = (Inl f, w')"
    "map_failure RunVirtualOs f = Failed (RunVirtualOs (ProverReport e))"
    by (auto simp: prove_block_def Let_def rio_iffs result_iffs parse_transaction_json_def collect_calldata_error)
  have "f = Failed (ProverReport e)" using f(2) by (auto simp: map_failure_Failed)
  moreover obtain v where v: "tx = RpcInvoke v" "\<And>flag. validate_transaction_input P v flag = Inr ()"
    using zero_fee_valid[OF assms(1,2) tx] by auto
  moreover have "vo_transaction (web_os_config args (chain_id_from (pb_chain_id args)) tx) = RpcInvoke v"
    by (simp add: web_os_config_def v(1))
  ultimately show ?thesis using vos_run_virtual_os_not_refused[OF v(2)] f(1) by simp
qed


lemma felt_from_hex_msg_Inr: "felt_from_hex_msg F h = Inr x \<longleftrightarrow> felt_from_hex F h = Inr x"
  by (simp add: felt_from_hex_msg_def result_iffs)

lemma collect_hex_map_err:
  "collect_result (\<lambda>h. map_err ParseCalldata (felt_from_hex_msg F h)) hs = Inr fs \<longleftrightarrow>
     collect_result (felt_from_hex F) hs = Inr fs"
  by (simp add: collect_result_Inr felt_from_hex_msg_Inr result_iffs)

text \<open>The number of a data availability mode in the hash.\<close>

definition da_mode_code :: "da_mode_api \<Rightarrow> u32" where
  "da_mode_code m = (case m of DaL1 \<Rightarrow> 0 | DaL2 \<Rightarrow> 1)"

text \<open>
  C16: what \<open>prove_block\<close> returns belongs together: the transaction that the virtual OS proves is the
  typed form of the returned JSON; the returned hash is the hash, on the requested chain, of that
  transaction's own fields, its tip, bounds and data availability modes among them; the signature that is
  returned and that the transaction carries is the signature of that hash under the given key; and the
  proof, facts and messages are the artifacts of that run.
\<close>

theorem prove_block_sound:
  assumes "felt_library (re_felt (pe_runner P))" and "invoke_parse_law P"
    and "prove_block P H chain_id_from rpc args w = (Inr res, w')"
  shows "\<exists>v key h sig artifacts w1. pe_parse_transaction P (br_tx_json res) = Inr (RpcInvoke v) \<and>
     h = compute_invoke_v3_tx_hash (re_felt (pe_runner P)) H (ai_sender_address v) (ai_calldata v)
       (chain_id_felt (re_felt (pe_runner P)) (pb_chain_id args)) (ai_nonce v) (felt_from_u64 (re_felt (pe_runner P)) (ai_tip v))
       (ai_resource_bounds v) (ai_paymaster_data v) (ai_account_deployment_data v)
       (da_mode_code (ai_nonce_da_mode v)) (da_mode_code (ai_fee_da_mode v)) (ai_proof_facts v) \<and>
     ai_resource_bounds v = zero_fee \<and> ai_tip v = 0 \<and>
     br_tx_hash res = felt_lower_hex (re_felt (pe_runner P)) h \<and>
     felt_from_hex (re_felt (pe_runner P)) (pb_private_key args) = Inr key \<and> sign H key h = Inr sig \<and>
     ai_signature v = [sig_r sig, sig_s sig] \<and>
     br_signature res = [felt_lower_hex (re_felt (pe_runner P)) (sig_r sig), felt_lower_hex (re_felt (pe_runner P)) (sig_s sig)] \<and>
     vos_run_virtual_os P (web_os_config args (chain_id_from (pb_chain_id args)) (RpcInvoke v)) w1 = (Inr artifacts, w') \<and>
     br_proof res = trim (va_proof artifacts) \<and> br_proof_facts res = va_proof_facts artifacts \<and>
     br_messages res = va_l2_to_l1_messages artifacts"
proof -
  let ?F = "re_felt (pe_runner P)"
  let ?h = "\<lambda>sender calldata nonce. compute_invoke_v3_tx_hash ?F H sender calldata
     (chain_id_felt ?F (pb_chain_id args)) (felt_from_u64 ?F nonce) (felt_ZERO ?F) zero_fee [] [] 0 0 []"
  from assms(3) obtain calldata sender key nonce sig tx artifacts w1 where
    c: "collect_result (felt_from_hex ?F) (pb_calldata_strs args) = Inr calldata"
    and s: "felt_from_hex ?F (pb_account_address args) = Inr sender"
    and k: "felt_from_hex ?F (pb_private_key args) = Inr key"
    and g: "sign H key (?h sender calldata nonce) = Inr sig"
    and tx: "pe_parse_transaction P (web_tx_json ?F (pb_account_address args) (pb_calldata_strs args) nonce zero_fee sig) = Inr tx"
    and r: "vos_run_virtual_os P (web_os_config args (chain_id_from (pb_chain_id args)) tx) w1 = (Inr artifacts, w')"
    and res: "res = \<lparr> br_tx_json = web_tx_json ?F (pb_account_address args) (pb_calldata_strs args) nonce zero_fee sig,
       br_proof = trim (va_proof artifacts), br_proof_facts = va_proof_facts artifacts,
       br_messages = va_l2_to_l1_messages artifacts, br_tx_hash = felt_lower_hex ?F (?h sender calldata nonce),
       br_signature = [felt_lower_hex ?F (sig_r sig), felt_lower_hex ?F (sig_s sig)] \<rparr>"
    unfolding prove_block_def Let_def rio_iffs result_iffs sum.inject parse_transaction_json_def collect_hex_map_err
      felt_from_hex_msg_Inr prod.inject by blast
  from web_tx_parsed[OF assms(2) refl tx] obtain v where v: "tx = RpcInvoke v" "ai_resource_bounds v = zero_fee" "ai_tip v = 0"
    "ai_proof_facts v = []" "felt_from_hex ?F (pb_account_address args) = Inr (ai_sender_address v)"
    "collect_result (felt_from_hex ?F) (pb_calldata_strs args) = Inr (ai_calldata v)"
    "felt_from_hex ?F (fmt_hex (unat nonce)) = Inr (ai_nonce v)" "ai_paymaster_data v = []" "ai_account_deployment_data v = []"
    "ai_nonce_da_mode v = DaL1" "ai_fee_da_mode v = DaL1"
    "collect_result (felt_from_hex ?F) [felt_lower_hex ?F (sig_r sig), felt_lower_hex ?F (sig_s sig)] = Inr (ai_signature v)"
    by blast
  have "unat nonce < stark_prime"
    using unsigned_less[where 'b = 64 and 'a = nat, of nonce] by (simp add: stark_prime_def)
  then have n: "ai_nonce v = felt_from_u64 ?F nonce"
    using felt_library.from_hex_fmt_hex[OF assms(1), of "unat nonce"] v(7)
    by (auto intro: felt_library.biguint_inj[OF assms(1)] simp: felt_library.from_u64[OF assms(1)])
  have z: "felt_from_u64 ?F 0 = felt_ZERO ?F"
    by (rule felt_library.biguint_inj[OF assms(1)]) (simp add: felt_library.from_u64[OF assms(1)] felt_library.ZERO[OF assms(1)])
  have sg: "ai_signature v = [sig_r sig, sig_s sig]"
    using v(12) by (simp add: felt_library.from_hex_to_hex[OF assms(1)])
  have h: "?h sender calldata nonce = compute_invoke_v3_tx_hash ?F H (ai_sender_address v) (ai_calldata v)
       (chain_id_felt ?F (pb_chain_id args)) (ai_nonce v) (felt_from_u64 ?F (ai_tip v)) (ai_resource_bounds v) (ai_paymaster_data v)
       (ai_account_deployment_data v) (da_mode_code (ai_nonce_da_mode v)) (da_mode_code (ai_fee_da_mode v)) (ai_proof_facts v)"
    using v c s by (simp add: n z da_mode_code_def)
  show ?thesis using tx r k g[unfolded h] sg v(1-3) unfolding res h by auto
qed

section \<open>A run for the witnesses\<close>

text \<open>The node serves the nonce first and an answer with no initial reads afterwards.\<close>

definition web_net :: "nat net" where
  "web_net = demo_answer_net\<lparr> http_send := (\<lambda>url p t. (Inr \<lparr> resp_status = 200, resp_json = Inr (JObj
     [(''result'', if t = 0 then JStr ''0x1'' else JObj [(''initial_reads'', JObj [])]), (''id'', JNum 0)]) \<rparr>, Suc t)) \<rparr>"

definition web_tx :: "felt252 list \<Rightarrow> felt252 rpc_invoke_v3" where
  "web_tx sig = (demo_rpc_tx zero_fee)\<lparr> ai_nonce := felt_of_nat 1, ai_signature := sig \<rparr>"

definition web_parse :: "json \<Rightarrow> string + (felt252, nat) rpc_transaction" where
  "web_parse v = (if json_get ''sender_address'' v = Some (JStr ''0x3'') \<and> json_get ''calldata'' v = Some (jstrs []) \<and>
       json_get ''nonce'' v = Some (JStr (fmt_hex 1)) \<and> json_get ''resource_bounds'' v = Some (to_rpc_json zero_fee) \<and>
       json_get ''tip'' v = Some (JStr ''0x0'') \<and> json_get ''paymaster_data'' v = Some (jstrs []) \<and>
       json_get ''account_deployment_data'' v = Some (jstrs []) \<and> json_get ''nonce_data_availability_mode'' v = Some (JStr ''L1'') \<and>
       json_get ''fee_data_availability_mode'' v = Some (JStr ''L1'') \<and> json_get ''proof_facts'' v = None
     then and_then (ok_or ''signature'' (get_array ''signature'' v)) (\<lambda>ss.
       and_then (collect_result (felt_from_hex stark_felt) (str_elements ss)) (\<lambda>sig. Inr (RpcInvoke (web_tx sig))))
     else Inl ''unsupported'')"

definition web_env ::
  "(string + u8 list \<times> nat) \<Rightarrow> (felt252, nat, (felt252 \<times> nat compiled_classes) list, nat) prover_env" where
  "web_env proved = demo_prover_env\<lparr> pe_runner := demo_env\<lparr> re_net := web_net \<rparr>,
     pe_recursive_prove := (\<lambda>pie pre. proved), pe_parse_transaction := web_parse,
     pe_bounds_max_possible_fee := (\<lambda>b tip. if max_price_per_unit (l1_gas b) = 0 \<and> max_price_per_unit (l2_gas b) = 0 \<and>
       max_price_per_unit (l1_data_gas b) = 0 then 0 else 1) \<rparr>"

definition web_args :: prove_block_args where
  "web_args = \<lparr> pb_reference_block = 7, pb_account_address = ''0x3'', pb_private_key = ''0x5'',
     pb_chain_id = ''SN_SEPOLIA'', pb_rpc_url = ''u'', pb_calldata_strs = [] \<rparr>"

lemma stark_from_hex_small: "felt_from_hex stark_felt ''0x3'' = Inr (felt_of_nat 3)" "felt_from_hex stark_felt ''0x5'' = Inr (felt_of_nat 5)"
  by (simp_all add: stark_felt_def stark_from_hex_def hex_val_def starts_with_def stark_prime_def)

lemma zero_fee_members: "json_get k j = Some (to_rpc_json zero_fee) \<Longrightarrow> bounds_member k j zero_fee"
proof -
  have b: "json_get k j = Some (resource_bound_json b) \<Longrightarrow> bound_member k j b" for k j b
    using hex_word[of "max_amount b"] hex_word[of "max_price_per_unit b"]
    by (simp add: bound_member_def hex_member_def resource_bound_json_def)
  show "json_get k j = Some (to_rpc_json zero_fee) \<Longrightarrow> bounds_member k j zero_fee"
    by (auto simp: bounds_member_def to_rpc_json_def intro!: b)
qed

lemma web_env_laws: "invoke_parse_law (web_env r)" "free_fee_law (web_env r)"
proof -
  have "invoke_members stark_felt j v" if "web_parse j = Inr (RpcInvoke v)" for j v
  proof -
    from that obtain ss sig where j: "json_get ''sender_address'' j = Some (JStr ''0x3'')" "json_get ''calldata'' j = Some (jstrs [])"
       "json_get ''nonce'' j = Some (JStr (fmt_hex 1))" "json_get ''resource_bounds'' j = Some (to_rpc_json zero_fee)"
       "json_get ''tip'' j = Some (JStr ''0x0'')" "json_get ''paymaster_data'' j = Some (jstrs [])"
       "json_get ''account_deployment_data'' j = Some (jstrs [])" "json_get ''nonce_data_availability_mode'' j = Some (JStr ''L1'')"
       "json_get ''fee_data_availability_mode'' j = Some (JStr ''L1'')" "json_get ''proof_facts'' j = None"
      and ss: "get_array ''signature'' j = Some ss" "collect_result (felt_from_hex stark_felt) (str_elements ss) = Inr sig"
      and v: "v = web_tx sig"
      by (auto simp: web_parse_def result_iffs split: if_splits)
    have "''0x0'' = fmt_hex (unat (0 :: u64))" by (simp add: fmt_hex_def lower_hex_def nat_digits.simps digit_char_def)
    then have tip: "hex_member 64 ''tip'' j (unat (0 :: u64))" using j(5) hex_word[of "0 :: u64"] by (simp add: hex_member_def)
    have one: "felt_from_hex stark_felt (fmt_hex 1) = Inr (felt_of_nat 1)"
      by (simp add: fmt_hex_def lower_hex_def nat_digits.simps digit_char_def stark_felt_def stark_from_hex_def hex_val_def
          starts_with_def stark_prime_def)
    have "felts_member stark_felt ''signature'' j sig"
      using ss by (auto simp: felts_member_def jstrs_def get_array_def)
    then show ?thesis
      using j tip zero_fee_members[OF j(4)]
      by (simp add: invoke_members_def v web_tx_def demo_rpc_tx_def felt_member_def felts_member_def da_member_def stark_from_hex_small
          one[unfolded One_nat_def] jstrs_eq_iff)
  qed
  moreover have "\<exists>v. tx = RpcInvoke v" if "web_parse j = Inr tx" for j tx
    using that by (auto simp: web_parse_def result_iffs split: if_splits)
  ultimately show "invoke_parse_law (web_env r)"
    by (fastforce simp: invoke_parse_law_def web_env_def demo_env_def)
  show "free_fee_law (web_env r)"
    by (simp add: free_fee_law_def web_env_def)
qed

text \<open>The chain configuration and the fee tokens are constants of the code; the address parser accepts them.\<close>

lemma fee_contracts:
  "\<exists>x. STRK_FEE_CONTRACT_ADDRESS stark_felt Inr = Inr x" "\<exists>x. ETH_FEE_CONTRACT_ADDRESS stark_felt Inr = Inr x"
  "\<exists>x. felt_from_hex stark_felt STRK_TOKEN = Inr x"
  by (simp_all add: STRK_FEE_CONTRACT_ADDRESS_def ETH_FEE_CONTRACT_ADDRESS_def STRK_TOKEN_def
      stark_felt_def stark_from_hex_def hex_val_def starts_with_def stark_prime_def)

lemma web_prover_new:
  "\<exists>p. prover_new (web_env r) ((prover_config_default (web_env r))\<lparr> pc_rpc_node_url := ''u'', pc_chain_id := Sepolia,
       pc_strk_fee_token_address := Some a \<rparr>) = Inr (p, []) \<and> vp_precomputes p = Some 11 \<and>
     rf_node_url (vp_runner p) = ''u'' \<and>
     rf_runner_config (vp_runner p) = \<lparr> rc_storage_proof_config = storage_proof_config_default,
       rc_executor_config = executor_config_default demo_blockifier \<rparr>"
proof -
  obtain x y where "STRK_FEE_CONTRACT_ADDRESS stark_felt Inr = Inr x" "ETH_FEE_CONTRACT_ADDRESS stark_felt Inr = Inr y"
    using fee_contracts by blast
  then show ?thesis
    by (simp add: prover_new_def Let_def web_env_def demo_prover_env_def prover_config_default_def demo_env_def
      get_chain_info_def precomputes_of_def)
qed

lemma web_send:
  "0 < t \<Longrightarrow> send_rpc_request_async web_net rd m p t = (Inr (JObj [(''initial_reads'', JObj [])]), Suc t)"
  by (simp add: send_rpc_request_async_def rio_bind_apply rio_map_err_apply web_net_def
      response_value_def is_success_def de_rpc_response_def de_success_def struct_fields_def)

lemma web_base_block_info:
  assumes "0 < t" and "ex_config ex = executor_config_default demo_blockifier"
  shows "\<exists>info. base_block_info_async demo_reader demo_blockifier web_net ex t = (Inr info, Suc t)"
proof -
  obtain bi where "header_try_into demo_reader (demo_header 3) = Inr bi"
    by (simp add: header_try_into_def parse_gas_price_def demo_reader_def demo_header_def Let_def)
  then show ?thesis using assms
    by (simp add: base_block_info_async_def get_block_header_async_def rio_bind_apply rio_map_err_apply
        web_send base_block_info_new_def Let_def executor_config_default_def)
       (simp add: demo_reader_def demo_blockifier_def)
qed

lemma web_no_reads: "deserialize_rpc_initial_reads demo_entries (JObj []) = Inr state_maps_default"
  by (simp add: deserialize_rpc_initial_reads_def de_rpc_initial_reads_def default_fields_def de_vec_default_def
      reads_to_state_maps_def state_maps_default_def)

lemma web_execute:
  assumes "ex_config ex = executor_config_default demo_blockifier"
  shows "\<exists>d. execute stark_felt demo_reader demo_entries demo_classes demo_blockifier web_net
     ex b [(InvokeV3 tx, felt_of_nat 4)] (1, []) = (Inr d, (3, []))"
proof -
  obtain info where i: "base_block_info_async demo_reader demo_blockifier web_net ex 1 = (Inr info, 2)"
    using web_base_block_info[of 1 ex] assms by auto
  have "(4 :: nat) mod stark_prime = 4" by (simp add: stark_prime_def)
  then have c: "convert_invoke_txs demo_blockifier ex [(InvokeV3 tx, felt_of_nat 4)] = Inr [4]"
    by (simp add: convert_invoke_txs_def demo_blockifier_def)
  have j: "rpc_invoke_json demo_blockifier x = Inr JNull" for x by (simp add: demo_blockifier_def)
  have s: "simulate_and_get_initial_reads demo_reader demo_entries demo_blockifier web_net ex b [(InvokeV3 tx, felt_of_nat 4)] 2 =
      (Inr state_maps_default, 3)"
    by (simp add: web_send[of 2, simplified] simulate_and_get_initial_reads_def simulate_txs_json_def j rio_bind_apply
        rio_map_err_apply web_no_reads)
  have h: "classes_to_fetch demo_blockifier state_maps_default = []"
    by (simp add: classes_to_fetch_def state_maps_default_def demo_blockifier_def)
  have r: "\<exists>d. map_err Failed (finish_execution info hs (execute_txs demo_blockifier rd m ctx [4])) = Inr d"
    "run_manager (execute_txs demo_blockifier rd m ctx [4]) = m" for hs rd m ctx
    by (cases hs; simp add: finish_execution_def demo_blockifier_def demo_output_def)+
  show ?thesis
    by (simp add: execute_def rio_bind_apply rio_map_err_apply rio_fst_def i[simplified] c s h r(2) assms
        prefetch_classes_into_cache_def Let_def executor_config_default_def) (rule r(1))
qed

lemma web_run:
  assumes "rf_node_url f = ''u''" "rf_runner_config f = \<lparr> rc_storage_proof_config = storage_proof_config_default,
       rc_executor_config = executor_config_default demo_blockifier \<rparr>"
  shows "\<exists>out. factory_run_virtual_os (demo_env\<lparr> re_net := web_net \<rparr>) f b [InvokeV3 tx] (1, []) = (Inr out, (4, []))"
proof -
  let ?ex = "executor_new ''u'' (rf_chain_info f) b (executor_config_default demo_blockifier)"
  obtain d where d: "execute stark_felt demo_reader demo_entries demo_classes demo_blockifier web_net
      ?ex b [(InvokeV3 tx, felt_of_nat 4)] (1, []) = (Inr d, (3, []))"
    using web_execute[of ?ex b tx] by (auto simp: executor_new_def)
  from execute_Inr_finish[OF d] obtain info maps btxs m where
    "finish_execution info [felt_of_nat 4] (execute_txs demo_blockifier (simulated_reader
        \<lparr> ss_state_maps = maps, ss_rpc_state_reader = ex_rpc_state_reader ?ex \<rparr>) m
        (bb_block_context info) btxs) = Inr d" by auto
  note fin = finish_execution_Inr[OF this]
  have fields: "vd_initial_reads d = state_maps_default" "vd_state_diff d = state_maps_default"
    "vd_executed_class_hashes d = []"
    using fin by (auto simp: demo_blockifier_def)
  from demo_get_storage_proofs[OF this] obtain sp where
    sp: "get_storage_proofs stark_felt demo_facts demo_committer demo_os (\<lambda>b h a c w. (Inr demo_proof, Suc w))
       (bi_block_number (bc_block_info (bb_block_context (vd_base_block_info d)))) d storage_proof_config_default 3 = (Inr sp, Suc 3)"
    by metis
  then show ?thesis
    by (simp add: factory_run_virtual_os_def create_runner_def assms runner_run_virtual_os_def demo_env_def rio_bind_apply rio_map_err_apply
        rio_fst_def d[simplified] create_virtual_os_hints_def hash_transactions_def Let_def get_classes_def fields(3))
qed

lemma web_vos_prove:
  "\<exists>msgs. vos_prove_transaction (web_env r) ((prover_config_default (web_env r))\<lparr> pc_rpc_node_url := ''u'', pc_chain_id := Sepolia,
       pc_strk_fee_token_address := Some a \<rparr>) b (RpcInvoke (web_tx sg)) 1 =
     (map_err (map_failure ProverReport) (and_then (map_err (\<lambda>e. Failed (ProvingError e)) r) (\<lambda>(pf, po).
        Inr \<lparr> pr_proof = pf, pr_proof_facts = [felt_of_nat po], pr_l2_to_l1_messages = msgs \<rparr>)), 4)"
proof -
  obtain p where p: "prover_new (web_env r) ((prover_config_default (web_env r))\<lparr> pc_rpc_node_url := ''u'', pc_chain_id := Sepolia,
       pc_strk_fee_token_address := Some a \<rparr>) = Inr (p, [])" "vp_precomputes p = Some 11"
     "rf_node_url (vp_runner p) = ''u''"
     "rf_runner_config (vp_runner p) = \<lparr> rc_storage_proof_config = storage_proof_config_default,
       rc_executor_config = executor_config_default demo_blockifier \<rparr>"
    using web_prover_new by metis
  have valid: "validate_transaction_input (web_env r) (web_tx sg) flag = Inr ()" for flag
    by (simp add: validate_transaction_input_Inr web_tx_def demo_rpc_tx_def web_env_def zero_fee_def)
  obtain out where out: "factory_run_virtual_os (demo_env\<lparr> re_net := web_net \<rparr>) (vp_runner p) (Number b)
      [InvokeV3 (api_invoke_v3.truncate (web_tx sg))] (1, []) = (Inr out, (4, []))"
    using web_run[OF p(3,4)] by blast
  have "prove_virtual_snos_run (web_env r) p out =
     and_then (map_err (\<lambda>e. Failed (ProvingError e)) r) (\<lambda>(pf, po). Inr \<lparr> pr_proof = pf,
       pr_proof_facts = [felt_of_nat po], pr_l2_to_l1_messages = ro_l2_to_l1_messages out \<rparr>)"
    using p(2) by (cases r) (auto simp: prove_virtual_snos_run_def prove_def web_env_def demo_prover_env_def)
  moreover have pr: "pe_runner (web_env r) = demo_env\<lparr> re_net := web_net \<rparr>" by (simp add: web_env_def)
  ultimately have "prove_transaction (web_env r) p (Number b) (RpcInvoke (web_tx sg)) (1, []) =
     (and_then (map_err (\<lambda>e. Failed (ProvingError e)) r) (\<lambda>(pf, po). Inr \<lparr> pr_proof = pf,
       pr_proof_facts = [felt_of_nat po], pr_l2_to_l1_messages = ro_l2_to_l1_messages out \<rparr>), (4, []))"
    using out by (simp add: prove_transaction_def extract_rpc_invoke_tx_def rio_bind_apply rio_map_err_apply valid pr)
  then show ?thesis
    by (intro exI[of _ "ro_l2_to_l1_messages out"]) (simp add: vos_prove_transaction_def p(1) rio_map_err_apply)
qed

lemma web_vos_run:
  "vos_run_virtual_os (web_env (Inl e)) (web_os_config web_args Sepolia (RpcInvoke (web_tx sg))) 1 =
     (Inl (Failed (ProverReport (ProvingError e))), 4)"
  "\<exists>art. vos_run_virtual_os (web_env (Inr ([65, 66], 1))) (web_os_config web_args Sepolia (RpcInvoke (web_tx sg))) 1 = (Inr art, 4)"
proof -
  have l: "pe_parse_address (web_env r) = felt_from_hex stark_felt" "pe_facts_json (web_env r) = (\<lambda>fs. Inr (JArr []))"
    "pe_messages_json (web_env r) = (\<lambda>fs. Inr (JArr []))" for r
    by (simp_all add: web_env_def demo_prover_env_def)
  obtain a where a: "felt_from_hex stark_felt STRK_TOKEN = Inr a" using fee_contracts(3) by blast
  note v = web_vos_prove[of _ a _ sg, simplified]
  show "vos_run_virtual_os (web_env (Inl e)) (web_os_config web_args Sepolia (RpcInvoke (web_tx sg))) 1 =
     (Inl (Failed (ProverReport (ProvingError e))), 4)"
    using v[of "Inl e" 7] by (simp add: vos_run_virtual_os_def web_os_config_def web_args_def l a rio_bind_apply Let_def)
  show "\<exists>art. vos_run_virtual_os (web_env (Inr ([65, 66], 1))) (web_os_config web_args Sepolia (RpcInvoke (web_tx sg))) 1 = (Inr art, 4)"
    using v[of "Inr ([65, 66], 1)" 7]
    by (elim exE) (simp add: vos_run_virtual_os_def web_os_config_def web_args_def l a rio_bind_apply Let_def from_utf8_def)
qed

lemma web_nonce: "get_nonce_at_block web_net u a b 0 = (Inr 1, Suc 0)"
  using parse_u64_hex_fmt[of 1]
  by (simp add: get_nonce_at_block_def call_def call_raw_def rio_bind_apply rio_map_err_apply web_net_def
      response_result_def fmt_hex_def lower_hex_def nat_digits.simps digit_char_def)

lemma web_parse_tx:
  "web_parse (web_tx_json stark_felt ''0x3'' [] 1 zero_fee sig) = Inr (RpcInvoke (web_tx [sig_r sig, sig_s sig]))"
proof -
  have "JArr [] = jstrs []" by (simp add: jstrs_def)
  moreover have "str_elements [JStr a, JStr b] = [a, b]" for a b by (simp add: str_elements_def map_filter_simps)
  ultimately show ?thesis
    by (simp add: web_parse_def web_tx_json_def felt_library.from_hex_to_hex[OF stark_felt_library])
       (simp add: jstrs_def felt_library.from_hex_to_hex[OF stark_felt_library])
qed

lemma web_sign: "\<exists>sig. sign demo_crypto (felt_of_nat 5) h = Inr sig"
  by (simp add: sign_def demo_crypto_def stark_prime_def)

lemma web_prove_block:
  "prove_block (web_env (Inl ''out of memory'')) demo_crypto (\<lambda>_. Sepolia) ''u'' web_args 0 =
     (Inl (Failed (RunVirtualOs (ProverReport (ProvingError ''out of memory'')))), 4)"
  "\<exists>res. prove_block (web_env (Inr ([65, 66], 1))) demo_crypto (\<lambda>_. Sepolia) ''u'' web_args 0 = (Inr res, 4)"
proof -
  let ?h = "compute_invoke_v3_tx_hash stark_felt demo_crypto (felt_of_nat 3) [] (chain_id_felt stark_felt ''SN_SEPOLIA'')
     (felt_from_u64 stark_felt 1) (felt_ZERO stark_felt) zero_fee [] [] 0 0 []"
  obtain sig where sig: "sign demo_crypto (felt_of_nat 5) ?h = Inr sig" using web_sign by blast
  have l: "re_felt (pe_runner (web_env r)) = stark_felt" "re_net (pe_runner (web_env r)) = web_net"
    "pe_parse_transaction (web_env r) = web_parse" for r by (simp_all add: web_env_def demo_env_def)
  have a: "pb_account_address web_args = ''0x3''" "pb_calldata_strs web_args = []" "pb_private_key web_args = ''0x5''"
    "pb_chain_id web_args = ''SN_SEPOLIA''" by (simp_all add: web_args_def)
  note step = prove_block_def Let_def l a felt_from_hex_msg_def stark_from_hex_small rio_bind_apply rio_map_err_apply
    web_nonce sig web_parse_tx parse_transaction_json_def
  show "prove_block (web_env (Inl ''out of memory'')) demo_crypto (\<lambda>_. Sepolia) ''u'' web_args 0 =
     (Inl (Failed (RunVirtualOs (ProverReport (ProvingError ''out of memory'')))), 4)"
    using web_vos_run(1)[of "''out of memory''" "[sig_r sig, sig_s sig]"] by (simp add: step)
  show "\<exists>res. prove_block (web_env (Inr ([65, 66], 1))) demo_crypto (\<lambda>_. Sepolia) ''u'' web_args 0 = (Inr res, 4)"
    using web_vos_run(2)[of "[sig_r sig, sig_s sig]"] by (elim exE) (simp add: step)
qed

theorem prove_block_never_refused_witness:
  "(\<exists>e w'. invoke_parse_law (web_env (Inl ''out of memory'')) \<and> free_fee_law (web_env (Inl ''out of memory'')) \<and>
     prove_block (web_env (Inl ''out of memory'')) demo_crypto (\<lambda>_. Sepolia) ''u'' web_args 0 =
       (Inl (Failed (RunVirtualOs (ProverReport e))), w') \<and> \<not> refusal e)"
  using prove_block_never_refused[OF web_env_laws web_prove_block(1)] web_env_laws web_prove_block(1) by blast

theorem prove_block_sound_witness:
  "\<exists>res w'. felt_library (re_felt (pe_runner (web_env (Inr ([65, 66], 1))))) \<and>
     prove_block (web_env (Inr ([65, 66], 1))) demo_crypto (\<lambda>_. Sepolia) ''u'' web_args 0 = (Inr res, w') \<and>
     (\<exists>v. pe_parse_transaction (web_env (Inr ([65, 66], 1))) (br_tx_json res) = Inr (RpcInvoke v) \<and>
        ai_resource_bounds v = zero_fee \<and> length (ai_signature v) = 2)"
proof -
  obtain res where r: "prove_block (web_env (Inr ([65, 66], 1))) demo_crypto (\<lambda>_. Sepolia) ''u'' web_args 0 = (Inr res, 4)"
    using web_prove_block(2) by blast
  have F: "felt_library (re_felt (pe_runner (web_env (Inr ([65, 66], 1)))))"
    by (simp add: web_env_def demo_env_def stark_felt_library)
  from prove_block_sound[OF F web_env_laws(1) r] obtain v and sig :: "felt252 signature" where
    "pe_parse_transaction (web_env (Inr ([65, 66], 1))) (br_tx_json res) = Inr (RpcInvoke v)"
    "ai_resource_bounds v = zero_fee" "ai_signature v = [sig_r sig, sig_s sig]" by (elim exE conjE) (rule that)
  then show ?thesis using r F by fastforce
qed

end
