(* ===== verification/AppHost.thy ===== *)
theory AppHost
  imports Rpc Config ProofCodec CliUtil StateReader
begin

text \<open>
  What the application servers under \<open>apps/\<close> share: the host they run on (processes, files, random
  numbers), the events of a progress stream, and the effects of a handler. A handler may wait for a
  transaction, and that loop is a partial function; so a handler's run is \<open>None\<close> when it does not
  return, and otherwise its result and the state it leaves behind.
\<close>

section \<open>Partial effects\<close>

type_synonym ('s, 'e, 'a) pio = "'s \<Rightarrow> (('e + 'a) \<times> 's) option"

definition pio_return :: "'e + 'a \<Rightarrow> ('s, 'e, 'a) pio" where
  "pio_return r = (\<lambda>s. Some (r, s))"

definition pio_bind :: "('s, 'e, 'a) pio \<Rightarrow> ('a \<Rightarrow> ('s, 'e, 'b) pio) \<Rightarrow> ('s, 'e, 'b) pio" where
  "pio_bind m k = (\<lambda>s. case m s of
      None \<Rightarrow> None
    | Some (r, s') \<Rightarrow> (case r of Inl e \<Rightarrow> Some (Inl e, s') | Inr x \<Rightarrow> k x s'))"

definition pio_map_err :: "('e \<Rightarrow> 'f) \<Rightarrow> ('s, 'e, 'a) pio \<Rightarrow> ('s, 'f, 'a) pio" where
  "pio_map_err f m = (\<lambda>s. case m s of None \<Rightarrow> None | Some (r, s') \<Rightarrow> Some (map_err f r, s'))"

text \<open>\<open>match op.await { Ok(x) => .., Err(e) => .. }\<close>: the result itself is the value.\<close>

definition pio_result :: "('s, 'e, 'a) pio \<Rightarrow> ('s, 'g, 'e + 'a) pio" where
  "pio_result m = (\<lambda>s. case m s of None \<Rightarrow> None | Some (r, s') \<Rightarrow> Some (Inr r, s'))"

lemma pio_return_apply [simp, result_simps]: "pio_return r s = Some (r, s)"
  by (simp add: pio_return_def)

lemma pio_bind_return [simp, result_simps]:
  "pio_bind (pio_return (Inl e)) k = pio_return (Inl e)"
  "pio_bind (pio_return (Inr x)) k = k x"
  by (auto simp: pio_bind_def fun_eq_iff)

lemma pio_return_iff: "pio_return r s = Some (q, s') \<longleftrightarrow> q = r \<and> s' = s"
  by auto

lemma pio_bind_Inr_iff:
  "pio_bind m k s = Some (Inr y, s'') \<longleftrightarrow> (\<exists>x s'. m s = Some (Inr x, s') \<and> k x s' = Some (Inr y, s''))"
  by (auto simp: pio_bind_def split: option.splits sum.splits)

lemma pio_bind_Inl_iff:
  "pio_bind m k s = Some (Inl e, s'') \<longleftrightarrow>
     m s = Some (Inl e, s'') \<or> (\<exists>x s'. m s = Some (Inr x, s') \<and> k x s' = Some (Inl e, s''))"
  by (auto simp: pio_bind_def split: option.splits sum.splits)

lemma pio_map_err_Inr_iff: "pio_map_err f m s = Some (Inr y, s') \<longleftrightarrow> m s = Some (Inr y, s')"
  by (auto simp: pio_map_err_def map_err_Inr_iff split: option.splits)

lemma pio_map_err_Inl_iff:
  "pio_map_err f m s = Some (Inl e, s') \<longleftrightarrow> (\<exists>e'. m s = Some (Inl e', s') \<and> e = f e')"
  by (auto simp: pio_map_err_def map_err_Inl_iff split: option.splits)

lemma pio_result_iff: "pio_result m s = Some (q, s') \<longleftrightarrow> (\<exists>r. m s = Some (r, s') \<and> q = Inr r)"
  by (auto simp: pio_result_def split: option.splits)

lemmas pio_iffs = pio_bind_Inr_iff pio_bind_Inl_iff pio_map_err_Inr_iff pio_map_err_Inl_iff
  pio_result_iff pio_return_iff

lemma pio_bind_None_iff:
  "pio_bind m k s = None \<longleftrightarrow> m s = None \<or> (\<exists>x s'. m s = Some (Inr x, s') \<and> k x s' = None)"
  by (auto simp: pio_bind_def split: option.splits sum.splits)

text \<open>An operation that always returns.\<close>

definition returns :: "('s, 'e, 'a) pio \<Rightarrow> bool" where
  "returns m \<longleftrightarrow> (\<forall>s. m s \<noteq> None)"

lemma returns_bind [intro]: "returns m \<Longrightarrow> (\<And>x. returns (k x)) \<Longrightarrow> returns (pio_bind m k)"
  by (auto simp: returns_def pio_bind_None_iff)

lemma returns_return [simp, intro]: "returns (pio_return r)"
  by (simp add: returns_def)

lemma returns_map_err [intro]: "returns m \<Longrightarrow> returns (pio_map_err f m)"
  by (auto simp: returns_def pio_map_err_def split: option.splits)

lemma returns_result [intro]: "returns m \<Longrightarrow> returns (pio_result m)"
  by (auto simp: returns_def pio_result_def split: option.splits)

section \<open>The state of a server\<close>

text \<open>What an error message quotes is carried as the value that is printed.\<close>

datatype cause =
    NoCause
  | Text string
  | Rpc_cause rpc_error
  | Sign_cause sign_error
  | Config_cause config_error
  | Proof_cause proof_error
  | Body json

text \<open>\<open>error_response(status, message)\<close>\<close>

datatype http_error = HttpError nat string cause

datatype sse_event =
    Phase string
  | Log string cause
  | ErrorEvent string cause
  | ResultEvent json
  | CompleteEvent json

record 'w app =
  ap_world :: 'w
  ap_events :: "sse_event list"

definition on_world :: "('w, 'e, 'a) rio \<Rightarrow> (('w, 'z) app_scheme, 'e, 'a) pio" where
  "on_world m = (\<lambda>s. case m (ap_world s) of (r, w) \<Rightarrow> Some (r, s\<lparr> ap_world := w \<rparr>))"

definition on_world_io :: "('w, 'a) io \<Rightarrow> (('w, 'z) app_scheme, 'e, 'a) pio" where
  "on_world_io m = (\<lambda>s. case m (ap_world s) of (x, w) \<Rightarrow> Some (Inr x, s\<lparr> ap_world := w \<rparr>))"

definition on_world_wait :: "('w \<Rightarrow> (('e + 'a) \<times> 'w) option) \<Rightarrow> (('w, 'z) app_scheme, 'e, 'a) pio" where
  "on_world_wait m = (\<lambda>s. case m (ap_world s) of None \<Rightarrow> None | Some (r, w) \<Rightarrow> Some (r, s\<lparr> ap_world := w \<rparr>))"

lemma returns_on_world [simp, intro]: "returns (on_world m)" "returns (on_world_io n)"
  by (auto simp: returns_def on_world_def on_world_io_def split: prod.splits)

lemma returns_on_world_wait: "(\<And>w. m w \<noteq> None) \<Longrightarrow> returns (on_world_wait m)"
  by (auto simp: returns_def on_world_wait_def split: option.splits)

text \<open>A task ends early by returning or by a panic; it reports the error it returns on.\<close>

datatype task_end = Returned | TaskPanic string

definition emit :: "sse_event \<Rightarrow> (('w, 'z) app_scheme, 'e, unit) pio" where
  "emit ev = (\<lambda>s. Some (Inr (), s\<lparr> ap_events := ap_events s @ [ev] \<rparr>))"

definition give_up :: "string \<Rightarrow> cause \<Rightarrow> (('w, 'z) app_scheme, task_end, 'a) pio" where
  "give_up msg c = pio_bind (emit (ErrorEvent msg c)) (\<lambda>_. pio_return (Inl Returned))"

definition task_try ::
  "string \<Rightarrow> ('e \<Rightarrow> cause) \<Rightarrow> (('w, 'z) app_scheme, 'e, 'a) pio \<Rightarrow> (('w, 'z) app_scheme, task_end, 'a) pio" where
  "task_try msg f m = pio_bind (pio_result m) (\<lambda>r. case r of
      Inr x \<Rightarrow> pio_return (Inr x) | Inl e \<Rightarrow> give_up msg (f e))"

lemma returns_emit [simp, intro]: "returns (emit ev)"
  by (simp add: returns_def emit_def)

lemma returns_give_up [simp, intro]: "returns (give_up msg c)"
  by (auto simp: give_up_def)

lemma returns_task_try [intro]: "returns m \<Longrightarrow> returns (task_try msg f m)"
  unfolding task_try_def by (rule returns_bind) (auto split: sum.split)

section \<open>The host\<close>

text \<open>
  Processes, files, the environment and random numbers. The output of a process is the text that
  \<open>from_utf8_lossy\<close> reads; \<open>spawn\<close> starts a program and \<open>wait\<close> gives whether it succeeded.
\<close>

record 'w host =
  ho_net :: "'w net"
  ho_output :: "string \<Rightarrow> string list \<Rightarrow> string option \<Rightarrow> ('w, string, cmd_output) rio"
  ho_spawn :: "string \<Rightarrow> string list \<Rightarrow> ('w, string, nat) rio"
  ho_wait :: "nat \<Rightarrow> ('w, string, bool) rio"
  ho_uuid :: "('w, string) io"
  ho_random16 :: "('w, u8 list) io"
  ho_env :: "string \<Rightarrow> ('w, string option) io"
  ho_snip36_bin :: "('w, string) io"
  ho_read_to_string :: "string \<Rightarrow> ('w, string, string) rio"
  ho_write :: "string \<Rightarrow> string \<Rightarrow> ('w, string, unit) rio"
  ho_create_dir_all :: "string \<Rightarrow> ('w, string, unit) rio"
  ho_exists :: "string \<Rightarrow> ('w, bool) io"
  ho_len :: "string \<Rightarrow> ('w, string, u64) rio"

text \<open>Libraries without effects: the field, the cryptography, regular expressions with captures, JSON as text.\<close>

record ('f, 're) app_lib =
  al_felt :: "'f felt_lib"
  al_crypto :: "'f crypto_lib"
  al_regex :: "'re regex_lib"
  al_capture1 :: "'re \<Rightarrow> string \<Rightarrow> string option"
  al_pretty :: "json \<Rightarrow> string"
  al_from_str :: "string \<Rightarrow> string + json"
  al_strings_from_str :: "string \<Rightarrow> string + string list"
  al_balance :: "u128 \<Rightarrow> string"

section \<open>Text and paths\<close>

text \<open>\<open>hex::encode\<close> and \<open>Path::with_extension\<close> on a path whose last component has an extension.\<close>

definition hex_encode :: "u8 list \<Rightarrow> string" where
  "hex_encode bs = concat (map (\<lambda>b. [digit_char (unat b div 16), digit_char (unat b mod 16)]) bs)"

definition with_extension :: "string \<Rightarrow> string \<Rightarrow> string" where
  "with_extension path ext =
     (let dir = rev (dropWhile (\<lambda>c. c \<noteq> CHR ''/'') (rev path));
          name = drop (length dir) path;
          stem_rev = dropWhile (\<lambda>c. c \<noteq> CHR ''.'') (rev name);
          stem = (if length stem_rev \<le> 1 then name else rev (tl stem_rev))
      in dir @ stem @ ''.'' @ ext)"

text \<open>\<open>&s[..n]\<close> panics when \<open>n\<close> is not the start of a character, and \<open>s.get(..n)\<close> gives nothing.\<close>

definition is_char_boundary :: "string \<Rightarrow> nat \<Rightarrow> bool" where
  "is_char_boundary s n \<longleftrightarrow> n = 0 \<or> n = length s \<or> (n < length s \<and> of_char (s ! n) div 64 \<noteq> (2 :: nat))"

definition str_prefix :: "string \<Rightarrow> nat \<Rightarrow> string option" where
  "str_prefix s n = (if is_char_boundary s n then Some (take n s) else None)"

definition get_prefix18 :: "string \<Rightarrow> string" where
  "get_prefix18 s = unwrap_or s (str_prefix s 18)"

text \<open>\<open>"{}\n{}"\<close> of both outputs of a command\<close>

definition combined_output :: "cmd_output \<Rightarrow> string" where
  "combined_output out = out_stdout out @ [char_of (10 :: nat)] @ out_stderr out"

definition extract_long_hex :: "('f, 're) app_lib \<Rightarrow> string \<Rightarrow> string option" where
  "extract_long_hex A text = (case re_new (al_regex A) LONG_HEX_PATTERN of
      None \<Rightarrow> None | Some re \<Rightarrow> re_find (al_regex A) re text)"

definition sncast_env_account :: "'w host \<Rightarrow> ('w, string) io" where
  "sncast_env_account H w = (case ho_env H ''SNCAST_ACCOUNT'' w of
     (v, w') \<Rightarrow> (sncast_account (\<lambda>k. if k = ''SNCAST_ACCOUNT'' then v else None), w'))"

section \<open>What the play and the prove tasks share\<close>

definition parse_felts :: "'f felt_lib \<Rightarrow> string list \<Rightarrow> string + 'f list" where
  "parse_felts F = collect_result (felt_from_hex_msg F)"

definition prove_args :: "config \<Rightarrow> u64 \<Rightarrow> string \<Rightarrow> string \<Rightarrow> string list" where
  "prove_args config reference_block tx_path proof_path =
     [''prove'', ''virtual-os'', ''--block-number'', dec_string (unat reference_block), ''--tx-json'', tx_path,
      ''--rpc-url'', rpc_url config, ''--output'', proof_path, ''--strk-fee-token'', STRK_TOKEN]"

text \<open>The proof and the proof facts that the prover has written.\<close>

definition read_proof ::
  "('f, 're) app_lib \<Rightarrow> 'w host \<Rightarrow> string \<Rightarrow> (('w, 'z) app_scheme, task_end, string \<times> 'f list) pio" where
  "read_proof A H proof_path =
     pio_bind (task_try ''Failed to read proof: '' Text (on_world (ho_read_to_string H proof_path))) (\<lambda>proof_text.
     pio_bind (task_try ''Failed to read proof_facts: '' Text
         (on_world (ho_read_to_string H (with_extension proof_path ''proof_facts'')))) (\<lambda>proof_facts_str.
     pio_bind (task_try ''Invalid proof_facts: '' Proof_cause
         (pio_return (parse_proof_facts_json (al_strings_from_str A) proof_facts_str))) (\<lambda>proof_facts_hex.
     pio_bind (task_try ''Failed to parse proof_facts: '' Text
         (pio_return (parse_felts (al_felt A) proof_facts_hex))) (\<lambda>proof_facts.
       pio_return (Inr (trim proof_text, proof_facts))))))"

definition max_attempts :: nat where
  "max_attempts = 20"

definition attempt_text :: "nat \<Rightarrow> string" where
  "attempt_text attempt = ''(attempt '' @ dec_string attempt @ ''/'' @ dec_string max_attempts @ '')''"

end
