(* ===== verification/AppTask.thy ===== *)
theory AppTask
  imports AppHost
begin

text \<open>
  The background tasks of the servers: what a task sends on its event stream, and that it returns.
  Both are stated for parts of a task and carried through its sequence by the rules for \<open>pio_bind\<close>, so
  that a whole task follows from its stages.
\<close>

section \<open>The event stream\<close>

fun progress :: "sse_event \<Rightarrow> bool" where
  "progress (Phase p) = True"
| "progress (Log m c) = True"
| "progress _ = False"

text \<open>What a part of a task sends: progress, followed by one error event exactly when it returns early.\<close>

definition ends_well :: "task_end + 'a \<Rightarrow> sse_event list \<Rightarrow> bool" where
  "ends_well r es \<longleftrightarrow> (case r of
      Inl Returned \<Rightarrow> (\<exists>es0 m c. es = es0 @ [ErrorEvent m c] \<and> list_all progress es0)
    | _ \<Rightarrow> list_all progress es)"

definition streams :: "(('w, 'z) app_scheme, task_end, 'a) pio \<Rightarrow> bool" where
  "streams m \<longleftrightarrow> (\<forall>s r s'. m s = Some (r, s') \<longrightarrow> (\<exists>es. ap_events s' = ap_events s @ es \<and> ends_well r es))"

definition silent :: "(('w, 'z) app_scheme, 'e, 'a) pio \<Rightarrow> bool" where
  "silent m \<longleftrightarrow> (\<forall>s r s'. m s = Some (r, s') \<longrightarrow> ap_events s' = ap_events s)"

lemma streamsD: "streams m \<Longrightarrow> m s = Some (r, s') \<Longrightarrow> \<exists>es. ap_events s' = ap_events s @ es \<and> ends_well r es"
  by (simp add: streams_def)

lemma ends_well_Inr [simp]: "ends_well (Inr x) es \<longleftrightarrow> list_all progress es"
  by (simp add: ends_well_def)

lemma ends_well_append:
  "list_all progress es \<Longrightarrow> ends_well r es' \<Longrightarrow> ends_well r (es @ es')"
  by (auto simp: ends_well_def split: sum.splits task_end.splits)

lemma ends_well_Inl: "ends_well (Inl e :: task_end + 'a) es \<longleftrightarrow> ends_well (Inl e :: task_end + 'b) es"
  by (simp add: ends_well_def)

lemma streams_bind [intro]:
  assumes "streams m" and "\<And>x. streams (k x)"
  shows "streams (pio_bind m k)"
  unfolding streams_def
proof (intro allI impI)
  fix s r s' assume run: "pio_bind m k s = Some (r, s')"
  then obtain q s1 where m: "m s = Some (q, s1)" by (auto simp: pio_bind_def split: option.splits)
  obtain es where es: "ap_events s1 = ap_events s @ es" "ends_well q es" using streamsD[OF assms(1) m] by blast
  show "\<exists>es. ap_events s' = ap_events s @ es \<and> ends_well r es"
  proof (cases q)
    case (Inl e)
    then have "r = Inl e" "s' = s1" using run m by (auto simp: pio_bind_def)
    then show ?thesis using es Inl ends_well_Inl by blast
  next
    case (Inr x)
    then have "k x s1 = Some (r, s')" using run m by (simp add: pio_bind_def)
    from streamsD[OF assms(2) this] es Inr ends_well_append show ?thesis by fastforce
  qed
qed

lemma silent_basic [simp, intro]:
  "silent (pio_return r)" "silent (on_world m)" "silent (on_world_io n)" "silent (on_world_wait q)"
  by (auto simp: silent_def on_world_def on_world_io_def on_world_wait_def split: prod.splits option.splits)

lemma silent_bind [intro]: "silent m \<Longrightarrow> (\<And>x. silent (k x)) \<Longrightarrow> silent (pio_bind m k)"
  unfolding silent_def pio_bind_def by (fastforce split: option.splits sum.splits)

lemma silent_result [intro]: "silent m \<Longrightarrow> silent (pio_result m)"
  by (auto simp: silent_def pio_result_def split: option.splits)

lemma streams_result [intro]: "silent m \<Longrightarrow> streams (pio_result m)"
  by (auto simp: silent_def streams_def pio_result_def split: option.splits)

lemma streams_basic [simp, intro]:
  "streams (pio_return (Inr x))" "streams (on_world_io n)" "streams (emit (Log a c))" "streams (emit (Phase p))"
  "streams (give_up msg c)" "streams (pio_return (Inl (TaskPanic e)))"
  by (auto simp: streams_def on_world_io_def emit_def give_up_def pio_bind_def ends_well_def split: prod.splits)

lemma streams_task_try [intro]: "silent m \<Longrightarrow> streams (task_try msg f m)"
  unfolding task_try_def by (rule streams_bind) (auto split: sum.split)

lemma streams_if: "streams a \<Longrightarrow> streams b \<Longrightarrow> streams (if c then a else b)"
  by simp

lemma streams_prod: "(\<And>a b. streams (k a b)) \<Longrightarrow> streams (case p of (a, b) \<Rightarrow> k a b)"
  by (simp split: prod.split)

lemma streams_read_proof [simp, intro]: "streams (read_proof A H p)"
  unfolding read_proof_def by (intro streams_bind streams_task_try silent_basic streams_basic)

section \<open>Returning\<close>

lemma returns_wait:
  assumes "clock_laws (ho_net H) time" and "0 < p" and "u32_millis (from_secs p)" and "u32_millis (from_secs t)"
  shows "returns (on_world_wait (wait_for_tx (ho_net H) url h t p))"
proof (rule returns_on_world_wait)
  fix w
  obtain t' w0 where n: "now (ho_net H) w = (t', w0)" by fastforce
  have "\<forall>w. time w \<le> time (snd (poll_receipt (ho_net H) url h w))"
    using clock_poll_receipt[OF assms(1)] by (metis prod.collapse)
  from poll_until_returns[OF assms(1) from_secs_pos[OF assms(2)] assms(3) this]
  show "wait_for_tx (ho_net H) url h t p w \<noteq> None"
    unfolding wait_for_tx_def n prod.case clock_add[OF assms(1,4) n] bind.bind_lunit by (metis option.distinct(1))
qed

lemma returns_if: "returns a \<Longrightarrow> returns b \<Longrightarrow> returns (if c then a else b)"
  by simp

lemma pio_bind_assoc: "pio_bind (pio_bind m k) l = pio_bind m (\<lambda>x. pio_bind (k x) l)"
  by (auto simp: pio_bind_def fun_eq_iff split: option.splits sum.splits)

lemma case_prod_bind: "pio_bind (case p of (a, b) \<Rightarrow> k a b) l = (case p of (a, b) \<Rightarrow> pio_bind (k a b) l)"
  by (simp split: prod.split)

lemma returns_prod: "(\<And>a b. returns (k a b)) \<Longrightarrow> returns (case p of (a, b) \<Rightarrow> k a b)"
  by (simp split: prod.split)

lemma returns_read_proof [simp, intro]: "returns (read_proof A H p)"
  unfolding read_proof_def by (intro returns_bind returns_task_try returns_on_world returns_return)

text \<open>A task that ends by sending one last event: what its stream looks like.\<close>

lemma task_ends:
  assumes "streams m" and "returns m"
  shows "\<exists>r s' es. pio_bind m (\<lambda>x. emit (last_event x)) s = Some (r, s') \<and> ap_events s' = ap_events s @ es \<and>
     (case r of
        Inr _ \<Rightarrow> \<exists>es0 x. es = es0 @ [last_event x] \<and> list_all progress es0
      | Inl Returned \<Rightarrow> \<exists>es0 e c. es = es0 @ [ErrorEvent e c] \<and> list_all progress es0
      | Inl (TaskPanic _) \<Rightarrow> list_all progress es)"
proof -
  from assms(2) obtain q s1 where run: "m s = Some (q, s1)" unfolding returns_def by fastforce
  obtain es where es: "ap_events s1 = ap_events s @ es" "ends_well q es" using streamsD[OF assms(1) run] by blast
  show ?thesis
  proof (cases q)
    case (Inl e)
    then have "pio_bind m (\<lambda>x. emit (last_event x)) s = Some (Inl e, s1)" using run by (simp add: pio_bind_def)
    then show ?thesis using es Inl by (auto simp: ends_well_def split: task_end.splits)
  next
    case (Inr x)
    then have "pio_bind m (\<lambda>x. emit (last_event x)) s = Some (Inr (), s1\<lparr> ap_events := ap_events s1 @ [last_event x] \<rparr>)"
      using run by (simp add: pio_bind_def emit_def)
    then show ?thesis using es Inr by auto
  qed
qed

section \<open>Interleaved streams\<close>

lemma shuffles_last:
  "zs \<in> shuffles (xs @ [x]) ys \<Longrightarrow> \<exists>as bs. zs = as @ x # bs \<and> set as \<subseteq> set xs \<union> set ys \<and> set bs \<subseteq> set ys"
proof (induction zs arbitrary: xs ys)
  case (Cons z zs)
  then consider "xs = []" "z = x" "zs \<in> shuffles [] ys"
    | xs' where "xs = z # xs'" "zs \<in> shuffles (xs' @ [x]) ys"
    | ys' where "ys = z # ys'" "zs \<in> shuffles (xs @ [x]) ys'"
    by (cases xs; cases ys) (auto simp: Cons_in_shuffles_iff)
  then show ?case
  proof cases
    case 1
    then show ?thesis by (intro exI[of _ "[]"] exI[of _ zs]) auto
  next
    case 2
    from Cons.IH[OF 2(2)] obtain as bs where "zs = as @ x # bs" "set as \<subseteq> set xs' \<union> set ys" "set bs \<subseteq> set ys" by blast
    then show ?thesis using 2(1) by (intro exI[of _ "z # as"] exI[of _ bs]) auto
  next
    case 3
    from Cons.IH[OF 3(2)] obtain as bs where "zs = as @ x # bs" "set as \<subseteq> set xs \<union> set ys'" "set bs \<subseteq> set ys'" by blast
    then show ?thesis using 3(1) by (intro exI[of _ "z # as"] exI[of _ bs]) auto
  qed
qed simp

section \<open>Successful runs\<close>

lemma task_try_Inr_iff: "task_try msg f m s = Some (Inr x, s') \<longleftrightarrow> m s = Some (Inr x, s')"
  unfolding task_try_def pio_bind_def pio_result_def
  by (cases "m s") (auto simp: give_up_def emit_def pio_bind_def split: sum.splits)

lemma give_up_not_Inr [simp]: "give_up msg c s \<noteq> Some (Inr x, s')"
  by (simp add: give_up_def pio_iffs)

lemma on_world_pure: "on_world (Pair r) s = Some (r, s)"
  by (simp add: on_world_def)

section \<open>Libraries for the witnesses\<close>

text \<open>The field is the Stark field; a regular expression captures \<open>0xe\<close>, and no text is JSON but a list of no strings.\<close>

definition flip_lib :: "(felt252, string) app_lib" where
  "flip_lib = \<lparr> al_felt = stark_felt, al_crypto = demo_crypto,
     al_regex = \<lparr> re_new = Some, re_is_match = (\<lambda>re t. True), re_find = (\<lambda>re t. None) \<rparr>,
     al_capture1 = (\<lambda>re t. Some ''0xe''), al_pretty = (\<lambda>v. []), al_from_str = (\<lambda>s. Inl ''no JSON''),
     al_strings_from_str = (\<lambda>s. Inr []), al_balance = (\<lambda>w. ''0.0000'') \<rparr>"

lemma game_felts:
  "felt_from_hex_msg stark_felt ''0x1'' = Inr (felt_of_nat 1)" "felt_from_hex_msg stark_felt ''0x3'' = Inr (felt_of_nat 3)"
  "felt_from_hex_msg stark_felt ''0x7'' = Inr (felt_of_nat 7)" "felt_from_hex_msg stark_felt ''0x2'' = Inr (felt_of_nat 2)"
  by (simp_all add: felt_from_hex_msg_def stark_felt_def stark_from_hex_def starts_with_def stark_prime_def hex_val_def)
     (simp add: numeral_2_eq_2)

lemma game_fmt: "v < stark_prime \<Longrightarrow> \<exists>x. felt_from_hex_msg stark_felt (fmt_hex v) = Inr x"
  using stark.from_hex_fmt_hex[of v] by (auto simp: felt_from_hex_msg_def)

lemma game_sign: "\<exists>sig. sign demo_crypto (felt_of_nat 2) h = Inr sig"
  by (simp add: sign_def demo_crypto_def stark_prime_def)

lemma game_payload:
  assumes "sp_private_key params = felt_of_nat 2"
  shows "\<exists>h payload. sign_and_build_payload stark_felt demo_crypto params = Inr (h, payload)"
proof -
  obtain sig where "sign demo_crypto (felt_of_nat 2) (compute_invoke_v3_tx_hash stark_felt demo_crypto (sp_sender_address params)
      (sp_calldata params) (sp_chain_id params) (sp_nonce params) (felt_ZERO stark_felt) (sp_resource_bounds params)
      [] [] 0 0 (sp_proof_facts params)) = Inr sig" using game_sign by blast
  then show ?thesis by (simp add: sign_and_build_payload_def assms)
qed

lemma game_config:
  "account_address demo_config = ''0x1''" "private_key demo_config = ''0x2''"
  "config_chain_id_felt stark_felt demo_config = Inr (felt_from_bytes_be stark_felt (replicate 22 0 @ as_bytes ''SN_SEPOLIA''))"
  by (simp_all add: demo_config_def config_chain_id_felt_def Let_def)

lemma flip_lib_simps:
  "al_felt flip_lib = stark_felt" "al_crypto flip_lib = demo_crypto" "al_strings_from_str flip_lib t = Inr []"
  by (simp_all add: flip_lib_def)

end
