(* ===== verification/Counter.thy ===== *)
theory Counter
  imports AppTask
begin

text \<open>
  \<open>apps/counter/src/routes.rs\<close>: the handlers of the Counter playground and the task that builds, proves
  and submits a batch of increments. The sessions are kept by the server crate, which is a parameter:
  \<open>get_session\<close>, \<open>update_session_with\<close> and its \<open>parse_hex\<close>. The locale \<open>session_store\<close> states what the
  handlers rely on: an update changes the named session as it says, and no other.
\<close>

section \<open>Sessions\<close>

record session =
  se_account_address :: "string option"
  se_account_deployed :: bool
  se_contract_address :: "string option"
  se_class_hash :: "string option"
  se_last_invoke_tx :: "string option"
  se_invoke_block :: "u64 option"
  se_prove_block :: "u64 option"
  se_proof_file :: "string option"
  se_deploy_block :: "u64 option"
  se_last_reference_block :: "u64 option"

record 'st server =
  sv_get :: "'st \<Rightarrow> string \<Rightarrow> session"
  sv_update :: "'st \<Rightarrow> string \<Rightarrow> (session \<Rightarrow> session) \<Rightarrow> 'st"
  sv_parse_hex :: "string \<Rightarrow> string \<Rightarrow> string option"

record ('w, 'st) ct_app = "'w app" +
  ct_sessions :: 'st

definition get_session :: "'st server \<Rightarrow> string \<Rightarrow> ('w, 'st) ct_app \<Rightarrow> session" where
  "get_session S session_id s = sv_get S (ct_sessions s) session_id"

definition update_session_with ::
  "'st server \<Rightarrow> string \<Rightarrow> (session \<Rightarrow> session) \<Rightarrow> (('w, 'st) ct_app, 'e, unit) pio" where
  "update_session_with S session_id f s =
     Some (Inr (), s\<lparr> ct_sessions := sv_update S (ct_sessions s) session_id f \<rparr>)"

section \<open>Constants\<close>

definition INCREMENT_SELECTOR :: string where
  "INCREMENT_SELECTOR = ''0x7a44dde9fea32737a5cf3f9683b3235138654aa2d189f6fe44af37a61dc60d''"

definition GET_COUNTER_SELECTOR :: string where
  "GET_COUNTER_SELECTOR = ''0x3370263ab53343580e77063a719a5865004caff7f367ec136a6cdd34b6786ca''"

definition playground_bounds :: resource_bounds where
  "playground_bounds = \<lparr>
     l1_gas = \<lparr> max_amount = 0x0, max_price_per_unit = 0x38d7ea4c68000 \<rparr>,
     l2_gas = \<lparr> max_amount = 0x2000000, max_price_per_unit = 0x2cb417800 \<rparr>,
     l1_data_gas = \<lparr> max_amount = 0x1b0, max_price_per_unit = 0x38d7ea4c68000 \<rparr> \<rparr>"

section \<open>Invoking and reading the counter\<close>

record invoke_request =
  ir_session_id :: string
  ir_amount :: u64
  ir_signature_r :: string
  ir_signature_s :: string
  ir_nonce :: u64

record invoke_response =
  is_tx_hash :: string
  is_block_number :: "u64 option"
  is_warning :: "string option"

definition increment_tx :: "string \<Rightarrow> string \<Rightarrow> invoke_request \<Rightarrow> json" where
  "increment_tx contract_address account req = JObj
     [(''type'', JStr ''INVOKE''), (''version'', JStr ''0x3''), (''sender_address'', JStr account),
      (''calldata'', jstrs [''0x1'', contract_address, INCREMENT_SELECTOR, ''0x1'', fmt_hex (unat (ir_amount req))]),
      (''nonce'', JStr (fmt_hex (unat (ir_nonce req)))), (''resource_bounds'', to_rpc_json playground_bounds),
      (''tip'', JStr ''0x0''), (''paymaster_data'', JArr []), (''account_deployment_data'', JArr []),
      (''nonce_data_availability_mode'', JStr ''L1''), (''fee_data_availability_mode'', JStr ''L1''),
      (''signature'', jstrs [ir_signature_r req, ir_signature_s req])]"

definition invoke_increment ::
  "'st server \<Rightarrow> 'w host \<Rightarrow> config \<Rightarrow> invoke_request \<Rightarrow> (('w, 'st) ct_app, http_error, invoke_response) pio" where
  "invoke_increment S H config req s =
     (let session = get_session S (ir_session_id req) s in
      pio_bind (pio_return (ok_or (HttpError 400 ''No counter contract deployed'' NoCause) (se_contract_address session))) (\<lambda>contract_address.
      pio_bind (pio_return (ok_or (HttpError 400 ''No account deployed'' NoCause) (se_account_address session))) (\<lambda>account_address.
      pio_bind (pio_map_err (\<lambda>e. HttpError 500 [] (Rpc_cause e)) (on_world (call_raw (ho_net H) (rpc_url config)
          (rpc_payload ''starknet_addInvokeTransaction''
             (JObj [(''invoke_transaction'', increment_tx contract_address account_address req)]))))) (\<lambda>result.
      pio_bind (pio_return (case json_get ''error'' result of
          Some error \<Rightarrow> Inl (HttpError 400 [] (Body error)) | None \<Rightarrow> Inr ())) (\<lambda>_.
      pio_bind (pio_return (ok_or (HttpError 500 ''Unexpected RPC response: '' (Body result))
          (Option.bind (json_get ''result'' result) (get_str ''transaction_hash'')))) (\<lambda>tx_hash.
      pio_bind (update_session_with S (ir_session_id req) (\<lambda>session. session\<lparr> se_last_invoke_tx := Some tx_hash \<rparr>)) (\<lambda>_.
      pio_bind (pio_result (on_world_wait (wait_for_tx (ho_net H) (rpc_url config) tx_hash 120 2))) (\<lambda>r.
      case r of
        Inr receipt \<Rightarrow>
          (let bn = receipt_block_number receipt in
           pio_bind (case bn of
               Some block \<Rightarrow> update_session_with S (ir_session_id req) (\<lambda>session. session\<lparr> se_invoke_block := Some block \<rparr>)
             | None \<Rightarrow> pio_return (Inr ())) (\<lambda>_.
             pio_return (Inr \<lparr> is_tx_hash = tx_hash, is_block_number = bn, is_warning = None \<rparr>)))
      | Inl _ \<Rightarrow> pio_return (Inr \<lparr> is_tx_hash = tx_hash, is_block_number = None,
          is_warning = Some ''Tx submitted but not yet confirmed'' \<rparr>)))))))) s)"

definition counter_value_of :: "string list \<Rightarrow> u64" where
  "counter_value_of result = unwrap_or 0 (case result of [] \<Rightarrow> None | x # _ \<Rightarrow> parse_u64_hex x)"

definition read_counter :: "'w host \<Rightarrow> config \<Rightarrow> string \<Rightarrow> (('w, 'z) app_scheme, http_error, u64) pio" where
  "read_counter H config contract_address =
     pio_bind (pio_map_err (\<lambda>e. HttpError 500 [] (Rpc_cause e)) (on_world
         (starknet_call (ho_net H) (rpc_url config) contract_address GET_COUNTER_SELECTOR []))) (\<lambda>result.
       pio_return (Inr (counter_value_of result)))"

section \<open>Deploying\<close>

record deploy_counter_response =
  dr_class_hash :: string
  dr_contract_address :: string
  dr_tx_hash :: string
  dr_block_number :: "u64 option"

text \<open>The message of a failed deployment quotes the exit status too, which the model leaves out.\<close>

definition deploy_counter ::
  "('f, 're) app_lib \<Rightarrow> 'st server \<Rightarrow> 'w host \<Rightarrow> config \<Rightarrow> string \<Rightarrow>
     (('w, 'st) ct_app, http_error, deploy_counter_response) pio" where
  "deploy_counter A S H config session_id =
     pio_bind (on_world_io (sncast_env_account H)) (\<lambda>account_name.
     pio_bind (pio_map_err (\<lambda>e. HttpError 500 [] (Text e)) (on_world (ho_output H ''sncast''
         [''--account'', account_name, ''declare'', ''--contract-name'', ''Counter'', ''--url'', rpc_url config]
         (Some (contracts_dir config))))) (\<lambda>declare_output.
     let declare_combined = combined_output declare_output in
     pio_bind (pio_return (ok_or (HttpError 500 ''Declare failed: '' (Text declare_combined))
         (extract_long_hex A declare_combined))) (\<lambda>class_hash.
     pio_bind (on_world_io (ho_random16 H)) (\<lambda>bytes.
     let salt = ''0x'' @ hex_encode bytes in
     pio_bind (on_world_io (sncast_env_account H)) (\<lambda>account_name.
     pio_bind (pio_map_err (\<lambda>e. HttpError 500 [] (Text e)) (on_world (ho_output H ''sncast''
         [''--account'', account_name, ''deploy'', ''--class-hash'', class_hash, ''--salt'', salt,
          ''--url'', rpc_url config] None))) (\<lambda>deploy_output.
     let deploy_combined = combined_output deploy_output in
     pio_bind (pio_return (if \<not> out_success deploy_output
         then Inl (HttpError 500 ''Counter deploy failed: '' (Text deploy_combined)) else Inr ())) (\<lambda>_.
     pio_bind (pio_return (ok_or (HttpError 500 ''Deploy failed: '' (Text deploy_combined))
         (sv_parse_hex S ''contract_address'' deploy_combined))) (\<lambda>contract_address.
     pio_bind (pio_return (ok_or (HttpError 500 ''Deploy succeeded but no transaction_hash in output: '' (Text deploy_combined))
         (sv_parse_hex S ''transaction_hash'' deploy_combined))) (\<lambda>tx_hash.
     pio_bind (pio_map_err (\<lambda>e. HttpError 504 [] (Rpc_cause e))
         (on_world_wait (wait_for_tx (ho_net H) (rpc_url config) tx_hash 120 2))) (\<lambda>receipt.
     let block_number = receipt_block_number receipt in
     pio_bind (case block_number of
         Some block \<Rightarrow> pio_bind (pio_result (on_world_wait (wait_for_block_after (ho_net H) (rpc_url config) block 120 2)))
           (\<lambda>_. pio_return (Inr ()))
       | None \<Rightarrow> pio_return (Inr ())) (\<lambda>_.
     pio_bind (update_session_with S session_id (\<lambda>session. session\<lparr>
         se_contract_address := Some contract_address, se_class_hash := Some class_hash,
         se_deploy_block := block_number, se_last_reference_block := block_number \<rparr>)) (\<lambda>_.
       pio_return (Inr \<lparr> dr_class_hash = class_hash, dr_contract_address = contract_address,
         dr_tx_hash = tx_hash, dr_block_number = block_number \<rparr>)))))))))))))"

section \<open>Submitting a stored proof\<close>

record submit_proof_response =
  sr_tx_hash :: "string option"
  sr_local_tx_hash :: "string option"
  sr_output :: string

definition increment_one_calldata :: "'f felt_lib \<Rightarrow> string \<Rightarrow> http_error + 'f list" where
  "increment_one_calldata F contract_address =
     and_then (map_err (\<lambda>e. HttpError 500 [] (Text e)) (felt_from_hex_msg F contract_address)) (\<lambda>to.
     and_then (map_err (\<lambda>e. HttpError 500 [] (Text e)) (felt_from_hex_msg F INCREMENT_SELECTOR)) (\<lambda>selector.
       Inr [felt_ONE F, to, selector, felt_ONE F, felt_ONE F]))"

definition submit_output :: "string \<Rightarrow> string" where
  "submit_output h = ''{'' @ [CHR 0x22] @ ''transaction_hash'' @ [CHR 0x22] @ '':'' @ [CHR 0x22] @ h @ [CHR 0x22] @ ''}''"

definition submit_proof ::
  "('f, 're) app_lib \<Rightarrow> 'st server \<Rightarrow> 'w host \<Rightarrow> config \<Rightarrow> string \<Rightarrow>
     (('w, 'st) ct_app, http_error, submit_proof_response) pio" where
  "submit_proof A S H config session_id s =
     (let session = get_session S session_id s; F = al_felt A;
          internal = (\<lambda>e. HttpError 500 [] (Text e)) in
      pio_bind (pio_return (ok_or (HttpError 400 ''No proof file available'' NoCause) (se_proof_file session))) (\<lambda>proof_file.
      pio_bind (on_world_io (ho_exists H proof_file)) (\<lambda>ex.
      pio_bind (pio_return (if ex then Inr () else Inl (HttpError 400 ''No proof file available'' NoCause))) (\<lambda>_.
      pio_bind (pio_return (ok_or (HttpError 400 ''No counter contract in session'' NoCause) (se_contract_address session))) (\<lambda>contract_address.
      pio_bind (pio_map_err (\<lambda>e. HttpError 500 ''Failed to read proof file: '' (Text e))
          (on_world (ho_read_to_string H proof_file))) (\<lambda>proof_text.
      pio_bind (pio_map_err (\<lambda>e. HttpError 500 ''Failed to read proof_facts file: '' (Text e))
          (on_world (ho_read_to_string H (with_extension proof_file ''proof_facts'')))) (\<lambda>proof_facts_json.
      pio_bind (pio_return (map_err (\<lambda>e. HttpError 500 ''Invalid proof_facts JSON: '' (Text e))
          (al_strings_from_str A proof_facts_json))) (\<lambda>proof_facts_hex.
      pio_bind (pio_return (map_err internal (parse_felts F proof_facts_hex))) (\<lambda>proof_facts.
      pio_bind (pio_return (increment_one_calldata F contract_address)) (\<lambda>calldata.
      pio_bind (pio_return (map_err internal (felt_from_hex_msg F (account_address config)))) (\<lambda>sender_address.
      pio_bind (pio_return (map_err internal (felt_from_hex_msg F (private_key config)))) (\<lambda>private_key.
      pio_bind (pio_return (map_err (\<lambda>e. HttpError 500 [] (Config_cause e)) (config_chain_id_felt F config))) (\<lambda>chain_id.
      pio_bind (pio_map_err (\<lambda>e. HttpError 500 [] (Rpc_cause e))
          (on_world (get_nonce (ho_net H) (rpc_url config) (account_address config)))) (\<lambda>nonce.
      pio_bind (pio_return (map_err (\<lambda>e. HttpError 500 [] (Sign_cause e)) (sign_and_build_payload F (al_crypto A)
          \<lparr> sp_sender_address = sender_address, sp_private_key = private_key, sp_calldata = calldata,
            sp_proof_base64 = trim proof_text, sp_proof_facts = proof_facts, sp_nonce = felt_from_u64 F nonce,
            sp_chain_id = chain_id, sp_resource_bounds = playground_bounds \<rparr>))) (\<lambda>(local_tx_hash, invoke_tx).
      pio_bind (pio_map_err (\<lambda>e. HttpError 502 ''RPC submission failed: '' (Rpc_cause e))
          (on_world (add_invoke_transaction (ho_net H) (rpc_url config) invoke_tx))) (\<lambda>rpc_tx_hash.
        pio_return (Inr \<lparr> sr_tx_hash = Some rpc_tx_hash, sr_local_tx_hash = Some (felt_lower_hex F local_tx_hash),
          sr_output = submit_output rpc_tx_hash \<rparr>)))))))))))))))) s)"

end
