(* ===== verification/CounterTask.thy ===== *)
theory CounterTask
  imports Counter
begin

text \<open>
  \<open>prove_block\<close> of \<open>apps/counter/src/routes.rs\<close>: the handler that starts a batch of increments, and the
  task that constructs the multicall, proves it in the virtual OS, submits it and moves the session's
  reference block. The lines that the prover process prints are forwarded to the stream by separate
  tasks and are not part of the events here.
\<close>

section \<open>The request\<close>

record prove_query =
  pk_increment_amount :: u64
  pk_increments_per_block :: u32

record counter_job =
  cj_session_id :: string
  cj_contract_address :: string
  cj_reference_block :: u64
  cj_increment_amount :: u64
  cj_increments_per_block :: u32

definition counter_prove_block ::
  "'st server \<Rightarrow> string \<Rightarrow> prove_query \<Rightarrow> (('w, 'st) ct_app, http_error, counter_job) pio" where
  "counter_prove_block S session_id params s =
     (let session = get_session S session_id s in
      pio_bind (pio_return (ok_or (HttpError 400 ''No counter contract deployed'' NoCause) (se_contract_address session))) (\<lambda>contract.
      pio_bind (pio_return (ok_or (HttpError 400 ''Deploy block not tracked'' NoCause)
          (case se_last_reference_block session of Some b \<Rightarrow> Some b | None \<Rightarrow> se_deploy_block session))) (\<lambda>reference_block.
        pio_return (Inr \<lparr> cj_session_id = session_id, cj_contract_address = contract,
          cj_reference_block = reference_block, cj_increment_amount = pk_increment_amount params,
          cj_increments_per_block = pk_increments_per_block params \<rparr>))) s)"

section \<open>Constructing the transaction\<close>

text \<open>The product of two unsigned numbers: it wraps, or panics in a build with overflow checks.\<close>

definition expected_increment :: "bool \<Rightarrow> counter_job \<Rightarrow> task_end + u64" where
  "expected_increment overflow_checks j =
     (let n = unat (cj_increment_amount j) * unat (cj_increments_per_block j) in
      if overflow_checks \<and> 2 ^ 64 \<le> n then Inl (TaskPanic ''attempt to multiply with overflow'')
      else Inr (word_of_nat n))"

definition counter_call :: "counter_job \<Rightarrow> string list" where
  "counter_call j = [cj_contract_address j, INCREMENT_SELECTOR, ''0x1'', fmt_hex (unat (cj_increment_amount j))]"

definition counter_calldata :: "counter_job \<Rightarrow> string list" where
  "counter_calldata j = fmt_hex (unat (cj_increments_per_block j)) #
     concat (replicate (unat (cj_increments_per_block j)) (counter_call j))"

record 'f counter_tx =
  kx_calldata :: "'f list"
  kx_sender :: 'f
  kx_key :: 'f
  kx_chain_id :: 'f
  kx_nonce :: u64
  kx_tx_path :: string
  kx_proof_path :: string

definition counter_announce ::
  "bool \<Rightarrow> counter_job \<Rightarrow> (('w, 'z) app_scheme, task_end, u64) pio" where
  "counter_announce overflow_checks j =
     pio_bind (pio_return (expected_increment overflow_checks j)) (\<lambda>expected.
     pio_bind (emit (Log (''Starting SNIP-36 cycle: '' @ dec_string (unat (cj_increments_per_block j)) @ '' calls x increment('' @
         dec_string (unat (cj_increment_amount j)) @ '') = +'' @ dec_string (unat expected) @ '' per block'') NoCause)) (\<lambda>_.
       pio_return (Inr expected)))"

definition counter_construct ::
  "('f, 're) app_lib \<Rightarrow> 'w host \<Rightarrow> config \<Rightarrow> counter_job \<Rightarrow> (('w, 'z) app_scheme, task_end, 'f counter_tx) pio" where
  "counter_construct A H config j =
     (let F = al_felt A; block = dec_string (unat (cj_reference_block j)) in
      pio_bind (emit (Phase ''constructing'')) (\<lambda>_.
      pio_bind (task_try ''Failed to parse calldata: '' Text (pio_return (parse_felts F (counter_calldata j)))) (\<lambda>calldata_felts.
      pio_bind (task_try ''Invalid account address: '' Text
          (pio_return (felt_from_hex_msg F (account_address config)))) (\<lambda>sender_felt.
      pio_bind (task_try ''Invalid private key: '' Text
          (pio_return (felt_from_hex_msg F (private_key config)))) (\<lambda>private_key_felt.
      pio_bind (task_try ''Invalid chain_id: '' Config_cause (pio_return (config_chain_id_felt F config))) (\<lambda>chain_id_f.
      pio_bind (task_try (''Failed to get nonce at block '' @ block @ '': '') Rpc_cause
          (on_world (get_nonce_at_block (ho_net H) (rpc_url config) (account_address config)
             (JObj [(''block_number'', ju64 (cj_reference_block j))])))) (\<lambda>nonce.
      let standard_tx_hash = compute_invoke_v3_tx_hash F (al_crypto A) sender_felt calldata_felts chain_id_f
            (felt_from_u64 F nonce) (felt_ZERO F) resource_bounds_default [] [] 0 0 [] in
      pio_bind (task_try ''Signing failed: '' Sign_cause
          (pio_return (sign (al_crypto A) private_key_felt standard_tx_hash))) (\<lambda>sig.
      let tx_json = web_tx_json F (account_address config) (counter_calldata j) nonce resource_bounds_default sig;
          dir = path_join (output_dir config) ''playground'';
          tx_path = path_join dir (cj_session_id j @ ''_tx.json'') in
      pio_bind (task_try ''Failed to create output dir: '' Text (on_world (ho_create_dir_all H dir))) (\<lambda>_.
      pio_bind (task_try ''Failed to write tx JSON: '' Text (on_world (ho_write H tx_path (al_pretty A tx_json)))) (\<lambda>_.
      pio_bind (emit (Log (''Transaction constructed (nonce: '' @ dec_string (unat nonce) @ '', ref block: '' @ block @ '')'') NoCause)) (\<lambda>_.
        pio_return (Inr \<lparr> kx_calldata = calldata_felts, kx_sender = sender_felt, kx_key = private_key_felt,
          kx_chain_id = chain_id_f, kx_nonce = nonce, kx_tx_path = tx_path,
          kx_proof_path = path_join dir (cj_session_id j @ ''.proof'') \<rparr>))))))))))))"

section \<open>Proving\<close>

definition counter_prove ::
  "'w host \<Rightarrow> config \<Rightarrow> u64 \<Rightarrow> 'f counter_tx \<Rightarrow> (('w, 'z) app_scheme, task_end, u64) pio" where
  "counter_prove H config reference_block x =
     (let messages_file = with_extension (kx_proof_path x) ''raw_messages.json'' in
      pio_bind (emit (Phase ''proving'')) (\<lambda>_.
      pio_bind (emit (Log (''Proving against block '' @ dec_string (unat reference_block) @ ''...'') NoCause)) (\<lambda>_.
      pio_bind (on_world_io (ho_snip36_bin H)) (\<lambda>bin.
      pio_bind (task_try (''Failed to spawn prover ('' @ bin @ ''): '') Text (on_world (ho_spawn H bin
          (prove_args config reference_block (kx_tx_path x) (kx_proof_path x))))) (\<lambda>child.
      pio_bind (pio_result (on_world (ho_wait H child))) (\<lambda>status.
      if status \<noteq> Inr True then give_up ''Proof generation failed'' NoCause
      else pio_bind (on_world_io (ho_exists H (kx_proof_path x))) (\<lambda>ex.
      if \<not> ex then give_up ''Proof generation failed'' NoCause
      else pio_bind (pio_result (on_world (ho_len H (kx_proof_path x)))) (\<lambda>len.
        let proof_size = unwrap_or 0 (result_ok len) in
        pio_bind (emit (Log (''Proof generated ('' @ dec_string (unat proof_size) @ '' bytes)'') NoCause)) (\<lambda>_.
        pio_bind (on_world_io (ho_exists H messages_file)) (\<lambda>has_messages.
        pio_bind (if has_messages then emit (Log (''L2->L1 messages saved: '' @ messages_file) NoCause)
            else pio_return (Inr ())) (\<lambda>_.
          pio_return (Inr proof_size))))))))))))"

section \<open>Submitting\<close>

fun rpc_attempts ::
  "'w host \<Rightarrow> string \<Rightarrow> json \<Rightarrow> nat list \<Rightarrow> (('w, 'z) app_scheme, task_end, string option) pio" where
  "rpc_attempts H url invoke_tx [] = pio_return (Inr None)"
| "rpc_attempts H url invoke_tx (attempt # rest) =
     pio_bind (pio_result (on_world (add_invoke_transaction (ho_net H) url invoke_tx))) (\<lambda>r.
     case r of
       Inr accepted_tx_hash \<Rightarrow>
         pio_bind (emit (Log (''RPC accepted '' @ attempt_text attempt @ '': '' @ accepted_tx_hash) NoCause)) (\<lambda>_.
           pio_return (Inr (Some accepted_tx_hash)))
     | Inl e \<Rightarrow>
         (case e of
            JsonRpc msg \<Rightarrow>
              if attempt < max_attempts then
                pio_bind (emit (Log (''RPC error '' @ attempt_text attempt @ '', waiting 10s... '') (Body msg))) (\<lambda>_.
                pio_bind (on_world_io (sleep (ho_net H) (from_secs 10))) (\<lambda>_.
                  rpc_attempts H url invoke_tx rest))
              else give_up ''RPC submission failed: '' (Rpc_cause e)
          | _ \<Rightarrow> give_up ''RPC submission failed: '' (Rpc_cause e)))"

definition counter_submit ::
  "('f, 're) app_lib \<Rightarrow> 'w host \<Rightarrow> config \<Rightarrow> 'f counter_tx \<Rightarrow> (('w, 'z) app_scheme, task_end, string) pio" where
  "counter_submit A H config x =
     pio_bind (emit (Phase ''submitting'')) (\<lambda>_.
     pio_bind (read_proof A H (kx_proof_path x)) (\<lambda>(proof_b64, proof_facts).
     pio_bind (task_try ''SNIP-36 signing failed: '' Sign_cause
         (pio_return (sign_and_build_payload (al_felt A) (al_crypto A)
           \<lparr> sp_sender_address = kx_sender x, sp_private_key = kx_key x, sp_calldata = kx_calldata x,
             sp_proof_base64 = proof_b64, sp_proof_facts = proof_facts,
             sp_nonce = felt_from_u64 (al_felt A) (kx_nonce x), sp_chain_id = kx_chain_id x,
             sp_resource_bounds = resource_bounds_default \<rparr>))) (\<lambda>(local_tx_hash, invoke_tx).
     pio_bind (emit (Log (''Submitting tx '' @ get_prefix18 (felt_lower_hex (al_felt A) local_tx_hash) @ '' via RPC...'') NoCause)) (\<lambda>_.
     pio_bind (rpc_attempts H (rpc_url config) invoke_tx [1..<Suc max_attempts]) (\<lambda>rpc_tx_hash.
     case rpc_tx_hash of
       None \<Rightarrow> give_up ''RPC did not accept after all retries'' NoCause
     | Some h \<Rightarrow> pio_return (Inr h))))))"

section \<open>Inclusion and result\<close>

definition counter_verify ::
  "'st server \<Rightarrow> 'w host \<Rightarrow> config \<Rightarrow> string \<Rightarrow> string \<Rightarrow> (('w, 'st) ct_app, task_end, unit) pio" where
  "counter_verify S H config session_id rpc_tx_hash =
     pio_bind (emit (Phase ''verifying'')) (\<lambda>_.
     pio_bind (emit (Log ''Waiting for tx inclusion...'' NoCause)) (\<lambda>_.
     pio_bind (task_try ''Tx not confirmed: '' Rpc_cause
         (on_world_wait (wait_for_tx (ho_net H) (rpc_url config) rpc_tx_hash 180 5))) (\<lambda>receipt.
     let bn = unwrap_or 0 (receipt_block_number receipt) in
     pio_bind (emit (Log (''Tx included in block '' @ dec_string (unat bn)) NoCause)) (\<lambda>_.
       update_session_with S session_id (\<lambda>session. session\<lparr> se_last_reference_block := Some bn \<rparr>)))))"

definition counter_read_back ::
  "'w host \<Rightarrow> config \<Rightarrow> string \<Rightarrow> (('w, 'z) app_scheme, task_end, u64) pio" where
  "counter_read_back H config contract =
     pio_bind (pio_result (on_world (starknet_call (ho_net H) (rpc_url config) contract GET_COUNTER_SELECTOR []))) (\<lambda>r.
     let counter_value = (case r of Inr result \<Rightarrow> counter_value_of result | Inl _ \<Rightarrow> 0) in
     pio_bind (emit (Log (''Counter value: '' @ dec_string (unat counter_value)) NoCause)) (\<lambda>_.
       pio_return (Inr counter_value)))"

definition counter_result :: "string \<Rightarrow> u64 \<Rightarrow> u64 \<Rightarrow> u64 \<Rightarrow> json" where
  "counter_result rpc_tx_hash counter_value proof_size expected = JObj
     [(''tx_hash'', JStr rpc_tx_hash), (''counter_value'', ju64 counter_value),
      (''proof_size'', ju64 proof_size), (''increment'', ju64 expected)]"

definition counter_task ::
  "bool \<Rightarrow> ('f, 're) app_lib \<Rightarrow> 'st server \<Rightarrow> 'w host \<Rightarrow> config \<Rightarrow> counter_job \<Rightarrow> (('w, 'st) ct_app, task_end, unit) pio" where
  "counter_task overflow_checks A S H config j =
     pio_bind (counter_announce overflow_checks j) (\<lambda>expected.
     pio_bind (counter_construct A H config j) (\<lambda>x.
     pio_bind (counter_prove H config (cj_reference_block j) x) (\<lambda>proof_size.
     pio_bind (counter_submit A H config x) (\<lambda>rpc_tx_hash.
     pio_bind (counter_verify S H config (cj_session_id j) rpc_tx_hash) (\<lambda>_.
     pio_bind (counter_read_back H config (cj_contract_address j)) (\<lambda>counter_value.
       emit (CompleteEvent (counter_result rpc_tx_hash counter_value proof_size expected))))))))"

section \<open>The router\<close>

datatype counter_request =
    DeployCounterReq string
  | InvokeReq invoke_request
  | ReadCounterReq string
  | SubmitProofReq string
  | ProveBlockReq string prove_query

datatype counter_response =
    DeployCounterResp "http_error + deploy_counter_response"
  | InvokeResp "http_error + invoke_response"
  | ReadCounterResp "http_error + u64"
  | SubmitProofResp "http_error + submit_proof_response"
  | ProveBlockResp "http_error + counter_job"

fun counter_routes ::
  "('f, 're) app_lib \<Rightarrow> 'st server \<Rightarrow> 'w host \<Rightarrow> config \<Rightarrow> counter_request \<Rightarrow> ('w, 'st) ct_app \<Rightarrow>
     (counter_response \<times> ('w, 'st) ct_app) option" where
  "counter_routes A S H config (DeployCounterReq sid) s = map_option (map_prod DeployCounterResp id) (deploy_counter A S H config sid s)"
| "counter_routes A S H config (InvokeReq req) s = map_option (map_prod InvokeResp id) (invoke_increment S H config req s)"
| "counter_routes A S H config (ReadCounterReq c) s = map_option (map_prod ReadCounterResp id) (read_counter H config c s)"
| "counter_routes A S H config (SubmitProofReq sid) s = map_option (map_prod SubmitProofResp id) (submit_proof A S H config sid s)"
| "counter_routes A S H config (ProveBlockReq sid q) s = map_option (map_prod ProveBlockResp id) (counter_prove_block S sid q s)"

text \<open>
  Serving a request to its end: the answer, and for a granted batch the task that the handler spawns.
\<close>

definition counter_serve ::
  "bool \<Rightarrow> ('f, 're) app_lib \<Rightarrow> 'st server \<Rightarrow> 'w host \<Rightarrow> config \<Rightarrow> counter_request \<Rightarrow> ('w, 'st) ct_app \<Rightarrow>
     (counter_response \<times> ('w, 'st) ct_app) option" where
  "counter_serve overflow_checks A S H config req s =
     Option.bind (counter_routes A S H config req s) (\<lambda>(resp, s1).
       case resp of
         ProveBlockResp (Inr j) \<Rightarrow> map_option (\<lambda>(_, s2). (resp, s2)) (counter_task overflow_checks A S H config j s1)
       | _ \<Rightarrow> Some (resp, s1))"

end
