(* ===== verification/CounterSafety.thy ===== *)
theory CounterSafety
  imports CounterTask
begin

text \<open>
  What the Counter playground guarantees: sessions are isolated, the task of a batch returns and ends
  its stream properly, it moves the reference block of its session to the block of the accepted batch
  and changes nothing else, and the multicall it signs makes the calls that it announces.
\<close>

section \<open>The session store\<close>

locale session_store =
  fixes S :: "'st server"
  assumes get_updated: "sv_get S (sv_update S st sid f) sid = f (sv_get S st sid)"
    and get_other: "sid' \<noteq> sid \<Longrightarrow> sv_get S (sv_update S st sid f) sid' = sv_get S st sid'"

text \<open>An operation that leaves all sessions but one as they are.\<close>

definition touches_only :: "'st server \<Rightarrow> string \<Rightarrow> (('w, 'st) ct_app, 'e, 'a) pio \<Rightarrow> bool" where
  "touches_only S sid m \<longleftrightarrow> (\<forall>s r s'. m s = Some (r, s') \<longrightarrow>
     (\<forall>sid'. sid' \<noteq> sid \<longrightarrow> get_session S sid' s' = get_session S sid' s))"

lemma touches_onlyD:
  "touches_only S sid m \<Longrightarrow> m s = Some (r, s') \<Longrightarrow> sid' \<noteq> sid \<Longrightarrow> get_session S sid' s' = get_session S sid' s"
  by (simp add: touches_only_def)

lemma touches_bind [intro]:
  "touches_only S sid m \<Longrightarrow> (\<And>x. touches_only S sid (k x)) \<Longrightarrow> touches_only S sid (pio_bind m k)"
  unfolding touches_only_def pio_bind_def by (fastforce split: option.splits sum.splits)

lemma touches_basic [simp, intro]:
  "touches_only S sid (pio_return r)" "touches_only S sid (on_world m)" "touches_only S sid (on_world_io n)"
  "touches_only S sid (on_world_wait q)" "touches_only S sid (emit ev)" "touches_only S sid (\<lambda>s. Some (r, s))"
  by (auto simp: touches_only_def get_session_def on_world_def on_world_io_def on_world_wait_def emit_def
      split: prod.splits option.splits)

lemma touches_map_err [intro]: "touches_only S sid m \<Longrightarrow> touches_only S sid (pio_map_err f m)"
  by (auto simp: touches_only_def pio_map_err_def split: option.splits)

lemma touches_result [intro]: "touches_only S sid m \<Longrightarrow> touches_only S sid (pio_result m)"
  by (auto simp: touches_only_def pio_result_def split: option.splits)

lemma touches_at: "(\<And>s0. touches_only S sid (m s0)) \<Longrightarrow> touches_only S sid (\<lambda>s. m s s)"
  by (simp add: touches_only_def)

lemma touches_prod: "(\<And>a b. touches_only S sid (k a b)) \<Longrightarrow> touches_only S sid (case p of (a, b) \<Rightarrow> k a b)"
  by (simp split: prod.split)

lemmas touches_rules = touches_bind touches_basic touches_map_err touches_result touches_prod

context session_store
begin

lemma updated: "update_session_with S sid f s = Some (r, s') \<Longrightarrow> get_session S sid s' = f (get_session S sid s)"
  by (auto simp: update_session_with_def get_session_def get_updated)

lemma touches_update: "touches_only S sid (update_session_with S sid f)"
  by (auto simp: touches_only_def update_session_with_def get_session_def get_other)

lemma touches_invoke: "touches_only S (ir_session_id req) (invoke_increment S H config req)"
  unfolding invoke_increment_def[abs_def] Let_def
  by (rule touches_at, intro touches_rules)
     (auto split: sum.split option.split intro!: touches_rules touches_update)

lemma touches_deploy: "touches_only S sid (deploy_counter A S H config sid)"
  unfolding deploy_counter_def Let_def
  by (intro touches_rules touches_update) (auto split: option.split intro!: touches_rules)

end

text \<open>An operation that changes no session at all.\<close>

definition keeps_sessions :: "(('w, 'st) ct_app, 'e, 'a) pio \<Rightarrow> bool" where
  "keeps_sessions m \<longleftrightarrow> (\<forall>s r s'. m s = Some (r, s') \<longrightarrow> ct_sessions s' = ct_sessions s)"

lemma keeps_sessionsD: "keeps_sessions m \<Longrightarrow> m s = Some (r, s') \<Longrightarrow> get_session S sid s' = get_session S sid s"
  by (simp add: keeps_sessions_def get_session_def)

lemma keeps_bind [intro]: "keeps_sessions m \<Longrightarrow> (\<And>x. keeps_sessions (k x)) \<Longrightarrow> keeps_sessions (pio_bind m k)"
  unfolding keeps_sessions_def pio_bind_def by (fastforce split: option.splits sum.splits)

lemma keeps_basic [simp, intro]:
  "keeps_sessions (pio_return r)" "keeps_sessions (on_world m)" "keeps_sessions (on_world_io n)"
  "keeps_sessions (on_world_wait q)" "keeps_sessions (emit ev)" "keeps_sessions (give_up msg c)"
  by (auto simp: keeps_sessions_def on_world_def on_world_io_def on_world_wait_def emit_def give_up_def pio_bind_def
      split: prod.splits option.splits)

lemma keeps_map_err [intro]: "keeps_sessions m \<Longrightarrow> keeps_sessions (pio_map_err f m)"
  by (auto simp: keeps_sessions_def pio_map_err_def split: option.splits)

lemma keeps_result [intro]: "keeps_sessions m \<Longrightarrow> keeps_sessions (pio_result m)"
  by (auto simp: keeps_sessions_def pio_result_def split: option.splits)

lemma keeps_task_try [intro]: "keeps_sessions m \<Longrightarrow> keeps_sessions (task_try msg f m)"
  unfolding task_try_def by (rule keeps_bind) (auto split: sum.split)

lemma keeps_at: "(\<And>s0. keeps_sessions (m s0)) \<Longrightarrow> keeps_sessions (\<lambda>s. m s s)"
  by (simp add: keeps_sessions_def)

lemma keeps_prod: "(\<And>a b. keeps_sessions (k a b)) \<Longrightarrow> keeps_sessions (case p of (a, b) \<Rightarrow> k a b)"
  by (simp split: prod.split)

lemma keeps_if: "keeps_sessions a \<Longrightarrow> keeps_sessions b \<Longrightarrow> keeps_sessions (if c then a else b)"
  by simp

lemmas keeps_rules = keeps_bind keeps_basic keeps_map_err keeps_result keeps_task_try keeps_prod keeps_if

lemma keeps_handlers:
  "keeps_sessions (read_counter H config c)" "keeps_sessions (submit_proof A S H config sid)"
  "keeps_sessions (counter_prove_block S sid q)"
  unfolding read_counter_def submit_proof_def[abs_def] counter_prove_block_def[abs_def] Let_def
  by (intro keeps_rules) (rule keeps_at, intro keeps_rules)+

text \<open>The sessions as a function, every session starting empty.\<close>

definition memory_server :: "(string \<Rightarrow> session) server" where
  "memory_server = \<lparr> sv_get = (\<lambda>st sid. st sid), sv_update = (\<lambda>st sid f. st(sid := f (st sid))),
     sv_parse_hex = (\<lambda>key text. None) \<rparr>"

interpretation memory: session_store memory_server
  by unfold_locales (simp_all add: memory_server_def)

fun requested_session :: "counter_request \<Rightarrow> string option" where
  "requested_session (DeployCounterReq sid) = Some sid"
| "requested_session (InvokeReq req) = Some (ir_session_id req)"
| "requested_session (ReadCounterReq c) = None"
| "requested_session (SubmitProofReq sid) = None"
| "requested_session (ProveBlockReq sid q) = Some sid"

lemma counter_routes_isolated:
  assumes "session_store S" and "counter_routes A S H config req s = Some (resp, s')"
    and "requested_session req \<noteq> Some sid'"
  shows "get_session S sid' s' = get_session S sid' s"
proof (cases req)
  case (DeployCounterReq sid)
  then show ?thesis using assms(2,3) by (auto dest: touches_onlyD[OF session_store.touches_deploy[OF assms(1)]])
next
  case (InvokeReq r)
  then show ?thesis using assms(2,3) by (auto dest: touches_onlyD[OF session_store.touches_invoke[OF assms(1)], OF _ not_sym])
next
  case (ReadCounterReq c)
  then show ?thesis using assms(2) by (auto dest: keeps_sessionsD[OF keeps_handlers(1)])
next
  case (SubmitProofReq sid)
  then show ?thesis using assms(2) by (auto dest: keeps_sessionsD[OF keeps_handlers(2)])
next
  case (ProveBlockReq sid q)
  then show ?thesis using assms(2) by (auto dest: keeps_sessionsD[OF keeps_handlers(3)])
qed

section \<open>The stream of the task\<close>

lemma streams_sum: "(\<And>x. streams (f x)) \<Longrightarrow> (\<And>y. streams (g y)) \<Longrightarrow> streams (case r of Inl x \<Rightarrow> f x | Inr y \<Rightarrow> g y)"
  by (cases r) simp_all

lemma returns_sum: "(\<And>x. returns (f x)) \<Longrightarrow> (\<And>y. returns (g y)) \<Longrightarrow> returns (case r of Inl x \<Rightarrow> f x | Inr y \<Rightarrow> g y)"
  by (cases r) simp_all

lemma streams_counter [simp, intro]:
  "streams (counter_announce c j)" "streams (counter_construct A H config j)" "streams (counter_prove H config b x)"
  "streams (counter_read_back H config a)"
proof -
  show "streams (counter_announce c j)"
    unfolding counter_announce_def expected_increment_def Let_def by (intro streams_bind) (auto split: if_split)
  show "streams (counter_construct A H config j)" unfolding counter_construct_def Let_def
    by (intro streams_bind streams_task_try silent_basic streams_basic)
  show "streams (counter_prove H config b x)" unfolding counter_prove_def Let_def
    by (intro streams_bind streams_if streams_task_try streams_result silent_basic streams_basic)
  show "streams (counter_read_back H config a)" unfolding counter_read_back_def Let_def
    by (intro streams_bind streams_result silent_basic streams_basic)
qed

lemma streams_rpc_error:
  "(\<And>msg. streams (f msg)) \<Longrightarrow> streams b \<Longrightarrow> streams (case e of JsonRpc msg \<Rightarrow> f msg | _ \<Rightarrow> b)"
  by (cases e) simp_all

lemma streams_attempts [simp, intro]: "streams (rpc_attempts H url tx as)"
proof (induction as)
  case Nil
  show ?case unfolding rpc_attempts.simps by (rule streams_basic)
next
  case (Cons a as)
  show ?case unfolding rpc_attempts.simps
    by (intro streams_bind streams_sum streams_rpc_error streams_if streams_result silent_basic streams_basic Cons)
qed

lemma streams_counter_submit [simp, intro]: "streams (counter_submit A H config x)"
  unfolding counter_submit_def
  by (intro streams_bind streams_prod streams_task_try silent_basic streams_basic streams_read_proof streams_attempts)
     (auto split: option.split)

lemma streams_counter_verify [simp, intro]: "streams (counter_verify S H config sid h)"
proof -
  have "streams (update_session_with S sid f)" for f
    by (auto simp: streams_def update_session_with_def)
  then show ?thesis unfolding counter_verify_def Let_def
    by (intro streams_bind streams_task_try silent_basic streams_basic)
qed

section \<open>The task returns\<close>

lemma returns_counter [simp, intro]:
  "returns (counter_announce c j)" "returns (counter_construct A H config j)" "returns (counter_prove H config b x)"
  "returns (counter_read_back H config a)"
  unfolding counter_announce_def counter_construct_def counter_prove_def counter_read_back_def Let_def
  by (intro returns_bind returns_if returns_task_try returns_result returns_on_world returns_emit returns_give_up returns_return)+

lemma returns_rpc_error:
  "(\<And>msg. returns (f msg)) \<Longrightarrow> returns b \<Longrightarrow> returns (case e of JsonRpc msg \<Rightarrow> f msg | _ \<Rightarrow> b)"
  by (cases e) simp_all

lemma returns_attempts [simp, intro]: "returns (rpc_attempts H url tx as)"
proof (induction as)
  case Nil
  show ?case unfolding rpc_attempts.simps by (rule returns_return)
next
  case (Cons a as)
  show ?case unfolding rpc_attempts.simps
    by (intro returns_bind returns_sum returns_rpc_error returns_if returns_result returns_on_world returns_emit returns_give_up returns_return Cons)
qed

lemma returns_counter_submit [simp, intro]: "returns (counter_submit A H config x)"
  unfolding counter_submit_def
  by (intro returns_bind returns_prod returns_task_try returns_on_world returns_emit returns_return returns_read_proof returns_attempts)
     (auto split: option.split)

lemma returns_counter_verify:
  "clock_laws (ho_net H) time \<Longrightarrow> returns (counter_verify S H config sid h)"
proof -
  assume c: "clock_laws (ho_net H) time"
  have "returns (update_session_with S sid f)" for f by (simp add: returns_def update_session_with_def)
  then show ?thesis unfolding counter_verify_def Let_def
    by (intro returns_bind returns_task_try returns_emit returns_wait[OF c]) auto
qed

text \<open>
  C27: the task of a batch always ends (the clock only has to run) and ends its stream properly: after
  progress events there is one completion event when it succeeds, one error when it gives up, and
  neither only when it panics.
\<close>

theorem counter_task_ends:
  assumes "clock_laws (ho_net H) time"
  shows "\<exists>r s' es. counter_task overflow_checks A S H config j s = Some (r, s') \<and> ap_events s' = ap_events s @ es \<and>
     (case r of
        Inr _ \<Rightarrow> \<exists>es0 h v p e. es = es0 @ [CompleteEvent (counter_result h v p e)] \<and> list_all progress es0
      | Inl Returned \<Rightarrow> \<exists>es0 m c. es = es0 @ [ErrorEvent m c] \<and> list_all progress es0
      | Inl (TaskPanic _) \<Rightarrow> list_all progress es)"
proof -
  let ?main = "pio_bind (counter_announce overflow_checks j) (\<lambda>expected. pio_bind (counter_construct A H config j) (\<lambda>x.
     pio_bind (counter_prove H config (cj_reference_block j) x) (\<lambda>proof_size.
     pio_bind (counter_submit A H config x) (\<lambda>h. pio_bind (counter_verify S H config (cj_session_id j) h) (\<lambda>_.
     pio_bind (counter_read_back H config (cj_contract_address j)) (\<lambda>v.
       pio_return (Inr (h, v, proof_size, expected))))))))"
  let ?ev = "\<lambda>(h, v, p, e). CompleteEvent (counter_result h v p e)"
  have split: "counter_task overflow_checks A S H config j = pio_bind ?main (\<lambda>x. emit (?ev x))"
    unfolding counter_task_def by (simp only: pio_bind_assoc pio_bind_return prod.case)
  have st: "streams ?main"
    by (intro streams_bind streams_counter streams_counter_submit streams_counter_verify streams_basic)
  have re: "returns ?main"
    by (intro returns_bind returns_counter returns_counter_submit returns_counter_verify[OF assms] returns_return)
  from task_ends[OF st re, of ?ev s] obtain r s' es where
    run: "pio_bind ?main (\<lambda>x. emit (?ev x)) s = Some (r, s')" "ap_events s' = ap_events s @ es" and
    ends: "case r of Inr _ \<Rightarrow> \<exists>es0 x. es = es0 @ [?ev x] \<and> list_all progress es0
      | Inl Returned \<Rightarrow> \<exists>es0 m c. es = es0 @ [ErrorEvent m c] \<and> list_all progress es0
      | Inl (TaskPanic _) \<Rightarrow> list_all progress es" by blast
  have "case r of Inr _ \<Rightarrow> \<exists>es0 h v p e. es = es0 @ [CompleteEvent (counter_result h v p e)] \<and> list_all progress es0
      | Inl Returned \<Rightarrow> \<exists>es0 m c. es = es0 @ [ErrorEvent m c] \<and> list_all progress es0
      | Inl (TaskPanic _) \<Rightarrow> list_all progress es"
    using ends by (cases r) auto
  with run show ?thesis unfolding split by blast
qed

section \<open>The reference block\<close>

lemma keeps_announce: "keeps_sessions (counter_announce c j)"
  unfolding counter_announce_def by (intro keeps_rules)

lemma keeps_construct: "keeps_sessions (counter_construct A H config j)"
  unfolding counter_construct_def Let_def by (intro keeps_rules)

lemma keeps_prove: "keeps_sessions (counter_prove H config b x)"
  unfolding counter_prove_def Let_def by (intro keeps_rules)

lemma keeps_attempts: "keeps_sessions (rpc_attempts H url tx as)"
proof (induction as)
  case Nil
  show ?case unfolding rpc_attempts.simps by (rule keeps_basic)
next
  case (Cons a as)
  have e: "(\<And>msg. keeps_sessions (f msg)) \<Longrightarrow> keeps_sessions b \<Longrightarrow>
      keeps_sessions (case e of JsonRpc msg \<Rightarrow> f msg | _ \<Rightarrow> b)" for e f b
    by (cases e) simp_all
  have r: "(\<And>x. keeps_sessions (f x)) \<Longrightarrow> (\<And>y. keeps_sessions (g y)) \<Longrightarrow>
      keeps_sessions (case r of Inl x \<Rightarrow> f x | Inr y \<Rightarrow> g y)" for r f g
    by (cases r) simp_all
  show ?case unfolding rpc_attempts.simps by (intro e r keeps_rules Cons)
qed

lemma keeps_submit: "keeps_sessions (counter_submit A H config x)"
  unfolding counter_submit_def read_proof_def
  by (intro keeps_rules keeps_attempts) (auto split: option.split)

lemma keeps_read_back: "keeps_sessions (counter_read_back H config a)"
  unfolding counter_read_back_def Let_def by (intro keeps_rules)

lemma keeps_run: "keeps_sessions m \<Longrightarrow> m s = Some (r, s') \<Longrightarrow> ct_sessions s' = ct_sessions s"
  by (simp add: keeps_sessions_def)

lemma counter_verify_cases:
  assumes "counter_verify S H config sid h s = Some (r, s')"
  shows "(\<exists>e. r = Inl e \<and> ct_sessions s' = ct_sessions s) \<or>
    (\<exists>w w' receipt. r = Inr () \<and> wait_for_tx (ho_net H) (rpc_url config) h 180 5 w = Some (Inr receipt, w') \<and>
       ct_sessions s' = sv_update S (ct_sessions s) sid
         (\<lambda>session. session\<lparr> se_last_reference_block := Some (unwrap_or 0 (receipt_block_number receipt)) \<rparr>))"
proof (cases "wait_for_tx (ho_net H) (rpc_url config) h 180 5 (ap_world s)")
  case None
  then show ?thesis using assms
    by (simp add: counter_verify_def Let_def pio_bind_def emit_def task_try_def pio_result_def on_world_wait_def)
next
  case (Some qw)
  note run = assms[unfolded counter_verify_def Let_def pio_bind_def emit_def task_try_def pio_result_def on_world_wait_def
      give_up_def update_session_with_def]
  obtain q w where qw: "qw = (q, w)" by fastforce
  show ?thesis
  proof (cases q)
    case (Inl e)
    then show ?thesis using run Some qw by auto
  next
    case (Inr receipt)
    then have "r = Inr () \<and> ct_sessions s' = sv_update S (ct_sessions s) sid
         (\<lambda>session. session\<lparr> se_last_reference_block := Some (unwrap_or 0 (receipt_block_number receipt)) \<rparr>)"
      using run Some qw by auto
    then show ?thesis using Some qw Inr by blast
  qed
qed

lemma task_prefixE:
  assumes "pio_bind m k s = Some (r, s')" and "keeps_sessions m"
    and "\<And>e. r = Inl e \<Longrightarrow> ct_sessions s' = ct_sessions s \<Longrightarrow> P"
    and "\<And>x s1. k x s1 = Some (r, s') \<Longrightarrow> ct_sessions s1 = ct_sessions s \<Longrightarrow> P"
  shows P
proof -
  obtain q s1 where m: "m s = Some (q, s1)" using assms(1) by (auto simp: pio_bind_def split: option.splits)
  show P using assms(1,3,4) m keeps_run[OF assms(2) m] by (cases q) (auto simp: pio_bind_def)
qed

lemma counter_task_failed:
  assumes "counter_task overflow_checks A S H config j s = Some (Inl e, s')"
  shows "ct_sessions s' = ct_sessions s"
proof -
  let ?rest_of = "\<lambda>p h e. pio_bind (counter_verify S H config (cj_session_id j) h) (\<lambda>_.
     pio_bind (counter_read_back H config (cj_contract_address j)) (\<lambda>v. emit (CompleteEvent (counter_result h v p e))))"
  have "ct_sessions s' = ct_sessions s \<or>
     (\<exists>p h x s1. ct_sessions s1 = ct_sessions s \<and> ?rest_of p h x s1 = Some (Inl e, s'))"
    using assms unfolding counter_task_def
    by (elim task_prefixE[OF _ keeps_announce] task_prefixE[OF _ keeps_construct] task_prefixE[OF _ keeps_prove]
        task_prefixE[OF _ keeps_submit]) (blast | metis)+
  then show ?thesis
  proof (elim disjE exE conjE)
    fix p h x s1 assume s1: "ct_sessions s1 = ct_sessions s" and run: "?rest_of p h x s1 = Some (Inl e, s')"
    then have "counter_verify S H config (cj_session_id j) h s1 = Some (Inl e, s')"
      by (auto simp: pio_iffs counter_read_back_def Let_def emit_def on_world_def split: prod.splits)
    then show ?thesis using counter_verify_cases s1 by fastforce
  qed
qed

lemma rpc_attempts_accepted:
  "rpc_attempts H url tx as s = Some (Inr (Some h), s') \<Longrightarrow> \<exists>w w'. add_invoke_transaction (ho_net H) url tx w = (Inr h, w')"
proof (induction "as" arbitrary: s)
  case (Cons a "as")
  then show ?case
    by (auto simp: pio_iffs on_world_def split: prod.splits sum.splits rpc_error.splits if_splits)
qed (simp add: pio_iffs)

lemma counter_submit_accepted:
  assumes "counter_submit A H config x s = Some (Inr h, s')"
  shows "\<exists>b64 facts hash tx w w'. sign_and_build_payload (al_felt A) (al_crypto A)
       \<lparr> sp_sender_address = kx_sender x, sp_private_key = kx_key x, sp_calldata = kx_calldata x,
         sp_proof_base64 = b64, sp_proof_facts = facts, sp_nonce = felt_from_u64 (al_felt A) (kx_nonce x),
         sp_chain_id = kx_chain_id x, sp_resource_bounds = resource_bounds_default \<rparr> = Inr (hash, tx) \<and>
     add_invoke_transaction (ho_net H) (rpc_url config) tx w = (Inr h, w')"
  using assms unfolding counter_submit_def
  by (fastforce simp: pio_iffs task_try_Inr_iff split: option.splits dest: rpc_attempts_accepted)

lemma counter_task_completed:
  fixes s :: "('w, 'st) ct_app"
  assumes "counter_task overflow_checks A S H config j s = Some (Inr u, s')"
  shows "\<exists>x (s1 :: ('w, 'st) ct_app) s2 (s3 :: ('w, 'st) ct_app) s4 h w receipt v p e. counter_construct A H config j s1 = Some (Inr x, s2) \<and>
     counter_submit A H config x s3 = Some (Inr h, s4) \<and>
     wait_for_tx (ho_net H) (rpc_url config) h 180 5 (ap_world s4) = Some (Inr receipt, w) \<and>
     ct_sessions s' = sv_update S (ct_sessions s) (cj_session_id j)
       (\<lambda>session. session\<lparr> se_last_reference_block := Some (unwrap_or 0 (receipt_block_number receipt)) \<rparr>) \<and>
     (\<exists>es. ap_events s' = es @ [CompleteEvent (counter_result h v p e)])"
proof -
  obtain e s1 x s2 p s3 h s4 y s5 v s6 where
    a: "counter_announce overflow_checks j s = Some (Inr e, s1)" and
    x: "counter_construct A H config j s1 = Some (Inr x, s2)" and
    p: "counter_prove H config (cj_reference_block j) x s2 = Some (Inr p, s3)" and
    h: "counter_submit A H config x s3 = Some (Inr h, s4)" and
    v: "counter_verify S H config (cj_session_id j) h s4 = Some (Inr y, s5)" and
    b: "counter_read_back H config (cj_contract_address j) s5 = Some (Inr v, s6)" and
    c: "(emit (CompleteEvent (counter_result h v p e)) :: (('w, 'st) ct_app, task_end, unit) pio) s6 = Some (Inr u, s')"
    using assms unfolding counter_task_def pio_bind_Inr_iff by (elim exE conjE) (rule that)
  have s4: "ct_sessions s4 = ct_sessions s"
    using keeps_run[OF keeps_announce a] keeps_run[OF keeps_construct x] keeps_run[OF keeps_prove p] keeps_run[OF keeps_submit h]
    by simp
  obtain receipt w where r: "wait_for_tx (ho_net H) (rpc_url config) h 180 5 (ap_world s4) = Some (Inr receipt, w)"
    "ct_sessions s5 = sv_update S (ct_sessions s4) (cj_session_id j)
       (\<lambda>session. session\<lparr> se_last_reference_block := Some (unwrap_or 0 (receipt_block_number receipt)) \<rparr>)"
    using v unfolding counter_verify_def Let_def pio_bind_Inr_iff task_try_Inr_iff
    by (auto simp: emit_def on_world_wait_def update_session_with_def split: option.splits prod.splits)
  have "ct_sessions s' = ct_sessions s5" "ap_events s' = ap_events s6 @ [CompleteEvent (counter_result h v p e)]"
    using c keeps_run[OF keeps_read_back b] by (auto simp: emit_def)
  with x h r s4 show ?thesis by (intro exI conjI) auto
qed

text \<open>
  C12: a batch that completes moves the reference block of its session to the block in which the node has
  accepted its transaction, and touches nothing else: that transaction is the signed payload with the
  batch's calldata, the node took it under the hash that is then waited for, the block is the one of the
  receipt of that hash (0 when it has no number), and the same hash is reported in the last event. A batch
  that fails leaves all sessions as they were, so that the next one starts from the last proven block.
\<close>

theorem counter_task_reference_block:
  fixes s :: "('w, 'st) ct_app"
  assumes "session_store S" and "counter_task overflow_checks A S H config j s = Some (r, s')"
  shows "case r of
      Inl _ \<Rightarrow> ct_sessions s' = ct_sessions s
    | Inr _ \<Rightarrow> (\<exists>x (s1 :: ('w, 'st) ct_app) s2 b64 facts hash tx h w1 w2 w3 w4 receipt v p e es.
        counter_construct A H config j s1 = Some (Inr x, s2) \<and>
        sign_and_build_payload (al_felt A) (al_crypto A)
          \<lparr> sp_sender_address = kx_sender x, sp_private_key = kx_key x, sp_calldata = kx_calldata x,
            sp_proof_base64 = b64, sp_proof_facts = facts, sp_nonce = felt_from_u64 (al_felt A) (kx_nonce x),
            sp_chain_id = kx_chain_id x, sp_resource_bounds = resource_bounds_default \<rparr> = Inr (hash, tx) \<and>
        add_invoke_transaction (ho_net H) (rpc_url config) tx w1 = (Inr h, w2) \<and>
        wait_for_tx (ho_net H) (rpc_url config) h 180 5 w3 = Some (Inr receipt, w4) \<and>
        ap_events s' = es @ [CompleteEvent (counter_result h v p e)] \<and>
        get_session S (cj_session_id j) s' = (get_session S (cj_session_id j) s)
          \<lparr> se_last_reference_block := Some (unwrap_or 0 (receipt_block_number receipt)) \<rparr>) \<and>
        (\<forall>sid. sid \<noteq> cj_session_id j \<longrightarrow> get_session S sid s' = get_session S sid s)"
proof (cases r)
  case (Inl e)
  then show ?thesis using counter_task_failed assms(2) by simp
next
  case (Inr u)
  with assms(2) have run: "counter_task overflow_checks A S H config j s = Some (Inr u, s')" by simp
  obtain x and s1 s2 s3 s4 :: "('w, 'st) ct_app" and h w receipt v p e es where x: "counter_construct A H config j s1 = Some (Inr x, s2)"
    and h: "counter_submit A H config x s3 = Some (Inr h, s4)"
    and acc: "wait_for_tx (ho_net H) (rpc_url config) h 180 5 (ap_world s4) = Some (Inr receipt, w)"
    and upd: "ct_sessions s' = sv_update S (ct_sessions s) (cj_session_id j)
       (\<lambda>session. session\<lparr> se_last_reference_block := Some (unwrap_or 0 (receipt_block_number receipt)) \<rparr>)"
    and ev: "ap_events s' = es @ [CompleteEvent (counter_result h v p e)]"
    using counter_task_completed[OF run] by (elim exE conjE)
  have ses: "get_session S (cj_session_id j) s' = (get_session S (cj_session_id j) s)
      \<lparr> se_last_reference_block := Some (unwrap_or 0 (receipt_block_number receipt)) \<rparr>"
    "\<forall>sid. sid \<noteq> cj_session_id j \<longrightarrow> get_session S sid s' = get_session S sid s"
    using upd session_store.get_updated[OF assms(1)] session_store.get_other[OF assms(1)] by (simp_all add: get_session_def)
  obtain b64 facts hash tx w1 w2 where signed: "sign_and_build_payload (al_felt A) (al_crypto A)
       \<lparr> sp_sender_address = kx_sender x, sp_private_key = kx_key x, sp_calldata = kx_calldata x,
         sp_proof_base64 = b64, sp_proof_facts = facts, sp_nonce = felt_from_u64 (al_felt A) (kx_nonce x),
         sp_chain_id = kx_chain_id x, sp_resource_bounds = resource_bounds_default \<rparr> = Inr (hash, tx)"
    and sent: "add_invoke_transaction (ho_net H) (rpc_url config) tx w1 = (Inr h, w2)"
    using counter_submit_accepted[OF h] by (elim exE conjE)
  show ?thesis unfolding Inr sum.case
    by (intro conjI exI) (rule x signed sent acc ev ses)+
qed

text \<open>A batch, granted by the handler and run by its task, changes its session's last reference block at most.\<close>

lemma counter_serve_batch:
  assumes "session_store S" and "counter_serve overflow_checks A S H config (ProveBlockReq sid q) s = Some (resp, s')"
  shows "(\<exists>b. get_session S sid s' = (get_session S sid s)\<lparr> se_last_reference_block := b \<rparr>) \<and>
     (\<forall>sid'. sid' \<noteq> sid \<longrightarrow> get_session S sid' s' = get_session S sid' s)"
proof -
  have same: "\<exists>b. v = v\<lparr> se_last_reference_block := b \<rparr>" for v :: session
    by (intro exI[of _ "se_last_reference_block v"]) simp
  obtain a s1 where a: "counter_prove_block S sid q s = Some (a, s1)" "s1 = s"
    using assms(2) by (auto simp: counter_serve_def bind_eq_Some_conv counter_prove_block_def Let_def pio_bind_def split: option.splits sum.splits)
  show ?thesis
  proof (cases a)
    case (Inl e)
    then show ?thesis using assms(2) a same by (simp add: counter_serve_def)
  next
    case (Inr j)
    then have j: "cj_session_id j = sid" using a by (auto simp: counter_prove_block_def Let_def pio_iffs)
    from assms(2) Inr a obtain r where r: "counter_task overflow_checks A S H config j s = Some (r, s')"
      by (auto simp: counter_serve_def)
    show ?thesis
    proof (cases r)
      case (Inl e)
      then show ?thesis using counter_task_failed r same by (fastforce simp: get_session_def)
    next
      case (Inr u)
      then obtain b where "ct_sessions s' = sv_update S (ct_sessions s) sid (\<lambda>session. session\<lparr> se_last_reference_block := b \<rparr>)"
        using counter_task_completed r j by blast
      then show ?thesis using session_store.get_updated[OF assms(1)] session_store.get_other[OF assms(1)]
        by (auto simp: get_session_def)
    qed
  qed
qed

text \<open>
  C26: sessions are isolated: serving a request, with the task that a granted batch starts, changes no
  session but the one it names; reading the counter and building a proof submission name none, and a batch
  changes nothing of its session but the last reference block.
\<close>

theorem counter_sessions_isolated:
  assumes "session_store S" and "counter_serve overflow_checks A S H config req s = Some (resp, s')"
  shows "(requested_session req \<noteq> Some sid' \<longrightarrow> get_session S sid' s' = get_session S sid' s) \<and>
     (\<forall>sid q. req = ProveBlockReq sid q \<longrightarrow>
       (\<exists>b. get_session S sid s' = (get_session S sid s)\<lparr> se_last_reference_block := b \<rparr>))"
proof (cases "\<exists>sid q. req = ProveBlockReq sid q")
  case True
  then show ?thesis using counter_serve_batch[OF assms(1)] assms(2) by fastforce
next
  case False
  then have "counter_routes A S H config req s = Some (resp, s')"
    using assms(2) by (cases req) (auto simp: counter_serve_def bind_eq_Some_conv)
  then show ?thesis using counter_routes_isolated[OF assms(1)] False by blast
qed

section \<open>The multicall\<close>

text \<open>
  The encoding of calls that a Starknet account executes: the number of calls, then for each call its
  target, its selector, the length of its arguments and the arguments.
\<close>

fun decode_calls :: "'f felt_lib \<Rightarrow> nat \<Rightarrow> 'f list \<Rightarrow> ('f \<times> 'f \<times> 'f list) list option" where
  "decode_calls F 0 xs = (if xs = [] then Some [] else None)"
| "decode_calls F (Suc n) (to # selector # len # rest) =
     (let l = felt_to_biguint F len in
      if length rest < l then None
      else map_option ((#) (to, selector, take l rest)) (decode_calls F n (drop l rest)))"
| "decode_calls F (Suc n) _ = None"

definition decode_multicall :: "'f felt_lib \<Rightarrow> 'f list \<Rightarrow> ('f \<times> 'f \<times> 'f list) list option" where
  "decode_multicall F xs = (case xs of [] \<Rightarrow> None | n # rest \<Rightarrow> decode_calls F (felt_to_biguint F n) rest)"

lemma decode_replicated:
  "felt_to_biguint F one = 1 \<Longrightarrow>
     decode_calls F n (concat (replicate n [to, selector, one, a])) = Some (replicate n (to, selector, [a]))"
  by (induction n) simp_all

lemma parse_replicated:
  assumes "parse_felts F one_call = Inr ys"
  shows "parse_felts F (concat (replicate n one_call)) = Inr (concat (replicate n ys))"
proof -
  have "collect_result f (xs @ zs) = Inr (as @ bs)"
    if "collect_result f xs = Inr as" "collect_result f zs = Inr bs" for f :: "string \<Rightarrow> string + 'a" and xs zs as bs
    using that by (simp add: collect_result_Inr list_all2_appendI)
  then show ?thesis using assms by (induction n) (simp_all add: parse_felts_def)
qed

lemma parse_replicated_part:
  assumes "parse_felts F (concat (replicate n one_call)) = Inr zs" and "0 < n"
  shows "\<exists>ys. parse_felts F one_call = Inr ys"
proof -
  have "\<exists>as. collect_result f xs = Inr as" if "collect_result f (xs @ zs) = Inr bs" for f :: "string \<Rightarrow> string + 'a" and xs zs bs
    using that by (auto simp: collect_result_Inr list_all2_append1)
  then show ?thesis using assms by (cases n) (auto simp: parse_felts_def)
qed

lemma fmt_hex_parses:
  assumes "felt_library F" and "felt_from_hex_msg F (fmt_hex v) = Inr x" and "v < stark_prime"
  shows "felt_to_biguint F x = v"
  using felt_library.from_hex_fmt_hex[OF assms(1,3)] assms(2) by (auto simp: felt_from_hex_msg_def)

lemma counter_call_parses:
  assumes F: "felt_library F" and p: "parse_felts F (counter_call j) = Inr ys"
  shows "\<exists>to selector one a. ys = [to, selector, one, a] \<and> felt_from_hex_msg F (cj_contract_address j) = Inr to \<and>
     felt_from_hex_msg F INCREMENT_SELECTOR = Inr selector \<and> felt_to_biguint F one = 1 \<and>
     felt_to_biguint F a = unat (cj_increment_amount j)"
proof -
  have one: "fmt_hex 1 = ''0x1''" by (simp add: fmt_hex_def lower_hex_def nat_digits.simps digit_char_def)
  have amount: "unat (cj_increment_amount j) < stark_prime"
    using unsigned_less[where 'b = 64 and 'a = nat, of "cj_increment_amount j"] by (simp add: stark_prime_def)
  obtain to selector o' a where ys: "ys = [to, selector, o', a]" and
    fs: "felt_from_hex_msg F (cj_contract_address j) = Inr to" "felt_from_hex_msg F INCREMENT_SELECTOR = Inr selector"
      "felt_from_hex_msg F (fmt_hex 1) = Inr o'" "felt_from_hex_msg F (fmt_hex (unat (cj_increment_amount j))) = Inr a"
    using p unfolding parse_felts_def counter_call_def one by (auto simp: result_iffs)
  with fmt_hex_parses[OF F fs(3)] fmt_hex_parses[OF F fs(4) amount] show ?thesis by (auto simp: stark_prime_def)
qed

lemma expected_increment_checked:
  assumes "expected_increment True j = Inr e"
  shows "unat e = unat (cj_increments_per_block j) * unat (cj_increment_amount j)"
proof -
  have small: "n < 2 ^ 64 \<Longrightarrow> unat (word_of_nat n :: u64) = n" for n
    by (simp add: unsigned_of_nat take_bit_nat_eq_self)
  define n where "n = unat (cj_increment_amount j) * unat (cj_increments_per_block j)"
  then have "\<not> 2 ^ 64 \<le> n" "e = word_of_nat n"
    using assms unfolding expected_increment_def Let_def n_def[symmetric] by (auto simp del: of_nat_mult split: if_splits)
  then show ?thesis using small[of n] by (simp add: n_def)
qed

text \<open>
  C11: the transaction of a batch makes exactly the announced calls: its calldata decodes, as an account
  decodes it, to the requested number of calls of increment on the session's contract with the requested
  amount. In a build with overflow checks the announced total is the sum of the amounts.
\<close>

theorem counter_multicall_decodes:
  assumes "felt_library (al_felt A)" and "counter_announce True j s0 = Some (Inr expected, s1)"
    and "counter_construct A H config j s = Some (Inr x, s')"
  shows "\<exists>calls. decode_multicall (al_felt A) (kx_calldata x) = Some calls \<and>
     length calls = unat (cj_increments_per_block j) \<and>
     (\<forall>c \<in> set calls. \<exists>to selector a. c = (to, selector, [a]) \<and> felt_from_hex_msg (al_felt A) (cj_contract_address j) = Inr to \<and>
        felt_from_hex_msg (al_felt A) INCREMENT_SELECTOR = Inr selector \<and>
        felt_to_biguint (al_felt A) a = unat (cj_increment_amount j)) \<and>
     unat expected = (\<Sum>(to, selector, args) \<leftarrow> calls. felt_to_biguint (al_felt A) (hd args))"
proof -
  let ?F = "al_felt A" and ?n = "unat (cj_increments_per_block j)"
  have p: "parse_felts ?F (counter_calldata j) = Inr (kx_calldata x)"
    using assms(3) unfolding counter_construct_def Let_def pio_iffs task_try_Inr_iff sum.inject by auto
  then obtain k rest where x: "k # rest = kx_calldata x" and k: "felt_from_hex_msg ?F (fmt_hex ?n) = Inr k"
    and rest: "parse_felts ?F (concat (replicate ?n (counter_call j))) = Inr rest"
    unfolding parse_felts_def counter_calldata_def by (auto simp: result_iffs)
  have "?n < stark_prime"
    using unsigned_less[where 'b = 32 and 'a = nat, of "cj_increments_per_block j"] by (simp add: stark_prime_def)
  from fmt_hex_parses[OF assms(1) k this] have kn: "felt_to_biguint ?F k = ?n" .
  have e: "unat expected = ?n * unat (cj_increment_amount j)"
    by (rule expected_increment_checked) (use assms(2) in \<open>auto simp: counter_announce_def pio_iffs\<close>)
  show ?thesis
  proof (cases "?n = 0")
    case True
    then show ?thesis using x[symmetric] kn rest e by (simp add: decode_multicall_def parse_felts_def)
  next
    case False
    then obtain ys where ys: "parse_felts ?F (counter_call j) = Inr ys" using parse_replicated_part[OF rest] by blast
    from counter_call_parses[OF assms(1) ys] obtain to selector one a where y: "ys = [to, selector, one, a]"
      "felt_from_hex_msg ?F (cj_contract_address j) = Inr to" "felt_from_hex_msg ?F INCREMENT_SELECTOR = Inr selector"
      "felt_to_biguint ?F one = 1" "felt_to_biguint ?F a = unat (cj_increment_amount j)" by blast
    have "rest = concat (replicate ?n ys)" using rest parse_replicated[OF ys, of ?n] by simp
    then have "decode_multicall ?F (kx_calldata x) = Some (replicate ?n (to, selector, [a]))"
      using x[symmetric] kn y(1) decode_replicated[OF y(4)] by (simp add: decode_multicall_def)
    then show ?thesis using y e by (auto simp: sum_list_replicate)
  qed
qed

section \<open>A batch that is played to its end\<close>

text \<open>The node gives nonce 5, reads 2 from the contract and accepts every transaction in block 9 as \<open>0xd\<close>.\<close>

definition tally_receipt :: json where
  "tally_receipt = JObj [(''transaction_hash'', JStr ''0xd''), (''finality_status'', JStr ''ACCEPTED_ON_L2''),
     (''block_number'', ju64 9)]"

definition tally_answer :: "json \<Rightarrow> json" where
  "tally_answer p = (if get_str ''method'' p = Some ''starknet_getNonce'' then JStr (fmt_hex 5)
     else if get_str ''method'' p = Some ''starknet_call'' then JArr [JStr ''0x2''] else tally_receipt)"

definition tally_net :: "nat net" where
  "tally_net = \<lparr> http_send = (\<lambda>url p t. (Inr \<lparr> resp_status = 200, resp_json = Inr (JObj [(''result'', tally_answer p)]) \<rparr>, t)),
     now = (\<lambda>t. (t, t)), instant_add = (\<lambda>t d. Some (t + d)),
     gloo_sleep = (\<lambda>d t. if u32_millis d then Some (t + d) else None), sleep = (\<lambda>d t. ((), t + d)) \<rparr>"

definition tally_host :: "nat host" where
  "tally_host = \<lparr> ho_net = tally_net,
     ho_output = (\<lambda>prog args cwd t. (Inl ''no such program'', t)),
     ho_spawn = (\<lambda>prog args t. (Inr 0, t)), ho_wait = (\<lambda>c t. (Inr True, t)),
     ho_uuid = (\<lambda>t. (''a-b'', t)), ho_random16 = (\<lambda>t. ([], t)), ho_env = (\<lambda>k t. (None, t)),
     ho_snip36_bin = (\<lambda>t. (''snip36'', t)), ho_read_to_string = (\<lambda>p t. (Inr ''AB'', t)),
     ho_write = (\<lambda>p x t. (Inr (), t)), ho_create_dir_all = (\<lambda>p t. (Inr (), t)),
     ho_exists = (\<lambda>p t. (True, t)), ho_len = (\<lambda>p t. (Inr 2, t)) \<rparr>"

definition tally_session :: session where
  "tally_session = \<lparr> se_account_address = Some ''0x7'', se_account_deployed = True, se_contract_address = Some ''0x3'',
     se_class_hash = None, se_last_invoke_tx = None, se_invoke_block = None, se_prove_block = None,
     se_proof_file = None, se_deploy_block = Some 4, se_last_reference_block = None \<rparr>"

definition tally_state :: "(nat, string \<Rightarrow> session) ct_app" where
  "tally_state = \<lparr> ap_world = 0, ap_events = [], ct_sessions = (\<lambda>_. tally_session) \<rparr>"

definition tally_job :: counter_job where
  "tally_job = \<lparr> cj_session_id = ''a'', cj_contract_address = ''0x3'', cj_reference_block = 4,
     cj_increment_amount = 4, cj_increments_per_block = 2 \<rparr>"

lemma tally_call_raw: "call_raw tally_net url p t = (Inr (JObj [(''result'', tally_answer p)]), t)"
  by (simp add: tally_net_def call_raw_def rio_bind_apply rio_map_err_apply)

lemma tally_call: "call tally_net url m p t = (Inr (tally_answer (rpc_payload m p)), t)"
  by (simp add: call_def tally_call_raw rio_bind_apply response_result_def)

lemma tally_answers:
  "tally_answer (rpc_payload ''starknet_getNonce'' p) = JStr (fmt_hex 5)"
  "tally_answer (rpc_payload ''starknet_call'' p) = JArr [JStr ''0x2'']"
  "tally_answer (rpc_payload ''starknet_getTransactionReceipt'' p) = tally_receipt"
  "tally_answer (rpc_payload ''starknet_addInvokeTransaction'' p) = tally_receipt"
  by (simp_all add: tally_answer_def rpc_payload_def)

lemma tally_wait: "wait_for_tx tally_net url h t p w = Some (Inr tally_receipt, w)" if "0 < t"
proof -
  have "poll_receipt tally_net url h w = (Some (Inr tally_receipt), w)"
    by (simp add: poll_receipt_def get_receipt_def tally_call tally_answers classify_receipt_def Let_def tally_receipt_def)
  moreover have "now tally_net w = (w, w)" "instant_add tally_net w d = Some (w + d)" for d by (simp_all add: tally_net_def)
  moreover have "0 < from_secs t" using that by (rule from_secs_pos)
  ultimately show ?thesis by (simp add: wait_for_tx_def poll_until.simps)
qed

lemma tally_clock: "clock_laws (ho_net tally_host) (\<lambda>t. t)"
  by (simp add: clock_laws_def tally_host_def tally_net_def)

lemma tally_block: "receipt_block_number tally_receipt = Some 9"
  by (simp add: receipt_block_number_def tally_receipt_def)

theorem counter_task_ends_witness:
  "clock_laws (ho_net tally_host) (\<lambda>t. t) \<and>
   (\<exists>r s' es. counter_task True flip_lib memory_server tally_host demo_config tally_job tally_state = Some (r, s') \<and>
     ap_events s' = es \<and>
     (case r of
        Inr _ \<Rightarrow> \<exists>es0 h v p e. es = es0 @ [CompleteEvent (counter_result h v p e)] \<and> list_all progress es0
      | Inl Returned \<Rightarrow> \<exists>es0 m c. es = es0 @ [ErrorEvent m c] \<and> list_all progress es0
      | Inl (TaskPanic _) \<Rightarrow> list_all progress es))"
proof -
  have "ap_events tally_state = []" by (simp add: tally_state_def)
  with counter_task_ends[OF tally_clock, of True flip_lib memory_server demo_config tally_job tally_state] tally_clock
  show ?thesis by simp
qed

lemma tally_parses: "\<exists>xs. parse_felts stark_felt (counter_calldata tally_job) = Inr xs"
proof -
  have "\<exists>x. felt_from_hex_msg stark_felt INCREMENT_SELECTOR = Inr x"
    by (simp add: INCREMENT_SELECTOR_def felt_from_hex_msg_def stark_felt_def stark_from_hex_def starts_with_def
        stark_prime_def hex_val_def)
  then obtain a where "felt_from_hex_msg stark_felt INCREMENT_SELECTOR = Inr a" by blast
  moreover obtain b where "felt_from_hex_msg stark_felt (fmt_hex 4) = Inr b" using game_fmt[of 4] by (auto simp: stark_prime_def)
  moreover obtain c where "felt_from_hex_msg stark_felt (fmt_hex 2) = Inr c" using game_fmt[of 2] by (auto simp: stark_prime_def)
  moreover have "counter_calldata tally_job = [fmt_hex 2, ''0x3'', INCREMENT_SELECTOR, ''0x1'', fmt_hex 4,
      ''0x3'', INCREMENT_SELECTOR, ''0x1'', fmt_hex 4]"
  proof -
    have "replicate 2 y = [y, y]" for y :: "string list" by (simp add: numeral_2_eq_2)
    then show ?thesis by (simp add: counter_calldata_def counter_call_def tally_job_def)
  qed
  ultimately show ?thesis by (simp add: parse_felts_def game_felts)
qed

lemma tally_host_simps:
  "ho_net tally_host = tally_net" "ho_create_dir_all tally_host p t = (Inr (), t)" "ho_write tally_host p x t = (Inr (), t)"
  "ho_read_to_string tally_host p t = (Inr ''AB'', t)" "ho_exists tally_host p t = (True, t)" "ho_len tally_host p t = (Inr 2, t)"
  "ho_spawn tally_host b args t = (Inr 0, t)" "ho_wait tally_host c t = (Inr True, t)" "ho_snip36_bin tally_host t = (''snip36'', t)"
  by (simp_all add: tally_host_def)

lemma tally_announces:
  "\<exists>s'. counter_announce True tally_job (s :: (nat, string \<Rightarrow> session) ct_app) = Some (Inr 8, s')"
  by (simp add: counter_announce_def expected_increment_def tally_job_def pio_bind_def emit_def)

lemma tally_constructs:
  "\<exists>x s'. counter_construct flip_lib tally_host demo_config tally_job (s :: (nat, string \<Rightarrow> session) ct_app) = Some (Inr x, s') \<and>
     kx_key x = felt_of_nat 2"
proof -
  obtain xs where xs: "parse_felts stark_felt (counter_calldata tally_job) = Inr xs" using tally_parses by blast
  have five: "parse_u64_hex (fmt_hex 5) = Some 5" using parse_u64_hex_fmt[of 5] by simp
  have nonce: "on_world (get_nonce_at_block tally_net url a b) s1 = Some (Inr 5, s1)"
    for url a b and s1 :: "(nat, string \<Rightarrow> session) ct_app"
    by (simp add: get_nonce_at_block_def on_world_def rio_bind_apply rio_lift_apply tally_call tally_answers five)
  obtain sig where "sign demo_crypto (felt_of_nat 2) (compute_invoke_v3_tx_hash stark_felt demo_crypto (felt_of_nat 1) xs
      (felt_from_bytes_be stark_felt (replicate 22 0 @ as_bytes ''SN_SEPOLIA'')) (felt_from_u64 stark_felt 5) (felt_ZERO stark_felt)
      resource_bounds_default [] [] 0 0 []) = Inr sig"
    using game_sign by blast
  then show ?thesis
    unfolding counter_construct_def Let_def flip_lib_simps game_config xs tally_host_simps
    by (simp add: pio_bind_def task_try_def pio_result_def emit_def nonce game_felts on_world_pure del: replicate.simps)
qed

lemmas tally_run = task_try_def pio_bind_def pio_result_def emit_def on_world_def on_world_io_def tally_host_simps

lemma tally_proves: "\<exists>n s'. counter_prove tally_host config b x (s :: (nat, string \<Rightarrow> session) ct_app) = Some (Inr n, s')"
  by (simp add: counter_prove_def Let_def tally_run)

lemma tally_submits:
  assumes "kx_key x = felt_of_nat 2"
  shows "\<exists>h s'. counter_submit flip_lib tally_host config x (s :: (nat, string \<Rightarrow> session) ct_app) = Some (Inr h, s')"
proof -
  obtain facts b64 where r: "read_proof flip_lib tally_host (kx_proof_path x) s1 = Some (Inr (b64, facts), s1)"
    for s1 :: "(nat, string \<Rightarrow> session) ct_app"
    by (simp add: read_proof_def tally_run flip_lib_simps parse_felts_def parse_proof_facts_json_def)
  have upt: "[1..<Suc max_attempts] = 1 # [2..<Suc max_attempts]" by (simp add: max_attempts_def upt_rec)
  have hash: "get_str ''transaction_hash'' tally_receipt = Some ''0xd''" by (simp add: tally_receipt_def)
  have add: "add_invoke_transaction tally_net url tx t = (Inr ''0xd'', t)" for url tx t
    by (simp add: add_invoke_transaction_def rio_bind_apply rio_lift_apply tally_call tally_answers hash)
  have g: "\<exists>s'. rpc_attempts tally_host url tx (1 # as) s1 = Some (Inr (Some ''0xd''), s')"
    for url tx as and s1 :: "(nat, string \<Rightarrow> session) ct_app"
    by (simp add: tally_run add)
  let ?params = "\<lparr> sp_sender_address = kx_sender x, sp_private_key = felt_of_nat 2, sp_calldata = kx_calldata x,
      sp_proof_base64 = b64, sp_proof_facts = facts, sp_nonce = felt_from_u64 stark_felt (kx_nonce x),
      sp_chain_id = kx_chain_id x, sp_resource_bounds = resource_bounds_default \<rparr>"
  obtain h payload where h: "sign_and_build_payload stark_felt demo_crypto ?params = Inr (h, payload)"
    using game_payload[of ?params] by auto
  let ?s1 = "s\<lparr> ap_events := ap_events s @ [Phase ''submitting'',
      Log (''Submitting tx '' @ get_prefix18 (felt_lower_hex stark_felt h) @ '' via RPC...'') NoCause] \<rparr>"
  obtain s' where "rpc_attempts tally_host (rpc_url config) payload (1 # [2..<Suc max_attempts]) ?s1 = Some (Inr (Some ''0xd''), s')"
    using g by blast
  with h show ?thesis unfolding counter_submit_def upt flip_lib_simps assms
    by (simp add: pio_bind_def task_try_def pio_result_def emit_def r del: rpc_attempts.simps upt_Suc)
qed

lemma tally_completes:
  "\<exists>s'. counter_task True flip_lib memory_server tally_host demo_config tally_job tally_state = Some (Inr (), s')"
proof -
  obtain s1 where 1: "counter_announce True tally_job tally_state = Some (Inr 8, s1)" using tally_announces by blast
  obtain x s2 where 2: "counter_construct flip_lib tally_host demo_config tally_job s1 = Some (Inr x, s2)" "kx_key x = felt_of_nat 2"
    using tally_constructs by blast
  obtain n s3 where 3: "counter_prove tally_host demo_config (cj_reference_block tally_job) x s2 = Some (Inr n, s3)"
    using tally_proves by blast
  obtain h s4 where 4: "counter_submit flip_lib tally_host demo_config x s3 = Some (Inr h, s4)" using tally_submits[OF 2(2)] by blast
  have "\<exists>s5. counter_verify memory_server tally_host demo_config sid h s4 = Some (Inr (), s5)" for sid
    by (simp add: counter_verify_def Let_def tally_run on_world_wait_def tally_wait update_session_with_def)
  then obtain s5 where 5: "counter_verify memory_server tally_host demo_config (cj_session_id tally_job) h s4 = Some (Inr (), s5)"
    by blast
  have "\<exists>v s6. counter_read_back tally_host demo_config c s5 = Some (Inr v, s6)" for c
    by (simp add: counter_read_back_def Let_def tally_run starknet_call_def rio_bind_apply tally_call tally_answers)
  then obtain v s6 where 6: "counter_read_back tally_host demo_config (cj_contract_address tally_job) s5 = Some (Inr v, s6)" by blast
  show ?thesis unfolding counter_task_def by (simp add: pio_bind_def 1 2(1) 3 4 5 6 emit_def)
qed

theorem counter_task_reference_block_witness:
  "\<exists>s' b. session_store memory_server \<and>
     counter_task True flip_lib memory_server tally_host demo_config tally_job tally_state = Some (Inr (), s') \<and>
     get_session memory_server ''a'' s' = tally_session\<lparr> se_last_reference_block := Some b \<rparr> \<and>
     get_session memory_server ''b'' s' = tally_session"
proof -
  obtain s' where r: "counter_task True flip_lib memory_server tally_host demo_config tally_job tally_state = Some (Inr (), s')"
    using tally_completes by blast
  have "cj_session_id tally_job = ''a''" "get_session memory_server sid tally_state = tally_session" for sid
    by (simp_all add: tally_job_def get_session_def memory_server_def tally_state_def)
  with counter_task_reference_block[OF memory.session_store_axioms r] r memory.session_store_axioms show ?thesis
    by auto
qed

theorem counter_sessions_isolated_witness:
  "\<exists>resp s' b. session_store memory_server \<and>
     counter_serve True flip_lib memory_server tally_host demo_config (ProveBlockReq ''a''
        \<lparr> pk_increment_amount = 4, pk_increments_per_block = 2 \<rparr>) tally_state = Some (resp, s') \<and>
     get_session memory_server ''a'' s' = tally_session\<lparr> se_last_reference_block := b \<rparr> \<and>
     get_session memory_server ''b'' s' = tally_session"
proof -
  let ?req = "ProveBlockReq ''a'' \<lparr> pk_increment_amount = 4, pk_increments_per_block = 2 \<rparr>"
  have get: "get_session memory_server sid tally_state = tally_session" for sid
    by (simp add: get_session_def memory_server_def tally_state_def)
  obtain s' where "counter_task True flip_lib memory_server tally_host demo_config tally_job tally_state = Some (Inr (), s')"
    using tally_completes by blast
  then have r: "counter_serve True flip_lib memory_server tally_host demo_config ?req tally_state =
      Some (ProveBlockResp (Inr tally_job), s')"
    by (simp add: counter_serve_def counter_prove_block_def Let_def get tally_session_def tally_job_def pio_bind_def)
  with counter_sessions_isolated[OF memory.session_store_axioms r, of "''b''"] memory.session_store_axioms
  show ?thesis by (auto simp: get)
qed

theorem counter_multicall_decodes_witness:
  "\<exists>x s1 s' calls. felt_library (al_felt flip_lib) \<and> counter_announce True tally_job tally_state = Some (Inr 8, s1) \<and>
     counter_construct flip_lib tally_host demo_config tally_job tally_state = Some (Inr x, s') \<and>
     decode_multicall (al_felt flip_lib) (kx_calldata x) = Some calls \<and> length calls = 2 \<and>
     8 = (\<Sum>(to, selector, args) \<leftarrow> calls. felt_to_biguint (al_felt flip_lib) (hd args))"
proof -
  have F: "felt_library (al_felt flip_lib)" by (simp add: flip_lib_simps stark_felt_library)
  obtain s1 where a: "counter_announce True tally_job tally_state = Some (Inr 8, s1)" using tally_announces by blast
  obtain x s' where c: "counter_construct flip_lib tally_host demo_config tally_job tally_state = Some (Inr x, s')"
    using tally_constructs by blast
  have "unat (cj_increments_per_block tally_job) = 2" by (simp add: tally_job_def)
  with counter_multicall_decodes[OF F a c] F a c show ?thesis by (auto simp: flip_lib_simps)
qed

end
