(* ===== verification/CoinFlip.thy ===== *)
theory CoinFlip
  imports AppHost
begin

text \<open>
  \<open>apps/coinflip\<close>: the state of the CoinFlip server and its handlers, except the play task. The
  deployments and the open bets are shared between handlers; a handler's effect on them is described
  by atomic steps, so that the safety of a bet holds for every interleaving of handlers.
\<close>

section \<open>\<open>state.rs\<close>\<close>

record deployment =
  dp_contract_address :: string
  dp_class_hash :: string
  dp_deploy_block :: u64

record persisted_deployments =
  pd_coinflip :: "deployment option"
  pd_bank :: "deployment option"

definition persisted_default :: persisted_deployments where
  "persisted_default = \<lparr> pd_coinflip = None, pd_bank = None \<rparr>"

record bet_commitment =
  bet_commitment_hash :: string
  bet_seed_block :: u64
  bet_player :: string
  bet_bet_amount :: "string option"
  bet_session_felt :: string

record 'w cf_app = "'w app" +
  cf_coinflip :: "deployment option"
  cf_bank :: "deployment option"
  cf_commitments :: "string \<rightharpoonup> bet_commitment"

text \<open>The derived serialisation of the deployments.\<close>

definition deployment_json :: "deployment \<Rightarrow> json" where
  "deployment_json d = JObj [(''contract_address'', JStr (dp_contract_address d)),
     (''class_hash'', JStr (dp_class_hash d)), (''deploy_block'', ju64 (dp_deploy_block d))]"

definition opt_deployment_json :: "deployment option \<Rightarrow> json" where
  "opt_deployment_json d = (case d of None \<Rightarrow> JNull | Some x \<Rightarrow> deployment_json x)"

definition persisted_json :: "persisted_deployments \<Rightarrow> json" where
  "persisted_json p = JObj [(''coinflip'', opt_deployment_json (pd_coinflip p)),
     (''bank'', opt_deployment_json (pd_bank p))]"

definition de_deployment :: "json \<Rightarrow> deployment option" where
  "de_deployment v = do {
     fs \<leftarrow> struct_fields [''contract_address'', ''class_hash'', ''deploy_block''] v;
     a \<leftarrow> Option.bind (fs ''contract_address'') as_str;
     c \<leftarrow> Option.bind (fs ''class_hash'') as_str;
     b \<leftarrow> Option.bind (fs ''deploy_block'') as_u64;
     Some \<lparr> dp_contract_address = a, dp_class_hash = c, dp_deploy_block = b \<rparr> }"

definition de_opt_deployment :: "json option \<Rightarrow> deployment option option" where
  "de_opt_deployment v =
     (case de_opt_value v of None \<Rightarrow> Some None | Some x \<Rightarrow> map_option Some (de_deployment x))"

definition de_persisted :: "json \<Rightarrow> persisted_deployments option" where
  "de_persisted v = do {
     fs \<leftarrow> struct_fields [''coinflip'', ''bank''] v;
     c \<leftarrow> de_opt_deployment (fs ''coinflip'');
     b \<leftarrow> de_opt_deployment (fs ''bank'');
     Some \<lparr> pd_coinflip = c, pd_bank = b \<rparr> }"

definition deployments_path :: "config \<Rightarrow> string" where
  "deployments_path config = path_join (output_dir config) ''deployments.json''"

definition load_deployments ::
  "('f, 're) app_lib \<Rightarrow> 'w host \<Rightarrow> config \<Rightarrow> ('w, persisted_deployments) io" where
  "load_deployments A H config w =
     (case ho_read_to_string H (deployments_path config) w of
        (Inr contents, w') \<Rightarrow> (unwrap_or persisted_default
            (Option.bind (result_ok (al_from_str A contents)) de_persisted), w')
      | (Inl _, w') \<Rightarrow> (persisted_default, w'))"

definition cf_new :: "('f, 're) app_lib \<Rightarrow> 'w host \<Rightarrow> config \<Rightarrow> 'w \<Rightarrow> 'w cf_app" where
  "cf_new A H config w =
     (case load_deployments A H config w of (persisted, w') \<Rightarrow>
        \<lparr> ap_world = w', ap_events = [], cf_coinflip = pd_coinflip persisted,
          cf_bank = pd_bank persisted, cf_commitments = Map.empty \<rparr>)"

definition save_deployments ::
  "('f, 're) app_lib \<Rightarrow> 'w host \<Rightarrow> config \<Rightarrow> ('w cf_app, 'e, unit) pio" where
  "save_deployments A H config s =
     (let persisted = \<lparr> pd_coinflip = cf_coinflip s, pd_bank = cf_bank s \<rparr>;
          (_, w1) = ho_create_dir_all H (output_dir config) (ap_world s);
          (_, w2) = ho_write H (deployments_path config) (al_pretty A (persisted_json persisted)) w1
      in Some (Inr (), s\<lparr> ap_world := w2 \<rparr>))"

section \<open>Helpers\<close>

definition parse_hex_pattern :: "string \<Rightarrow> string" where
  "parse_hex_pattern key = ''(?i)'' @ replace_char CHR ''_'' ''[_ ]'' key @ ''[:'' @ [CHR 0x5C] @ ''s]+'' @
     [CHR 0x5C] @ ''s*(0x[0-9a-fA-F]+)''"

definition parse_hex :: "('f, 're) app_lib \<Rightarrow> string \<Rightarrow> string \<Rightarrow> string option" where
  "parse_hex A key text = (case re_new (al_regex A) (parse_hex_pattern key) of
      None \<Rightarrow> None | Some re \<Rightarrow> al_capture1 A re text)"

record invoke_result =
  iv_output :: cmd_output
  iv_tx_hash :: "string option"
  iv_block_number :: "u64 option"

text \<open>One \<open>sncast invoke\<close>; the wait for its confirmation only adds the block number.\<close>

definition sncast_invoke ::
  "('f, 're) app_lib \<Rightarrow> 'w host \<Rightarrow> config \<Rightarrow> string \<Rightarrow> string \<Rightarrow> string \<Rightarrow>
     (('w, 'z) app_scheme, string, invoke_result) pio" where
  "sncast_invoke A H config contract function calldata =
     pio_bind (on_world_io (sncast_env_account H)) (\<lambda>account_name.
     pio_bind (on_world (ho_output H ''sncast'' [''--account'', account_name, ''invoke'', ''--url'', rpc_url config,
         ''--contract-address'', contract, ''--function'', function, ''--calldata'', calldata] None)) (\<lambda>out.
     let tx_hash = parse_hex A ''transaction_hash'' (combined_output out) in
     pio_bind (case tx_hash of
         None \<Rightarrow> pio_return (Inr None)
       | Some tx \<Rightarrow> pio_bind (pio_result (on_world_wait (wait_for_tx (ho_net H) (rpc_url config) tx 120 3)))
           (\<lambda>r. pio_return (Inr (case r of Inr receipt \<Rightarrow> receipt_block_number receipt | Inl _ \<Rightarrow> None)))) (\<lambda>bn.
       pio_return (Inr \<lparr> iv_output = out, iv_tx_hash = tx_hash, iv_block_number = bn \<rparr>))))"

section \<open>Status and deployment\<close>

definition coinflip_status :: "'w cf_app \<Rightarrow> bool \<times> string option" where
  "coinflip_status s = (case cf_coinflip s of
      Some d \<Rightarrow> (True, Some (dp_contract_address d)) | None \<Rightarrow> (False, None))"

definition declare_contract ::
  "('f, 're) app_lib \<Rightarrow> 'w host \<Rightarrow> config \<Rightarrow> string \<Rightarrow> string \<Rightarrow> (('w, 'z) app_scheme, http_error, string) pio" where
  "declare_contract A H config account_name name =
     pio_bind (pio_map_err (\<lambda>e. HttpError 500 [] (Text e)) (on_world (ho_output H ''sncast''
         [''--account'', account_name, ''declare'', ''--contract-name'', name, ''--url'', rpc_url config]
         (Some (contracts_dir config))))) (\<lambda>out.
     let combined = combined_output out in
     pio_bind (pio_return (ok_or (HttpError 500 (name @ '' declare failed: '') (Text combined))
         (extract_long_hex A combined))) (\<lambda>class_hash.
     pio_bind (case parse_hex A ''transaction_hash'' combined of
         Some tx \<Rightarrow> pio_bind (pio_result (on_world_wait (wait_for_tx (ho_net H) (rpc_url config) tx 120 3)))
           (\<lambda>_. pio_return (Inr ()))
       | None \<Rightarrow> pio_return (Inr ())) (\<lambda>_.
       pio_return (Inr class_hash))))"

text \<open>
  \<open>sncast deploy\<close>. The CoinFlip handler tests the exit status, the bank handler does not; the
  messages are theirs.
\<close>

definition deploy_contract ::
  "('f, 're) app_lib \<Rightarrow> 'w host \<Rightarrow> config \<Rightarrow> string \<Rightarrow> string \<Rightarrow> string list \<Rightarrow> bool \<Rightarrow> string \<Rightarrow> string \<Rightarrow> string \<Rightarrow>
     (('w, 'z) app_scheme, http_error, string \<times> u64) pio" where
  "deploy_contract A H config account_name class_hash constructor_args check_status failed no_address no_hash =
     pio_bind (on_world_io (ho_random16 H)) (\<lambda>bytes.
     let salt = ''0x'' @ hex_encode bytes in
     pio_bind (pio_map_err (\<lambda>e. HttpError 500 [] (Text e)) (on_world (ho_output H ''sncast''
         ([''--account'', account_name, ''deploy'', ''--class-hash'', class_hash] @ constructor_args @
          [''--salt'', salt, ''--url'', rpc_url config]) None))) (\<lambda>out.
     let combined = combined_output out in
     pio_bind (pio_return (if check_status \<and> \<not> out_success out
         then Inl (HttpError 500 failed (Text combined)) else Inr ())) (\<lambda>_.
     pio_bind (pio_return (ok_or (HttpError 500 no_address (Text combined))
         (parse_hex A ''contract_address'' combined))) (\<lambda>contract_address.
     pio_bind (pio_return (ok_or (HttpError 500 no_hash (Text combined))
         (parse_hex A ''transaction_hash'' combined))) (\<lambda>tx_hash.
     pio_bind (pio_map_err (\<lambda>e. HttpError 504 [] (Rpc_cause e))
         (on_world_wait (wait_for_tx (ho_net H) (rpc_url config) tx_hash 120 3))) (\<lambda>receipt.
       pio_return (Inr (contract_address, unwrap_or 0 (receipt_block_number receipt)))))))))"

definition set_coinflip :: "deployment \<Rightarrow> ('w cf_app, 'e, unit) pio" where
  "set_coinflip d s = Some (Inr (), s\<lparr> cf_coinflip := Some d \<rparr>)"

definition set_bank :: "deployment \<Rightarrow> ('w cf_app, 'e, unit) pio" where
  "set_bank d s = Some (Inr (), s\<lparr> cf_bank := Some d \<rparr>)"

definition deploy_coinflip ::
  "('f, 're) app_lib \<Rightarrow> 'w host \<Rightarrow> config \<Rightarrow> ('w cf_app, http_error, deployment) pio" where
  "deploy_coinflip A H config s = (case cf_coinflip s of
      Some d \<Rightarrow> Some (Inr d, s)
    | None \<Rightarrow>
       pio_bind (on_world_io (sncast_env_account H)) (\<lambda>account_name.
       pio_bind (declare_contract A H config account_name ''CoinFlip'') (\<lambda>class_hash.
       pio_bind (deploy_contract A H config account_name class_hash [] True ''CoinFlip deploy failed: ''
          ''No contract_address in deploy output: '' ''No transaction_hash in deploy output: '') (\<lambda>(address, block).
       let d = \<lparr> dp_contract_address = address, dp_class_hash = class_hash, dp_deploy_block = block \<rparr> in
       pio_bind (set_coinflip d) (\<lambda>_.
       pio_bind (save_deployments A H config) (\<lambda>_.
         pio_return (Inr d)))))) s)"

definition max_approval :: string where
  "max_approval = ''0xffffffffffffffffffffffffffffffff''"

definition fund_amount :: u128 where
  "fund_amount = 10 * 10 ^ 18"

definition deploy_bank ::
  "('f, 're) app_lib \<Rightarrow> 'w host \<Rightarrow> config \<Rightarrow> ('w cf_app, http_error, deployment) pio" where
  "deploy_bank A H config s = (case cf_bank s of
      Some d \<Rightarrow> Some (Inr d, s)
    | None \<Rightarrow>
       pio_bind (on_world_io (sncast_env_account H)) (\<lambda>account_name.
       pio_bind (declare_contract A H config account_name ''CoinFlipBank'') (\<lambda>class_hash.
       pio_bind (deploy_contract A H config account_name class_hash
          [''--constructor-calldata'', account_address config] False []
          ''CoinFlipBank deploy failed: '' ''No tx_hash in deploy output: '') (\<lambda>(address, block).
       pio_bind (pio_map_err (\<lambda>e. HttpError 500 [] (Text e)) (sncast_invoke A H config STRK_TOKEN ''approve''
          (address @ '' '' @ max_approval @ '' '' @ ''0x0''))) (\<lambda>_.
       pio_bind (pio_map_err (\<lambda>e. HttpError 500 [] (Text e)) (sncast_invoke A H config STRK_TOKEN ''transfer''
          (address @ '' '' @ fmt_hex (unat fund_amount) @ '' 0x0''))) (\<lambda>_.
       let d = \<lparr> dp_contract_address = address, dp_class_hash = class_hash, dp_deploy_block = block \<rparr> in
       pio_bind (set_bank d) (\<lambda>_.
       pio_bind (save_deployments A H config) (\<lambda>_.
         pio_return (Inr d)))))))) s)"

section \<open>A bet: commit, deposit, confirm\<close>

definition session_felt_of :: "string \<Rightarrow> string" where
  "session_felt_of session_id = ''0x'' @ remove_char CHR ''-'' session_id"

definition fresh_bet :: "string \<Rightarrow> string \<Rightarrow> string \<Rightarrow> bet_commitment" where
  "fresh_bet session_id commitment player = \<lparr> bet_commitment_hash = commitment, bet_seed_block = 0,
     bet_player = player, bet_bet_amount = None, bet_session_felt = session_felt_of session_id \<rparr>"

definition commit_bet ::
  "'w host \<Rightarrow> string \<Rightarrow> string \<Rightarrow> ('w cf_app, http_error, string \<times> u64) pio" where
  "commit_bet H commitment player =
     pio_bind (on_world_io (ho_uuid H)) (\<lambda>session_id s.
       Some (Inr (session_id, 0), s\<lparr> cf_commitments := (cf_commitments s)
         (session_id \<mapsto> fresh_bet session_id commitment player) \<rparr>))"

text \<open>
  A finite \<open>f64\<close> is a mantissa and an exponent; the product with \<open>1e18\<close>, which is itself exact, is rounded to
  53 bits, ties to even, and \<open>as u128\<close> truncates and saturates: an infinity is the end of the range on its
  side, and what is not a number is 0.
\<close>

datatype f64 = F64 int int | F64_inf | F64_neg_inf | F64_nan

fun bit_len :: "nat \<Rightarrow> nat" where
  "bit_len n = (if n = 0 then 0 else Suc (bit_len (n div 2)))"

declare bit_len.simps [simp del]

definition round53 :: "nat \<Rightarrow> nat" where
  "round53 n =
     (let k = bit_len n - 53; q = n div 2 ^ k; r = n mod 2 ^ k
      in (if 2 * r > 2 ^ k \<or> (2 * r = 2 ^ k \<and> odd q) then q + 1 else q) * 2 ^ k)"

fun wei_of_f64 :: "f64 \<Rightarrow> u128" where
  "wei_of_f64 (F64 m e) =
     (if m \<le> 0 then 0
      else let p = round53 (nat m * 10 ^ 18);
               v = (if 0 \<le> e then p * 2 ^ nat e else p div 2 ^ nat (- e))
           in word_of_nat (min v (2 ^ 128 - 1)))"
| "wei_of_f64 F64_inf = - 1"
| "wei_of_f64 F64_neg_inf = 0"
| "wei_of_f64 F64_nan = 0"

record deposit_info_response =
  di_bank_address :: string
  di_strk_address :: string
  di_session_felt :: string
  di_bet_amount_low :: string
  di_bet_amount_high :: string
  di_seed :: string
  di_bet :: string

definition update_bet :: "string \<Rightarrow> (bet_commitment \<Rightarrow> bet_commitment) \<Rightarrow> 'w cf_app \<Rightarrow> 'w cf_app" where
  "update_bet session_id f s = (case cf_commitments s session_id of
      None \<Rightarrow> s | Some c \<Rightarrow> s\<lparr> cf_commitments := (cf_commitments s)(session_id \<mapsto> f c) \<rparr>)"

definition deposit_info :: "string \<Rightarrow> f64 \<Rightarrow> ('w cf_app, http_error, deposit_info_response) pio" where
  "deposit_info session_id bet_amount s =
     (case cf_bank s of
        None \<Rightarrow> Some (Inl (HttpError 400 ''Bank not deployed'' NoCause), s)
      | Some bank \<Rightarrow> (case cf_commitments s session_id of
          None \<Rightarrow> Some (Inl (HttpError 400 ''No commitment for this session'' NoCause), s)
        | Some commitment \<Rightarrow>
            (let amount_low = fmt_hex (unat (wei_of_f64 bet_amount)) in
             Some (Inr \<lparr> di_bank_address = dp_contract_address bank, di_strk_address = STRK_TOKEN,
                 di_session_felt = bet_session_felt commitment, di_bet_amount_low = amount_low,
                 di_bet_amount_high = ''0x0'', di_seed = fmt_hex (unat (bet_seed_block commitment)),
                 di_bet = ''0x0'' \<rparr>,
               update_bet session_id (\<lambda>c. c\<lparr> bet_bet_amount := Some amount_low \<rparr>) s))))"

definition confirm_deposit ::
  "('f, 're) app_lib \<Rightarrow> 'w host \<Rightarrow> config \<Rightarrow> string \<Rightarrow> string \<Rightarrow> ('w cf_app, http_error, bool \<times> string) pio" where
  "confirm_deposit A H config session_id deposit_tx =
     pio_bind (pio_map_err (\<lambda>e. HttpError 504 ''Deposit tx not confirmed: '' (Rpc_cause e))
         (on_world_wait (wait_for_tx (ho_net H) (rpc_url config) deposit_tx 120 3))) (\<lambda>_.
     pio_bind (\<lambda>s. Some (ok_or (HttpError 400 ''Bank not deployed'' NoCause) (cf_bank s), s)) (\<lambda>bank.
     pio_bind (\<lambda>s. Some (ok_or (HttpError 400 ''No commitment for this session'' NoCause)
         (cf_commitments s session_id), s)) (\<lambda>commitment.
     pio_bind (pio_map_err (\<lambda>e. HttpError 500 [] (Text e)) (sncast_invoke A H config
         (dp_contract_address bank) ''match_deposit'' (bet_session_felt commitment))) (\<lambda>match_result.
     pio_bind (pio_return (ok_or (HttpError 500 ''Bank match: no tx hash in output'' NoCause)
         (iv_tx_hash match_result))) (\<lambda>match_tx.
     pio_bind (case iv_block_number match_result of
         Some bn \<Rightarrow> pio_return (Inr bn)
       | None \<Rightarrow> pio_bind (pio_result (on_world (block_number (ho_net H) (rpc_url config))))
           (\<lambda>r. pio_return (Inr (unwrap_or 0 (result_ok r))))) (\<lambda>confirmed_block s.
     let deploy_block = (case cf_coinflip s of Some d \<Rightarrow> dp_deploy_block d | None \<Rightarrow> 0);
         seed_block = max confirmed_block deploy_block
     in Some (Inr (True, match_tx),
          update_bet session_id (\<lambda>c. c\<lparr> bet_seed_block := seed_block \<rparr>) s)))))))"

section \<open>Balances\<close>

definition camel_balance_selector :: string where
  "camel_balance_selector = ''0x2e4263afad30923c891518314c3c95dbe830a16874e8abc5777a9a20b54c76e''"

definition get_balance_selector :: string where
  "get_balance_selector = ''0x39e11d48192e4333233c7eb19d10ad67c362bb28580c604d67884c85da39695''"

definition parse_u128_hex :: "string \<Rightarrow> u128 option" where
  "parse_u128_hex s = map_option word_of_nat (from_str_radix16 128 (trim_start_matches ''0x'' s))"

definition bank_status ::
  "('f, 're) app_lib \<Rightarrow> 'w host \<Rightarrow> config \<Rightarrow> ('w cf_app, 'e, bool \<times> string option \<times> string option) pio" where
  "bank_status A H config s = (case cf_bank s of
      None \<Rightarrow> Some (Inr (False, None, None), s)
    | Some d \<Rightarrow>
        pio_bind (pio_result (on_world (starknet_call (ho_net H) (rpc_url config) STRK_TOKEN
            camel_balance_selector [dp_contract_address d]))) (\<lambda>r.
          let bank_balance = (case r of Inr (low # _) \<Rightarrow> map_option (al_balance A) (parse_u128_hex low) | _ \<Rightarrow> None)
          in pio_return (Inr (True, Some (dp_contract_address d), bank_balance))) s)"

definition first_wei :: "string list \<Rightarrow> string \<times> u128" where
  "first_wei r = (let low = (case r of [] \<Rightarrow> ''0x0'' | x # _ \<Rightarrow> x) in (low, unwrap_or 0 (parse_u128_hex low)))"

definition player_balance ::
  "('f, 're) app_lib \<Rightarrow> 'w host \<Rightarrow> config \<Rightarrow> string \<Rightarrow> ('w cf_app, http_error, string \<times> string) pio" where
  "player_balance A H config address =
     pio_bind (pio_map_err (\<lambda>e. HttpError 500 ''balance_of failed: '' (Rpc_cause e)) (on_world
         (starknet_call (ho_net H) (rpc_url config) STRK_TOKEN camel_balance_selector [address]))) (\<lambda>r.
       pio_return (Inr (case first_wei r of (low, wei) \<Rightarrow> (al_balance A wei, low))))"

definition player_winnings ::
  "('f, 're) app_lib \<Rightarrow> 'w host \<Rightarrow> config \<Rightarrow> string \<Rightarrow> ('w cf_app, http_error, string \<times> string \<times> string) pio" where
  "player_winnings A H config address =
     pio_bind (\<lambda>s. Some (ok_or (HttpError 400 ''Bank not deployed'' NoCause) (cf_bank s), s)) (\<lambda>bank.
     pio_bind (pio_map_err (\<lambda>e. HttpError 500 ''get_balance failed: '' (Rpc_cause e)) (on_world
         (starknet_call (ho_net H) (rpc_url config) (dp_contract_address bank) get_balance_selector [address]))) (\<lambda>r.
       pio_return (Inr (case first_wei r of (low, wei) \<Rightarrow> (al_balance A wei, low, dp_contract_address bank)))))"

end
