(* ===== verification/CoinFlipPlay.thy ===== *)
theory CoinFlipPlay
  imports CoinFlip
begin

text \<open>
  \<open>play_coinflip\<close> of \<open>apps/coinflip/src/routes.rs\<close>: the reveal of a bet, and the task that builds, proves,
  submits and settles the game. The lines that the prover process prints are forwarded to the
  stream by separate tasks and are not part of the events here.
\<close>

section \<open>The reveal\<close>

definition PLAY_SELECTOR :: string where
  "PLAY_SELECTOR = ''0x21c4a0db2b08b026c4e31bf76d5dd9b92aa54c0978df57474355786073775e8''"

record play_query =
  pq_player :: string
  pq_bet :: u8
  pq_nonce :: string

record play_ticket =
  pt_session_id :: string
  pt_deployment :: deployment
  pt_player :: string
  pt_bet :: u8
  pt_seed_block :: u64

definition bet_commitment_of :: "('f, 're) app_lib \<Rightarrow> u8 \<Rightarrow> 'f \<Rightarrow> string" where
  "bet_commitment_of A bet nonce_felt =
     felt_lower_hex (al_felt A) (pedersen_hash (al_crypto A) (felt_from_u64 (al_felt A) (ucast bet)) nonce_felt)"

definition check_reveal ::
  "('f, 're) app_lib \<Rightarrow> bet_commitment \<Rightarrow> play_query \<Rightarrow> http_error + u8" where
  "check_reveal A commitment params =
     (let bet = min (pq_bet params) 1 in
      if pq_player params \<noteq> bet_player commitment
      then Inl (HttpError 400 ''Player address does not match commitment.'' NoCause)
      else and_then (map_err (\<lambda>e. HttpError 400 ''Invalid nonce: '' (Text e))
             (felt_from_hex_msg (al_felt A) (pq_nonce params))) (\<lambda>nonce_felt.
        let computed_hex = bet_commitment_of A bet nonce_felt in
        if computed_hex \<noteq> bet_commitment_hash commitment
        then Inl (HttpError 400 (''Commitment mismatch: pedersen('' @ dec_string (unat bet) @ '', nonce) = '' @
               computed_hex @ '', expected '' @ bet_commitment_hash commitment) NoCause)
        else Inr bet))"

text \<open>The commitment is removed before the reveal is checked.\<close>

definition play_coinflip ::
  "('f, 're) app_lib \<Rightarrow> string \<Rightarrow> play_query \<Rightarrow> ('w cf_app, http_error, play_ticket) pio" where
  "play_coinflip A session_id params s =
     (case cf_coinflip s of
        None \<Rightarrow> Some (Inl (HttpError 400
          ''CoinFlip contract not deployed. Call POST /api/coinflip/deploy first.'' NoCause), s)
      | Some deployment \<Rightarrow> (case cf_commitments s session_id of
          None \<Rightarrow> Some (Inl (HttpError 400
            ''No commitment found for this session. Call POST /api/coinflip/commit first.'' NoCause), s)
        | Some commitment \<Rightarrow> Some (and_then (check_reveal A commitment params) (\<lambda>bet. Inr \<lparr>
              pt_session_id = session_id, pt_deployment = deployment, pt_player = pq_player params,
              pt_bet = bet, pt_seed_block = bet_seed_block commitment \<rparr>),
            s\<lparr> cf_commitments := (cf_commitments s)(session_id := None) \<rparr>)))"

section \<open>Constructing the transaction\<close>

record 'f play_tx =
  px_seed :: string
  px_calldata :: "'f list"
  px_sender :: 'f
  px_key :: 'f
  px_chain_id :: 'f
  px_nonce :: u64
  px_tx_path :: string
  px_proof_path :: string

definition side :: "u8 \<Rightarrow> string" where
  "side bet = (if bet = 0 then ''heads'' else ''tails'')"

definition play_calldata :: "play_ticket \<Rightarrow> string list" where
  "play_calldata t = [''0x1'', dp_contract_address (pt_deployment t), PLAY_SELECTOR, ''0x3'',
     fmt_hex (unat (pt_seed_block t)), pt_player t, fmt_hex (unat (pt_bet t))]"

definition announce_play :: "play_ticket \<Rightarrow> (('w, 'z) app_scheme, task_end, unit) pio" where
  "announce_play t =
     (case str_prefix (pt_player t) (min (length (pt_player t)) 18) of
        None \<Rightarrow> pio_return (Inl (TaskPanic ''byte index 18 is not a char boundary''))
      | Some p \<Rightarrow> emit (Log (''CoinFlip: player='' @ p @ '' bet='' @ dec_string (unat (pt_bet t)) @
            '' ('' @ side (pt_bet t) @ '')'') NoCause))"

definition play_construct ::
  "('f, 're) app_lib \<Rightarrow> 'w host \<Rightarrow> config \<Rightarrow> play_ticket \<Rightarrow> (('w, 'z) app_scheme, task_end, 'f play_tx) pio" where
  "play_construct A H config t =
     (let F = al_felt A; seed = fmt_hex (unat (pt_seed_block t)) in
      pio_bind (emit (Phase ''constructing'')) (\<lambda>_.
      pio_bind (task_try ''Failed to parse calldata: '' Text (pio_return (parse_felts F (play_calldata t)))) (\<lambda>calldata_felts.
      pio_bind (task_try ''Invalid sender address: '' Text
          (pio_return (felt_from_hex_msg F (account_address config)))) (\<lambda>sender_felt.
      pio_bind (task_try ''Invalid private key: '' Text
          (pio_return (felt_from_hex_msg F (private_key config)))) (\<lambda>private_key_felt.
      pio_bind (task_try ''Invalid chain_id: '' Config_cause (pio_return (config_chain_id_felt F config))) (\<lambda>chain_id_f.
      pio_bind (task_try ''Failed to get nonce: '' Rpc_cause (on_world (get_nonce_at_block (ho_net H) (rpc_url config)
          (account_address config) (JObj [(''block_number'', ju64 (pt_seed_block t))])))) (\<lambda>nonce.
      let standard_tx_hash = compute_invoke_v3_tx_hash F (al_crypto A) sender_felt calldata_felts chain_id_f
            (felt_from_u64 F nonce) (felt_ZERO F) zero_fee [] [] 0 0 [] in
      pio_bind (task_try ''Signing failed: '' Sign_cause
          (pio_return (sign (al_crypto A) private_key_felt standard_tx_hash))) (\<lambda>sig.
      let tx_json = web_tx_json F (account_address config) (play_calldata t) nonce zero_fee sig;
          dir = path_join (output_dir config) ''coinflip'';
          tx_path = path_join dir (pt_session_id t @ ''_tx.json'') in
      pio_bind (pio_result (on_world (ho_create_dir_all H dir))) (\<lambda>_.
      pio_bind (task_try ''Failed to write tx JSON: '' Text (on_world (ho_write H tx_path (al_pretty A tx_json)))) (\<lambda>_.
      pio_bind (emit (Log (''Transaction constructed (nonce: '' @ dec_string (unat nonce) @ '', seed: '' @ seed @ '')'') NoCause)) (\<lambda>_.
        pio_return (Inr \<lparr> px_seed = seed, px_calldata = calldata_felts, px_sender = sender_felt,
          px_key = private_key_felt, px_chain_id = chain_id_f, px_nonce = nonce, px_tx_path = tx_path,
          px_proof_path = path_join dir (pt_session_id t @ ''.proof'') \<rparr>))))))))))))"

section \<open>Proving\<close>

definition prover_url_args :: "string option \<Rightarrow> string list" where
  "prover_url_args url = (case url of
      Some u \<Rightarrow> if u = [] then [] else [''--prover-url'', u] | None \<Rightarrow> [])"

definition play_prove ::
  "'w host \<Rightarrow> config \<Rightarrow> u64 \<Rightarrow> 'f play_tx \<Rightarrow> (('w, 'z) app_scheme, task_end, u64) pio" where
  "play_prove H config reference_block x =
     pio_bind (emit (Phase ''proving'')) (\<lambda>_.
     pio_bind (emit (Log (''Proving against block '' @ dec_string (unat reference_block) @ ''...'') NoCause)) (\<lambda>_.
     pio_bind (on_world_io (ho_snip36_bin H)) (\<lambda>bin.
     pio_bind (on_world_io (ho_env H ''PROVER_URL'')) (\<lambda>url.
     pio_bind (task_try (''Failed to spawn prover ('' @ bin @ ''): '') Text (on_world (ho_spawn H bin
         (prove_args config reference_block (px_tx_path x) (px_proof_path x) @ prover_url_args url)))) (\<lambda>child.
     pio_bind (pio_result (on_world (ho_wait H child))) (\<lambda>status.
     if status \<noteq> Inr True then give_up ''Proof generation failed'' NoCause
     else
       pio_bind (pio_result (on_world (ho_len H (px_proof_path x)))) (\<lambda>len.
       let proof_size = unwrap_or 0 (result_ok len) in
       pio_bind (emit (Log (''Proof generated ('' @ dec_string (unat proof_size) @ '' bytes)'') NoCause)) (\<lambda>_.
         pio_return (Inr proof_size)))))))))"

text \<open>
  The process has its output piped into two tasks, which send its lines as log events until the output
  is closed. Nobody awaits them, so the stream of the client is the task's own events with the lines of
  the two outputs anywhere after the proving phase has begun, after the task's last event too.
\<close>

definition forward_lines :: "string list \<Rightarrow> sse_event list" where
  "forward_lines lines = map (\<lambda>line. Log line NoCause) lines"

definition play_streams :: "sse_event list \<Rightarrow> string list \<Rightarrow> string list \<Rightarrow> sse_event list set" where
  "play_streams own stdout stderr = (case dropWhile (\<lambda>e. e \<noteq> Phase ''proving'') own of
      [] \<Rightarrow> {own}
    | p # after \<Rightarrow> (\<Union>fw \<in> shuffles (forward_lines stdout) (forward_lines stderr).
        (\<lambda>m. takeWhile (\<lambda>e. e \<noteq> Phase ''proving'') own @ p # m) ` shuffles after fw))"

text \<open>The settlement message: player, seed, bet, outcome, won.\<close>

definition settlement_of :: "json \<Rightarrow> (string \<times> bool) option" where
  "settlement_of msg_json =
     (case get_array ''l2_to_l1_messages'' msg_json of
        Some (first # _) \<Rightarrow>
          (case get_array ''payload'' first of
             Some payload \<Rightarrow>
               (let fields = str_elements payload in
                if length fields \<ge> 5
                then Some (if fields ! 3 = ''0x0'' then ''heads'' else ''tails'', fields ! 4 = ''0x1'')
                else None)
           | None \<Rightarrow> None)
      | _ \<Rightarrow> None)"

definition read_settlement ::
  "('f, 're) app_lib \<Rightarrow> 'w host \<Rightarrow> string \<Rightarrow> (('w, 'z) app_scheme, task_end, string \<times> bool) pio" where
  "read_settlement A H proof_path =
     (let messages_file = with_extension proof_path ''raw_messages.json'' in
      pio_bind (on_world_io (ho_exists H messages_file)) (\<lambda>ex.
      if \<not> ex then pio_return (Inr ([], False))
      else pio_bind (pio_result (on_world (ho_read_to_string H messages_file))) (\<lambda>r.
        case Option.bind (result_ok r) (\<lambda>text. Option.bind (result_ok (al_from_str A text)) settlement_of) of
          None \<Rightarrow> pio_return (Inr ([], False))
        | Some (outcome_label, won) \<Rightarrow>
            pio_bind (emit (Log (''Settlement: outcome='' @ outcome_label @ '' won='' @
                (if won then ''true'' else ''false'')) NoCause)) (\<lambda>_.
              pio_return (Inr (outcome_label, won))))))"

section \<open>Submitting\<close>

definition read_submission ::
  "('f, 're) app_lib \<Rightarrow> 'w host \<Rightarrow> 'f play_tx \<Rightarrow> (('w, 'z) app_scheme, task_end, 'f submit_params) pio" where
  "read_submission A H x =
     pio_bind (read_proof A H (px_proof_path x)) (\<lambda>(proof_b64, proof_facts).
       pio_return (Inr \<lparr> sp_sender_address = px_sender x, sp_private_key = px_key x, sp_calldata = px_calldata x,
         sp_proof_base64 = proof_b64, sp_proof_facts = proof_facts,
         sp_nonce = felt_from_u64 (al_felt A) (px_nonce x), sp_chain_id = px_chain_id x,
         sp_resource_bounds = resource_bounds_default \<rparr>))"

definition submit_url :: "config \<Rightarrow> string" where
  "submit_url config = trim_end_matches ''/'' (unwrap_or [] (gateway_url config)) @ ''/gateway/add_transaction''"

fun gateway_attempts ::
  "'w host \<Rightarrow> string \<Rightarrow> json \<Rightarrow> nat list \<Rightarrow> (('w, 'z) app_scheme, task_end, bool) pio" where
  "gateway_attempts H url payload [] = pio_return (Inr False)"
| "gateway_attempts H url payload (attempt # rest) =
     pio_bind (task_try ''Request failed: '' Text (on_world (http_send (ho_net H) url payload))) (\<lambda>resp.
     pio_bind (task_try ''Failed to read response: '' Text (pio_return (resp_json resp))) (\<lambda>body.
     let code = unwrap_or [] (get_str ''code'' body); msg = unwrap_or [] (get_str ''message'' body) in
     if code = ''TRANSACTION_RECEIVED'' then
       pio_bind (emit (Log (''Accepted '' @ attempt_text attempt) NoCause)) (\<lambda>_. pio_return (Inr True))
     else if (str_contains ''too recent'' msg \<or> str_contains ''stored block hash: 0'' msg) \<and> attempt < max_attempts then
       pio_bind (emit (Log (''Not ready '' @ attempt_text attempt @ '', waiting 10s...'') NoCause)) (\<lambda>_.
       pio_bind (on_world_io (sleep (ho_net H) (from_secs 10))) (\<lambda>_.
         gateway_attempts H url payload rest))
     else give_up ''Rejected: '' (Body body)))"

definition play_submit ::
  "('f, 're) app_lib \<Rightarrow> 'w host \<Rightarrow> config \<Rightarrow> 'f play_tx \<Rightarrow> (('w, 'z) app_scheme, task_end, string) pio" where
  "play_submit A H config x =
     pio_bind (emit (Phase ''submitting'')) (\<lambda>_.
     pio_bind (read_submission A H x) (\<lambda>params.
     pio_bind (task_try ''SNIP-36 signing failed: '' Sign_cause
         (pio_return (sign_and_build_payload (al_felt A) (al_crypto A) params))) (\<lambda>(gw_tx_hash, payload).
     let gw_tx_hash_hex = felt_lower_hex (al_felt A) gw_tx_hash in
     pio_bind (emit (Log (''Submitting tx '' @ get_prefix18 gw_tx_hash_hex @ ''...'') NoCause)) (\<lambda>_.
     pio_bind (gateway_attempts H (submit_url config) payload [1..<Suc max_attempts]) (\<lambda>accepted.
     if \<not> accepted then give_up ''Not accepted after all retries'' NoCause
     else pio_return (Inr gw_tx_hash_hex))))))"

section \<open>Inclusion, settlement and result\<close>

definition play_verify ::
  "'w host \<Rightarrow> config \<Rightarrow> string \<Rightarrow> (('w, 'z) app_scheme, task_end, unit) pio" where
  "play_verify H config gw_tx_hash_hex =
     pio_bind (emit (Phase ''verifying'')) (\<lambda>_.
     pio_bind (emit (Log ''Waiting for tx inclusion...'' NoCause)) (\<lambda>_.
     pio_bind (task_try ''Tx not confirmed: '' Rpc_cause
         (on_world_wait (wait_for_tx (ho_net H) (rpc_url config) gw_tx_hash_hex 180 5))) (\<lambda>receipt.
       emit (Log (''Tx included in block '' @ dec_string (unat (unwrap_or 0 (receipt_block_number receipt)))) NoCause))))"

definition play_settle ::
  "('f, 're) app_lib \<Rightarrow> 'w host \<Rightarrow> config \<Rightarrow> string \<Rightarrow> string \<Rightarrow> ('w cf_app, task_end, string) pio" where
  "play_settle A H config session_id seed s = (case cf_bank s of
      None \<Rightarrow> Some (Inr [], s)
    | Some bank \<Rightarrow>
        pio_bind (emit (Phase ''settling'')) (\<lambda>_.
        pio_bind (emit (Log ''Settling on-chain...'' NoCause)) (\<lambda>_.
        pio_bind (pio_result (sncast_invoke A H config (dp_contract_address bank) ''settle''
            (session_felt_of session_id @ '' '' @ seed))) (\<lambda>r.
        case r of
          Inl e \<Rightarrow> pio_bind (emit (Log ''Settlement failed (non-critical): '' (Text e))) (\<lambda>_. pio_return (Inr []))
        | Inr result \<Rightarrow> (case iv_tx_hash result of
            Some tx \<Rightarrow>
              pio_bind (emit (Log (''Settlement tx: '' @ get_prefix18 tx) NoCause)) (\<lambda>_.
              pio_bind (emit (Log ''Settlement confirmed'' NoCause)) (\<lambda>_. pio_return (Inr tx)))
          | None \<Rightarrow> pio_bind (emit (Log ''Settlement: no tx hash in output'' NoCause)) (\<lambda>_. pio_return (Inr [])))))) s)"

definition play_result :: "play_ticket \<Rightarrow> string \<Rightarrow> bool \<Rightarrow> string \<Rightarrow> string \<Rightarrow> u64 \<Rightarrow> string \<Rightarrow> json" where
  "play_result t outcome_label won gw_tx settle_tx proof_size seed = JObj
     [(''outcome'', JStr outcome_label), (''bet'', JStr (side (pt_bet t))), (''won'', JBool won),
      (''tx_hash'', JStr gw_tx), (''settle_tx_hash'', JStr settle_tx), (''proof_size'', ju64 proof_size),
      (''seed'', JStr seed), (''player'', JStr (pt_player t))]"

definition play_task ::
  "('f, 're) app_lib \<Rightarrow> 'w host \<Rightarrow> config \<Rightarrow> play_ticket \<Rightarrow> ('w cf_app, task_end, unit) pio" where
  "play_task A H config t =
     pio_bind (announce_play t) (\<lambda>_.
     pio_bind (play_construct A H config t) (\<lambda>x.
     pio_bind (play_prove H config (pt_seed_block t) x) (\<lambda>proof_size.
     pio_bind (read_settlement A H (px_proof_path x)) (\<lambda>(outcome_label, won).
     pio_bind (play_submit A H config x) (\<lambda>gw_tx_hash_hex.
     pio_bind (play_verify H config gw_tx_hash_hex) (\<lambda>_.
     pio_bind (play_settle A H config (pt_session_id t) (px_seed x)) (\<lambda>settle_tx_hash_hex.
       emit (ResultEvent (play_result t outcome_label won gw_tx_hash_hex settle_tx_hash_hex proof_size (px_seed x))))))))))"

end
