(* ===== verification/CoinFlipSafety.thy ===== *)
theory CoinFlipSafety
  imports CoinFlipPlay AppTask
begin

text \<open>
  What the CoinFlip server guarantees. Its shared state (the two deployments and the table of open
  bets) changes by the atomic steps of a commitment protocol; every route of the server is one such
  step or leaves the shared state alone, and the protocol is safe for every interleaving.
\<close>

section \<open>Saving and loading\<close>

lemma de_deployment_json [simp]: "de_deployment (deployment_json d) = Some d"
  by (simp add: de_deployment_def deployment_json_def struct_fields_def)

lemma deployment_json_not_null [simp]: "deployment_json d \<noteq> JNull"
  by (simp add: deployment_json_def)

lemma de_opt_deployment_json [simp]: "de_opt_deployment (Some (opt_deployment_json d)) = Some d"
  by (cases d) (auto simp: de_opt_deployment_def opt_deployment_json_def de_opt_value_def)

lemma de_persisted_json [simp]: "de_persisted (persisted_json p) = Some p"
  by (simp add: de_persisted_def persisted_json_def struct_fields_def)

text \<open>The documented behaviour of the JSON printer and of a file that can be written.\<close>

definition json_text_law :: "('f, 're) app_lib \<Rightarrow> bool" where
  "json_text_law A \<longleftrightarrow> (\<forall>v. al_from_str A (al_pretty A v) = Inr v)"

definition written_file_law :: "'w host \<Rightarrow> bool" where
  "written_file_law H \<longleftrightarrow> (\<forall>path text w w'. ho_write H path text w = (Inr (), w') \<longrightarrow>
     fst (ho_read_to_string H path w') = Inr text)"

lemma save_then_load:
  assumes "json_text_law A" and "written_file_law H"
    and "save_deployments A H config s = Some (r, s')"
    and "\<forall>text w. \<exists>w'. ho_write H (deployments_path config) text w = (Inr (), w')"
  shows "fst (load_deployments A H config (ap_world s')) = \<lparr> pd_coinflip = cf_coinflip s, pd_bank = cf_bank s \<rparr>"
proof -
  let ?p = "\<lparr> pd_coinflip = cf_coinflip s, pd_bank = cf_bank s \<rparr>"
  obtain x w1 where d: "ho_create_dir_all H (output_dir config) (ap_world s) = (x, w1)" by fastforce
  obtain w2 where w: "ho_write H (deployments_path config) (al_pretty A (persisted_json ?p)) w1 = (Inr (), w2)"
    using assms(4) by blast
  have "ap_world s' = w2" using assms(3) d w by (auto simp: save_deployments_def)
  moreover have "fst (ho_read_to_string H (deployments_path config) w2) = Inr (al_pretty A (persisted_json ?p))"
    using assms(2) w unfolding written_file_law_def by blast
  ultimately show ?thesis
    using assms(1) by (auto simp: load_deployments_def json_text_law_def split: prod.splits)
qed

section \<open>Steps\<close>

record cf_shared =
  sh_coinflip :: "deployment option"
  sh_bank :: "deployment option"
  sh_commitments :: "string \<rightharpoonup> bet_commitment"

definition shared :: "'w cf_app \<Rightarrow> cf_shared" where
  "shared s = \<lparr> sh_coinflip = cf_coinflip s, sh_bank = cf_bank s, sh_commitments = cf_commitments s \<rparr>"

datatype cf_label =
    Committed string bet_commitment
  | AmountSet string string
  | SeedLocked string u64
  | Taken string bet_commitment
  | CoinflipDeployed deployment
  | BankDeployed deployment

inductive cf_step :: "cf_shared \<Rightarrow> cf_label \<Rightarrow> cf_shared \<Rightarrow> bool" where
  commit: "cf_step sh (Committed sid (fresh_bet sid h p))
     (sh\<lparr> sh_commitments := (sh_commitments sh)(sid \<mapsto> fresh_bet sid h p) \<rparr>)"
| amount: "sh_commitments sh sid = Some c \<Longrightarrow> cf_step sh (AmountSet sid a)
     (sh\<lparr> sh_commitments := (sh_commitments sh)(sid \<mapsto> c\<lparr> bet_bet_amount := Some a \<rparr>) \<rparr>)"
| lock: "sh_commitments sh sid = Some c \<Longrightarrow> cf_step sh (SeedLocked sid b)
     (sh\<lparr> sh_commitments := (sh_commitments sh)(sid \<mapsto> c\<lparr> bet_seed_block := b \<rparr>) \<rparr>)"
| take_bet: "sh_commitments sh sid = Some c \<Longrightarrow> sh_coinflip sh \<noteq> None \<Longrightarrow> cf_step sh (Taken sid c)
     (sh\<lparr> sh_commitments := (sh_commitments sh)(sid := None) \<rparr>)"
| deploy: "cf_step sh (CoinflipDeployed d) (sh\<lparr> sh_coinflip := Some d \<rparr>)"
| deploy_the_bank: "cf_step sh (BankDeployed d) (sh\<lparr> sh_bank := Some d \<rparr>)"

inductive cf_trace :: "cf_shared \<Rightarrow> cf_label list \<Rightarrow> cf_shared \<Rightarrow> bool" where
  start: "cf_trace sh [] sh"
| next_step: "cf_trace sh ls sh1 \<Longrightarrow> cf_step sh1 l sh2 \<Longrightarrow> cf_trace sh (ls @ [l]) sh2"

inductive_cases cf_step_commitE: "cf_step sh (Committed sid c) sh'"
inductive_cases cf_step_amountE: "cf_step sh (AmountSet sid a) sh'"
inductive_cases cf_step_lockE: "cf_step sh (SeedLocked sid b) sh'"
inductive_cases cf_step_takeE: "cf_step sh (Taken sid c) sh'"
inductive_cases cf_step_deployE: "cf_step sh (CoinflipDeployed d) sh'"
inductive_cases cf_step_bankE: "cf_step sh (BankDeployed d) sh'"
inductive_cases cf_trace_snocE: "cf_trace sh (ls @ [l]) sh'"

definition committed_ids :: "cf_label list \<Rightarrow> string list" where
  "committed_ids ls = concat (map (\<lambda>l. case l of Committed sid c \<Rightarrow> [sid] | _ \<Rightarrow> []) ls)"

definition taken_ids :: "cf_label list \<Rightarrow> string list" where
  "taken_ids ls = concat (map (\<lambda>l. case l of Taken sid c \<Rightarrow> [sid] | _ \<Rightarrow> []) ls)"

lemma ids_snoc [simp]:
  "committed_ids [] = []" "taken_ids [] = []"
  "committed_ids (ls @ [l]) = committed_ids ls @ (case l of Committed sid c \<Rightarrow> [sid] | _ \<Rightarrow> [])"
  "taken_ids (ls @ [l]) = taken_ids ls @ (case l of Taken sid c \<Rightarrow> [sid] | _ \<Rightarrow> [])"
  by (simp_all add: committed_ids_def taken_ids_def)

text \<open>An open bet is the bet of its commit step, with a seed that is still unset or was locked.\<close>

definition explained :: "cf_label list \<Rightarrow> string \<Rightarrow> bet_commitment \<Rightarrow> bool" where
  "explained ls sid c \<longleftrightarrow> (\<exists>h p. Committed sid (fresh_bet sid h p) \<in> set ls \<and> bet_commitment_hash c = h \<and>
     bet_player c = p \<and> bet_session_felt c = session_felt_of sid) \<and>
     (bet_seed_block c = 0 \<or> SeedLocked sid (bet_seed_block c) \<in> set ls)"

definition cf_inv :: "cf_label list \<Rightarrow> cf_shared \<Rightarrow> bool" where
  "cf_inv ls sh \<longleftrightarrow> (\<forall>sid c. sh_commitments sh sid = Some c \<longrightarrow> explained ls sid c) \<and>
     distinct (taken_ids ls) \<and> set (taken_ids ls) \<subseteq> set (committed_ids ls) \<and>
     (\<forall>sid c. sh_commitments sh sid = Some c \<longrightarrow> sid \<in> set (committed_ids ls) - set (taken_ids ls)) \<and>
     (\<forall>pre sid c post. ls = pre @ Taken sid c # post \<longrightarrow> explained pre sid c)"

lemma explained_mono: "explained ls sid c \<Longrightarrow> explained (ls @ ls') sid c"
  by (auto simp: explained_def)

lemma taken_snoc_cases:
  "ls @ [l] = pre @ Taken sid c # post \<longleftrightarrow>
     (\<exists>post'. ls = pre @ Taken sid c # post' \<and> post = post' @ [l]) \<or> (pre = ls \<and> l = Taken sid c \<and> post = [])"
  by (cases post rule: rev_cases) auto

lemma cf_inv_step:
  assumes inv: "cf_inv ls sh" and step: "cf_step sh l sh'" and d: "distinct (committed_ids (ls @ [l]))"
  shows "cf_inv (ls @ [l]) sh'"
proof -
  have old: "\<And>sid c. sh_commitments sh sid = Some c \<Longrightarrow> explained (ls @ [l]) sid c"
    using inv explained_mono unfolding cf_inv_def by blast
  show ?thesis
    using step
  proof cases
    case (commit sid h p)
    have "explained (ls @ [l]) sid (fresh_bet sid h p)" unfolding explained_def commit by (auto simp: fresh_bet_def)
    then show ?thesis using inv old d commit
      unfolding cf_inv_def by (auto simp: taken_snoc_cases split: if_splits)
  next
    case (amount sid c a)
    have "explained (ls @ [l]) sid (c\<lparr> bet_bet_amount := Some a \<rparr>)"
      using old[OF amount(3)] unfolding explained_def by simp
    then show ?thesis using inv old d amount
      unfolding cf_inv_def by (auto simp: taken_snoc_cases split: if_splits)
  next
    case (lock sid c b)
    have "explained (ls @ [l]) sid (c\<lparr> bet_seed_block := b \<rparr>)"
      using old[OF lock(3)] unfolding explained_def lock(1) by auto
    then show ?thesis using inv old d lock
      unfolding cf_inv_def by (auto simp: taken_snoc_cases split: if_splits)
  next
    case (take_bet sid c)
    then show ?thesis using inv old d
      unfolding cf_inv_def by (auto simp: taken_snoc_cases split: if_splits)
  next
    case (deploy d)
    then show ?thesis using inv old d unfolding cf_inv_def by (auto simp: taken_snoc_cases)
  next
    case (deploy_the_bank d)
    then show ?thesis using inv old d unfolding cf_inv_def by (auto simp: taken_snoc_cases)
  qed
qed

lemma cf_trace_inv:
  assumes "cf_trace sh0 ls sh" and "sh_commitments sh0 = Map.empty" and "distinct (committed_ids ls)"
  shows "cf_inv ls sh"
  using assms
proof (induction rule: cf_trace.induct)
  case (start sh)
  then show ?case by (simp add: cf_inv_def)
next
  case (next_step sh ls sh1 l sh2)
  then show ?case using cf_inv_step by simp
qed

section \<open>Handlers as steps\<close>

definition keeps_shared :: "('w cf_app, 'e, 'a) pio \<Rightarrow> bool" where
  "keeps_shared m \<longleftrightarrow> (\<forall>s r s'. m s = Some (r, s') \<longrightarrow> shared s' = shared s)"

lemma keeps_shared_bind [intro]:
  "keeps_shared m \<Longrightarrow> (\<And>x. keeps_shared (k x)) \<Longrightarrow> keeps_shared (pio_bind m k)"
  unfolding keeps_shared_def pio_bind_def by (auto split: option.splits sum.splits prod.splits)

lemma keeps_shared_basic [simp, intro]:
  "keeps_shared (pio_return r)" "keeps_shared (emit ev)" "keeps_shared (on_world m)"
  "keeps_shared (on_world_io n)" "keeps_shared (on_world_wait q)"
  by (auto simp: keeps_shared_def emit_def on_world_def on_world_io_def on_world_wait_def shared_def
      split: prod.splits option.splits)

lemma keeps_shared_result [intro]: "keeps_shared m \<Longrightarrow> keeps_shared (pio_result m)"
  by (auto simp: keeps_shared_def pio_result_def split: option.splits)

lemma keeps_shared_map_err [intro]: "keeps_shared m \<Longrightarrow> keeps_shared (pio_map_err f m)"
  by (auto simp: keeps_shared_def pio_map_err_def split: option.splits)

lemma keeps_shared_give_up [simp, intro]: "keeps_shared (give_up msg c)"
  unfolding give_up_def by auto

lemma keeps_shared_task_try [intro]: "keeps_shared m \<Longrightarrow> keeps_shared (task_try msg f m)"
  unfolding task_try_def by (rule keeps_shared_bind) (auto split: sum.split)

lemma keeps_shared_reader [simp, intro]: "keeps_shared (\<lambda>s. Some (f s, s))"
  by (simp add: keeps_shared_def)

lemma keeps_shared_case:
  "(\<And>d. keeps_shared (m d)) \<Longrightarrow> keeps_shared (\<lambda>s. case g s of None \<Rightarrow> Some (r, s) | Some d \<Rightarrow> m d s)"
  by (auto simp: keeps_shared_def split: option.splits)

lemma keeps_shared_sncast [simp, intro]: "keeps_shared (sncast_invoke A H config c f d)"
  unfolding sncast_invoke_def Let_def by (intro keeps_shared_bind) (auto split: option.split)

lemma keeps_shared_declare [simp, intro]: "keeps_shared (declare_contract A H config a n)"
  unfolding declare_contract_def Let_def by (intro keeps_shared_bind) (auto split: option.split)

lemma keeps_shared_deploy [simp, intro]: "keeps_shared (deploy_contract A H config a c k b m1 m2 m3)"
  unfolding deploy_contract_def Let_def by (intro keeps_shared_bind) auto

lemma keeps_shared_save [simp, intro]: "keeps_shared (save_deployments A H config)"
  by (auto simp: keeps_shared_def save_deployments_def shared_def Let_def split: prod.splits)

lemma keeps_shared_balances [simp, intro]:
  "keeps_shared (bank_status A H config)" "keeps_shared (player_balance A H config a)"
  "keeps_shared (player_winnings A H config a)"
proof -
  show "keeps_shared (player_balance A H config a)" unfolding player_balance_def by auto
  show "keeps_shared (player_winnings A H config a)"
    unfolding player_winnings_def by (rule keeps_shared_bind, rule keeps_shared_reader) auto
  show "keeps_shared (bank_status A H config)"
    unfolding bank_status_def[abs_def] Let_def by (rule keeps_shared_case) auto
qed

lemma keeps_sharedD: "keeps_shared m \<Longrightarrow> m s = Some (r, s') \<Longrightarrow> shared s' = shared s"
  by (simp add: keeps_shared_def)

lemma update_bet_shared:
  "shared (update_bet sid f s) = (case cf_commitments s sid of None \<Rightarrow> shared s
     | Some c \<Rightarrow> (shared s)\<lparr> sh_commitments := (sh_commitments (shared s))(sid \<mapsto> f c) \<rparr>)"
  by (simp add: update_bet_def shared_def split: option.split)

text \<open>A handler changes the shared state by at most one step, which its answer determines.\<close>

definition one_step :: "('e + 'a \<Rightarrow> cf_label \<Rightarrow> bool) \<Rightarrow> ('w cf_app, 'e, 'a) pio \<Rightarrow> bool" where
  "one_step P m \<longleftrightarrow> (\<forall>s r s'. m s = Some (r, s') \<longrightarrow>
     (\<exists>l. P r l \<and> cf_step (shared s) l (shared s')) \<or> shared s' = shared s)"

lemma one_step_bind: "keeps_shared m \<Longrightarrow> (\<And>x. one_step P (k x)) \<Longrightarrow> one_step P (pio_bind m k)"
  unfolding one_step_def keeps_shared_def pio_bind_def by (fastforce split: option.splits sum.splits)

lemma one_step_by:
  assumes "\<And>s r s'. m s = Some (r, s') \<Longrightarrow> \<exists>l. P r l \<and> cf_step (shared s) l (shared s')"
  shows "one_step P m"
  unfolding one_step_def using assms by blast

lemma store_shared:
  "pio_bind (set_coinflip d) (\<lambda>_. pio_bind (save_deployments A H config) (\<lambda>_. pio_return (Inr d))) s = Some (r, s') \<Longrightarrow>
     r = Inr d \<and> shared s' = (shared s)\<lparr> sh_coinflip := Some d \<rparr>"
  "pio_bind (set_bank d) (\<lambda>_. pio_bind (save_deployments A H config) (\<lambda>_. pio_return (Inr d))) s = Some (r, s') \<Longrightarrow>
     r = Inr d \<and> shared s' = (shared s)\<lparr> sh_bank := Some d \<rparr>"
  by (auto simp: set_coinflip_def set_bank_def pio_bind_def save_deployments_def shared_def Let_def split: prod.splits)

lemma one_step_store:
  "P (Inr d) (CoinflipDeployed d) \<Longrightarrow>
     one_step P (pio_bind (set_coinflip d) (\<lambda>_. pio_bind (save_deployments A H config) (\<lambda>_. pio_return (Inr d))))"
  "P (Inr d) (BankDeployed d) \<Longrightarrow>
     one_step P (pio_bind (set_bank d) (\<lambda>_. pio_bind (save_deployments A H config) (\<lambda>_. pio_return (Inr d))))"
  by (rule one_step_by, metis store_shared(1) cf_step.deploy)
     (rule one_step_by, metis store_shared(2) cf_step.deploy_the_bank)

lemma one_step_case:
  "(\<And>s. one_step P (m s)) \<Longrightarrow> one_step P (\<lambda>s. case g s of Some d \<Rightarrow> Some (Inr d, s) | None \<Rightarrow> m s s)"
  unfolding one_step_def by (auto split: option.splits)

lemma one_step_split: "(\<And>a b. one_step P (k a b)) \<Longrightarrow> one_step P (case x of (a, b) \<Rightarrow> k a b)"
  by (simp split: prod.split)

lemma one_step_deploy_coinflip: "one_step (\<lambda>r l. \<exists>d. r = Inr d \<and> l = CoinflipDeployed d) (deploy_coinflip A H config)"
  unfolding deploy_coinflip_def[abs_def] Let_def
  by (intro one_step_store(1) one_step_case one_step_split one_step_bind keeps_shared_basic
      keeps_shared_declare keeps_shared_deploy) simp

lemma one_step_deploy_bank: "one_step (\<lambda>r l. \<exists>d. r = Inr d \<and> l = BankDeployed d) (deploy_bank A H config)"
  unfolding deploy_bank_def[abs_def] Let_def
  by (intro one_step_store(2) one_step_case one_step_split one_step_bind keeps_shared_basic
      keeps_shared_declare keeps_shared_deploy keeps_shared_map_err keeps_shared_sncast) simp

lemma commit_bet_step:
  assumes "commit_bet H h p s = Some (r, s')"
  shows "\<exists>sid. r = Inr (sid, 0) \<and> cf_step (shared s) (Committed sid (fresh_bet sid h p)) (shared s')"
proof -
  obtain sid w where u: "ho_uuid H (ap_world s) = (sid, w)" by fastforce
  with assms have "r = Inr (sid, 0)" "shared s' = (shared s)\<lparr> sh_commitments := (sh_commitments (shared s))
      (sid \<mapsto> fresh_bet sid h p) \<rparr>"
    by (auto simp: commit_bet_def pio_bind_def on_world_io_def shared_def)
  then show ?thesis using cf_step.commit by metis
qed

lemma update_bet_step:
  "cf_commitments s sid = Some c \<Longrightarrow>
     cf_step (shared s) (AmountSet sid a) (shared (update_bet sid (\<lambda>c. c\<lparr> bet_bet_amount := Some a \<rparr>) s))"
  "cf_commitments s sid = Some c \<Longrightarrow>
     cf_step (shared s) (SeedLocked sid b) (shared (update_bet sid (\<lambda>c. c\<lparr> bet_seed_block := b \<rparr>) s))"
  unfolding update_bet_shared using cf_step.amount[of "shared s" sid] cf_step.lock[of "shared s" sid]
  by (auto simp: shared_def)

lemma update_bet_absent: "cf_commitments s sid = None \<Longrightarrow> shared (update_bet sid f s) = shared s"
  by (simp add: update_bet_shared)

lemma one_step_deposit_info:
  "one_step (\<lambda>r l. \<exists>x. r = Inr x \<and> l = AmountSet sid (fmt_hex (unat (wei_of_f64 a)))) (deposit_info sid a)"
  unfolding one_step_def deposit_info_def Let_def
  by (auto split: option.splits intro: update_bet_step(1))

lemma one_step_confirm_deposit:
  "one_step (\<lambda>r l. \<exists>x b. r = Inr x \<and> l = SeedLocked sid b) (confirm_deposit A H config sid tx)"
proof -
  have lock: "one_step (\<lambda>r l. \<exists>x b. r = Inr x \<and> l = SeedLocked sid b)
      (\<lambda>s. Some (Inr y, update_bet sid (\<lambda>c. c\<lparr> bet_seed_block := f s \<rparr>) s))" for y f
    unfolding one_step_def
    by (intro allI impI, simp) (metis not_None_eq update_bet_absent update_bet_step(2))
  have "keeps_shared (case bn of None \<Rightarrow> pio_bind (pio_result (on_world q)) (\<lambda>r. pio_return (g r)) | Some n \<Rightarrow> pio_return (Inr n))"
    for bn :: "u64 option" and q g by (auto split: option.split)
  then show ?thesis
    unfolding confirm_deposit_def Let_def
    by (intro one_step_bind keeps_shared_map_err keeps_shared_basic keeps_shared_reader keeps_shared_sncast lock)
qed

lemma play_coinflip_step:
  assumes "play_coinflip A sid q s = Some (r, s')"
  shows "(\<exists>c. cf_step (shared s) (Taken sid c) (shared s') \<and>
       (\<forall>t. r = Inr t \<longrightarrow> check_reveal A c q = Inr (pt_bet t) \<and> pt_seed_block t = bet_seed_block c)) \<or>
     (\<exists>e. r = Inl e \<and> shared s' = shared s)"
proof (cases "cf_coinflip s = None \<or> cf_commitments s sid = None")
  case True
  then show ?thesis using assms by (auto simp: play_coinflip_def split: option.splits)
next
  case False
  then obtain d c where c: "cf_coinflip s = Some d" "cf_commitments s sid = Some c" by auto
  then have "shared s' = (shared s)\<lparr> sh_commitments := (sh_commitments (shared s))(sid := None) \<rparr>"
    using assms by (auto simp: play_coinflip_def shared_def)
  then have "cf_step (shared s) (Taken sid c) (shared s')"
    using cf_step.take_bet[of "shared s" sid c] c by (simp add: shared_def)
  moreover have "check_reveal A c q = Inr (pt_bet t) \<and> pt_seed_block t = bet_seed_block c" if "r = Inr t" for t
    using assms c that by (auto simp: play_coinflip_def result_iffs)
  ultimately show ?thesis by blast
qed

text \<open>The router: one request, answered with what its handler returns.\<close>

datatype cf_request =
    StatusReq
  | DeployReq
  | CommitReq string string
  | PlayReq string play_query
  | BankStatusReq
  | BankDeployReq
  | DepositInfoReq string f64
  | ConfirmDepositReq string string
  | BalanceReq string
  | WinningsReq string

datatype cf_response =
    StatusResp bool "string option"
  | DeployResp "http_error + deployment"
  | CommitResp "http_error + string \<times> u64"
  | PlayResp "http_error + play_ticket"
  | BankStatusResp "http_error + bool \<times> string option \<times> string option"
  | BankDeployResp "http_error + deployment"
  | DepositInfoResp "http_error + deposit_info_response"
  | ConfirmDepositResp "http_error + bool \<times> string"
  | BalanceResp "http_error + string \<times> string"
  | WinningsResp "http_error + string \<times> string \<times> string"

definition respond :: "('a \<Rightarrow> cf_response) \<Rightarrow> ('a \<times> 'w cf_app) option \<Rightarrow> (cf_response \<times> 'w cf_app) option" where
  "respond f = map_option (\<lambda>(r, s). (f r, s))"

fun coinflip_routes ::
  "('f, 're) app_lib \<Rightarrow> 'w host \<Rightarrow> config \<Rightarrow> cf_request \<Rightarrow> 'w cf_app \<Rightarrow> (cf_response \<times> 'w cf_app) option" where
  "coinflip_routes A H config StatusReq s = (case coinflip_status s of (d, a) \<Rightarrow> Some (StatusResp d a, s))"
| "coinflip_routes A H config DeployReq s = respond DeployResp (deploy_coinflip A H config s)"
| "coinflip_routes A H config (CommitReq c p) s = respond CommitResp (commit_bet H c p s)"
| "coinflip_routes A H config (PlayReq sid q) s = respond PlayResp (play_coinflip A sid q s)"
| "coinflip_routes A H config BankStatusReq s = respond BankStatusResp (bank_status A H config s)"
| "coinflip_routes A H config BankDeployReq s = respond BankDeployResp (deploy_bank A H config s)"
| "coinflip_routes A H config (DepositInfoReq sid a) s = respond DepositInfoResp (deposit_info sid a s)"
| "coinflip_routes A H config (ConfirmDepositReq sid tx) s = respond ConfirmDepositResp (confirm_deposit A H config sid tx s)"
| "coinflip_routes A H config (BalanceReq a) s = respond BalanceResp (player_balance A H config a s)"
| "coinflip_routes A H config (WinningsReq a) s = respond WinningsResp (player_winnings A H config a s)"

text \<open>The step that an answer stands for.\<close>

definition explains :: "('f, 're) app_lib \<Rightarrow> cf_request \<Rightarrow> cf_response \<Rightarrow> cf_label \<Rightarrow> bool" where
  "explains A req resp l \<longleftrightarrow> (case req of
      CommitReq h p \<Rightarrow> (case resp of CommitResp (Inr (sid, b)) \<Rightarrow> l = Committed sid (fresh_bet sid h p) | _ \<Rightarrow> False)
    | DepositInfoReq sid a \<Rightarrow> (case resp of DepositInfoResp (Inr x) \<Rightarrow> l = AmountSet sid (fmt_hex (unat (wei_of_f64 a))) | _ \<Rightarrow> False)
    | ConfirmDepositReq sid tx \<Rightarrow> (case resp of ConfirmDepositResp (Inr x) \<Rightarrow> \<exists>b. l = SeedLocked sid b | _ \<Rightarrow> False)
    | PlayReq sid q \<Rightarrow> (case resp of PlayResp r \<Rightarrow> \<exists>c. l = Taken sid c \<and>
        (\<forall>t. r = Inr t \<longrightarrow> check_reveal A c q = Inr (pt_bet t) \<and> pt_seed_block t = bet_seed_block c) | _ \<Rightarrow> False)
    | DeployReq \<Rightarrow> (case resp of DeployResp (Inr d) \<Rightarrow> l = CoinflipDeployed d | _ \<Rightarrow> False)
    | BankDeployReq \<Rightarrow> (case resp of BankDeployResp (Inr d) \<Rightarrow> l = BankDeployed d | _ \<Rightarrow> False)
    | _ \<Rightarrow> False)"

lemma explains_simps [simp]:
  "explains A (CommitReq h p) (CommitResp (Inr (sid, b))) l \<longleftrightarrow> l = Committed sid (fresh_bet sid h p)"
  "explains A (DepositInfoReq sid a) (DepositInfoResp (Inr x)) l \<longleftrightarrow> l = AmountSet sid (fmt_hex (unat (wei_of_f64 a)))"
  "explains A (ConfirmDepositReq sid tx) (ConfirmDepositResp (Inr y)) l \<longleftrightarrow> (\<exists>b. l = SeedLocked sid b)"
  "explains A (PlayReq sid q) (PlayResp r) l \<longleftrightarrow> (\<exists>c. l = Taken sid c \<and>
     (\<forall>t. r = Inr t \<longrightarrow> check_reveal A c q = Inr (pt_bet t) \<and> pt_seed_block t = bet_seed_block c))"
  "explains A DeployReq (DeployResp (Inr d)) l \<longleftrightarrow> l = CoinflipDeployed d"
  "explains A BankDeployReq (BankDeployResp (Inr d)) l \<longleftrightarrow> l = BankDeployed d"
  by (simp_all add: explains_def)

fun granted :: "cf_response \<Rightarrow> bool" where
  "granted (PlayResp (Inr t)) = True"
| "granted (CommitResp (Inr x)) = True"
| "granted _ = False"

lemma respond_iff: "respond f x = Some (resp, s') \<longleftrightarrow> (\<exists>r. x = Some (r, s') \<and> resp = f r)"
  by (auto simp: respond_def)

lemma one_stepD: "one_step P m \<Longrightarrow> m s = Some (r, s') \<Longrightarrow>
    (\<exists>l. P r l \<and> cf_step (shared s) l (shared s')) \<or> shared s' = shared s"
  by (simp add: one_step_def)

lemma coinflip_routes_steps:
  assumes "coinflip_routes A H config req s = Some (resp, s')"
  shows "(\<exists>l. explains A req resp l \<and> cf_step (shared s) l (shared s')) \<or> (shared s' = shared s \<and> \<not> granted resp)"
proof (cases req)
  case StatusReq
  then show ?thesis using assms by (auto split: prod.splits)
next
  case DeployReq
  with assms show ?thesis by (auto simp: respond_iff dest!: one_stepD[OF one_step_deploy_coinflip])
next
  case (CommitReq h p)
  with assms obtain r where r: "commit_bet H h p s = Some (r, s')" "resp = CommitResp r"
    by (auto simp: respond_iff)
  from commit_bet_step[OF r(1)] show ?thesis unfolding r(2) CommitReq by auto
next
  case (PlayReq sid q)
  with assms obtain r where r: "play_coinflip A sid q s = Some (r, s')" "resp = PlayResp r"
    by (auto simp: respond_iff)
  from play_coinflip_step[OF r(1)] show ?thesis unfolding r(2) PlayReq by auto
next
  case BankStatusReq
  with assms show ?thesis by (auto simp: respond_iff dest!: keeps_sharedD[OF keeps_shared_balances(1)])
next
  case BankDeployReq
  with assms show ?thesis by (auto simp: respond_iff dest!: one_stepD[OF one_step_deploy_bank])
next
  case (DepositInfoReq sid a)
  with assms show ?thesis by (auto simp: respond_iff dest!: one_stepD[OF one_step_deposit_info])
next
  case (ConfirmDepositReq sid tx)
  with assms obtain r where r: "confirm_deposit A H config sid tx s = Some (r, s')" "resp = ConfirmDepositResp r"
    by (auto simp: respond_iff)
  from one_stepD[OF one_step_confirm_deposit r(1)] show ?thesis unfolding r(2) ConfirmDepositReq by auto blast
next
  case (BalanceReq a)
  with assms show ?thesis by (auto simp: respond_iff dest!: keeps_sharedD[OF keeps_shared_balances(2)])
next
  case (WinningsReq a)
  with assms show ?thesis by (auto simp: respond_iff dest!: keeps_sharedD[OF keeps_shared_balances(3)])
qed

text \<open>
  C6: the server refines the commitment protocol: whatever a request does to the shared state is one
  step of the protocol, the step that its answer stands for, or it changes nothing, and then it has
  neither accepted a commitment nor granted a game.
\<close>

theorem routes_refine_steps:
  assumes "coinflip_routes A H config req s = Some (resp, s')"
  shows "(\<exists>l. explains A req resp l \<and> cf_step (shared s) l (shared s')) \<or> (shared s' = shared s \<and> \<not> granted resp)"
  using assms by (rule coinflip_routes_steps)

section \<open>Safety of the bets\<close>

text \<open>
  C23: a bet is accepted exactly when the contract is deployed, the session has an open commitment of
  this player, and the revealed bet (any non-zero one counts as one) and nonce hash to the committed
  text; the task then gets the seed of the commitment, and the commitment is gone.
\<close>

theorem play_coinflip_accepts_iff:
  "play_coinflip A sid q s = Some (Inr t, s') \<longleftrightarrow>
     (\<exists>d c nonce_felt. cf_coinflip s = Some d \<and> cf_commitments s sid = Some c \<and> bet_player c = pq_player q \<and>
        felt_from_hex (al_felt A) (pq_nonce q) = Inr nonce_felt \<and>
        bet_commitment_of A (min (pq_bet q) 1) nonce_felt = bet_commitment_hash c \<and>
        t = \<lparr> pt_session_id = sid, pt_deployment = d, pt_player = pq_player q, pt_bet = min (pq_bet q) 1,
              pt_seed_block = bet_seed_block c \<rparr> \<and>
        s' = s\<lparr> cf_commitments := (cf_commitments s)(sid := None) \<rparr>)"
  by (auto simp: play_coinflip_def check_reveal_def Let_def result_iffs felt_from_hex_msg_def split: option.splits if_splits)

lemma check_reveal_Inr:
  "check_reveal A c q = Inr b \<longleftrightarrow> (\<exists>nonce_felt. bet_player c = pq_player q \<and>
     felt_from_hex (al_felt A) (pq_nonce q) = Inr nonce_felt \<and> b = min (pq_bet q) 1 \<and>
     bet_commitment_of A b nonce_felt = bet_commitment_hash c)"
  by (auto simp: check_reveal_def Let_def result_iffs felt_from_hex_msg_def split: if_splits)

lemma unat_ucast_u8: "unat (ucast b :: u64) = unat (b :: u8)"
proof -
  have "unat b < 2 ^ 64" by (rule less_le_trans[OF unsigned_less]) simp
  then show ?thesis by (simp add: unsigned_ucast_eq take_bit_nat_eq_self_iff)
qed

text \<open>
  C24: a commitment binds the player: as long as the Pedersen hash has no collision among the revealed
  pairs, one commitment cannot be opened with two different bets or two different nonces.
\<close>

theorem commitment_binding:
  assumes "felt_library (al_felt A)"
    and "inj_on (\<lambda>(x, y). pedersen_hash (al_crypto A) x y) {(felt_from_u64 (al_felt A) (ucast b1), n1), (felt_from_u64 (al_felt A) (ucast b2), n2)}"
    and "felt_from_hex (al_felt A) (pq_nonce q1) = Inr n1" and "felt_from_hex (al_felt A) (pq_nonce q2) = Inr n2"
    and "check_reveal A c q1 = Inr b1" and "check_reveal A c q2 = Inr b2"
  shows "b1 = b2 \<and> n1 = n2"
proof -
  let ?F = "al_felt A"
  from assms(3-6) have "bet_commitment_of A b1 n1 = bet_commitment_of A b2 n2" by (auto simp: check_reveal_Inr)
  then have "pedersen_hash (al_crypto A) (felt_from_u64 ?F (ucast b1)) n1 = pedersen_hash (al_crypto A) (felt_from_u64 ?F (ucast b2)) n2"
    unfolding bet_commitment_of_def felt_library.felt_to_hex[OF assms(1)] fmt_hex_inj
    by (simp flip: felt_library.felt_eq_iff[OF assms(1)])
  with assms(2) have "(felt_from_u64 ?F (ucast b1), n1) = (felt_from_u64 ?F (ucast b2), n2)"
    by (elim inj_onD) simp_all
  then have e: "felt_from_u64 ?F (ucast b1) = felt_from_u64 ?F (ucast b2)" "n1 = n2" by simp_all
  then have "felt_to_biguint ?F (felt_from_u64 ?F (ucast b1)) = felt_to_biguint ?F (felt_from_u64 ?F (ucast b2))" by simp
  then have "unat (ucast b1 :: u64) = unat (ucast b2 :: u64)"
    unfolding felt_library.from_u64[OF assms(1)] .
  then have "b1 = b2" by (simp only: unat_ucast_u8 word_unat_eq_iff)
  with e show ?thesis by simp
qed

text \<open>
  C25: when a deposit is confirmed, the player's deposit transaction was accepted, the bank is deployed
  and the session has an open bet; the bet's seed is then set to a block that is not older than the
  CoinFlip deployment, and nothing else of the shared state changes.
\<close>

theorem confirm_deposit_locks_seed:
  assumes "confirm_deposit A H config sid tx s = Some (Inr (m, match_tx), s')"
  shows "m \<and> (\<exists>bank c receipt w seed. cf_bank s = Some bank \<and> cf_commitments s sid = Some c \<and>
     wait_for_tx (ho_net H) (rpc_url config) tx 120 3 (ap_world s) = Some (Inr receipt, w) \<and>
     (\<forall>d. cf_coinflip s = Some d \<longrightarrow> dp_deploy_block d \<le> seed) \<and>
     shared s' = (shared s)\<lparr> sh_commitments := (cf_commitments s)(sid \<mapsto> c\<lparr> bet_seed_block := seed \<rparr>) \<rparr>)"
proof -
  from assms obtain receipt s1 bank c inv s2 bn s3 where
    w: "on_world_wait (wait_for_tx (ho_net H) (rpc_url config) tx 120 3) s = Some (Inr receipt, s1)"
    and b: "ok_or (HttpError 400 ''Bank not deployed'' NoCause) (cf_bank s1) = Inr bank"
    and c: "ok_or (HttpError 400 ''No commitment for this session'' NoCause) (cf_commitments s1 sid) = Inr c"
    and i: "sncast_invoke A H config (dp_contract_address bank) ''match_deposit'' (bet_session_felt c) s1 = Some (Inr inv, s2)"
    and n: "(case iv_block_number inv of Some bn \<Rightarrow> pio_return (Inr bn)
       | None \<Rightarrow> pio_bind (pio_result (on_world (block_number (ho_net H) (rpc_url config))))
           (\<lambda>r. pio_return (Inr (unwrap_or 0 (result_ok r))))) s2 = Some (Inr bn :: http_error + u64, s3)"
    and r: "m = True" "s' = update_bet sid (\<lambda>c. c\<lparr> bet_seed_block :=
       max bn (case cf_coinflip s3 of Some d \<Rightarrow> dp_deploy_block d | None \<Rightarrow> 0) \<rparr>) s3"
    unfolding confirm_deposit_def Let_def pio_iffs option.inject prod.inject sum.inject by blast
  have "shared s1 = shared s" using keeps_sharedD[OF keeps_shared_basic(5) w] .
  moreover have "shared s2 = shared s1" by (rule keeps_sharedD[OF keeps_shared_sncast i])
  moreover have "shared s3 = shared s2" using n
    by (auto split: option.splits simp: pio_iffs on_world_def shared_def split: prod.splits)
  ultimately have eq: "shared s3 = shared s" "shared s1 = shared s" by simp_all
  then have "cf_bank s = Some bank" "cf_commitments s3 sid = Some c" "cf_commitments s sid = Some c" "cf_coinflip s3 = cf_coinflip s"
    "cf_commitments s3 = cf_commitments s" "cf_bank s3 = cf_bank s"
    using b c by (auto simp: shared_def result_iffs)
  moreover obtain w' where "wait_for_tx (ho_net H) (rpc_url config) tx 120 3 (ap_world s) = Some (Inr receipt, w')"
    using w by (auto simp: on_world_wait_def split: option.splits)
  moreover have "\<forall>d. cf_coinflip s = Some d \<longrightarrow> dp_deploy_block d \<le>
      max bn (case cf_coinflip s3 of Some d \<Rightarrow> dp_deploy_block d | None \<Rightarrow> 0)"
    using calculation(4) by simp
  ultimately show ?thesis unfolding r update_bet_shared eq(1)
    by (intro conjI exI[of _ bank] exI[of _ c] exI[of _ receipt] exI[of _ w']
        exI[of _ "max bn (case cf_coinflip s3 of Some d \<Rightarrow> dp_deploy_block d | None \<Rightarrow> 0)"])
       (auto simp: shared_def)
qed

section \<open>A server for the witnesses\<close>

text \<open>
  The world is the time. The node accepts the transaction \<open>0xd\<close> in block 9 and rejects every other
  one; \<open>sncast\<close> prints a transaction hash that the regular expression finds as \<open>0xe\<close>.
\<close>

definition flip_receipt :: "json \<Rightarrow> json" where
  "flip_receipt h = (if h = JStr ''0xd''
     then JObj [(''finality_status'', JStr ''ACCEPTED_ON_L2''), (''block_number'', ju64 9)]
     else JObj [(''finality_status'', JStr ''REJECTED'')])"

definition flip_answer :: "json \<Rightarrow> json" where
  "flip_answer p = (case Option.bind (json_get ''params'' p) (json_get ''transaction_hash'') of
      Some h \<Rightarrow> flip_receipt h | None \<Rightarrow> ju64 12)"

definition flip_net :: "nat net" where
  "flip_net = \<lparr> http_send = (\<lambda>url p t. (Inr \<lparr> resp_status = 200, resp_json = Inr (JObj [(''result'', flip_answer p)]) \<rparr>, t)),
     now = (\<lambda>t. (t, t)), instant_add = (\<lambda>t d. Some (t + d)),
     gloo_sleep = (\<lambda>d t. if u32_millis d then Some (t + d) else None), sleep = (\<lambda>d t. ((), t + d)) \<rparr>"

definition flip_host :: "nat host" where
  "flip_host = \<lparr> ho_net = flip_net,
     ho_output = (\<lambda>prog args cwd t. (Inr \<lparr> out_success = True, out_stdout = ''transaction_hash: 0xe'', out_stderr = [] \<rparr>, t)),
     ho_spawn = (\<lambda>prog args t. (Inr 0, t)), ho_wait = (\<lambda>c t. (Inr True, t)),
     ho_uuid = (\<lambda>t. (''a-b'', t)), ho_random16 = (\<lambda>t. ([], t)), ho_env = (\<lambda>k t. (None, t)),
     ho_snip36_bin = (\<lambda>t. (''snip36'', t)), ho_read_to_string = (\<lambda>p t. (Inr ''AB'', t)),
     ho_write = (\<lambda>p x t. (Inr (), t)), ho_create_dir_all = (\<lambda>p t. (Inr (), t)),
     ho_exists = (\<lambda>p t. (False, t)), ho_len = (\<lambda>p t. (Inr 2, t)) \<rparr>"

definition flip_deployment :: deployment where
  "flip_deployment = \<lparr> dp_contract_address = ''0x3'', dp_class_hash = ''0x4'', dp_deploy_block = 10 \<rparr>"

definition flip_bet :: bet_commitment where
  "flip_bet = fresh_bet ''a-b'' (bet_commitment_of flip_lib 1 (felt_of_nat 5)) ''0x7''"

definition flip_state :: "nat cf_app" where
  "flip_state = \<lparr> ap_world = 0, ap_events = [], cf_coinflip = Some flip_deployment, cf_bank = Some flip_deployment,
     cf_commitments = [''a-b'' \<mapsto> flip_bet] \<rparr>"

lemma flip_call: "call flip_net url m p t = (Inr (flip_answer (rpc_payload m p)), t)"
  by (simp add: flip_net_def call_def call_raw_def rio_bind_apply rio_map_err_apply response_result_def)

lemma flip_wait:
  "wait_for_tx flip_net url h 120 3 t = Some (if h = ''0xd'' then Inr (flip_receipt (JStr h))
     else Inl (TxRejected (flip_receipt (JStr h))), t)"
proof -
  have "poll_receipt flip_net url h t = (Some (if h = ''0xd'' then Inr (flip_receipt (JStr h))
      else Inl (TxRejected (flip_receipt (JStr h)))), t)"
    by (simp add: poll_receipt_def get_receipt_def flip_call flip_answer_def rpc_payload_def
        flip_receipt_def classify_receipt_def Let_def)
  moreover have "now flip_net t = (t, t)" "instant_add flip_net t d = Some (t + d)" for d by (simp_all add: flip_net_def)
  ultimately show ?thesis
    unfolding wait_for_tx_def by (simp add: poll_until.simps from_secs_def)
qed

lemma flip_on_wait:
  "on_world_wait (wait_for_tx flip_net url h 120 3) s =
     Some (if h = ''0xd'' then Inr (flip_receipt (JStr h)) else Inl (TxRejected (flip_receipt (JStr h))), s)"
  by (simp add: on_world_wait_def flip_wait)

lemma flip_sncast:
  "\<exists>out. sncast_invoke flip_lib flip_host config c f d s =
     Some (Inr \<lparr> iv_output = out, iv_tx_hash = Some ''0xe'', iv_block_number = None \<rparr>, s)"
  by (simp add: sncast_invoke_def on_world_io_def sncast_env_account_def on_world_def flip_host_def
      pio_bind_def parse_hex_def flip_lib_def Let_def pio_result_def flip_on_wait)

lemma flip_confirm:
  "confirm_deposit flip_lib flip_host demo_config ''a-b'' ''0xd'' flip_state =
     Some (Inr (True, ''0xe''), flip_state\<lparr> cf_commitments := [''a-b'' \<mapsto> flip_bet\<lparr> bet_seed_block := 12 \<rparr>] \<rparr>)"
proof -
  have net: "ho_net flip_host = flip_net" by (simp add: flip_host_def)
  have b: "on_world (block_number flip_net url) s = Some (Inr 12, s)" for url and s :: "nat cf_app"
    by (simp add: on_world_def block_number_def rio_bind_apply flip_call flip_answer_def rpc_payload_def)
  obtain out where i: "sncast_invoke flip_lib flip_host demo_config (dp_contract_address flip_deployment)
      ''match_deposit'' (bet_session_felt flip_bet) flip_state =
     Some (Inr \<lparr> iv_output = out, iv_tx_hash = Some ''0xe'', iv_block_number = None \<rparr>, flip_state)"
    using flip_sncast by blast
  have st: "cf_bank flip_state = Some flip_deployment" "cf_commitments flip_state ''a-b'' = Some flip_bet"
    "cf_coinflip flip_state = Some flip_deployment" "cf_commitments flip_state = [''a-b'' \<mapsto> flip_bet]"
    by (simp_all add: flip_state_def)
  have dep: "dp_deploy_block flip_deployment = 10" by (simp add: flip_deployment_def)
  show ?thesis
    by (simp add: confirm_deposit_def pio_bind_def pio_map_err_def pio_result_def net flip_on_wait b i st
        update_bet_def dep)
qed

theorem confirm_deposit_locks_seed_witness:
  "\<exists>s' c seed. confirm_deposit flip_lib flip_host demo_config ''a-b'' ''0xd'' flip_state = Some (Inr (True, ''0xe''), s') \<and>
     cf_commitments flip_state ''a-b'' = Some c \<and> 10 \<le> seed \<and>
     cf_commitments s' ''a-b'' = Some (c\<lparr> bet_seed_block := seed \<rparr>)"
proof -
  have "cf_coinflip flip_state = Some flip_deployment" "dp_deploy_block flip_deployment = 10"
    by (simp_all add: flip_state_def flip_deployment_def)
  with confirm_deposit_locks_seed[OF flip_confirm] obtain c seed where
    "cf_commitments flip_state ''a-b'' = Some c" "10 \<le> seed"
    "cf_commitments (flip_state\<lparr> cf_commitments := [''a-b'' \<mapsto> flip_bet\<lparr> bet_seed_block := 12 \<rparr>] \<rparr>) =
       (cf_commitments flip_state)(''a-b'' \<mapsto> c\<lparr> bet_seed_block := seed \<rparr>)"
    by (auto simp: shared_def)
  then show ?thesis using flip_confirm by (metis fun_upd_same)
qed

text \<open>
  C38: a confirmed deposit does not mean that the bank has matched it: there is a server whose matching
  transaction is rejected by the node, and which nevertheless answers that the deposit is matched
  and locks the seed of the bet.
\<close>

theorem rejected_match_reported_as_matched:
  "\<exists>(A :: (felt252, string) app_lib) (H :: nat host) config s s' receipt.
     confirm_deposit A H config ''a-b'' ''0xd'' s = Some (Inr (True, ''0xe''), s') \<and>
     wait_for_tx (ho_net H) (rpc_url config) ''0xe'' 120 3 (ap_world s) = Some (Inl (TxRejected receipt), ap_world s') \<and>
     map_option bet_seed_block (cf_commitments s' ''a-b'') = Some 12"
proof (intro exI conjI)
  show "confirm_deposit flip_lib flip_host demo_config ''a-b'' ''0xd'' flip_state =
     Some (Inr (True, ''0xe''), flip_state\<lparr> cf_commitments := [''a-b'' \<mapsto> flip_bet\<lparr> bet_seed_block := 12 \<rparr>] \<rparr>)"
    by (rule flip_confirm)
qed (simp_all add: flip_wait flip_host_def flip_state_def)

theorem commitment_binding_witness:
  "(let q = \<lparr> pq_player = ''0x7'', pq_bet = 1, pq_nonce = ''0x5'' \<rparr> in
    check_reveal flip_lib flip_bet q = Inr 1 \<and> check_reveal flip_lib flip_bet (q\<lparr> pq_bet := 9 \<rparr>) = Inr 1)"
proof -
  let ?q = "\<lparr> pq_player = ''0x7'', pq_bet = 1, pq_nonce = ''0x5'' \<rparr>"
  have n: "felt_from_hex (al_felt flip_lib) ''0x5'' = Inr (felt_of_nat 5)"
    by (simp add: flip_lib_def stark_felt_def stark_from_hex_def hex_val_def starts_with_def stark_prime_def)
  have f: "felt_library (al_felt flip_lib)" by (simp add: flip_lib_def stark_felt_library)
  have r: "check_reveal flip_lib flip_bet ?q = Inr 1" "\<exists>b. check_reveal flip_lib flip_bet (?q\<lparr> pq_bet := 9 \<rparr>) = Inr b"
    by (auto simp: check_reveal_Inr n flip_bet_def fresh_bet_def)
  then obtain b where b: "check_reveal flip_lib flip_bet (?q\<lparr> pq_bet := 9 \<rparr>) = Inr b" by blast
  have "inj_on (\<lambda>(x, y). pedersen_hash (al_crypto flip_lib) x y)
      {(felt_from_u64 (al_felt flip_lib) (ucast (1 :: u8)), felt_of_nat 5), (felt_from_u64 (al_felt flip_lib) (ucast b), felt_of_nat 5)}"
    using b by (auto simp: check_reveal_Inr)
  from commitment_binding[OF f this _ _ r(1) b] n have "b = 1" by simp
  with r(1) b show ?thesis by simp
qed

theorem routes_refine_steps_witness:
  "\<exists>s' l. coinflip_routes flip_lib flip_host demo_config (ConfirmDepositReq ''a-b'' ''0xd'') flip_state =
       Some (ConfirmDepositResp (Inr (True, ''0xe'')), s') \<and>
     cf_step (shared flip_state) l (shared s') \<and> (\<exists>b. l = SeedLocked ''a-b'' b)"
proof -
  have r: "coinflip_routes flip_lib flip_host demo_config (ConfirmDepositReq ''a-b'' ''0xd'') flip_state =
      Some (ConfirmDepositResp (Inr (True, ''0xe'')), flip_state\<lparr> cf_commitments := [''a-b'' \<mapsto> flip_bet\<lparr> bet_seed_block := 12 \<rparr>] \<rparr>)"
    by (simp add: respond_def flip_confirm)
  have "flip_bet\<lparr> bet_seed_block := 12 \<rparr> \<noteq> flip_bet" by (simp add: flip_bet_def fresh_bet_def)
  then have "shared (flip_state\<lparr> cf_commitments := [''a-b'' \<mapsto> flip_bet\<lparr> bet_seed_block := 12 \<rparr>] \<rparr>) \<noteq> shared flip_state"
    by (simp add: shared_def flip_state_def fun_eq_iff)
  with routes_refine_steps[OF r] r show ?thesis by auto
qed

end
