(* ===== verification/CoinFlipTask.thy ===== *)
theory CoinFlipTask
  imports CoinFlipSafety
begin

text \<open>
  The play task: it returns, its event stream is well formed, and a reported result stands for a
  transaction that the gateway and the node have accepted.
\<close>

section \<open>The stream of the play task\<close>

lemma silent_sncast [simp, intro]: "silent (sncast_invoke A H config c f d)"
  unfolding sncast_invoke_def Let_def by (intro silent_bind) (auto split: option.split)

lemma streams_announce [simp, intro]: "streams (announce_play t)"
  unfolding announce_play_def by (auto split: option.split)

lemma streams_construct [simp, intro]: "streams (play_construct A H config t)"
  unfolding play_construct_def Let_def
  by (intro streams_bind streams_task_try streams_result silent_basic streams_basic)

lemma streams_prove [simp, intro]: "streams (play_prove H config b x)"
  unfolding play_prove_def Let_def
  by (intro streams_bind streams_task_try streams_result silent_basic streams_basic) auto

lemma streams_settlement [simp, intro]: "streams (read_settlement A H p)"
proof -
  have "streams (case o' of None \<Rightarrow> pio_return (Inr ([], False)) | Some (a, b) \<Rightarrow>
      pio_bind (emit (Log (f a b) NoCause)) (\<lambda>_. pio_return (Inr (a, b))))" for o' :: "(string \<times> bool) option" and f
    by (auto split: option.split)
  then show ?thesis
    unfolding read_settlement_def Let_def
    by (intro streams_bind streams_if streams_result silent_basic streams_basic)
qed

lemma streams_gateway [simp, intro]: "streams (gateway_attempts H url payload as)"
proof (induction as)
  case Nil
  show ?case unfolding gateway_attempts.simps by (rule streams_basic)
next
  case (Cons a as)
  show ?case unfolding gateway_attempts.simps Let_def
    by (intro streams_bind streams_if streams_task_try silent_basic streams_basic Cons)
qed

lemma streams_submit [simp, intro]: "streams (play_submit A H config x)"
  unfolding play_submit_def read_submission_def Let_def
  by (intro streams_bind streams_task_try silent_basic streams_basic) (auto intro!: streams_bind)

lemma streams_verify [simp, intro]: "streams (play_verify H config h)"
  unfolding play_verify_def by (intro streams_bind streams_task_try silent_basic streams_basic)

lemma streams_settle [simp, intro]: "streams (play_settle A H config sid seed)"
proof -
  have c: "(\<And>d. streams (m d)) \<Longrightarrow> streams (\<lambda>s. case g s of None \<Rightarrow> Some (Inr x, s) | Some d \<Rightarrow> m d s)" for m g x
    by (auto simp: streams_def split: option.splits)
  show ?thesis
    unfolding play_settle_def[abs_def] Let_def
    by (rule c) (auto split: sum.split option.split intro!: streams_bind)
qed

section \<open>The task returns\<close>

lemma returns_sncast: "clock_laws (ho_net H) time \<Longrightarrow> returns (sncast_invoke A H config c f d)"
  unfolding sncast_invoke_def Let_def
  by (intro returns_bind) (auto split: option.split intro!: returns_wait returns_bind returns_result)

lemma returns_gateway: "returns (gateway_attempts H url payload as)"
proof (induction as)
  case Nil
  show ?case unfolding gateway_attempts.simps by (rule returns_return)
next
  case (Cons a as)
  show ?case unfolding gateway_attempts.simps Let_def
    by (intro returns_bind returns_if returns_task_try returns_on_world returns_emit returns_give_up returns_return Cons)
qed

lemma returns_announce: "returns (announce_play t)"
  by (auto simp: announce_play_def split: option.split)

lemma returns_construct: "returns (play_construct A H config t)"
  unfolding play_construct_def Let_def
  by (intro returns_bind returns_task_try returns_result returns_on_world returns_emit returns_return)

lemma returns_prove: "returns (play_prove H config b x)"
  unfolding play_prove_def Let_def
  by (intro returns_bind returns_task_try returns_result returns_on_world returns_emit returns_return) auto

lemma returns_settlement: "returns (read_settlement A H p)"
proof -
  have "returns (case o' of None \<Rightarrow> pio_return (Inr ([], False)) | Some (a, b) \<Rightarrow>
      pio_bind (emit (Log (f a b) NoCause)) (\<lambda>_. pio_return (Inr (a, b))))" for o' :: "(string \<times> bool) option" and f
    by (auto split: option.split)
  then show ?thesis unfolding read_settlement_def Let_def
    by (intro returns_bind returns_if returns_result returns_on_world returns_return)
qed

lemma returns_submit: "returns (play_submit A H config x)"
  unfolding play_submit_def read_submission_def Let_def
  by (intro returns_bind returns_task_try returns_on_world returns_emit returns_return)
     (auto intro!: returns_bind returns_gateway)

lemma returns_verify: "clock_laws (ho_net H) time \<Longrightarrow> returns (play_verify H config h)"
  unfolding play_verify_def
  by (intro returns_bind returns_emit returns_task_try returns_wait) auto

lemma returns_settle: "clock_laws (ho_net H) time \<Longrightarrow> returns (play_settle A H config sid seed)"
proof -
  assume "clock_laws (ho_net H) time"
  moreover have c: "(\<And>d. returns (m d)) \<Longrightarrow> returns (\<lambda>s. case g s of None \<Rightarrow> Some (Inr x, s) | Some d \<Rightarrow> m d s)" for m g x
    by (auto simp: returns_def split: option.splits)
  ultimately show ?thesis
    unfolding play_settle_def[abs_def] Let_def
    by (intro c) (auto split: sum.split option.split intro!: returns_bind returns_result intro: returns_sncast)
qed

section \<open>The stream of the client\<close>

lemma forward_lines_progress: "list_all progress (forward_lines ls)"
  by (simp add: forward_lines_def list_all_iff)

lemma play_streams_split:
  assumes "str \<in> play_streams own out err" and "own = es0 @ [e]" and "\<not> progress e" and "list_all progress es0"
  shows "\<exists>as bs. str = as @ e # bs \<and> list_all progress as \<and> set bs \<subseteq> set (forward_lines out) \<union> set (forward_lines err)"
proof (cases "dropWhile (\<lambda>e. e \<noteq> Phase ''proving'') own")
  case Nil
  then show ?thesis using assms by (intro exI[of _ es0] exI[of _ "[]"]) (simp add: play_streams_def)
next
  case (Cons p after)
  define before where "before = takeWhile (\<lambda>e. e \<noteq> Phase ''proving'') own"
  have own: "own = before @ p # after" using takeWhile_dropWhile_id[of _ own] Cons before_def by metis
  have "p = Phase ''proving''" using Cons hd_dropWhile[of "\<lambda>e. e \<noteq> Phase ''proving''" own] by simp
  then have "after \<noteq> []" using own assms(2,3) by auto
  then obtain mid where mid: "after = mid @ [e]" "es0 = before @ p # mid"
    using own assms(2) by (cases after rule: rev_cases) auto
  obtain fw m where fw: "fw \<in> shuffles (forward_lines out) (forward_lines err)" and m: "m \<in> shuffles (mid @ [e]) fw"
    and str: "str = before @ p # m" using assms(1) Cons mid(1) by (auto simp: play_streams_def before_def)
  obtain as bs where "m = as @ e # bs" "set as \<subseteq> set mid \<union> set fw" "set bs \<subseteq> set fw" using shuffles_last[OF m] by blast
  moreover have "set fw = set (forward_lines out) \<union> set (forward_lines err)" using fw by (rule set_shuffles)
  ultimately show ?thesis using str mid(2) assms(4) forward_lines_progress[of out] forward_lines_progress[of err]
    by (intro exI[of _ "before @ p # as"] exI[of _ bs]) (auto simp: list_all_iff)
qed

lemma play_streams_progress:
  assumes "str \<in> play_streams own out err" and "list_all progress own"
  shows "list_all progress str"
proof (cases "dropWhile (\<lambda>e. e \<noteq> Phase ''proving'') own")
  case Nil
  show ?thesis using assms unfolding play_streams_def Nil by simp
next
  case (Cons p after)
  then have "set own = set (takeWhile (\<lambda>e. e \<noteq> Phase ''proving'') own) \<union> set (p # after)"
    by (metis set_append takeWhile_dropWhile_id)
  moreover have "set str \<subseteq> set own \<union> set (forward_lines out) \<union> set (forward_lines err)"
    using assms(1) Cons calculation by (auto simp: play_streams_def dest!: set_shuffles)
  ultimately show ?thesis
    using assms(2) forward_lines_progress[of out] forward_lines_progress[of err] by (auto simp: list_all_iff)
qed

text \<open>
  C9: the play task ends, when the clock runs and the calls of the host return, the wait for the prover
  process (which has no timeout) among them. Its own events are progress followed by one result when it
  completes, by one error when it gives up, and by neither only when it panics. Whatever lines the two
  forwarders put between them, the client's stream has progress events, then that one result or error,
  and after it at most lines the prover printed.
\<close>

theorem play_task_ends:
  assumes "clock_laws (ho_net H) time"
  shows "\<exists>r s' es. play_task A H config t s = Some (r, s') \<and> ap_events s' = ap_events s @ es \<and>
     (case r of
        Inr _ \<Rightarrow> \<exists>es0 j. es = es0 @ [ResultEvent j] \<and> list_all progress es0
      | Inl Returned \<Rightarrow> \<exists>es0 m c. es = es0 @ [ErrorEvent m c] \<and> list_all progress es0
      | Inl (TaskPanic _) \<Rightarrow> list_all progress es) \<and>
     (\<forall>out err. \<forall>str \<in> play_streams es out err. case r of
        Inr _ \<Rightarrow> \<exists>as j bs. str = as @ ResultEvent j # bs \<and> list_all progress as \<and>
          set bs \<subseteq> set (forward_lines out) \<union> set (forward_lines err)
      | Inl Returned \<Rightarrow> \<exists>as m c bs. str = as @ ErrorEvent m c # bs \<and> list_all progress as \<and>
          set bs \<subseteq> set (forward_lines out) \<union> set (forward_lines err)
      | Inl (TaskPanic _) \<Rightarrow> list_all progress str)"
proof -
  let ?main = "pio_bind (announce_play t) (\<lambda>_. pio_bind (play_construct A H config t) (\<lambda>x.
     pio_bind (play_prove H config (pt_seed_block t) x) (\<lambda>proof_size.
     pio_bind (read_settlement A H (px_proof_path x)) (\<lambda>(outcome_label, won).
     pio_bind (play_submit A H config x) (\<lambda>gw. pio_bind (play_verify H config gw) (\<lambda>_.
     pio_bind (play_settle A H config (pt_session_id t) (px_seed x)) (\<lambda>settle.
       pio_return (Inr (play_result t outcome_label won gw settle proof_size (px_seed x))))))))))"
  have split: "play_task A H config t = pio_bind ?main (\<lambda>j. emit (ResultEvent j))"
    unfolding play_task_def by (simp only: pio_bind_assoc case_prod_bind pio_bind_return)
  have st: "streams ?main" by (intro streams_bind streams_prod streams_announce streams_construct streams_prove
      streams_settlement streams_submit streams_verify streams_settle streams_basic)
  have re: "returns ?main" by (intro returns_bind returns_prod returns_announce returns_construct returns_prove
      returns_settlement returns_submit returns_verify[OF assms] returns_settle[OF assms] returns_return)
  from task_ends[OF st re, of ResultEvent s] obtain r s' es where run: "play_task A H config t s = Some (r, s')"
    and es: "ap_events s' = ap_events s @ es" and own: "case r of
        Inr _ \<Rightarrow> \<exists>es0 j. es = es0 @ [ResultEvent j] \<and> list_all progress es0
      | Inl Returned \<Rightarrow> \<exists>es0 m c. es = es0 @ [ErrorEvent m c] \<and> list_all progress es0
      | Inl (TaskPanic _) \<Rightarrow> list_all progress es" unfolding split by blast
  have "case r of
        Inr _ \<Rightarrow> \<exists>as j bs. str = as @ ResultEvent j # bs \<and> list_all progress as \<and>
          set bs \<subseteq> set (forward_lines out) \<union> set (forward_lines err)
      | Inl Returned \<Rightarrow> \<exists>as m c bs. str = as @ ErrorEvent m c # bs \<and> list_all progress as \<and>
          set bs \<subseteq> set (forward_lines out) \<union> set (forward_lines err)
      | Inl (TaskPanic _) \<Rightarrow> list_all progress str" if "str \<in> play_streams es out err" for str out err
    using own play_streams_split[OF that] play_streams_progress[OF that]
    by (cases r) (auto split: task_end.splits, metis progress.simps(3), metis progress.simps(4))
  with run es own show ?thesis by blast
qed

section \<open>What a result stands for\<close>

lemma play_construct_Inr:
  assumes "play_construct A H config t s = Some (Inr x, s')"
  shows "parse_felts (al_felt A) (play_calldata t) = Inr (px_calldata x)"
    and "felt_from_hex_msg (al_felt A) (account_address config) = Inr (px_sender x)"
    and "felt_from_hex_msg (al_felt A) (private_key config) = Inr (px_key x)"
    and "config_chain_id_felt (al_felt A) config = Inr (px_chain_id x)"
    and "px_seed x = fmt_hex (unat (pt_seed_block t))"
  using assms unfolding play_construct_def Let_def pio_iffs task_try_Inr_iff sum.inject by auto

lemma read_submission_Inr:
  assumes "read_submission A H x s = Some (Inr params, s')"
  shows "sp_calldata params = px_calldata x" "sp_sender_address params = px_sender x" "sp_private_key params = px_key x"
    "sp_chain_id params = px_chain_id x" "sp_nonce params = felt_from_u64 (al_felt A) (px_nonce x)"
    "sp_resource_bounds params = resource_bounds_default"
  using assms unfolding read_submission_def pio_iffs task_try_Inr_iff sum.inject by auto

lemma gateway_accepted:
  fixes s :: "('a, 'b) app_scheme"
  shows "gateway_attempts H url payload as s = Some (Inr True, s') \<Longrightarrow>
     \<exists>w w' resp body. http_send (ho_net H) url payload w = (Inr resp, w') \<and> resp_json resp = Inr body \<and>
       get_str ''code'' body = Some ''TRANSACTION_RECEIVED''"
proof (induction as arbitrary: s)
  case Nil
  then show ?case by simp
next
  case (Cons a as)
  from Cons.prems obtain resp body and s1 :: "('a, 'b) app_scheme" where
    h: "on_world (http_send (ho_net H) url payload) s = Some (Inr resp :: string + http_response, s1)" "Inr body = resp_json resp"
    and r: "unwrap_or [] (get_str ''code'' body) = ''TRANSACTION_RECEIVED'' \<or>
      (\<exists>s2 :: ('a, 'b) app_scheme. gateway_attempts H url payload as s2 = Some (Inr True, s'))"
    unfolding gateway_attempts.simps Let_def pio_iffs task_try_Inr_iff by (auto simp: pio_iffs split: if_splits)
  from h(1) obtain w' where "http_send (ho_net H) url payload (ap_world s) = (Inr resp, w')"
    by (auto simp: on_world_def split: prod.splits)
  then show ?case using r h(2)[symmetric] Cons.IH
    by (cases "get_str ''code'' body") (auto simp: unwrap_or_def)
qed

lemma play_submit_Inr:
  fixes s :: "('w, 'z) app_scheme"
  assumes "play_submit A H config x s = Some (Inr h_hex, s')"
  shows "\<exists>params h payload w w' resp body. sp_calldata params = px_calldata x \<and> sp_sender_address params = px_sender x \<and>
     sp_chain_id params = px_chain_id x \<and> sp_private_key params = px_key x \<and>
     sign_and_build_payload (al_felt A) (al_crypto A) params = Inr (h, payload) \<and> h_hex = felt_lower_hex (al_felt A) h \<and>
     http_send (ho_net H) (submit_url config) payload w = (Inr resp, w') \<and> resp_json resp = Inr body \<and>
     get_str ''code'' body = Some ''TRANSACTION_RECEIVED''"
proof -
  from assms obtain params and s1 s2 s3 s4 :: "('w, 'z) app_scheme" and h payload where
    p: "read_submission A H x s1 = Some (Inr params, s2)"
    and b: "Inr (h, payload) = sign_and_build_payload (al_felt A) (al_crypto A) params"
    and g: "gateway_attempts H (submit_url config) payload [1..<Suc max_attempts] s3 = Some (Inr True, s4)"
    and e: "h_hex = felt_lower_hex (al_felt A) h"
    unfolding play_submit_def Let_def pio_iffs task_try_Inr_iff
    by (auto simp: pio_iffs simp del: upt_Suc split: if_splits)
  from gateway_accepted[OF g] read_submission_Inr[OF p] b[symmetric] e show ?thesis by blast
qed

lemma play_result_fields:
  "get_str ''tx_hash'' (play_result t l wn h u q sd) = Some h"
  "get_str ''seed'' (play_result t l wn h u q sd) = Some sd"
  "get_str ''player'' (play_result t l wn h u q sd) = Some (pt_player t)"
  by (simp_all add: play_result_def)

text \<open>
  C10: a result is only sent for a game that really took place: its transaction carries the calldata of
  this game, sent by the server's account on its chain; the payload was accepted by the gateway, and
  the node has accepted the transaction of the reported hash.
\<close>

theorem play_result_sound:
  fixes s :: "'w cf_app"
  assumes "play_task A H config t s = Some (Inr (), s')"
  shows "\<exists>params h payload w w' resp body w1 w2 receipt j.
     parse_felts (al_felt A) (play_calldata t) = Inr (sp_calldata params) \<and>
     felt_from_hex_msg (al_felt A) (account_address config) = Inr (sp_sender_address params) \<and>
     config_chain_id_felt (al_felt A) config = Inr (sp_chain_id params) \<and>
     sign_and_build_payload (al_felt A) (al_crypto A) params = Inr (h, payload) \<and>
     http_send (ho_net H) (submit_url config) payload w = (Inr resp, w') \<and> resp_json resp = Inr body \<and>
     get_str ''code'' body = Some ''TRANSACTION_RECEIVED'' \<and>
     wait_for_tx (ho_net H) (rpc_url config) (felt_lower_hex (al_felt A) h) 180 5 w1 = Some (Inr receipt, w2) \<and>
     last (ap_events s') = ResultEvent j \<and> get_str ''tx_hash'' j = Some (felt_lower_hex (al_felt A) h) \<and>
     get_str ''seed'' j = Some (fmt_hex (unat (pt_seed_block t))) \<and> get_str ''player'' j = Some (pt_player t)"
proof -
  from assms obtain x h_hex l wn u q and s1 s2 s3 s4 s5 s6 :: "'w cf_app" where
    c: "play_construct A H config t s1 = Some (Inr x, s2)"
    and b: "play_submit A H config x s3 = Some (Inr h_hex, s4)"
    and v: "play_verify H config h_hex s4 = Some (Inr (), s5)"
    and e: "emit (ResultEvent (play_result t l wn h_hex u q (px_seed x))) s6 = Some (Inr () :: task_end + unit, s')"
    unfolding play_task_def pio_iffs by (auto simp: pio_iffs split: prod.splits)
  from v obtain w1 w2 receipt where w: "wait_for_tx (ho_net H) (rpc_url config) h_hex 180 5 w1 = Some (Inr receipt, w2)"
    unfolding play_verify_def pio_iffs task_try_Inr_iff by (auto simp: on_world_wait_def split: option.splits)
  have "last (ap_events s') = ResultEvent (play_result t l wn h_hex u q (px_seed x))" using e by (auto simp: emit_def)
  with play_submit_Inr[OF b] play_construct_Inr[OF c] w play_result_fields[of t l wn h_hex u q "px_seed x"]
  show ?thesis by metis
qed

section \<open>A game that is played to its end\<close>

text \<open>
  The node gives nonce 5 and accepts every transaction in block 9, and the gateway takes every payload.
\<close>

definition game_answer :: "json \<Rightarrow> json" where
  "game_answer p = (case Option.bind (json_get ''params'' p) (json_get ''transaction_hash'') of
      Some h \<Rightarrow> JObj [(''finality_status'', JStr ''ACCEPTED_ON_L2''), (''block_number'', ju64 9)]
    | None \<Rightarrow> JStr (fmt_hex 5))"

definition game_net :: "nat net" where
  "game_net = \<lparr> http_send = (\<lambda>url p t. (Inr \<lparr> resp_status = 200, resp_json = Inr (JObj
       [(''result'', game_answer p), (''code'', JStr ''TRANSACTION_RECEIVED'')]) \<rparr>, t)),
     now = (\<lambda>t. (t, t)), instant_add = (\<lambda>t d. Some (t + d)),
     gloo_sleep = (\<lambda>d t. if u32_millis d then Some (t + d) else None), sleep = (\<lambda>d t. ((), t + d)) \<rparr>"

definition game_host :: "nat host" where
  "game_host = flip_host\<lparr> ho_net := game_net \<rparr>"

definition game_ticket :: play_ticket where
  "game_ticket = \<lparr> pt_session_id = ''a-b'', pt_deployment = flip_deployment, pt_player = ''0x7'', pt_bet = 1, pt_seed_block = 12 \<rparr>"

definition game_state :: "nat cf_app" where
  "game_state = flip_state\<lparr> cf_bank := None, cf_commitments := Map.empty \<rparr>"

lemma game_clock: "clock_laws (ho_net game_host) (\<lambda>t. t)"
  by (simp add: clock_laws_def game_host_def game_net_def flip_host_def)

theorem play_task_ends_witness:
  "clock_laws (ho_net game_host) (\<lambda>t. t) \<and>
   (\<exists>r s' es. play_task flip_lib game_host demo_config game_ticket game_state = Some (r, s') \<and> ap_events s' = es \<and>
     (\<forall>str \<in> play_streams es [''proving''] []. case r of
        Inr _ \<Rightarrow> \<exists>as j bs. str = as @ ResultEvent j # bs \<and> list_all progress as \<and> set bs \<subseteq> {Log ''proving'' NoCause}
      | Inl Returned \<Rightarrow> \<exists>as m c bs. str = as @ ErrorEvent m c # bs \<and> list_all progress as \<and> set bs \<subseteq> {Log ''proving'' NoCause}
      | Inl (TaskPanic _) \<Rightarrow> list_all progress str))"
proof -
  have "ap_events game_state = []" by (simp add: game_state_def flip_state_def)
  moreover have fw: "set (forward_lines [''proving'']) \<union> set (forward_lines []) = {Log ''proving'' NoCause}"
    by (simp add: forward_lines_def)
  moreover obtain r s' es where "play_task flip_lib game_host demo_config game_ticket game_state = Some (r, s')"
    and "ap_events s' = ap_events game_state @ es" and str: "\<forall>out err. \<forall>str \<in> play_streams es out err. case r of
        Inr _ \<Rightarrow> \<exists>as j bs. str = as @ ResultEvent j # bs \<and> list_all progress as \<and>
          set bs \<subseteq> set (forward_lines out) \<union> set (forward_lines err)
      | Inl Returned \<Rightarrow> \<exists>as m c bs. str = as @ ErrorEvent m c # bs \<and> list_all progress as \<and>
          set bs \<subseteq> set (forward_lines out) \<union> set (forward_lines err)
      | Inl (TaskPanic _) \<Rightarrow> list_all progress str"
    using play_task_ends[OF game_clock, of flip_lib demo_config game_ticket game_state] by (elim exE conjE)
  moreover note str[THEN spec, of "[''proving'']", THEN spec, of "[]", unfolded fw]
  ultimately show ?thesis using game_clock by (intro conjI exI[of _ r] exI[of _ s'] exI[of _ es]) simp_all
qed

lemma game_call: "call game_net url m p t = (Inr (game_answer (rpc_payload m p)), t)"
  by (simp add: game_net_def call_def call_raw_def rio_bind_apply rio_map_err_apply response_result_def)

lemma game_wait:
  "on_world_wait (wait_for_tx game_net url h 180 5) s =
     Some (Inr (JObj [(''finality_status'', JStr ''ACCEPTED_ON_L2''), (''block_number'', ju64 9)]), s)"
proof -
  have "poll_receipt game_net url h t = (Some (Inr (JObj [(''finality_status'', JStr ''ACCEPTED_ON_L2''), (''block_number'', ju64 9)])), t)" for t
    by (simp add: poll_receipt_def get_receipt_def game_call game_answer_def rpc_payload_def classify_receipt_def Let_def)
  moreover have "now game_net t = (t, t)" "instant_add game_net t d = Some (t + d)" for t d by (simp_all add: game_net_def)
  ultimately show ?thesis
    by (simp add: on_world_wait_def wait_for_tx_def poll_until.simps[of _ _ _ _ _ "ap_world s"] from_secs_def)
qed

lemma game_nonce: "on_world (get_nonce_at_block game_net url a b) s = Some (Inr 5, s)"
proof -
  have "parse_u64_hex (fmt_hex 5) = Some 5" using parse_u64_hex_fmt[of 5] by simp
  then show ?thesis
  by (simp add: get_nonce_at_block_def on_world_def rio_bind_apply rio_lift_apply game_call game_answer_def rpc_payload_def)
qed

lemma game_selector: "\<exists>x. felt_from_hex_msg stark_felt PLAY_SELECTOR = Inr x"
  by (simp add: PLAY_SELECTOR_def felt_from_hex_msg_def stark_felt_def stark_from_hex_def starts_with_def stark_prime_def hex_val_def)

lemma game_parses: "\<exists>xs. parse_felts stark_felt (play_calldata game_ticket) = Inr xs"
proof -
  obtain a where "felt_from_hex_msg stark_felt PLAY_SELECTOR = Inr a" using game_selector by blast
  moreover obtain b where "felt_from_hex_msg stark_felt (fmt_hex 12) = Inr b" using game_fmt[of 12] by (auto simp: stark_prime_def)
  moreover obtain c where "felt_from_hex_msg stark_felt (fmt_hex (Suc 0)) = Inr c" using game_fmt[of "Suc 0"] by (auto simp: stark_prime_def)
  ultimately show ?thesis
    by (simp add: parse_felts_def play_calldata_def game_ticket_def flip_deployment_def game_felts)
qed

text \<open>Every stage of the task succeeds.\<close>

lemma game_host_simps:
  "ho_net game_host = game_net" "ho_create_dir_all game_host p t = (Inr (), t)" "ho_write game_host p x t = (Inr (), t)"
  "ho_read_to_string game_host p t = (Inr ''AB'', t)" "ho_exists game_host p t = (False, t)" "ho_len game_host p t = (Inr 2, t)"
  "ho_spawn game_host b args t = (Inr 0, t)" "ho_wait game_host c t = (Inr True, t)" "ho_env game_host k t = (None, t)"
  "ho_snip36_bin game_host t = (''snip36'', t)"
  by (simp_all add: game_host_def flip_host_def)

lemmas game_run = task_try_def pio_bind_def pio_result_def emit_def on_world_def on_world_io_def game_host_simps

lemma game_constructs:
  "\<exists>x s'. play_construct flip_lib game_host demo_config game_ticket (s :: nat cf_app) = Some (Inr x, s') \<and>
     cf_bank s' = cf_bank s \<and> px_key x = felt_of_nat 2"
proof -
  obtain xs where xs: "parse_felts stark_felt (play_calldata game_ticket) = Inr xs" using game_parses by blast
  have nonce: "on_world (get_nonce_at_block game_net url a b) s1 = Some (Inr 5, s1)" for url a b and s1 :: "nat cf_app"
    by (rule game_nonce)
  obtain sig where "sign demo_crypto (felt_of_nat 2) (compute_invoke_v3_tx_hash stark_felt demo_crypto (felt_of_nat 1) xs
      (felt_from_bytes_be stark_felt (replicate 22 0 @ as_bytes ''SN_SEPOLIA'')) (felt_from_u64 stark_felt 5) (felt_ZERO stark_felt) zero_fee [] [] 0 0 []) = Inr sig"
    using game_sign by blast
  then show ?thesis
    unfolding play_construct_def Let_def flip_lib_simps game_config xs game_host_simps
    by (simp add: pio_bind_def task_try_def pio_result_def emit_def nonce game_felts on_world_pure del: replicate.simps)
qed

lemma game_proves: "\<exists>n s'. play_prove game_host config b x (s :: nat cf_app) = Some (Inr n, s') \<and> cf_bank s' = cf_bank s"
  by (simp add: play_prove_def Let_def game_run)

lemma game_settlement: "read_settlement A game_host p s = Some (Inr ([], False), s)"
  by (simp add: read_settlement_def game_run)

lemma game_submits:
  assumes "px_key x = felt_of_nat 2"
  shows "\<exists>h s'. play_submit flip_lib game_host config x (s :: nat cf_app) = Some (Inr h, s') \<and> cf_bank s' = cf_bank s"
proof -
  have r: "\<exists>params. read_submission flip_lib game_host x s = Some (Inr params, s) \<and> sp_private_key params = felt_of_nat 2" for s :: "nat cf_app"
    by (simp add: read_submission_def read_proof_def game_run flip_lib_simps assms parse_felts_def parse_proof_facts_json_def)
  have g: "\<exists>s'. gateway_attempts game_host url p (1 # as) s = Some (Inr True, s') \<and> cf_bank s' = cf_bank s" for url p as and s :: "nat cf_app"
    by (simp add: game_run game_net_def)
  let ?s = "s\<lparr> ap_events := ap_events s @ [Phase ''submitting''] \<rparr>"
  obtain params where p: "read_submission flip_lib game_host x ?s = Some (Inr params, ?s)" "sp_private_key params = felt_of_nat 2"
    using r by blast
  obtain h payload where h: "sign_and_build_payload stark_felt demo_crypto params = Inr (h, payload)" using game_payload[OF p(2)] by blast
  have upt: "[1..<Suc max_attempts] = 1 # [2..<Suc max_attempts]" by (simp add: max_attempts_def upt_rec)
  let ?s1 = "?s\<lparr> ap_events := ap_events ?s @ [Log (''Submitting tx '' @ get_prefix18 (felt_lower_hex stark_felt h) @ ''...'') NoCause] \<rparr>"
  obtain s' where "gateway_attempts game_host (submit_url config) payload (1 # [2..<Suc max_attempts]) ?s1 = Some (Inr True, s')"
    "cf_bank s' = cf_bank s" using g[of "submit_url config" payload "[2..<Suc max_attempts]" ?s1] by auto
  with p(1) h show ?thesis unfolding play_submit_def Let_def upt flip_lib_simps
    by (simp add: pio_bind_def task_try_def pio_result_def emit_def del: gateway_attempts.simps upt_Suc)
qed

lemma game_verifies: "\<exists>s'. play_verify game_host config h (s :: nat cf_app) = Some (Inr (), s') \<and> cf_bank s' = cf_bank s"
  by (simp add: play_verify_def game_run game_wait)

lemma game_plays: "\<exists>s'. play_task flip_lib game_host demo_config game_ticket game_state = Some (Inr (), s')"
proof -
  obtain s0 where 0: "announce_play game_ticket game_state = Some (Inr (), s0)" "cf_bank s0 = None"
    by (simp add: announce_play_def game_ticket_def str_prefix_def is_char_boundary_def emit_def game_state_def)
  obtain x s1 where 1: "play_construct flip_lib game_host demo_config game_ticket s0 = Some (Inr x, s1)"
    "cf_bank s1 = None" "px_key x = felt_of_nat 2" using game_constructs[of s0] 0(2) by auto
  obtain n s2 where 2: "play_prove game_host demo_config (pt_seed_block game_ticket) x s1 = Some (Inr n, s2)" "cf_bank s2 = None"
    using game_proves 1(2) by metis
  obtain h s3 where 3: "play_submit flip_lib game_host demo_config x s2 = Some (Inr h, s3)" "cf_bank s3 = None"
    using game_submits[OF 1(3)] 2(2) by metis
  obtain s4 where 4: "play_verify game_host demo_config h s3 = Some (Inr (), s4)" "cf_bank s4 = None"
    using game_verifies 3(2) by metis
  then show ?thesis using 0 1 2 3
    by (simp add: play_task_def pio_bind_def game_settlement play_settle_def emit_def)
qed

theorem play_result_sound_witness:
  "\<exists>s' params h payload j. play_task flip_lib game_host demo_config game_ticket game_state = Some (Inr (), s') \<and>
     parse_felts stark_felt (play_calldata game_ticket) = Inr (sp_calldata params) \<and>
     sign_and_build_payload stark_felt demo_crypto params = Inr (h, payload) \<and>
     last (ap_events s') = ResultEvent j \<and> get_str ''tx_hash'' j = Some (felt_lower_hex stark_felt h) \<and>
     get_str ''player'' j = Some ''0x7''"
proof -
  have "pt_player game_ticket = ''0x7''" by (simp add: game_ticket_def)
  moreover obtain s' where s': "play_task flip_lib game_host demo_config game_ticket game_state = Some (Inr (), s')"
    using game_plays by blast
  ultimately show ?thesis using play_result_sound[OF s', unfolded flip_lib_simps] s' by metis
qed

end
