(* ===== verification/Driver.thy ===== *)
theory Driver
  imports AppTask
begin

text \<open>
  What the command-line drivers under \<open>apps/\<close> share: the health check and the end-to-end tests. A driver
  counts passed and failed checks, times its steps, runs \<open>sncast\<close>, \<open>scarb\<close> and the prover, and ends with
  an error, an exit status or a panic. The \<open>PASS\<close> and \<open>FAIL\<close> lines are kept as events; the other log
  lines are left out, except the table of times. The definitions are those of \<open>counter/src/e2e.rs\<close>, with what differs in the other
  drivers as an argument.
\<close>

section \<open>The report\<close>

datatype driver_end = Bail string cause | Exit nat | DriverPanic string

record 'w report = "'w app" +
  rp_passed :: u32
  rp_failed :: u32
  rp_timings :: "(string \<times> nat) list"
  rp_step :: "(string \<times> nat) option"

type_synonym ('w, 'a) driver = "('w report, driver_end, 'a) pio"

definition pass :: "string \<Rightarrow> ('w, unit) driver" where
  "pass msg s = Some (Inr (), s\<lparr> rp_passed := rp_passed s + 1, ap_events := ap_events s @ [Log msg NoCause] \<rparr>)"

definition fail :: "string \<Rightarrow> cause \<Rightarrow> ('w, unit) driver" where
  "fail msg c s = Some (Inr (), s\<lparr> rp_failed := rp_failed s + 1, ap_events := ap_events s @ [ErrorEvent msg c] \<rparr>)"

definition bail :: "string \<Rightarrow> ('w, 'a) driver" where
  "bail msg = pio_return (Inl (Bail msg NoCause))"

definition fail_bail :: "string \<Rightarrow> cause \<Rightarrow> string \<Rightarrow> ('w, 'a) driver" where
  "fail_bail msg c b = pio_bind (fail msg c) (\<lambda>_. bail b)"

text \<open>\<open>m.await.wrap_err(msg)?\<close>, and the same with an error that is only converted.\<close>

definition wrap_err :: "string \<Rightarrow> ('e \<Rightarrow> cause) \<Rightarrow> ('w report, 'e, 'a) pio \<Rightarrow> ('w, 'a) driver" where
  "wrap_err msg f m = pio_map_err (\<lambda>e. Bail msg (f e)) m"

text \<open>Unsigned arithmetic: it wraps, or panics in a build with overflow checks.\<close>

definition u64_arith :: "bool \<Rightarrow> nat \<Rightarrow> driver_end + u64" where
  "u64_arith overflow_checks n =
     (if overflow_checks \<and> 2 ^ 64 \<le> n then Inl (DriverPanic ''arithmetic overflow'') else Inr (word_of_nat n))"

definition u32_arith :: "bool \<Rightarrow> nat \<Rightarrow> driver_end + u32" where
  "u32_arith overflow_checks n =
     (if overflow_checks \<and> 2 ^ 32 \<le> n then Inl (DriverPanic ''arithmetic overflow'') else Inr (word_of_nat n))"

section \<open>Steps and their times\<close>

definition finish_last_step :: "'w host \<Rightarrow> ('w, unit) driver" where
  "finish_last_step H s = (case rp_step s of
      None \<Rightarrow> Some (Inr (), s)
    | Some (name, start) \<Rightarrow>
        pio_bind (on_world_io (now (ho_net H))) (\<lambda>t s.
          Some (Inr (), s\<lparr> rp_timings := rp_timings s @ [(name, t - start)], rp_step := None \<rparr>)) s)"

definition step :: "'w host \<Rightarrow> u32 \<Rightarrow> string \<Rightarrow> ('w, unit) driver" where
  "step H n title =
     pio_bind (finish_last_step H) (\<lambda>_.
     pio_bind (on_world_io (now (ho_net H))) (\<lambda>t s.
       Some (Inr (), s\<lparr> rp_step := Some (''Step '' @ dec_string (unat n) @ '': '' @ title, t) \<rparr>)))"

text \<open>A duration is in milliseconds; \<open>{:02}\<close>, \<open>{:<45}\<close> and \<open>{:>10}\<close> pad to a width.\<close>

definition pad2 :: "nat \<Rightarrow> string" where
  "pad2 n = (let d = dec_string n in replicate (2 - length d) (CHR ''0'') @ d)"

definition format_duration :: "nat \<Rightarrow> string" where
  "format_duration d =
     (let secs = d div 1000 in
      if secs \<ge> 60 then dec_string (secs div 60) @ ''m '' @ pad2 (secs mod 60) @ ''s''
      else dec_string secs @ ''.'' @ dec_string (d mod 1000 div 100) @ ''s'')"

text \<open>A character takes one place, whatever its length in UTF-8.\<close>

definition char_count :: "string \<Rightarrow> nat" where
  "char_count s = length (filter (\<lambda>c. of_char c div 64 \<noteq> (2 :: nat)) s)"

definition timing_line :: "string \<times> nat \<Rightarrow> string" where
  "timing_line t = (case t of (name, d) \<Rightarrow>
     let n = format_duration d in
     ''  '' @ name @ replicate (45 - char_count name) (CHR '' '') @ '' '' @ replicate (10 - length n) (CHR '' '') @ n)"

definition reset_report :: "('w, unit) driver" where
  "reset_report s = Some (Inr (), s\<lparr> rp_passed := 0, rp_failed := 0, rp_timings := [], rp_step := None \<rparr>)"

fun emit_all :: "sse_event list \<Rightarrow> ('w, unit) driver" where
  "emit_all [] = pio_return (Inr ())"
| "emit_all (ev # evs) = pio_bind (emit ev) (\<lambda>_. emit_all evs)"

text \<open>The table of the times, then the verdict.\<close>

definition print_timings :: "nat \<Rightarrow> ('w, unit) driver" where
  "print_timings total_elapsed s =
     emit_all (map (\<lambda>t. Phase (timing_line t)) (rp_timings s @ [(''Total'', total_elapsed)])) s"

definition verdict :: "('w, unit) driver" where
  "verdict s = (if rp_failed s = 0 then Some (Inr (), s) else Some (Inl (Exit 1), s))"

definition summary :: "bool \<Rightarrow> 'w host \<Rightarrow> nat \<Rightarrow> ('w, unit) driver" where
  "summary overflow_checks H e2e_start =
     pio_bind (finish_last_step H) (\<lambda>_.
     pio_bind (on_world_io (now (ho_net H))) (\<lambda>t.
     pio_bind (\<lambda>s. pio_return (u32_arith overflow_checks (unat (rp_passed s) + unat (rp_failed s))) s) (\<lambda>_.
     pio_bind (print_timings (t - e2e_start)) (\<lambda>_. verdict))))"

text \<open>The frame of a driver: the counters are reset before and read after.\<close>

definition counted :: "('w, 'a) driver \<Rightarrow> ('a \<Rightarrow> ('w, unit) driver) \<Rightarrow> ('w, unit) driver" where
  "counted body report = pio_bind reset_report (\<lambda>_. pio_bind body report)"

definition timed :: "'w host \<Rightarrow> ('w, unit) driver \<Rightarrow> ('w, nat) driver" where
  "timed H body =
     pio_bind (on_world_io (now (ho_net H))) (\<lambda>e2e_start. pio_bind body (\<lambda>_. pio_return (Inr e2e_start)))"

text \<open>The prover to use: the argument, or \<open>PROVER_URL\<close> when it is set and not empty.\<close>

definition prover_url_of :: "string option \<Rightarrow> env \<Rightarrow> string option" where
  "prover_url_of arg e = (case arg of
      Some url \<Rightarrow> Some url
    | None \<Rightarrow> (case e ''PROVER_URL'' of Some url \<Rightarrow> if url = [] then None else Some url | None \<Rightarrow> None))"

section \<open>Commands\<close>

text \<open>\<open>Command::status\<close>: start a program and wait for it.\<close>

definition run_status :: "'w host \<Rightarrow> string \<Rightarrow> string list \<Rightarrow> ('w, string, bool) rio" where
  "run_status H prog args = rio_bind (ho_spawn H prog args) (ho_wait H)"

fun missing_command :: "'w host \<Rightarrow> string list \<Rightarrow> ('w, string option) driver" where
  "missing_command H [] = pio_return (Inr None)"
| "missing_command H (cmd # cmds) =
     pio_bind (pio_result (on_world (ho_output H ''which'' [cmd] None))) (\<lambda>check.
     if (case check of Inr out \<Rightarrow> out_success out | Inl _ \<Rightarrow> False) then missing_command H cmds
     else pio_return (Inr (Some cmd)))"

definition check_commands :: "'w host \<Rightarrow> ('w, unit) driver" where
  "check_commands H =
     pio_bind (missing_command H [''scarb'', ''sncast'']) (\<lambda>m.
     case m of Some cmd \<Rightarrow> bail (cmd @ '' not found in PATH'') | None \<Rightarrow> pio_return (Inr ()))"

definition require_file :: "'w host \<Rightarrow> string \<Rightarrow> string \<Rightarrow> ('w, unit) driver" where
  "require_file H path msg =
     pio_bind (on_world_io (ho_exists H path)) (\<lambda>ex. if ex then pio_return (Inr ()) else bail msg)"

text \<open>\<open>&out[..out.len().min(500)]\<close>\<close>

definition clip500 :: "string \<Rightarrow> ('w, string) driver" where
  "clip500 out = (case str_prefix out (min (length out) 500) of
      Some p \<Rightarrow> pio_return (Inr p)
    | None \<Rightarrow> pio_return (Inl (DriverPanic ''byte index 500 is not a char boundary'')))"

definition import_args :: "config \<Rightarrow> string \<Rightarrow> string list" where
  "import_args config account_name = [''account'', ''import'', ''--name'', account_name, ''--address'', account_address config,
     ''--private-key'', private_key config, ''--type'', ''oz'', ''--url'', rpc_url config]"

definition verify_account ::
  "'w host \<Rightarrow> config \<Rightarrow> (u64 \<Rightarrow> string) \<Rightarrow> string \<Rightarrow> string \<Rightarrow> ('w, unit) driver" where
  "verify_account H config ok failed stop =
     pio_bind (pio_result (on_world (get_nonce (ho_net H) (rpc_url config) (account_address config)))) (\<lambda>r.
     case r of
       Inr nonce \<Rightarrow> pass (ok nonce)
     | Inl e \<Rightarrow> fail_bail failed (Rpc_cause e) stop)"

definition compile_contracts :: "'w host \<Rightarrow> config \<Rightarrow> string \<Rightarrow> string \<Rightarrow> ('w, unit) driver" where
  "compile_contracts H config ok failed =
     pio_bind (wrap_err ''failed to run scarb build'' Text
        (on_world (ho_output H ''scarb'' [''build''] (Some (contracts_dir config))))) (\<lambda>build.
     if out_success build then pass ok
     else pio_bind (clip500 (format_cmd_output build)) (\<lambda>out. fail_bail (failed @ out) NoCause ''compilation failed''))"

text \<open>\<open>parse_hex_from_output(key, text)\<close>, and for a class hash the first long hexadecimal text otherwise.\<close>

definition class_hash_of :: "('f, 're) app_lib \<Rightarrow> string \<Rightarrow> string option" where
  "class_hash_of A text = (case parse_hex_from_output (al_regex A) ''class_hash'' text of
      Some h \<Rightarrow> Some h | None \<Rightarrow> parse_long_hex (al_regex A) text)"

definition sncast_declare ::
  "'w host \<Rightarrow> config \<Rightarrow> string \<Rightarrow> string \<Rightarrow> ('w, string) driver" where
  "sncast_declare H config account_name contract_name =
     pio_bind (wrap_err ''failed to run sncast declare'' Text (on_world (ho_output H ''sncast''
         [''--account'', account_name, ''declare'', ''--url'', rpc_url config, ''--contract-name'', contract_name]
         (Some (contracts_dir config))))) (\<lambda>out.
       pio_return (Inr (format_cmd_output out)))"

text \<open>The class hash that the artifacts have, when this class is on chain already.\<close>

definition declared_class ::
  "('f, 're) app_lib \<Rightarrow> 'w host \<Rightarrow> config \<Rightarrow> string \<Rightarrow> ('w, string option) driver" where
  "declared_class A H config contract_name =
     pio_bind (wrap_err ''failed to compute class hash'' Text (on_world (ho_output H ''sncast''
         [''utils'', ''class-hash'', ''--contract-name'', contract_name] (Some (contracts_dir config))))) (\<lambda>out.
     case class_hash_of A (format_cmd_output out) of
       None \<Rightarrow> pio_return (Inr None)
     | Some ch \<Rightarrow>
         pio_bind (pio_result (on_world (get_class (ho_net H) (rpc_url config) ch))) (\<lambda>r.
           pio_return (Inr (case r of Inr _ \<Rightarrow> Some ch | Inl _ \<Rightarrow> None))))"

definition sncast_deploy ::
  "('f, 're) app_lib \<Rightarrow> 'w host \<Rightarrow> config \<Rightarrow> string \<Rightarrow> string \<Rightarrow> string \<Rightarrow> ('w, string \<times> string option) driver" where
  "sncast_deploy A H config account_name class_hash ok =
     pio_bind (on_world_io (ho_random16 H)) (\<lambda>bytes.
     pio_bind (wrap_err ''failed to run sncast deploy'' Text (on_world (ho_output H ''sncast''
         [''--account'', account_name, ''deploy'', ''--url'', rpc_url config, ''--class-hash'', class_hash,
          ''--salt'', ''0x'' @ hex_encode bytes] None))) (\<lambda>out.
     let combined = format_cmd_output out;
         deploy_tx_hash = parse_hex_from_output (al_regex A) ''transaction_hash'' combined in
     case parse_hex_from_output (al_regex A) ''contract_address'' combined of
       Some addr \<Rightarrow> pio_bind (pass ok) (\<lambda>_. pio_return (Inr (addr, deploy_tx_hash)))
     | None \<Rightarrow> fail_bail ''Could not determine contract address'' NoCause ''deploy failed''))"

definition wait_deploy :: "'w host \<Rightarrow> config \<Rightarrow> string option \<Rightarrow> ('w, u64) driver" where
  "wait_deploy H config deploy_tx_hash = (case deploy_tx_hash of
      None \<Rightarrow> fail_bail ''No deploy tx hash to wait for'' NoCause ''missing deploy tx hash''
    | Some tx \<Rightarrow>
        pio_bind (pio_result (on_world_wait (wait_for_tx (ho_net H) (rpc_url config) tx 120 3))) (\<lambda>r.
        case r of
          Inr receipt \<Rightarrow>
            (let bn = unwrap_or 0 (receipt_block_number receipt) in
             pio_bind (pass (''Deploy confirmed in block '' @ dec_string (unat bn))) (\<lambda>_. pio_return (Inr bn)))
        | Inl e \<Rightarrow> fail_bail ''Could not confirm deploy tx: '' (Rpc_cause e) ''deploy confirmation failed''))"

section \<open>Transactions\<close>

record 'f identity =
  id_calldata :: "'f list"
  id_sender :: 'f
  id_key :: 'f
  id_chain_id :: 'f

definition parse_identity ::
  "('f, 're) app_lib \<Rightarrow> config \<Rightarrow> string list \<Rightarrow> ('w, 'f identity) driver" where
  "parse_identity A config calldata =
     pio_bind (wrap_err [] Text (pio_return (parse_felts (al_felt A) calldata))) (\<lambda>calldata_felts.
     pio_bind (wrap_err [] Text (pio_return (felt_from_hex_msg (al_felt A) (account_address config)))) (\<lambda>sender_felt.
     pio_bind (wrap_err [] Text (pio_return (felt_from_hex_msg (al_felt A) (private_key config)))) (\<lambda>private_key_felt.
     pio_bind (wrap_err [] Config_cause (pio_return (config_chain_id_felt (al_felt A) config))) (\<lambda>chain_id_f.
       pio_return (Inr \<lparr> id_calldata = calldata_felts, id_sender = sender_felt, id_key = private_key_felt,
         id_chain_id = chain_id_f \<rparr>)))))"

text \<open>Sign the transaction without fees for the virtual OS and write it to a file.\<close>

definition write_signed_tx ::
  "('f, 're) app_lib \<Rightarrow> 'w host \<Rightarrow> config \<Rightarrow> 'f identity \<Rightarrow> string list \<Rightarrow> u64 \<Rightarrow> string \<Rightarrow> string \<Rightarrow> string \<Rightarrow> ('w, unit) driver" where
  "write_signed_tx A H config d calldata nonce tx_path sign_failed ok =
     (let standard_tx_hash = compute_invoke_v3_tx_hash (al_felt A) (al_crypto A) (id_sender d) (id_calldata d) (id_chain_id d)
            (felt_from_u64 (al_felt A) nonce) (felt_ZERO (al_felt A)) zero_fee [] [] 0 0 [] in
      pio_bind (wrap_err sign_failed Sign_cause (pio_return (sign (al_crypto A) (id_key d) standard_tx_hash))) (\<lambda>sig.
      pio_bind (wrap_err [] Text (on_world (ho_write H tx_path
          (al_pretty A (web_tx_json (al_felt A) (account_address config) calldata nonce zero_fee sig))))) (\<lambda>_.
        pass ok)))"

definition e2e_prove_args :: "config \<Rightarrow> string option \<Rightarrow> u64 \<Rightarrow> string \<Rightarrow> string \<Rightarrow> string list" where
  "e2e_prove_args config prover_url reference_block tx_path proof_path =
     [''prove'', ''virtual-os'', ''--block-number'', dec_string (unat reference_block), ''--tx-json'', tx_path,
      ''--rpc-url'', rpc_url config, ''--output'', proof_path] @
     (case prover_url of Some url \<Rightarrow> [''--prover-url'', url] | None \<Rightarrow> [''--strk-fee-token'', STRK_TOKEN])"

definition prove_tx ::
  "'w host \<Rightarrow> string \<Rightarrow> string list \<Rightarrow> string \<Rightarrow> string \<Rightarrow> string \<Rightarrow> ('w, unit) driver" where
  "prove_tx H exe args proof_path cmd_failed stop =
     pio_bind (wrap_err cmd_failed Text (on_world (run_status H exe args))) (\<lambda>success.
     pio_bind (if success then on_world_io (ho_exists H proof_path) else pio_return (Inr False)) (\<lambda>proved.
     if proved then
       pio_bind (wrap_err [] Text (on_world (ho_len H proof_path))) (\<lambda>len.
         pass (''Proof generated ('' @ dec_string (unat len) @ '' bytes)''))
     else fail_bail ''Proof generation failed'' NoCause stop))"

section \<open>Submission\<close>

definition e2e_read_proof ::
  "('f, 're) app_lib \<Rightarrow> 'w host \<Rightarrow> string \<Rightarrow> string \<Rightarrow> ('w, string \<times> 'f list) driver" where
  "e2e_read_proof A H proof_path stop =
     pio_bind (wrap_err [] Text (on_world (ho_read_to_string H proof_path))) (\<lambda>proof_text.
     if trim proof_text = [] then fail_bail ''Proof file is empty'' NoCause stop
     else
       pio_bind (wrap_err ''failed to read proof_facts'' Text
          (on_world (ho_read_to_string H (with_extension proof_path ''proof_facts'')))) (\<lambda>proof_facts_str.
       pio_bind (wrap_err ''failed to parse proof_facts: '' Proof_cause
          (pio_return (parse_proof_facts_json (al_strings_from_str A) proof_facts_str))) (\<lambda>proof_facts_hex.
       pio_bind (wrap_err [] Text (pio_return (parse_felts (al_felt A) proof_facts_hex))) (\<lambda>proof_facts.
         pio_return (Inr (trim proof_text, proof_facts))))))"

definition submission_params ::
  "'f felt_lib \<Rightarrow> 'f identity \<Rightarrow> u64 \<Rightarrow> string \<Rightarrow> 'f list \<Rightarrow> 'f submit_params" where
  "submission_params F d nonce proof_b64 proof_facts = \<lparr>
     sp_sender_address = id_sender d, sp_private_key = id_key d, sp_calldata = id_calldata d,
     sp_proof_base64 = proof_b64, sp_proof_facts = proof_facts, sp_nonce = felt_from_u64 F nonce,
     sp_chain_id = id_chain_id d, sp_resource_bounds = resource_bounds_default \<rparr>"

text \<open>The form that the drivers give the payload for the gateway.\<close>

definition upper_char :: "char \<Rightarrow> char" where
  "upper_char c = (let n = of_char c :: nat in if 97 \<le> n \<and> n \<le> 122 then char_of (n - 32) else c)"

definition uppercase_keys :: "json \<Rightarrow> json" where
  "uppercase_keys v = JObj (case as_object v of
      None \<Rightarrow> [] | Some ms \<Rightarrow> im_extend [] (map (\<lambda>(k, x). (map upper_char k, x)) ms))"

definition gateway_form :: "json \<Rightarrow> json" where
  "gateway_form invoke_tx =
     (let gw_tx = json_set ''type'' (JStr ''INVOKE_FUNCTION'') invoke_tx in
      case json_get ''resource_bounds'' gw_tx of
        Some rb \<Rightarrow> json_set ''resource_bounds'' (uppercase_keys rb) gw_tx
      | None \<Rightarrow> gw_tx)"

fun gateway_submit :: "'w host \<Rightarrow> string \<Rightarrow> json \<Rightarrow> nat list \<Rightarrow> ('w, bool) driver" where
  "gateway_submit H url tx [] = pio_return (Inr False)"
| "gateway_submit H url tx (attempt # rest) =
     pio_bind (pio_result (on_world (http_send (ho_net H) url tx))) (\<lambda>response.
     case response of
       Inr resp \<Rightarrow>
         (let body = unwrap_or JNull (result_ok (resp_json resp));
              code = unwrap_or [] (get_str ''code'' body); msg = unwrap_or [] (get_str ''message'' body) in
          if code = ''TRANSACTION_RECEIVED'' then
            pio_bind (pass (''Gateway accepted '' @ attempt_text attempt)) (\<lambda>_. pio_return (Inr True))
          else if (str_contains ''too recent'' msg \<or> str_contains ''stored block hash: 0'' msg) \<and> attempt < max_attempts then
            pio_bind (on_world_io (sleep (ho_net H) (from_secs 10))) (\<lambda>_. gateway_submit H url tx rest)
          else pio_bind (fail ''Gateway rejected: '' (Body body)) (\<lambda>_. pio_return (Inr False)))
     | Inl e \<Rightarrow>
         if attempt < max_attempts then
           pio_bind (on_world_io (sleep (ho_net H) (from_secs 10))) (\<lambda>_. gateway_submit H url tx rest)
         else pio_bind (fail ''Gateway request failed: '' (Text e)) (\<lambda>_. gateway_submit H url tx rest))"

fun rpc_submit :: "'w host \<Rightarrow> string \<Rightarrow> json \<Rightarrow> nat list \<Rightarrow> ('w, string option) driver" where
  "rpc_submit H url tx [] = pio_return (Inr None)"
| "rpc_submit H url tx (attempt # rest) =
     pio_bind (pio_result (on_world (add_invoke_transaction (ho_net H) url tx))) (\<lambda>r.
     case r of
       Inr h \<Rightarrow> pio_bind (pass (''RPC accepted '' @ attempt_text attempt @ '': '' @ h)) (\<lambda>_. pio_return (Inr (Some h)))
     | Inl e \<Rightarrow>
         (case e of
            JsonRpc msg \<Rightarrow>
              if attempt < max_attempts then
                pio_bind (on_world_io (sleep (ho_net H) (from_secs 10))) (\<lambda>_. rpc_submit H url tx rest)
              else pio_bind (fail ''RPC submission failed: '' (Rpc_cause e)) (\<lambda>_. pio_return (Inr None))
          | _ \<Rightarrow> pio_bind (fail ''RPC submission failed: '' (Rpc_cause e)) (\<lambda>_. pio_return (Inr None))))"

text \<open>Through the gateway when one is configured, through the node otherwise.\<close>

definition submit_tx ::
  "'w host \<Rightarrow> config \<Rightarrow> string \<Rightarrow> json \<Rightarrow> ('w, string option) driver" where
  "submit_tx H config local_tx_hash_hex invoke_tx = (case gateway_url config of
      Some gw_url \<Rightarrow>
        pio_bind (gateway_submit H (trim_end_matches ''/'' gw_url @ ''/gateway/add_transaction'')
            (gateway_form invoke_tx) [1..<Suc max_attempts]) (\<lambda>accepted.
          pio_return (Inr (if accepted then Some local_tx_hash_hex else None)))
    | None \<Rightarrow> rpc_submit H (rpc_url config) invoke_tx [1..<Suc max_attempts])"


section \<open>Reports\<close>

text \<open>
  A stage of a driver keeps its counters in line with the lines it writes, and does not exit: only the
  report at the end of a driver does.
\<close>

fun is_pass :: "sse_event \<Rightarrow> bool" where
  "is_pass (Log m c) = True"
| "is_pass _ = False"

fun is_fail :: "sse_event \<Rightarrow> bool" where
  "is_fail (ErrorEvent m c) = True"
| "is_fail _ = False"

definition count_events :: "(sse_event \<Rightarrow> bool) \<Rightarrow> sse_event list \<Rightarrow> nat" where
  "count_events P es = length (filter P es)"

definition tallies :: "'w report \<Rightarrow> 'w report \<Rightarrow> sse_event list \<Rightarrow> bool" where
  "tallies s s' es \<longleftrightarrow> ap_events s' = ap_events s @ es \<and>
     rp_passed s' = rp_passed s + of_nat (count_events is_pass es) \<and>
     rp_failed s' = rp_failed s + of_nat (count_events is_fail es)"

definition stage :: "('w, 'a) driver \<Rightarrow> bool" where
  "stage m \<longleftrightarrow> (\<forall>s r s'. m s = Some (r, s') \<longrightarrow> (\<exists>es. tallies s s' es) \<and> (\<forall>n. r \<noteq> Inl (Exit n)))"

definition quiet :: "('w report, 'e, 'a) pio \<Rightarrow> bool" where
  "quiet m \<longleftrightarrow> (\<forall>s r s'. m s = Some (r, s') \<longrightarrow> tallies s s' [])"

definition closes :: "('w, unit) driver \<Rightarrow> bool" where
  "closes m \<longleftrightarrow> (\<forall>s r s'. m s = Some (r, s') \<longrightarrow> (\<exists>es. tallies s s' es) \<and>
     (r = Inr () \<longrightarrow> rp_failed s' = 0) \<and> (\<forall>n. r = Inl (Exit n) \<longrightarrow> n = 1 \<and> rp_failed s' \<noteq> 0))"

lemma count_events_append: "count_events P (xs @ ys) = count_events P xs + count_events P ys"
  by (simp add: count_events_def)

lemma tallies_trans: "tallies s s' es \<Longrightarrow> tallies s' s'' es' \<Longrightarrow> tallies s s'' (es @ es')"
  by (simp add: tallies_def count_events_append ac_simps)

lemma stageD: "stage m \<Longrightarrow> m s = Some (r, s') \<Longrightarrow> (\<exists>es. tallies s s' es) \<and> (\<forall>n. r \<noteq> Inl (Exit n))"
  by (simp add: stage_def)

lemma closesD: "closes m \<Longrightarrow> m s = Some (r, s') \<Longrightarrow> (\<exists>es. tallies s s' es) \<and>
     (r = Inr () \<longrightarrow> rp_failed s' = 0) \<and> (\<forall>n. r = Inl (Exit n) \<longrightarrow> n = 1 \<and> rp_failed s' \<noteq> 0)"
  by (simp add: closes_def)

lemma stage_bind:
  assumes "stage m" and "\<And>x. stage (k x)"
  shows "stage (pio_bind m k)"
  unfolding stage_def
proof (intro allI impI)
  fix s r s' assume run: "pio_bind m k s = Some (r, s')"
  then obtain q s1 where m: "m s = Some (q, s1)" by (auto simp: pio_bind_def split: option.splits)
  from stageD[OF assms(1) m] obtain es where es: "tallies s s1 es" "\<forall>n. q \<noteq> Inl (Exit n)" by blast
  show "(\<exists>es. tallies s s' es) \<and> (\<forall>n. r \<noteq> Inl (Exit n))"
  proof (cases q)
    case (Inl e)
    then show ?thesis using run m es by (auto simp: pio_bind_def)
  next
    case (Inr x)
    then have "k x s1 = Some (r, s')" using run m by (simp add: pio_bind_def)
    from stageD[OF assms(2) this] es tallies_trans show ?thesis by blast
  qed
qed

lemma quiet_basic:
  "quiet (pio_return r)" "quiet (on_world m)" "quiet (on_world_io n)" "quiet (on_world_wait q)"
  by (auto simp: quiet_def tallies_def count_events_def on_world_def on_world_io_def on_world_wait_def
      split: prod.splits option.splits)

lemma stage_result: "quiet m \<Longrightarrow> stage (pio_result m)"
  by (auto simp: quiet_def stage_def pio_result_def split: option.splits)

lemma stage_wrap_err: "quiet m \<Longrightarrow> stage (wrap_err msg f m)"
  by (auto simp: quiet_def stage_def wrap_err_def pio_map_err_def map_err_def split: option.splits sum.splits)

lemma stage_basic:
  "stage (pio_return (Inr x))" "stage (on_world_io n)" "stage (pio_return (Inl (DriverPanic e)))"
  "stage (pio_return (Inl (Bail b c)))" "stage (bail b)" "stage (pass msg)" "stage (fail msg c)"
  by (auto simp: stage_def tallies_def count_events_def on_world_io_def pass_def fail_def bail_def
      split: prod.splits intro: exI[of _ "[]"] exI[of _ "[Log msg NoCause]"] exI[of _ "[ErrorEvent msg c]"])

lemma stage_fail_bail: "stage (fail_bail msg c b)"
  unfolding fail_bail_def by (intro stage_bind stage_basic)

lemma stage_arith: "stage (pio_return (u64_arith oc n))" "stage (pio_return (u32_arith oc n))"
  by (auto simp: u64_arith_def u32_arith_def stage_basic)

lemma stage_cases:
  "stage a \<Longrightarrow> stage b \<Longrightarrow> stage (if c then a else b)"
  "(\<And>x y. stage (k x y)) \<Longrightarrow> stage (case p of (x, y) \<Rightarrow> k x y)"
  "stage d \<Longrightarrow> (\<And>x. stage (l x)) \<Longrightarrow> stage (case q of None \<Rightarrow> d | Some x \<Rightarrow> l x)"
  "(\<And>e. stage (f e)) \<Longrightarrow> (\<And>x. stage (g x)) \<Longrightarrow> stage (case r of Inl e \<Rightarrow> f e | Inr x \<Rightarrow> g x)"
  by (auto split: prod.split option.split sum.split)

lemmas stage_intros = stage_bind stage_result stage_wrap_err quiet_basic stage_basic stage_fail_bail stage_arith stage_cases

text \<open>What a report says: a driver whose stages keep the counters, closed by a report that reads them.\<close>

locale counted_run =
  fixes body :: "('w, 'a) driver" and report :: "'a \<Rightarrow> ('w, unit) driver"
  assumes body: "stage body" and report: "closes (report x)"
begin

lemma counted_verdict:
  assumes "counted body report s = Some (r, s')"
  shows "\<exists>es. ap_events s' = ap_events s @ es \<and>
     rp_passed s' = of_nat (count_events is_pass es) \<and> rp_failed s' = of_nat (count_events is_fail es) \<and>
     (r = Inr () \<longrightarrow> rp_failed s' = 0) \<and> (\<forall>n. r = Inl (Exit n) \<longrightarrow> n = 1 \<and> rp_failed s' \<noteq> 0)"
proof -
  obtain s0 where s0: "reset_report s = Some (Inr (), s0)" "ap_events s0 = ap_events s" "rp_passed s0 = 0" "rp_failed s0 = 0"
    by (simp add: reset_report_def)
  have run: "pio_bind body report s0 = Some (r, s')" using assms s0(1) by (simp add: counted_def pio_bind_def)
  then obtain q s1 where m: "body s0 = Some (q, s1)" by (auto simp: pio_bind_def split: option.splits)
  from stageD[OF body m] obtain es where es: "tallies s0 s1 es" "\<forall>n. q \<noteq> Inl (Exit n)" by blast
  have "\<exists>es. tallies s0 s' es \<and> (r = Inr () \<longrightarrow> rp_failed s' = 0) \<and> (\<forall>n. r = Inl (Exit n) \<longrightarrow> n = 1 \<and> rp_failed s' \<noteq> 0)"
  proof (cases q)
    case (Inl e)
    then show ?thesis using run m es by (auto simp: pio_bind_def)
  next
    case (Inr x)
    then have "report x s1 = Some (r, s')" using run m by (simp add: pio_bind_def)
    from closesD[OF report this] show ?thesis using tallies_trans[OF es(1)] by blast
  qed
  then show ?thesis using s0 by (auto simp: tallies_def)
qed

lemma counted_ends:
  assumes "returns body" and "\<And>x. returns (report x)"
  shows "\<exists>r s' es. counted body report s = Some (r, s') \<and> ap_events s' = ap_events s @ es \<and>
     rp_passed s' = of_nat (count_events is_pass es) \<and> rp_failed s' = of_nat (count_events is_fail es) \<and>
     (r = Inr () \<longrightarrow> rp_failed s' = 0) \<and> (\<forall>n. r = Inl (Exit n) \<longrightarrow> n = 1 \<and> rp_failed s' \<noteq> 0)"
proof -
  have "returns (counted body report)"
    unfolding counted_def by (intro returns_bind assms) (simp add: returns_def reset_report_def)
  then obtain r s' where "counted body report s = Some (r, s')" unfolding returns_def by fastforce
  with counted_verdict[OF this] show ?thesis by blast
qed

end

section \<open>The shared stages\<close>

lemma closes_verdict: "closes verdict"
  by (auto simp: closes_def verdict_def tallies_def count_events_def intro: exI[of _ "[]"])

lemma closes_bind: "stage m \<Longrightarrow> (\<And>x. closes (k x)) \<Longrightarrow> closes (pio_bind m k)"
  unfolding closes_def[of "pio_bind m k"]
proof (intro allI impI)
  fix s r s' assume m: "stage m" and k: "\<And>x. closes (k x)" and run: "pio_bind m k s = Some (r, s')"
  then obtain q s1 where q: "m s = Some (q, s1)" by (auto simp: pio_bind_def split: option.splits)
  from stageD[OF m q] obtain es where es: "tallies s s1 es" "\<forall>n. q \<noteq> Inl (Exit n)" by blast
  show "(\<exists>es. tallies s s' es) \<and> (r = Inr () \<longrightarrow> rp_failed s' = 0) \<and> (\<forall>n. r = Inl (Exit n) \<longrightarrow> n = 1 \<and> rp_failed s' \<noteq> 0)"
  proof (cases q)
    case (Inl e)
    then show ?thesis using run q es by (auto simp: pio_bind_def)
  next
    case (Inr x)
    then have "k x s1 = Some (r, s')" using run q by (simp add: pio_bind_def)
    from closesD[OF k this] show ?thesis using tallies_trans[OF es(1)] by blast
  qed
qed

lemma stage_state: "(\<And>s. stage (k s)) \<Longrightarrow> stage (\<lambda>s. k s s)"
  unfolding stage_def by blast

lemma stage_emit_phases: "stage (emit_all (map (\<lambda>t. Phase (f t)) ts))"
proof (induction ts)
  case (Cons t ts)
  have "stage (emit (Phase (f t)))"
    by (auto simp: stage_def emit_def tallies_def count_events_def intro: exI[of _ "[Phase (f t)]"])
  from stage_bind[OF this Cons] show ?case by simp
qed (simp only: list.map emit_all.simps stage_basic)

lemma stage_finish_last_step: "stage (finish_last_step H)"
  by (auto simp: stage_def finish_last_step_def pio_bind_def on_world_io_def tallies_def count_events_def
      split: option.splits prod.splits intro: exI[of _ "[]"])

lemma stage_step: "stage (step H n title)"
  unfolding step_def
  by (intro stage_bind stage_finish_last_step stage_basic)
     (auto simp: stage_def tallies_def count_events_def intro: exI[of _ "[]"])

lemma stage_print_timings: "stage (print_timings t)"
  unfolding print_timings_def by (rule stage_state) (rule stage_emit_phases)

lemma closes_summary: "closes (summary oc H t)"
  unfolding summary_def
  by (intro closes_bind closes_verdict stage_finish_last_step stage_basic stage_print_timings stage_state[OF stage_arith(2)])

lemma stage_missing_command: "stage (missing_command H cmds)"
  by (induction cmds; simp only: missing_command.simps; (intro stage_intros | assumption)+)

lemma stage_commands:
  "stage (check_commands H)" "stage (require_file H path msg)" "stage (clip500 out)"
  unfolding check_commands_def require_file_def clip500_def
  by (intro stage_intros stage_missing_command)+

lemma stage_account:
  "stage (verify_account H config msg failed stop)" "stage (compile_contracts H config ok failed)"
  "stage (sncast_declare H config account_name contract_name)" "stage (declared_class A H config contract_name)"
  unfolding verify_account_def compile_contracts_def sncast_declare_def declared_class_def
  by (intro stage_intros stage_commands)+

lemma stage_deploy:
  "stage (sncast_deploy A H config account_name class_hash ok)" "stage (wait_deploy H config deploy_tx_hash)"
  unfolding sncast_deploy_def wait_deploy_def Let_def by (intro stage_intros)+

lemma stage_transaction:
  "stage (parse_identity A config calldata)" "stage (write_signed_tx A H config d calldata nonce tx_path sign_failed ok)"
  "stage (prove_tx H exe args proof_path cmd_failed stop)" "stage (e2e_read_proof A H proof_path stop)"
  unfolding parse_identity_def write_signed_tx_def prove_tx_def e2e_read_proof_def Let_def by (intro stage_intros)+

lemma stage_gateway_submit: "stage (gateway_submit H url tx attempts)"
  by (induction attempts; simp only: gateway_submit.simps Let_def; (intro stage_intros | assumption)+)

lemma stage_case_rpc:
  "(\<And>j. stage (f j)) \<Longrightarrow> stage g \<Longrightarrow> stage (case e of JsonRpc j \<Rightarrow> f j | _ \<Rightarrow> g)"
  by (cases e) auto

lemma stage_rpc_submit: "stage (rpc_submit H url tx attempts)"
  by (induction attempts; simp only: rpc_submit.simps; (intro stage_intros stage_case_rpc | assumption)+)

lemma stage_submit_tx: "stage (submit_tx H config h invoke_tx)"
  unfolding submit_tx_def by (intro stage_intros stage_gateway_submit stage_rpc_submit)

lemmas stage_shared = stage_finish_last_step stage_step stage_commands stage_account stage_deploy stage_transaction
  stage_submit_tx

section \<open>Returning\<close>

lemma returns_wait_block:
  assumes "clock_laws (ho_net H) time" and "0 < p" and "u32_millis (from_secs p)" and "u32_millis (from_secs t)"
  shows "returns (on_world_wait (wait_for_block_after (ho_net H) url b t p))"
proof (rule returns_on_world_wait)
  fix w
  obtain t' w0 where n: "now (ho_net H) w = (t', w0)" by fastforce
  have "\<forall>w. time w \<le> time (snd (poll_block (ho_net H) url b w))"
    using clock_poll_block[OF assms(1)] by (metis prod.collapse)
  from poll_until_returns[OF assms(1) from_secs_pos[OF assms(2)] assms(3) this]
  show "wait_for_block_after (ho_net H) url b t p w \<noteq> None"
    unfolding wait_for_block_after_def n prod.case clock_add[OF assms(1,4) n] bind.bind_lunit by (metis option.distinct(1))
qed

lemma returns_state: "(\<And>s. returns (k s)) \<Longrightarrow> returns (\<lambda>s. k s s)"
  by (simp add: returns_def)

lemma returns_cases:
  "returns d \<Longrightarrow> (\<And>x. returns (l x)) \<Longrightarrow> returns (case q of None \<Rightarrow> d | Some x \<Rightarrow> l x)"
  "(\<And>e. returns (f e)) \<Longrightarrow> (\<And>x. returns (g x)) \<Longrightarrow> returns (case r of Inl e \<Rightarrow> f e | Inr x \<Rightarrow> g x)"
  by (auto split: option.split sum.split)

lemma returns_wrap_err: "returns m \<Longrightarrow> returns (wrap_err msg f m)"
  unfolding wrap_err_def by (rule returns_map_err)

lemma returns_report: "returns (pass msg)" "returns (fail msg c)" "returns (bail b)" "returns (fail_bail msg c b)"
  by (simp_all add: returns_def pass_def fail_def bail_def fail_bail_def pio_bind_def)

lemmas returns_intros = returns_bind returns_result returns_wrap_err returns_on_world returns_return returns_report
  returns_if returns_prod returns_cases

lemma returns_step: "returns (finish_last_step H)" "returns (step H n title)"
  by (auto simp: returns_def finish_last_step_def step_def pio_bind_def on_world_io_def split: option.splits prod.splits)

lemma returns_emit_all: "returns (emit_all evs)"
  by (induction evs; simp only: emit_all.simps; intro returns_intros returns_emit; assumption?)

lemma returns_summary: "returns (summary oc H t)"
  unfolding summary_def print_timings_def
  by (intro returns_bind returns_step returns_on_world returns_state[OF returns_return] returns_state[OF returns_emit_all])
     (simp add: returns_def verdict_def)

lemma returns_missing_command: "returns (missing_command H cmds)"
  by (induction cmds; simp only: missing_command.simps; (intro returns_intros | assumption)+)

lemma returns_commands:
  "returns (check_commands H)" "returns (require_file H path msg)" "returns (clip500 out)"
  unfolding check_commands_def require_file_def clip500_def
  by (intro returns_intros returns_missing_command)+

lemma returns_account:
  "returns (verify_account H config msg failed stop)" "returns (compile_contracts H config ok failed)"
  "returns (sncast_declare H config account_name contract_name)" "returns (declared_class A H config contract_name)"
  unfolding verify_account_def compile_contracts_def sncast_declare_def declared_class_def
  by (intro returns_intros returns_commands)+

lemma returns_deploy:
  "returns (sncast_deploy A H config account_name class_hash ok)"
  "clock_laws (ho_net H) time \<Longrightarrow> returns (wait_deploy H config deploy_tx_hash)"
  unfolding sncast_deploy_def wait_deploy_def Let_def by (intro returns_intros returns_wait | simp)+

lemma returns_transaction:
  "returns (parse_identity A config calldata)" "returns (write_signed_tx A H config d calldata nonce tx_path sign_failed ok)"
  "returns (prove_tx H exe args proof_path cmd_failed stop)" "returns (e2e_read_proof A H proof_path stop)"
  unfolding parse_identity_def write_signed_tx_def prove_tx_def e2e_read_proof_def Let_def by (intro returns_intros)+

lemma returns_gateway_submit: "returns (gateway_submit H url tx attempts)"
  by (induction attempts; simp only: gateway_submit.simps Let_def; (intro returns_intros | assumption)+)

lemma returns_case_rpc:
  "(\<And>j. returns (f j)) \<Longrightarrow> returns g \<Longrightarrow> returns (case e of JsonRpc j \<Rightarrow> f j | _ \<Rightarrow> g)"
  by (cases e) auto

lemma returns_rpc_submit: "returns (rpc_submit H url tx attempts)"
  by (induction attempts; simp only: rpc_submit.simps; (intro returns_intros returns_case_rpc | assumption)+)

lemma returns_submit_tx: "returns (submit_tx H config h invoke_tx)"
  unfolding submit_tx_def by (intro returns_intros returns_gateway_submit returns_rpc_submit)

lemmas returns_shared = returns_step returns_commands returns_account returns_deploy(1) returns_transaction
  returns_submit_tx

section \<open>Passing stages\<close>

text \<open>A stage that goes on has not counted a failure.\<close>

definition clean :: "('w report, 'e, 'a) pio \<Rightarrow> bool" where
  "clean m \<longleftrightarrow> (\<forall>s x s'. m s = Some (Inr x, s') \<longrightarrow> rp_failed s' = rp_failed s)"

lemma cleanD: "clean m \<Longrightarrow> m s = Some (Inr x, s') \<Longrightarrow> rp_failed s' = rp_failed s"
  by (simp add: clean_def)

lemma clean_bind: "clean m \<Longrightarrow> (\<And>x. clean (k x)) \<Longrightarrow> clean (pio_bind m k)"
  unfolding clean_def pio_bind_Inr_iff by metis

lemma clean_quiet: "quiet m \<Longrightarrow> clean m"
  by (auto simp: quiet_def clean_def tallies_def count_events_def)

lemma quiet_result: "quiet m \<Longrightarrow> quiet (pio_result m)" "quiet m \<Longrightarrow> quiet (wrap_err msg f m)"
  by (auto simp: quiet_def pio_result_def wrap_err_def pio_map_err_def split: option.splits)

lemma clean_report: "clean (pass msg)" "clean (bail b)" "clean (fail_bail msg c b)"
  by (auto simp: clean_def pass_def bail_def fail_bail_def pio_iffs)

lemma clean_cases:
  "clean a \<Longrightarrow> clean b \<Longrightarrow> clean (if c then a else b)"
  "(\<And>x y. clean (k x y)) \<Longrightarrow> clean (case p of (x, y) \<Rightarrow> k x y)"
  "clean d \<Longrightarrow> (\<And>x. clean (l x)) \<Longrightarrow> clean (case q of None \<Rightarrow> d | Some x \<Rightarrow> l x)"
  "(\<And>e. clean (f e)) \<Longrightarrow> (\<And>x. clean (g x)) \<Longrightarrow> clean (case r of Inl e \<Rightarrow> f e | Inr x \<Rightarrow> g x)"
  by (auto split: prod.split option.split sum.split)

lemmas clean_intros = clean_bind clean_report clean_cases clean_quiet quiet_result quiet_basic

lemma clean_step: "clean (finish_last_step H)" "clean (step H n title)"
  by (auto simp: clean_def finish_last_step_def step_def pio_bind_def on_world_io_def split: option.splits prod.splits)

lemma clean_missing_command: "clean (missing_command H cmds)"
  by (induction cmds; simp only: missing_command.simps; (intro clean_bind clean_report clean_cases | assumption | intro clean_quiet quiet_result quiet_basic)+)

lemma clean_commands:
  "clean (check_commands H)" "clean (require_file H path msg)" "clean (clip500 out)"
  unfolding check_commands_def require_file_def clip500_def
  by (intro clean_bind clean_missing_command clean_report clean_cases clean_quiet quiet_result quiet_basic)+

lemma clean_account:
  "clean (verify_account H config msg failed stop)" "clean (compile_contracts H config ok failed)"
  "clean (sncast_declare H config account_name contract_name)" "clean (declared_class A H config contract_name)"
  unfolding verify_account_def compile_contracts_def sncast_declare_def declared_class_def
  by (intro clean_bind clean_commands clean_report clean_cases clean_quiet quiet_result quiet_basic)+

lemma clean_deploy:
  "clean (sncast_deploy A H config account_name class_hash ok)" "clean (wait_deploy H config deploy_tx_hash)"
  unfolding sncast_deploy_def wait_deploy_def Let_def
  by (intro clean_bind clean_commands clean_report clean_cases clean_quiet quiet_result quiet_basic)+

lemma clean_transaction:
  "clean (parse_identity A config calldata)" "clean (write_signed_tx A H config d calldata nonce tx_path sign_failed ok)"
  "clean (prove_tx H exe args proof_path cmd_failed stop)" "clean (e2e_read_proof A H proof_path stop)"
  unfolding parse_identity_def write_signed_tx_def prove_tx_def e2e_read_proof_def Let_def
  by (intro clean_bind clean_commands clean_report clean_cases clean_quiet quiet_result quiet_basic)+

lemmas clean_shared = clean_step clean_commands clean_account clean_deploy clean_transaction

text \<open>A submission that is accepted has not counted a failure on the way.\<close>

definition clean_if :: "('a \<Rightarrow> bool) \<Rightarrow> ('w, 'a) driver \<Rightarrow> bool" where
  "clean_if P m \<longleftrightarrow> (\<forall>s x s'. m s = Some (Inr x, s') \<longrightarrow> P x \<longrightarrow> rp_failed s' = rp_failed s)"

lemma clean_if_bind: "clean m \<Longrightarrow> (\<And>x. clean_if P (k x)) \<Longrightarrow> clean_if P (pio_bind m k)"
  unfolding clean_if_def clean_def pio_bind_Inr_iff by metis

lemma clean_if_not: "\<not> P x \<Longrightarrow> clean_if P (pio_bind m (\<lambda>_. pio_return (Inr x)))"
  by (auto simp: clean_if_def pio_iffs)

lemma clean_if_clean: "clean m \<Longrightarrow> clean_if P m"
  by (auto simp: clean_if_def clean_def)

lemma clean_if_cases:
  "clean_if P a \<Longrightarrow> clean_if P b \<Longrightarrow> clean_if P (if c then a else b)"
  "(\<And>e. clean_if P (f e)) \<Longrightarrow> (\<And>x. clean_if P (g x)) \<Longrightarrow> clean_if P (case r of Inl e \<Rightarrow> f e | Inr x \<Rightarrow> g x)"
  by (auto split: sum.split)

lemma clean_gateway_submit:
  "\<forall>a \<in> set (butlast attempts). a < max_attempts \<Longrightarrow> clean_if (\<lambda>b. b) (gateway_submit H url tx attempts)"
proof (induction attempts)
  case (Cons a rest)
  have IH: "clean_if (\<lambda>b. b) (gateway_submit H url tx rest)"
  proof (cases rest)
    case Nil
    show ?thesis unfolding Nil gateway_submit.simps by (rule clean_if_clean) (intro clean_intros)
  qed (use Cons in simp)
  have last: "clean_if (\<lambda>b. b) (if a < max_attempts then m else pio_bind n (\<lambda>_. gateway_submit H url tx rest))"
    if "clean_if (\<lambda>b. b) m" for m n
  proof (cases rest)
    case Nil
    then show ?thesis using that by (simp only: gateway_submit.simps clean_if_not clean_if_cases simp_thms)
  qed (use Cons.prems that in auto)
  show ?case unfolding gateway_submit.simps Let_def
    by (intro clean_if_bind clean_if_cases last IH clean_if_not clean_intros clean_if_clean) auto
qed (auto simp: clean_if_def)

lemma clean_rpc_submit: "clean_if (\<lambda>h. h \<noteq> None) (rpc_submit H url tx attempts)"
proof (induction attempts)
  case (Cons a rest)
  have err: "clean_if P (case e of JsonRpc j \<Rightarrow> f j | _ \<Rightarrow> g)" if "\<And>j. clean_if P (f j)" "clean_if P g" for P e f g
    using that by (cases e) auto
  show ?case unfolding rpc_submit.simps
    by (intro clean_if_bind clean_if_cases err Cons clean_if_not clean_intros clean_if_clean) auto
qed (auto simp: clean_if_def)

lemma clean_submit_tx: "clean_if (\<lambda>h. h \<noteq> None) (submit_tx H config h tx)"
proof (cases "gateway_url config")
  case None
  then show ?thesis unfolding submit_tx_def by (simp only: option.case clean_rpc_submit)
next
  case (Some gw)
  have "[1..<Suc max_attempts] = [1..<max_attempts] @ [max_attempts]"
    by (rule upt_Suc_append) (simp add: max_attempts_def)
  then have "\<forall>a \<in> set (butlast [1..<Suc max_attempts]). a < max_attempts" by simp
  from clean_gateway_submit[OF this] have "gateway_submit H url v [1..<Suc max_attempts] s = Some (Inr True, s') \<Longrightarrow>
      rp_failed s' = rp_failed s" for url v s and s' :: "'a report"
    unfolding clean_if_def by blast
  then show ?thesis unfolding submit_tx_def Some option.case clean_if_def pio_iffs by (fastforce simp del: upt_Suc split: if_splits)
qed

section \<open>A driver that ends well\<close>

lemma clean_emit_phases: "clean (emit_all (map (\<lambda>t. Phase (f t)) ts))"
proof (induction ts)
  case (Cons t ts)
  have "clean (emit (Phase (f t)) :: ('w, unit) driver)" by (auto simp: clean_def emit_def)
  from clean_bind[OF this Cons] show ?case by simp
qed (simp add: clean_def)

lemma clean_closing: "clean (print_timings d)" "clean verdict"
  unfolding print_timings_def using clean_emit_phases unfolding clean_def by (blast, auto simp: verdict_def)

lemma clean_summary: "clean (summary oc H t)"
proof -
  have u: "clean (\<lambda>s. pio_return (u s) s)" for u by (auto simp: clean_def)
  show ?thesis unfolding summary_def by (intro clean_bind clean_step clean_closing u) (intro clean_quiet quiet_basic)
qed

lemma counted_timed_Inr:
  assumes "stage (timed H body)" and "\<And>t. closes (report t)" and "\<And>t. clean (report t)"
    and "counted (timed H body) report s = Some (Inr (), s')"
  shows "\<exists>s0 s1. rp_failed s0 = 0 \<and> body s0 = Some (Inr (), s1) \<and> rp_failed s1 = 0"
proof -
  have zero: "rp_failed s' = 0"
    using counted_run.counted_verdict[OF counted_run.intro[OF assms(1,2)] assms(4)] by blast
  obtain s0 t s1 where "reset_report s = Some (Inr (), s0)" and t: "timed H body s0 = Some (Inr t, s1)"
    and f: "report t s1 = Some (Inr (), s')"
    using assms(4) unfolding counted_def pio_bind_Inr_iff by auto
  moreover obtain s2 where "body s2 = Some (Inr (), s1)" "rp_failed s2 = rp_failed s0"
    using t unfolding timed_def by (fastforce simp: pio_iffs on_world_io_def split: prod.splits)
  ultimately show ?thesis using cleanD[OF assms(3) f] zero by (fastforce simp: reset_report_def)
qed

lemmas counted_summary_Inr = counted_timed_Inr[OF _ closes_summary clean_summary]

lemma fail_bail_not_Inr [simp]: "fail_bail msg c b s \<noteq> Some (Inr x, s')" "bail b s \<noteq> Some (Inr x, s')"
  by (simp_all add: fail_bail_def bail_def pio_iffs)

lemma u64_arith_Inr: "u64_arith oc n = Inr v \<Longrightarrow> v = word_of_nat n \<and> (oc \<longrightarrow> unat v = n)"
  by (auto simp: u64_arith_def unsigned_of_nat take_bit_nat_eq_self split: if_splits)

section \<open>The gateway\<close>

text \<open>
  C4: the form for the gateway is the payload itself: \<open>sign_and_build_payload\<close> already writes the type and the
  names of the bounds that the drivers set, so a submission through the node sends the same transaction.
\<close>

theorem gateway_form_of_payload:
  assumes "sign_and_build_payload F C params = Inr (h, payload)"
  shows "gateway_form payload = payload"
  using assms
  by (auto simp: sign_and_build_payload_def and_then_def gateway_form_def to_gateway_json_def uppercase_keys_def
      upper_char_def im_extend_def Let_def split: sum.splits)

theorem gateway_form_of_payload_witness:
  "\<exists>h payload. sign_and_build_payload stark_felt demo_crypto
       \<lparr> sp_sender_address = felt_of_nat 1, sp_private_key = felt_of_nat 2, sp_calldata = [felt_of_nat 3],
         sp_proof_base64 = ''AB'', sp_proof_facts = [], sp_nonce = felt_of_nat 5, sp_chain_id = felt_of_nat 7,
         sp_resource_bounds = resource_bounds_default \<rparr> = Inr (h, payload) \<and> gateway_form payload = payload"
proof -
  let ?params = "\<lparr> sp_sender_address = felt_of_nat 1, sp_private_key = felt_of_nat 2, sp_calldata = [felt_of_nat 3],
      sp_proof_base64 = ''AB'', sp_proof_facts = [], sp_nonce = felt_of_nat 5, sp_chain_id = felt_of_nat 7,
      sp_resource_bounds = resource_bounds_default \<rparr>"
  obtain h payload where "sign_and_build_payload stark_felt demo_crypto ?params = Inr (h, payload)"
    using game_payload[of ?params] by auto
  with gateway_form_of_payload[OF this] show ?thesis by blast
qed

end
