(* ===== verification/Playground.thy ===== *)
theory Playground
  imports CounterSafety CoinFlipTask Driver
begin

text \<open>
  \<open>apps/playground/src/main.rs\<close>: the server that puts the routes of the two apps beside the generic routes
  of the server crate, and what its clients can rely on for any sequence of requests. The generic routes
  and the initial session store are parameters; they see the sessions and the world, not the bets.
\<close>

section \<open>The server\<close>

text \<open>The result of the import is only logged.\<close>

datatype account_import = Imported | AlreadyExists | ImportFailed string | CouldNotRun string

definition ensure_sncast_account :: "'w host \<Rightarrow> config \<Rightarrow> env \<Rightarrow> ('w, account_import) io" where
  "ensure_sncast_account H config e w =
     (case ho_output H ''sncast'' (import_args config (sncast_account e)) None w of (result, w') \<Rightarrow>
       (case result of
          Inr output \<Rightarrow>
            if out_success output then Imported
            else if str_contains ''already exists'' (out_stdout output @ out_stderr output) then AlreadyExists
            else ImportFailed (out_stdout output @ out_stderr output)
        | Inl err \<Rightarrow> CouldNotRun err, w'))"

record ('w, 'st) playground =
  pg_world :: 'w
  pg_sessions :: 'st
  pg_coinflip :: "deployment option"
  pg_bank :: "deployment option"
  pg_commitments :: "string \<rightharpoonup> bet_commitment"

text \<open>The state as an app sees it, and the state after it has run.\<close>

definition counter_view :: "('w, 'st) playground \<Rightarrow> ('w, 'st) ct_app" where
  "counter_view p = \<lparr> ap_world = pg_world p, ap_events = [], ct_sessions = pg_sessions p \<rparr>"

definition coinflip_view :: "('w, 'st) playground \<Rightarrow> 'w cf_app" where
  "coinflip_view p = \<lparr> ap_world = pg_world p, ap_events = [], cf_coinflip = pg_coinflip p, cf_bank = pg_bank p,
     cf_commitments = pg_commitments p \<rparr>"

definition counter_done :: "('w, 'st) playground \<Rightarrow> ('w, 'st) ct_app \<Rightarrow> ('w, 'st) playground" where
  "counter_done p s = p\<lparr> pg_world := ap_world s, pg_sessions := ct_sessions s \<rparr>"

definition coinflip_done :: "('w, 'st) playground \<Rightarrow> 'w cf_app \<Rightarrow> ('w, 'st) playground" where
  "coinflip_done p s = p\<lparr> pg_world := ap_world s, pg_coinflip := cf_coinflip s, pg_bank := cf_bank s,
     pg_commitments := cf_commitments s \<rparr>"

definition playground_new :: "('f, 're) app_lib \<Rightarrow> 'w host \<Rightarrow> config \<Rightarrow> 'st \<Rightarrow> 'w \<Rightarrow> ('w, 'st) playground" where
  "playground_new A H config sessions w =
     (let s = cf_new A H config w in
      \<lparr> pg_world = ap_world s, pg_sessions = sessions, pg_coinflip = cf_coinflip s, pg_bank = cf_bank s,
        pg_commitments = cf_commitments s \<rparr>)"

definition listen_addr :: "env \<Rightarrow> string" where
  "listen_addr e = ''0.0.0.0:'' @ unwrap_or ''8090'' (e ''PORT'')"

text \<open>\<open>main\<close> up to the loop that serves requests: the address and the state.\<close>

definition playground_main ::
  "('f, 're) app_lib \<Rightarrow> 'w host \<Rightarrow> env_lib \<Rightarrow> (config \<Rightarrow> 'st) \<Rightarrow> env \<Rightarrow> 'w \<Rightarrow> config_error + config \<times> string \<times> ('w, 'st) playground" where
  "playground_main A H E app_state_new env0 w = (case from_env E None env0 of (r, e) \<Rightarrow>
     and_then r (\<lambda>config. case ensure_sncast_account H config e w of (_, w') \<Rightarrow>
       Inr (config, listen_addr e, playground_new A H config (app_state_new config) w')))"

datatype 'g pg_request = GenericReq 'g | CounterReq counter_request | CoinFlipReq cf_request

datatype 'h pg_response = GenericResp 'h | CounterResp counter_response | CoinFlipResp cf_response

definition playground_routes ::
  "('g \<Rightarrow> 'w \<times> 'st \<Rightarrow> ('h \<times> 'w \<times> 'st) option) \<Rightarrow> ('f, 're) app_lib \<Rightarrow> 'st server \<Rightarrow> 'w host \<Rightarrow> config \<Rightarrow> 'g pg_request \<Rightarrow>
     ('w, 'st) playground \<Rightarrow> ('h pg_response \<times> ('w, 'st) playground) option" where
  "playground_routes generic_routes A S H config req p = (case req of
      GenericReq g \<Rightarrow> map_option (\<lambda>(h, w, st). (GenericResp h, p\<lparr> pg_world := w, pg_sessions := st \<rparr>))
        (generic_routes g (pg_world p, pg_sessions p))
    | CounterReq r \<Rightarrow> map_option (\<lambda>(resp, s). (CounterResp resp, counter_done p s)) (counter_routes A S H config r (counter_view p))
    | CoinFlipReq r \<Rightarrow> map_option (\<lambda>(resp, s). (CoinFlipResp resp, coinflip_done p s)) (coinflip_routes A H config r (coinflip_view p)))"

section \<open>Runs of the server\<close>

text \<open>
  A run with the log of its requests and answers. Between two requests the tasks of the apps may do
  anything to the world and to the sessions; a task of the coin flip leaves the bets and the deployments
  alone, which \<open>keeps_shared_play_task\<close> shows.
\<close>

inductive playground_run ::
  "('g \<Rightarrow> 'w \<times> 'st \<Rightarrow> ('h \<times> 'w \<times> 'st) option) \<Rightarrow> ('f, 're) app_lib \<Rightarrow> 'st server \<Rightarrow> 'w host \<Rightarrow> config \<Rightarrow>
     ('w, 'st) playground \<Rightarrow> ('g pg_request \<times> 'h pg_response) list \<Rightarrow> ('w, 'st) playground \<Rightarrow> bool"
  for G A S H config p0 where
  started: "playground_run G A S H config p0 [] p0"
| request: "playground_run G A S H config p0 log p \<Longrightarrow> playground_routes G A S H config req p = Some (resp, p') \<Longrightarrow>
     playground_run G A S H config p0 (log @ [(req, resp)]) p'"
| task: "playground_run G A S H config p0 log p \<Longrightarrow>
     playground_run G A S H config p0 log (p\<lparr> pg_world := w, pg_sessions := st \<rparr>)"

lemma keeps_shared_cases:
  "keeps_shared a \<Longrightarrow> keeps_shared b \<Longrightarrow> keeps_shared (if c then a else b)"
  "keeps_shared d \<Longrightarrow> (\<And>x. keeps_shared (k x)) \<Longrightarrow> keeps_shared (case q of None \<Rightarrow> d | Some x \<Rightarrow> k x)"
  "(\<And>e. keeps_shared (f e)) \<Longrightarrow> (\<And>x. keeps_shared (g x)) \<Longrightarrow> keeps_shared (case r of Inl e \<Rightarrow> f e | Inr x \<Rightarrow> g x)"
  "(\<And>x y. keeps_shared (l x y)) \<Longrightarrow> keeps_shared (case z of (x, y) \<Rightarrow> l x y)"
  by (auto split: option.split sum.split prod.split)

lemmas keeps_shared_rules = keeps_shared_bind keeps_shared_basic keeps_shared_result keeps_shared_task_try keeps_shared_give_up
  keeps_shared_sncast keeps_shared_cases

lemma keeps_shared_gateway: "keeps_shared (gateway_attempts H url tx as)"
  by (induction "as") (auto simp: Let_def split: sum.split intro!: keeps_shared_bind)

lemma keeps_shared_play_settle: "keeps_shared (play_settle A H config sid seed)"
  unfolding play_settle_def[abs_def] by (intro keeps_shared_case keeps_shared_rules)

lemma keeps_shared_play_task: "keeps_shared (play_task A H config t)"
  unfolding play_task_def announce_play_def play_construct_def play_prove_def read_settlement_def play_submit_def read_submission_def
    read_proof_def play_verify_def Let_def
  by (intro keeps_shared_rules keeps_shared_gateway keeps_shared_play_settle)

text \<open>The sessions whose commitments were accepted and those whose games were granted.\<close>

definition commit_id :: "'g pg_request \<times> 'h pg_response \<Rightarrow> string list" where
  "commit_id x = (case fst x of
      CoinFlipReq (CommitReq h player) \<Rightarrow> (case snd x of CoinFlipResp (CommitResp (Inr (sid, b))) \<Rightarrow> [sid] | _ \<Rightarrow> [])
    | _ \<Rightarrow> [])"

definition granted_id :: "'g pg_request \<times> 'h pg_response \<Rightarrow> string list" where
  "granted_id x = (case fst x of
      CoinFlipReq (PlayReq sid q) \<Rightarrow> (case snd x of CoinFlipResp (PlayResp (Inr t)) \<Rightarrow> [sid] | _ \<Rightarrow> [])
    | _ \<Rightarrow> [])"

section \<open>The protocol behind a run\<close>

text \<open>The steps of the commitment protocol that an entry of the log stands for: one or none.\<close>

definition entry_labels :: "('f, 're) app_lib \<Rightarrow> 'g pg_request \<times> 'h pg_response \<Rightarrow> cf_label list \<Rightarrow> bool" where
  "entry_labels A x ls \<longleftrightarrow> (case fst x of
      CoinFlipReq r \<Rightarrow> (\<exists>a. snd x = CoinFlipResp a \<and> ((\<exists>l. ls = [l] \<and> explains A r a l) \<or> ls = [] \<and> \<not> granted a))
    | _ \<Rightarrow> ls = [])"

lemma shared_views [simp]:
  "shared (coinflip_view (counter_done p s)) = shared (coinflip_view p)"
  "shared (coinflip_view (coinflip_done p s')) = shared s'"
  "shared (coinflip_view (p\<lparr> pg_world := w, pg_sessions := st \<rparr>)) = shared (coinflip_view p)"
  by (simp_all add: shared_def coinflip_view_def counter_done_def coinflip_done_def)

lemma playground_routes_labels:
  assumes "playground_routes G A S H config req p = Some (resp, p')"
  shows "\<exists>ls. entry_labels A (req, resp) ls \<and>
     (ls = [] \<and> shared (coinflip_view p') = shared (coinflip_view p) \<or>
      (\<exists>l. ls = [l] \<and> cf_step (shared (coinflip_view p)) l (shared (coinflip_view p'))))"
proof (cases req)
  case (CoinFlipReq r)
  with assms obtain a s where r: "coinflip_routes A H config r (coinflip_view p) = Some (a, s)"
    and p: "resp = CoinFlipResp a" "p' = coinflip_done p s"
    by (auto simp: playground_routes_def)
  from coinflip_routes_steps[OF r] show ?thesis unfolding CoinFlipReq p by (auto simp: entry_labels_def)
qed (use assms in \<open>auto simp: playground_routes_def entry_labels_def\<close>)

lemma playground_run_trace:
  assumes "playground_run G A S H config p0 log p"
  shows "\<exists>lss. list_all2 (entry_labels A) log lss \<and> cf_trace (shared (coinflip_view p0)) (concat lss) (shared (coinflip_view p))"
  using assms
proof induction
  case started
  show ?case by (auto intro: exI[of _ "[]"] cf_trace.start)
next
  case (request log p req resp p')
  then obtain lss where lss: "list_all2 (entry_labels A) log lss"
    "cf_trace (shared (coinflip_view p0)) (concat lss) (shared (coinflip_view p))" by blast
  from playground_routes_labels[OF request.hyps(2)] obtain ls where ls: "entry_labels A (req, resp) ls"
    "ls = [] \<and> shared (coinflip_view p') = shared (coinflip_view p) \<or>
      (\<exists>l. ls = [l] \<and> cf_step (shared (coinflip_view p)) l (shared (coinflip_view p')))" by blast
  have "cf_trace (shared (coinflip_view p0)) (concat (lss @ [ls])) (shared (coinflip_view p'))"
    using lss(2) ls(2) by (auto intro: cf_trace.next_step)
  moreover have "list_all2 (entry_labels A) (log @ [(req, resp)]) (lss @ [ls])" using lss(1) ls(1) by (simp add: list_all2_appendI)
  ultimately show ?case by blast
qed simp

lemma explainsE:
  assumes "explains A r a l"
  obtains (committed) h p sid b where "r = CommitReq h p" "a = CommitResp (Inr (sid, b))" "l = Committed sid (fresh_bet sid h p)"
  | (taken) sid q x c where "r = PlayReq sid q" "a = PlayResp x" "l = Taken sid c"
  | (other) "\<forall>h p. r \<noteq> CommitReq h p" "\<forall>sid q. r \<noteq> PlayReq sid q" "\<forall>sid c. l \<noteq> Committed sid c" "\<forall>sid c. l \<noteq> Taken sid c"
proof (cases r)
  case (CommitReq h p)
  with assms show ?thesis by (auto simp: explains_def split: cf_response.splits sum.splits intro: committed)
next
  case (PlayReq sid q)
  with assms show ?thesis by (auto simp: explains_def split: cf_response.splits intro: taken)
qed (use assms other in \<open>auto simp: explains_def split: cf_response.splits sum.splits\<close>)

lemma entryE:
  assumes "entry_labels A x ls"
  obtains (silent) "ls = []" "commit_id x = []" "granted_id x = []"
  | (step) r a l where "x = (CoinFlipReq r, CoinFlipResp a)" "ls = [l]" "explains A r a l"
proof (cases "fst x")
  case (CoinFlipReq r)
  with assms obtain a where a: "x = (CoinFlipReq r, CoinFlipResp a)" "(\<exists>l. ls = [l] \<and> explains A r a l) \<or> ls = [] \<and> \<not> granted a"
    by (cases x) (auto simp: entry_labels_def)
  have "commit_id x = [] \<and> granted_id x = []" if "\<not> granted a"
    using that unfolding a(1) commit_id_def granted_id_def by (auto split: cf_request.splits cf_response.splits sum.splits)
  with a silent step show ?thesis by blast
qed (use assms silent in \<open>auto simp: entry_labels_def commit_id_def granted_id_def\<close>)

lemma entry_ids:
  assumes "entry_labels A x ls"
  shows "committed_ids ls = commit_id x" and "granted_id x = [] \<or> granted_id x = taken_ids ls"
proof -
  have "committed_ids ls = commit_id x \<and> (granted_id x = [] \<or> granted_id x = taken_ids ls)"
    using assms
  proof (cases rule: entryE)
    case silent
    then show ?thesis by (simp add: committed_ids_def)
  next
    case (step r a l)
    from step(3) show ?thesis
    proof (cases rule: explainsE)
      case (committed h p sid b)
      then show ?thesis using step by (simp add: committed_ids_def commit_id_def granted_id_def)
    next
      case (taken sid q x c)
      then show ?thesis using step by (cases x) (simp_all add: committed_ids_def taken_ids_def commit_id_def granted_id_def)
    next
      case other
      then have "committed_ids ls = []" "commit_id x = []" "granted_id x = []"
        using step by (auto simp: committed_ids_def commit_id_def granted_id_def split: cf_request.splits cf_label.splits)
      then show ?thesis by simp
    qed
  qed
  then show "committed_ids ls = commit_id x" and "granted_id x = [] \<or> granted_id x = taken_ids ls" by simp_all
qed

lemma entries_commit: "list_all2 (entry_labels A) log lss \<Longrightarrow> committed_ids (concat lss) = concat (map commit_id log)"
  by (induction log lss rule: list_all2_induct) (auto simp: committed_ids_def dest: entry_ids(1))

lemma entries_granted:
  "list_all2 (entry_labels A) log lss \<Longrightarrow> distinct (taken_ids (concat lss)) \<Longrightarrow>
     distinct (concat (map granted_id log)) \<and> set (concat (map granted_id log)) \<subseteq> set (taken_ids (concat lss))"
proof (induction log lss rule: list_all2_induct)
  case (Cons x log ls lss)
  have "taken_ids (concat (ls # lss)) = taken_ids ls @ taken_ids (concat lss)" by (simp add: taken_ids_def)
  then have d: "distinct (taken_ids ls)" "set (taken_ids ls) \<inter> set (taken_ids (concat lss)) = {}" "distinct (taken_ids (concat lss))"
    and t: "set (taken_ids (ls @ concat lss)) = set (taken_ids ls) \<union> set (taken_ids (concat lss))" using Cons.prems by simp_all
  from Cons.IH[OF d(3)] have ih: "distinct (concat (map granted_id log))"
    "set (concat (map granted_id log)) \<subseteq> set (taken_ids (concat lss))" by simp_all
  from entry_ids(2)[OF Cons.hyps(1)] show ?case
  proof
    assume g: "granted_id x = taken_ids ls"
    have "set (taken_ids ls) \<inter> set (concat (map granted_id log)) = {}" using d(2) ih(2) by (meson disjoint_iff subsetD)
    then show ?thesis unfolding t list.map(2) concat.simps(2) distinct_append set_append g
      by (intro conjI d(1) ih(1) Un_mono subset_refl ih(2))
  next
    assume "granted_id x = []"
    then show ?thesis unfolding t list.map(2) concat.simps(2) using ih by auto
  qed
qed simp

lemma entry_committed:
  assumes "entry_labels A x ls" and "Committed sid c \<in> set ls"
  shows "\<exists>h player b. x = (CoinFlipReq (CommitReq h player), CoinFlipResp (CommitResp (Inr (sid, b)))) \<and> c = fresh_bet sid h player"
  using assms(1)
proof (cases rule: entryE)
  case (step r a l)
  with assms(2) have "explains A r a (Committed sid c)" by simp
  then show ?thesis by (cases rule: explainsE) (use step(1) in auto)
qed (use assms(2) in simp)

section \<open>What the clients can rely on\<close>

lemma playground_new_empty: "pg_commitments (playground_new A H config sessions w) = Map.empty"
  by (simp add: playground_new_def cf_new_def Let_def split: prod.splits)

lemma explains_locked:
  assumes "explains A r a (SeedLocked sid b)"
  shows "\<exists>tx y. r = ConfirmDepositReq sid tx \<and> a = ConfirmDepositResp (Inr y)"
proof (cases r)
  case (ConfirmDepositReq sid' tx)
  with assms show ?thesis by (auto simp: explains_def split: cf_response.splits sum.splits)
qed (use assms in \<open>auto simp: explains_def split: cf_response.splits sum.splits\<close>)

lemma entry_locked:
  assumes "entry_labels A x ls" and "SeedLocked sid b \<in> set ls"
  shows "\<exists>tx y. x = (CoinFlipReq (ConfirmDepositReq sid tx), CoinFlipResp (ConfirmDepositResp (Inr y)))"
  using assms(1)
proof (cases rule: entryE)
  case (step r a l)
  with assms(2) have "explains A r a (SeedLocked sid b)" by simp
  from explains_locked[OF this] show ?thesis using step(1) by auto
qed (use assms(2) in simp)

lemma label_entry:
  assumes "list_all2 (entry_labels A) log lss" and "l \<in> set (concat lss)"
  obtains x ls where "x \<in> set log" "entry_labels A x ls" "l \<in> set ls"
proof -
  from assms(2) obtain ls where "ls \<in> set lss" "l \<in> set ls" by auto
  moreover from this(1) obtain x where "x \<in> set log" "entry_labels A x ls"
    using assms(1) by (metis in_set_conv_nth list_all2_conv_all_nth)
  ultimately show ?thesis using that by blast
qed

text \<open>
  C7: the playground keeps its bets for every sequence of requests to all its routes, each handled to its
  answer, and whatever the background tasks and the generic routes do in between: as long as no session id
  is handed out twice, a session is granted at most one game; a granted game was committed before by a
  request that got this session, for the player who plays and with the hash of the bet and nonce that are
  revealed; and its seed block is unset unless a deposit of this session was confirmed before.
\<close>

theorem playground_grants_once:
  fixes log :: "('g pg_request \<times> 'h pg_response) list"
  assumes "playground_run G A S H config p0 log p" and "pg_commitments p0 = Map.empty" and "distinct (concat (map commit_id log))"
  shows "distinct (concat (map granted_id log)) \<and>
     (\<forall>pre sid q t post. log = pre @ (CoinFlipReq (PlayReq sid q), CoinFlipResp (PlayResp (Inr t))) # post \<longrightarrow>
       (\<exists>b nonce. felt_from_hex (al_felt A) (pq_nonce q) = Inr nonce \<and> pt_bet t = min (pq_bet q) 1 \<and>
          (CoinFlipReq (CommitReq (bet_commitment_of A (pt_bet t) nonce) (pq_player q)), CoinFlipResp (CommitResp (Inr (sid, b)))) \<in> set pre) \<and>
       (pt_seed_block t = 0 \<or> (\<exists>tx y. (CoinFlipReq (ConfirmDepositReq sid tx), CoinFlipResp (ConfirmDepositResp (Inr y))) \<in> set pre)))"
proof -
  obtain lss where l: "list_all2 (entry_labels A) log lss"
    and t: "cf_trace (shared (coinflip_view p0)) (concat lss) (shared (coinflip_view p))"
    using playground_run_trace[OF assms(1)] by blast
  have "sh_commitments (shared (coinflip_view p0)) = Map.empty" using assms(2) by (simp add: shared_def coinflip_view_def)
  from cf_trace_inv[OF t this] have inv: "cf_inv (concat lss) (shared (coinflip_view p))"
    using assms(3) entries_commit[OF l] by simp
  then have "distinct (taken_ids (concat lss))" by (simp add: cf_inv_def)
  moreover have "(\<exists>b nonce. felt_from_hex (al_felt A) (pq_nonce q) = Inr nonce \<and> pt_bet t = min (pq_bet q) 1 \<and>
      (CoinFlipReq (CommitReq (bet_commitment_of A (pt_bet t) nonce) (pq_player q)), CoinFlipResp (CommitResp (Inr (sid, b)))) \<in> set pre) \<and>
      (pt_seed_block t = 0 \<or> (\<exists>tx y. (CoinFlipReq (ConfirmDepositReq sid tx), CoinFlipResp (ConfirmDepositResp (Inr y))) \<in> set pre))"
    if log: "log = pre @ (CoinFlipReq (PlayReq sid q), CoinFlipResp (PlayResp (Inr t))) # post" for pre sid q t post
  proof -
    from l obtain lpre l2 where l2: "lss = lpre @ l2" and lp: "list_all2 (entry_labels A) pre lpre"
      and p: "list_all2 (entry_labels A) ((CoinFlipReq (PlayReq sid q), CoinFlipResp (PlayResp (Inr t))) # post) l2"
      unfolding log list_all2_append1 by blast
    from p obtain ls lpost where lss: "lss = lpre @ ls # lpost"
      and x: "entry_labels A (CoinFlipReq (PlayReq sid q) :: 'g pg_request, CoinFlipResp (PlayResp (Inr t)) :: 'h pg_response) ls"
      unfolding l2 list_all2_Cons1 by blast
    from x obtain c where c: "ls = [Taken sid c]" "check_reveal A c q = Inr (pt_bet t)" "pt_seed_block t = bet_seed_block c"
      by (auto simp: entry_labels_def)
    have "concat lss = concat lpre @ Taken sid c # concat lpost" unfolding lss c(1) by simp
    with inv have "explained (concat lpre) sid c" unfolding cf_inv_def by blast
    then obtain h player where e: "Committed sid (fresh_bet sid h player) \<in> set (concat lpre)" "bet_commitment_hash c = h" "bet_player c = player"
      and seed: "bet_seed_block c = 0 \<or> SeedLocked sid (bet_seed_block c) \<in> set (concat lpre)"
      unfolding explained_def by blast
    obtain y ls' where y: "y \<in> set pre" "entry_labels A y ls'" "Committed sid (fresh_bet sid h player) \<in> set ls'"
      using label_entry[OF lp e(1)] by blast
    obtain h' player' b where yb: "y = (CoinFlipReq (CommitReq h' player'), CoinFlipResp (CommitResp (Inr (sid, b))))"
      "fresh_bet sid h player = fresh_bet sid h' player'" using entry_committed[OF y(2,3)] by blast
    from yb(2) have same: "h' = h" "player' = player" by (simp_all add: fresh_bet_def)
    from c(2) obtain nonce where n: "felt_from_hex (al_felt A) (pq_nonce q) = Inr nonce" "pt_bet t = min (pq_bet q) 1"
      "bet_commitment_of A (pt_bet t) nonce = h" "pq_player q = player" using e(2,3) by (auto simp: check_reveal_Inr)
    have "(CoinFlipReq (CommitReq (bet_commitment_of A (pt_bet t) nonce) (pq_player q)), CoinFlipResp (CommitResp (Inr (sid, b)))) \<in> set pre"
      using y(1) unfolding yb(1) same n(3,4) .
    moreover have "pt_seed_block t = 0 \<or> (\<exists>tx y. (CoinFlipReq (ConfirmDepositReq sid tx), CoinFlipResp (ConfirmDepositResp (Inr y))) \<in> set pre)"
      using seed unfolding c(3) by (metis entry_locked label_entry[OF lp])
    ultimately show ?thesis using n(1,2) by blast
  qed
  ultimately show ?thesis using entries_granted[OF l] by blast
qed

section \<open>A game on a playground\<close>

text \<open>Both contracts are deployed; a player commits, confirms the deposit and plays.\<close>

definition lobby :: "(nat, string \<Rightarrow> session) playground" where
  "lobby = \<lparr> pg_world = 0, pg_sessions = (\<lambda>_. tally_session), pg_coinflip = Some flip_deployment,
     pg_bank = Some flip_deployment, pg_commitments = Map.empty \<rparr>"

definition lobby_query :: play_query where
  "lobby_query = \<lparr> pq_player = ''0x7'', pq_bet = 1, pq_nonce = ''0x5'' \<rparr>"

definition lobby_ticket :: play_ticket where
  "lobby_ticket = \<lparr> pt_session_id = ''a-b'', pt_deployment = flip_deployment, pt_player = ''0x7'', pt_bet = 1, pt_seed_block = 12 \<rparr>"

definition lobby_log :: "(unit pg_request \<times> unit pg_response) list" where
  "lobby_log =
     [(CoinFlipReq (CommitReq (bet_commitment_of flip_lib 1 (felt_of_nat 5)) ''0x7''), CoinFlipResp (CommitResp (Inr (''a-b'', 0)))),
      (CoinFlipReq (ConfirmDepositReq ''a-b'' ''0xd''), CoinFlipResp (ConfirmDepositResp (Inr (True, ''0xe'')))),
      (CoinFlipReq (PlayReq ''a-b'' lobby_query), CoinFlipResp (PlayResp (Inr lobby_ticket)))]"

lemma lobby_view: "ap_events s = [] \<Longrightarrow> coinflip_view (coinflip_done p s) = s"
  by (simp add: coinflip_view_def coinflip_done_def)

lemma lobby_routes:
  assumes "coinflip_routes A H config r (coinflip_view p) = Some (a, s)"
  shows "playground_routes G A S H config (CoinFlipReq r) p = Some (CoinFlipResp a, coinflip_done p s)"
  using assms by (simp add: playground_routes_def)

lemma lobby_commit:
  "coinflip_routes flip_lib flip_host demo_config (CommitReq (bet_commitment_of flip_lib 1 (felt_of_nat 5)) ''0x7'') (coinflip_view lobby) =
     Some (CommitResp (Inr (''a-b'', 0)), flip_state)"
  by (simp add: respond_def commit_bet_def pio_bind_def on_world_io_def coinflip_view_def lobby_def flip_state_def flip_bet_def)
     (simp add: flip_host_def)

lemma lobby_play:
  assumes "cf_coinflip s = Some flip_deployment" and "cf_commitments s = [''a-b'' \<mapsto> flip_bet\<lparr> bet_seed_block := 12 \<rparr>]"
  shows "coinflip_routes flip_lib flip_host demo_config (PlayReq ''a-b'' lobby_query) s =
     Some (PlayResp (Inr lobby_ticket), s\<lparr> cf_commitments := Map.empty \<rparr>)"
proof -
  have n: "felt_from_hex (al_felt flip_lib) ''0x5'' = Inr (felt_of_nat 5)"
    by (simp add: flip_lib_def stark_felt_def stark_from_hex_def hex_val_def starts_with_def stark_prime_def)
  then have "check_reveal flip_lib (flip_bet\<lparr> bet_seed_block := 12 \<rparr>) lobby_query = Inr 1"
    by (auto simp: check_reveal_Inr lobby_query_def flip_bet_def fresh_bet_def)
  with assms show ?thesis by (simp add: respond_def play_coinflip_def lobby_ticket_def lobby_query_def)
qed

lemma lobby_run: "\<exists>p. playground_run (\<lambda>g s. None) flip_lib memory_server flip_host demo_config lobby lobby_log p"
proof -
  let ?run = "playground_run (\<lambda>g s. None) flip_lib memory_server flip_host demo_config lobby"
  let ?s1 = "flip_state\<lparr> cf_commitments := [''a-b'' \<mapsto> flip_bet\<lparr> bet_seed_block := 12 \<rparr>] \<rparr>"
  let ?p1 = "coinflip_done lobby flip_state"
  have ev: "ap_events flip_state = []" "ap_events ?s1 = []" by (simp_all add: flip_state_def)
  note 1 = playground_run.request[OF playground_run.started lobby_routes[OF lobby_commit]]
  have "coinflip_routes flip_lib flip_host demo_config (ConfirmDepositReq ''a-b'' ''0xd'') (coinflip_view ?p1) =
      Some (ConfirmDepositResp (Inr (True, ''0xe'')), ?s1)"
    unfolding lobby_view[OF ev(1)] by (simp add: respond_def flip_confirm)
  note 2 = playground_run.request[OF 1 lobby_routes[OF this]]
  have "coinflip_routes flip_lib flip_host demo_config (PlayReq ''a-b'' lobby_query) (coinflip_view (coinflip_done ?p1 ?s1)) =
      Some (PlayResp (Inr lobby_ticket), ?s1\<lparr> cf_commitments := Map.empty \<rparr>)"
    unfolding lobby_view[OF ev(2)] by (rule lobby_play) (simp_all add: flip_state_def)
  note 3 = playground_run.request[OF 2 lobby_routes[OF this]]
  show ?thesis using 3 unfolding lobby_log_def by fastforce
qed

theorem playground_grants_once_witness:
  "\<exists>p. playground_run (\<lambda>g s. None) flip_lib memory_server flip_host demo_config lobby lobby_log p \<and>
     concat (map granted_id lobby_log) = [''a-b''] \<and>
     (\<exists>b nonce. felt_from_hex (al_felt flip_lib) ''0x5'' = Inr nonce \<and>
        (CoinFlipReq (CommitReq (bet_commitment_of flip_lib 1 nonce) ''0x7''), CoinFlipResp (CommitResp (Inr (''a-b'', b))))
          \<in> set (take 2 lobby_log))"
proof -
  obtain p where run: "playground_run (\<lambda>g s. None) flip_lib memory_server flip_host demo_config lobby lobby_log p"
    using lobby_run by blast
  have ids: "concat (map granted_id lobby_log) = [''a-b'']" "distinct (concat (map commit_id lobby_log))"
    by (simp_all add: lobby_log_def granted_id_def commit_id_def)
  have empty: "pg_commitments lobby = Map.empty" by (simp add: lobby_def)
  have split: "lobby_log = take 2 lobby_log @ (CoinFlipReq (PlayReq ''a-b'' lobby_query), CoinFlipResp (PlayResp (Inr lobby_ticket))) # []"
    by (simp add: lobby_log_def)
  have q: "pq_nonce lobby_query = ''0x5''" "pq_player lobby_query = ''0x7''" "pt_bet lobby_ticket = 1"
    by (simp_all add: lobby_query_def lobby_ticket_def)
  show ?thesis using playground_grants_once[OF run empty ids(2), THEN conjunct2, rule_format, OF split] run ids(1) unfolding q by blast
qed

end
