(* ===== verification/DriverLab.thy ===== *)
theory DriverLab
  imports Driver
begin

text \<open>
  A host on which the drivers run to their end, for the witnesses. Its world is one number: the time, and the
  value of the counter, which every accepted transaction raises by 6.
\<close>

section \<open>Runs that pass\<close>

text \<open>From world \<open>w\<close> a stage goes on with \<open>x\<close> in world \<open>w'\<close> and has counted no failure.\<close>

definition goes :: "('w, 'a) driver \<Rightarrow> 'w \<Rightarrow> 'a \<Rightarrow> 'w \<Rightarrow> bool" where
  "goes m w x w' \<longleftrightarrow> (\<forall>s. ap_world s = w \<longrightarrow> (\<exists>s'. m s = Some (Inr x, s') \<and> ap_world s' = w' \<and> rp_failed s' = rp_failed s))"

lemma goes_bind: "goes m w x w1 \<Longrightarrow> goes (k x) w1 y w2 \<Longrightarrow> goes (pio_bind m k) w y w2"
  unfolding goes_def pio_bind_def by fastforce

lemma goes_return: "goes (pio_return (Inr x)) w x w"
  by (simp add: goes_def)

lemma goes_pass: "goes (pass msg) w () w"
  by (simp add: goes_def pass_def)

lemma goes_on_world:
  "m w = (Inr x, w') \<Longrightarrow> goes (wrap_err msg f (on_world m)) w x w'"
  "m w = (r, w') \<Longrightarrow> goes (pio_result (on_world m)) w r w'"
  "n w = (y, w') \<Longrightarrow> goes (on_world_io n) w y w'"
  "q w = Some (r, w') \<Longrightarrow> goes (pio_result (on_world_wait q)) w r w'"
  "q w = Some (Inr x, w') \<Longrightarrow> goes (wrap_err msg f (on_world_wait q)) w x w'"
  by (simp_all add: goes_def wrap_err_def pio_map_err_def pio_result_def on_world_def on_world_io_def on_world_wait_def map_err_def)

lemma goes_wrap: "r = Inr x \<Longrightarrow> goes (wrap_err msg f (pio_return r)) w x w"
  by (simp add: goes_def wrap_err_def pio_map_err_def map_err_def)

lemma goes_step: "now (ho_net H) w = (t, w) \<Longrightarrow> goes (step H n title) w () w"
  by (auto simp: goes_def step_def finish_last_step_def pio_bind_def on_world_io_def split: option.split)

lemma goesD: "goes m (ap_world s) x w' \<Longrightarrow> \<exists>s'. m s = Some (Inr x, s') \<and> ap_world s' = w' \<and> rp_failed s' = rp_failed s"
  by (simp add: goes_def)

text \<open>A driver whose body goes through passes.\<close>

lemma goes_emit_all: "goes (emit_all es) w () w"
proof (induction es)
  case (Cons e es)
  have "goes (emit e) w () w" by (auto simp: goes_def emit_def)
  from goes_bind[OF this Cons] show ?case by simp
qed (simp add: goes_def)

lemma summary_passes:
  assumes "rp_failed s = 0" and "now (ho_net H) = (\<lambda>w. (t w, w))"
  shows "\<exists>s'. summary oc H t0 s = Some (Inr (), s')"
proof -
  have "goes (finish_last_step H) (ap_world s) () (ap_world s)"
    by (auto simp: goes_def finish_last_step_def pio_bind_def on_world_io_def assms(2) split: option.split)
  from goesD[OF this] obtain s1 where s1: "finish_last_step H s = Some (Inr (), s1)" "rp_failed s1 = 0" using assms(1) by auto
  have small: "\<not> 2 ^ 32 \<le> unat (rp_passed s1) + unat (rp_failed s1)"
    using s1(2) unsigned_less[where 'b = 32 and 'a = nat, of "rp_passed s1"] by simp
  obtain s2 where s2: "print_timings (t (ap_world s1) - t0) s1 = Some (Inr (), s2)" "rp_failed s2 = 0"
    unfolding print_timings_def using goesD[where s = s1, OF goes_emit_all] s1(2) by metis
  show ?thesis unfolding summary_def
    using s1 s2 small by (simp add: pio_bind_def on_world_io_def assms(2) u32_arith_def verdict_def)
qed

lemma goes_counted:
  assumes "goes body (ap_world s) () w'" and "now (ho_net H) = (\<lambda>w. (t w, w))"
  shows "\<exists>s'. counted (timed H body) (summary oc H) s = Some (Inr (), s')"
proof -
  let ?s0 = "s\<lparr> rp_passed := 0, rp_failed := 0, rp_timings := [], rp_step := None \<rparr>"
  obtain s1 where s1: "body ?s0 = Some (Inr (), s1)" "rp_failed s1 = 0"
    using goesD[of body ?s0] assms(1) by auto
  obtain s2 where "summary oc H (t (ap_world s)) s1 = Some (Inr (), s2)" using summary_passes[OF s1(2) assms(2)] by blast
  then show ?thesis by (simp add: counted_def timed_def pio_bind_def reset_report_def on_world_io_def assms(2) s1)
qed

lemma goes_verdict:
  assumes "goes body (ap_world s) () w'"
  shows "\<exists>s'. counted body (\<lambda>_. verdict) s = Some (Inr (), s')"
proof -
  let ?s0 = "s\<lparr> rp_passed := 0, rp_failed := 0, rp_timings := [], rp_step := None \<rparr>"
  obtain s1 where "body ?s0 = Some (Inr (), s1)" "rp_failed s1 = 0" using goesD[of body ?s0] assms by auto
  then show ?thesis by (simp add: counted_def pio_bind_def reset_report_def verdict_def)
qed

section \<open>The host\<close>

definition lab_receipt :: json where
  "lab_receipt = JObj [(''transaction_hash'', JStr ''0xd''), (''finality_status'', JStr ''ACCEPTED_ON_L2''),
     (''block_number'', ju64 9)]"

definition lab_answer :: "json \<Rightarrow> nat \<Rightarrow> json" where
  "lab_answer p w =
     (if get_str ''method'' p = Some ''starknet_getNonce'' then JStr (fmt_hex 5)
      else if get_str ''method'' p = Some ''starknet_blockNumber'' then ju64 10
      else if get_str ''method'' p = Some ''starknet_call'' then JArr [JStr (fmt_hex w)]
      else if get_str ''method'' p = Some ''starknet_chainId'' then JStr ''SN_SEPOLIA''
      else lab_receipt)"

definition lab_after :: "json \<Rightarrow> nat \<Rightarrow> nat" where
  "lab_after p w = (if get_str ''method'' p = Some ''starknet_addInvokeTransaction'' then w + 6 else w)"

definition lab_net :: "nat net" where
  "lab_net = \<lparr> http_send = (\<lambda>url p w. (Inr \<lparr> resp_status = 200, resp_json = Inr (JObj [(''result'', lab_answer p w), (''code'', JStr ''TRANSACTION_RECEIVED'')]) \<rparr>, lab_after p w)),
     now = (\<lambda>w. (w, w)), instant_add = (\<lambda>t d. Some (t + d)),
     gloo_sleep = (\<lambda>d w. if u32_millis d then Some (w + d) else None), sleep = (\<lambda>d w. ((), w + d)) \<rparr>"

definition lab_output :: cmd_output where
  "lab_output = \<lparr> out_success = True, out_stdout = ''0xe'', out_stderr = [] \<rparr>"

definition lab_host :: "nat host" where
  "lab_host = \<lparr> ho_net = lab_net, ho_output = (\<lambda>prog args cwd w. (Inr lab_output, w)),
     ho_spawn = (\<lambda>prog args w. (Inr 0, w)), ho_wait = (\<lambda>c w. (Inr True, w)),
     ho_uuid = (\<lambda>w. (''a-b'', w)), ho_random16 = (\<lambda>w. ([], w)), ho_env = (\<lambda>k w. (None, w)),
     ho_snip36_bin = (\<lambda>w. (''snip36'', w)), ho_read_to_string = (\<lambda>p w. (Inr ''AB'', w)),
     ho_write = (\<lambda>p x w. (Inr (), w)), ho_create_dir_all = (\<lambda>p w. (Inr (), w)),
     ho_exists = (\<lambda>p w. (True, w)), ho_len = (\<lambda>p w. (Inr 2, w)) \<rparr>"

text \<open>A text that is read as JSON is \<open>v\<close>; a regular expression finds \<open>0xe\<close>.\<close>

definition lab_lib :: "json \<Rightarrow> (felt252, string) app_lib" where
  "lab_lib v = flip_lib\<lparr> al_from_str := (\<lambda>s. Inr v),
     al_regex := \<lparr> re_new = Some, re_is_match = (\<lambda>re t. True), re_find = (\<lambda>re t. Some ''0xe'') \<rparr> \<rparr>"

definition lab_env :: env where
  "lab_env = [''STARKNET_RPC_URL'' \<mapsto> ''http://rpc'', ''STARKNET_ACCOUNT_ADDRESS'' \<mapsto> ''0x1'',
     ''STARKNET_PRIVATE_KEY'' \<mapsto> ''0x2'', ''SNIP36_PROJECT_DIR'' \<mapsto> ''.'']"

definition lab_env_lib :: env_lib where
  "lab_env_lib = \<lparr> el_exists = (\<lambda>p. False), el_from_path = (\<lambda>p e. e), el_dotenv = (\<lambda>e. e), el_current_dir = None \<rparr>"

definition lab_state :: "nat report" where
  "lab_state = \<lparr> ap_world = 1, ap_events = [], rp_passed = 0, rp_failed = 0, rp_timings = [], rp_step = None \<rparr>"

lemma lab_from_env: "from_env lab_env_lib None lab_env = (Inr demo_config, lab_env)"
  by (simp add: from_env_def load_env_def read_config_def lab_env_lib_def lab_env_def env_or_else_def Let_def
      demo_config_def path_join_def starts_with_def)

lemma lab_clock: "clock_laws (ho_net lab_host) (\<lambda>w. w)"
  by (simp add: clock_laws_def lab_host_def lab_net_def lab_after_def)

lemma lab_now: "now (ho_net lab_host) = (\<lambda>w. (w, w))"
  by (simp add: lab_host_def lab_net_def)

lemma lab_host_simps:
  "ho_net lab_host = lab_net" "ho_create_dir_all lab_host p w = (Inr (), w)" "ho_write lab_host p x w = (Inr (), w)"
  "ho_read_to_string lab_host p w = (Inr ''AB'', w)" "ho_exists lab_host p w = (True, w)" "ho_len lab_host p w = (Inr 2, w)"
  "ho_spawn lab_host b args w = (Inr 0, w)" "ho_wait lab_host c w = (Inr True, w)"
  "ho_output lab_host prog args cwd w = (Inr lab_output, w)" "ho_random16 lab_host w = ([], w)"
  "now lab_net w = (w, w)" "instant_add lab_net t d = Some (t + d)"
  "sleep lab_net d w = ((), w + d)"
  by (simp_all add: lab_host_def lab_net_def)

lemma lab_lib_simps:
  "al_felt (lab_lib v) = stark_felt" "al_crypto (lab_lib v) = demo_crypto" "al_strings_from_str (lab_lib v) t = Inr []"
  "al_from_str (lab_lib v) t = Inr v"
  by (simp_all add: lab_lib_def flip_lib_def)

lemma lab_text: "format_cmd_output lab_output = ''0xe''" "out_success lab_output"
  by (simp_all add: lab_output_def format_cmd_output_def)

lemma lab_parse: "parse_hex_from_output (al_regex (lab_lib v)) key ''0xe'' = Some ''0xe''" "class_hash_of (lab_lib v) ''0xe'' = Some ''0xe''"
proof -
  have "str_lines ''0xe'' = [''0xe'']" by (simp add: str_lines_def char_of_def)
  then show "parse_hex_from_output (al_regex (lab_lib v)) key ''0xe'' = Some ''0xe''" for key
    by (simp add: parse_hex_from_output_def lab_lib_def)
  then show "class_hash_of (lab_lib v) ''0xe'' = Some ''0xe''" by (simp add: class_hash_of_def)
qed

lemma lab_call: "call lab_net url m p w = (Inr (lab_answer (rpc_payload m p) w), lab_after (rpc_payload m p) w)"
  by (simp add: call_def call_raw_def lab_net_def rio_bind_apply rio_map_err_apply response_result_def)

lemma lab_answers:
  "lab_answer (rpc_payload ''starknet_getNonce'' p) w = JStr (fmt_hex 5)" "lab_after (rpc_payload ''starknet_getNonce'' p) w = w"
  "lab_answer (rpc_payload ''starknet_blockNumber'' p) w = ju64 10" "lab_after (rpc_payload ''starknet_blockNumber'' p) w = w"
  "lab_answer (rpc_payload ''starknet_call'' p) w = JArr [JStr (fmt_hex w)]" "lab_after (rpc_payload ''starknet_call'' p) w = w"
  "lab_answer (rpc_payload ''starknet_chainId'' p) w = JStr ''SN_SEPOLIA''" "lab_after (rpc_payload ''starknet_chainId'' p) w = w"
  "lab_answer (rpc_payload ''starknet_getClass'' p) w = lab_receipt" "lab_after (rpc_payload ''starknet_getClass'' p) w = w"
  "lab_answer (rpc_payload ''starknet_getTransactionReceipt'' p) w = lab_receipt"
  "lab_after (rpc_payload ''starknet_getTransactionReceipt'' p) w = w"
  "lab_answer (rpc_payload ''starknet_addInvokeTransaction'' p) w = lab_receipt"
  "lab_after (rpc_payload ''starknet_addInvokeTransaction'' p) w = w + 6"
  by (simp_all add: lab_answer_def lab_after_def rpc_payload_def)

lemma lab_nonce:
  "get_nonce_at_block lab_net url a b w = (Inr 5, w)" "get_nonce lab_net url a w = (Inr 5, w)"
proof -
  have five: "parse_u64_hex (fmt_hex 5) = Some 5" using parse_u64_hex_fmt[of 5] by simp
  then show "get_nonce_at_block lab_net url a b w = (Inr 5, w)" for b
    by (simp add: get_nonce_at_block_def rio_bind_apply rio_lift_apply lab_call lab_answers)
  then show "get_nonce lab_net url a w = (Inr 5, w)" by (simp add: get_nonce_def)
qed

lemma lab_wait: "0 < t \<Longrightarrow> wait_for_tx lab_net url h t p w = Some (Inr lab_receipt, w)"
proof -
  assume "0 < t"
  then have "0 < from_secs t" by (rule from_secs_pos)
  moreover have "poll_receipt lab_net url h w = (Some (Inr lab_receipt), w)"
    by (simp add: poll_receipt_def get_receipt_def lab_call lab_answers classify_receipt_def Let_def lab_receipt_def)
  ultimately show ?thesis by (simp add: wait_for_tx_def poll_until.simps lab_host_simps)
qed

lemma lab_wait_block: "0 < t \<Longrightarrow> b < 10 \<Longrightarrow> wait_for_block_after lab_net url b t p w = Some (Inr 10, w)"
proof -
  assume "0 < t" and b: "b < 10"
  then have "0 < from_secs t" using from_secs_pos by blast
  moreover have "poll_block lab_net url b w = (Some (Inr 10), w)"
    using b by (simp add: poll_block_def block_number_def rio_bind_apply rio_lift_apply lab_call lab_answers)
  ultimately show ?thesis by (simp add: wait_for_block_after_def poll_until.simps lab_host_simps)
qed

lemma lab_add: "add_invoke_transaction lab_net url tx w = (Inr ''0xd'', w + 6)"
  by (simp add: add_invoke_transaction_def rio_bind_apply rio_lift_apply lab_call lab_answers lab_receipt_def)

lemma lab_block: "receipt_block_number lab_receipt = Some 9"
  by (simp add: receipt_block_number_def lab_receipt_def)

lemma lab_class: "get_class lab_net url h w = (Inr lab_receipt, w)"
  by (simp add: get_class_def lab_call lab_answers)

lemma lab_node: "block_number lab_net url w = (Inr 10, w)" "rpc_chain_id lab_net url w = (Inr ''SN_SEPOLIA'', w)"
  by (simp_all add: block_number_def rpc_chain_id_def rio_bind_apply rio_lift_apply lab_call lab_answers)

lemma lab_starknet_call: "starknet_call lab_net url c f a w = (Inr [fmt_hex w], w)"
  by (simp add: starknet_call_def rio_bind_apply rio_lift_apply lab_call lab_answers str_elements_def List.map_filter_def)

section \<open>The shared stages\<close>

lemmas lab_simps = lab_host_simps lab_lib_simps lab_text lab_parse lab_nonce lab_wait lab_wait_block lab_add lab_block
  lab_class lab_node lab_starknet_call rio_bind_apply goes_pass goes_return

lemma lab_step: "goes (step lab_host n title) w () w"
  by (rule goes_step) (simp add: lab_simps)

lemma lab_missing: "goes (missing_command lab_host cmds) w None w"
proof (induction cmds)
  case Nil
  show ?case unfolding missing_command.simps by (rule goes_return)
next
  case (Cons c cmds)
  then show ?case unfolding missing_command.simps
    by - (rule goes_bind[OF goes_on_world(2)], simp add: lab_simps, simp add: lab_simps)
qed

lemma lab_commands: "goes (check_commands lab_host) w () w" "goes (require_file lab_host path msg) w () w"
proof -
  show "goes (check_commands lab_host) w () w"
    unfolding check_commands_def by (rule goes_bind[OF lab_missing]) (simp only: option.case goes_return)
  show "goes (require_file lab_host path msg) w () w"
    unfolding require_file_def
    by (rule goes_bind[OF goes_on_world(3)], simp add: lab_simps, simp only: if_True goes_return)
qed

lemma lab_verify_account: "goes (verify_account lab_host config ok failed stop) w () w"
  unfolding verify_account_def by (rule goes_bind[OF goes_on_world(2)], simp add: lab_simps, simp add: lab_simps)

lemma lab_compile: "goes (compile_contracts lab_host config ok failed) w () w"
  unfolding compile_contracts_def by (rule goes_bind[OF goes_on_world(1)], simp add: lab_simps, simp add: lab_simps)

lemma lab_declare: "goes (sncast_declare lab_host config n c) w ''0xe'' w"
  unfolding sncast_declare_def
  by (rule goes_bind[OF goes_on_world(1)], simp add: lab_simps, simp only: lab_text goes_return)

lemma lab_declared: "goes (declared_class (lab_lib v) lab_host config c) w (Some ''0xe'') w"
  unfolding declared_class_def
  by (rule goes_bind[OF goes_on_world(1)], simp add: lab_simps, simp only: lab_text lab_parse option.case,
      rule goes_bind[OF goes_on_world(2)], simp add: lab_simps, simp only: sum.case goes_return)

lemma lab_deploy: "goes (sncast_deploy (lab_lib v) lab_host config n h ok) w (''0xe'', Some ''0xe'') w"
  unfolding sncast_deploy_def
  by (rule goes_bind[OF goes_on_world(3)], simp add: lab_simps,
      rule goes_bind[OF goes_on_world(1)], simp add: lab_simps,
      simp only: lab_text lab_parse Let_def option.case, rule goes_bind[OF goes_pass], rule goes_return)

lemma lab_wait_deploy: "goes (wait_deploy lab_host config (Some tx)) w 9 w"
  unfolding wait_deploy_def option.case
  by (rule goes_bind[OF goes_on_world(4)], simp add: lab_simps,
      simp only: sum.case lab_block Let_def unwrap_or_simps, rule goes_bind[OF goes_pass], rule goes_return)

lemma lab_identity:
  assumes "parse_felts stark_felt calldata = Inr xs"
  shows "goes (parse_identity (lab_lib v) demo_config calldata) w \<lparr> id_calldata = xs, id_sender = felt_of_nat 1,
     id_key = felt_of_nat 2, id_chain_id = felt_from_bytes_be stark_felt (replicate 22 0 @ as_bytes ''SN_SEPOLIA'') \<rparr> w"
  unfolding parse_identity_def lab_lib_simps game_config
  by (rule goes_bind[OF goes_wrap[OF assms]], rule goes_bind[OF goes_wrap[OF game_felts(1)]],
      rule goes_bind[OF goes_wrap[OF game_felts(4)]], rule goes_bind[OF goes_wrap[OF refl]], rule goes_return)

lemma lab_write:
  assumes "id_key d = felt_of_nat 2"
  shows "goes (write_signed_tx (lab_lib v) lab_host config d calldata nonce p f ok) w () w"
proof -
  obtain sig where sig: "sign demo_crypto (felt_of_nat 2) (compute_invoke_v3_tx_hash stark_felt demo_crypto (id_sender d) (id_calldata d)
      (id_chain_id d) (felt_from_u64 stark_felt nonce) (felt_ZERO stark_felt) zero_fee [] [] 0 0 []) = Inr sig"
    using game_sign by blast
  show ?thesis unfolding write_signed_tx_def lab_lib_simps Let_def assms
    by (rule goes_bind[OF goes_wrap[OF sig]], rule goes_bind[OF goes_on_world(1)], simp add: lab_simps, rule goes_pass)
qed

lemma lab_prove: "goes (prove_tx lab_host exe args p f stop) w () w"
  unfolding prove_tx_def run_status_def
  by (rule goes_bind[OF goes_on_world(1)], simp add: lab_simps, rule goes_bind, simp only: if_True, rule goes_on_world(3),
      simp add: lab_simps, simp only: if_True, rule goes_bind[OF goes_on_world(1)], simp add: lab_simps, rule goes_pass)

lemma lab_read_proof: "\<exists>b. goes (e2e_read_proof (lab_lib v) lab_host p stop) w (b, []) w"
proof -
  have ab: "trim ''AB'' \<noteq> []" using trim_printable[of "''AB''"] by (simp add: printable_def)
  have f: "parse_proof_facts_json (al_strings_from_str (lab_lib v)) ''AB'' = Inr []" "parse_felts stark_felt [] = Inr []"
    by (simp_all add: lab_lib_simps parse_proof_facts_json_def parse_felts_def)
  have "goes (e2e_read_proof (lab_lib v) lab_host p stop) w (trim ''AB'', []) w"
    unfolding e2e_read_proof_def lab_lib_simps(1)
    by (rule goes_bind[OF goes_on_world(1)], simp add: lab_simps, simp only: ab if_False,
        rule goes_bind[OF goes_on_world(1)], simp add: lab_simps,
        rule goes_bind[OF goes_wrap[OF f(1)]], rule goes_bind[OF goes_wrap[OF f(2)]], rule goes_return)
  then show ?thesis by blast
qed

lemma lab_submit_tx: "gateway_url config = None \<Longrightarrow> goes (submit_tx lab_host config h tx) w (Some ''0xd'') (w + 6)"
proof -
  assume g: "gateway_url config = None"
  have upt: "[1..<Suc max_attempts] = 1 # [2..<Suc max_attempts]" by (simp add: max_attempts_def upt_rec)
  show ?thesis unfolding submit_tx_def g option.case upt rpc_submit.simps
    by (rule goes_bind[OF goes_on_world(2)], simp add: lab_simps, simp only: sum.case,
        rule goes_bind[OF goes_pass], rule goes_return)
qed

end
