(* ===== verification/E2eCoinFlip.thy ===== *)
theory E2eCoinFlip
  imports DriverLab CoinFlipTask
begin

text \<open>
  The end-to-end test of the coin flip (\<open>coinflip/src/e2e.rs\<close>): it deploys the contract, proves one game and
  compares the settlement message with the outcome that it computes itself.
\<close>

section \<open>Setting up\<close>

record e2e_coinflip_args =
  ca_prover_url :: "string option"
  ca_output_dir :: string
  ca_prove_only :: bool
  ca_bet :: u8

definition prover_prereqs :: "'w host \<Rightarrow> config \<Rightarrow> string \<Rightarrow> ('w, unit) driver" where
  "prover_prereqs H config msg =
     pio_bind (check_commands H) (\<lambda>_. require_file H (prover_bin config) msg)"

definition coinflip_check_prereqs :: "'w host \<Rightarrow> config \<Rightarrow> ('w, unit) driver" where
  "coinflip_check_prereqs H config = prover_prereqs H config
     (''stwo-run-and-prove not found at '' @ prover_bin config @ ''. Run `snip36 setup` first.'')"

text \<open>Step 0 does not look at the result of the import.\<close>

definition silent_import :: "'w host \<Rightarrow> config \<Rightarrow> string \<Rightarrow> string \<Rightarrow> string \<Rightarrow> ('w, unit) driver" where
  "silent_import H config account_name failed stop =
     pio_bind (step H 0 ''Import account into sncast'') (\<lambda>_.
     pio_bind (pio_result (on_world (ho_output H ''sncast'' (import_args config account_name @ [''--silent'']) None))) (\<lambda>_.
       verify_account H config (\<lambda>nonce. ''Account imported (nonce: '' @ fmt_hex (unat nonce) @ '')'') failed stop))"

definition coinflip_import :: "'w host \<Rightarrow> config \<Rightarrow> string \<Rightarrow> ('w, unit) driver" where
  "coinflip_import H config account_name =
     silent_import H config account_name ''Could not verify account on-chain: '' ''cannot proceed without account''"

definition coinflip_compile :: "'w host \<Rightarrow> config \<Rightarrow> ('w, unit) driver" where
  "coinflip_compile H config =
     pio_bind (step H 1 ''Compile CoinFlip contract'') (\<lambda>_.
       compile_contracts H config ''Contract compiled'' ''Compilation failed: '')"

definition coinflip_declare :: "('f, 're) app_lib \<Rightarrow> 'w host \<Rightarrow> config \<Rightarrow> string \<Rightarrow> ('w, string) driver" where
  "coinflip_declare A H config account_name =
     pio_bind (step H 2 ''Declare CoinFlip class'') (\<lambda>_.
     pio_bind (declared_class A H config ''CoinFlip'') (\<lambda>already.
     case already of
       Some h \<Rightarrow> pio_bind (pass ''CoinFlip already declared'') (\<lambda>_. pio_return (Inr h))
     | None \<Rightarrow>
         pio_bind (sncast_declare H config account_name ''CoinFlip'') (\<lambda>combined.
         case class_hash_of A combined of
           None \<Rightarrow> fail_bail ''Could not determine class hash'' NoCause ''declare failed''
         | Some h \<Rightarrow>
             pio_bind (pass ''CoinFlip declared'') (\<lambda>_.
             case parse_hex_from_output (al_regex A) ''transaction_hash'' combined of
               None \<Rightarrow> pio_return (Inr h)
             | Some tx \<Rightarrow>
                 pio_bind (wrap_err ''declare tx not confirmed'' Rpc_cause
                    (on_world_wait (wait_for_tx (ho_net H) (rpc_url config) tx 120 3))) (\<lambda>_. pio_return (Inr h))))))"

definition coinflip_deploy ::
  "('f, 're) app_lib \<Rightarrow> 'w host \<Rightarrow> config \<Rightarrow> string \<Rightarrow> string \<Rightarrow> ('w, string \<times> u64) driver" where
  "coinflip_deploy A H config account_name class_hash =
     pio_bind (step H 3 ''Deploy CoinFlip contract'') (\<lambda>_.
     pio_bind (sncast_deploy A H config account_name class_hash ''CoinFlip deployed'') (\<lambda>(contract_address, deploy_tx_hash).
     pio_bind (step H 4 ''Wait for deploy tx inclusion'') (\<lambda>_.
     pio_bind (wait_deploy H config deploy_tx_hash) (\<lambda>reference_block.
       pio_return (Inr (contract_address, reference_block))))))"

section \<open>The game\<close>

text \<open>The low bit of the hash of the seed and the player, as the driver computes it.\<close>

definition expected_outcome :: "('f, 're) app_lib \<Rightarrow> u64 \<Rightarrow> 'f \<Rightarrow> u8" where
  "expected_outcome A reference_block player_felt =
     and (felt_to_bytes_be (al_felt A) (pedersen_hash (al_crypto A) (felt_from_u64 (al_felt A) reference_block) player_felt) ! 31) 1"

definition game_calldata :: "string \<Rightarrow> u64 \<Rightarrow> string \<Rightarrow> u8 \<Rightarrow> string list" where
  "game_calldata contract_address reference_block player bet =
     [''0x1'', contract_address, PLAY_SELECTOR, ''0x3'', fmt_hex (unat reference_block), player, fmt_hex (unat bet)]"

text \<open>Three seconds for the node to see the nonce, then the transaction.\<close>

definition single_construct ::
  "('f, 're) app_lib \<Rightarrow> 'w host \<Rightarrow> config \<Rightarrow> string list \<Rightarrow> string \<Rightarrow> string \<Rightarrow> string \<Rightarrow> ('w, 'f identity \<times> u64) driver" where
  "single_construct A H config calldata tx_path sign_failed ok =
     pio_bind (parse_identity A config calldata) (\<lambda>d.
     pio_bind (on_world_io (sleep (ho_net H) (from_secs 3))) (\<lambda>_.
     pio_bind (wrap_err [] Rpc_cause (on_world (get_nonce (ho_net H) (rpc_url config) (account_address config)))) (\<lambda>nonce.
     pio_bind (write_signed_tx A H config d calldata nonce tx_path sign_failed ok) (\<lambda>_.
       pio_return (Inr (d, nonce))))))"

definition coinflip_prove ::
  "('f, 're) app_lib \<Rightarrow> 'w host \<Rightarrow> string option \<Rightarrow> config \<Rightarrow> env \<Rightarrow> e2e_coinflip_args \<Rightarrow> string \<Rightarrow> u64 \<Rightarrow> u8 \<Rightarrow>
     ('w, 'f identity \<times> u64 \<times> u8) driver" where
  "coinflip_prove A H current_exe config e args contract_address reference_block bet =
     (let tx_path = path_join (ca_output_dir args) ''coinflip_tx.json'';
          proof_path = path_join (ca_output_dir args) ''coinflip.proof'' in
      pio_bind (step H 5 ''Prove coin flip'') (\<lambda>_.
      pio_bind (wrap_err [] Text (pio_return (felt_from_hex_msg (al_felt A) (account_address config)))) (\<lambda>player_felt.
      pio_bind (single_construct A H config (game_calldata contract_address reference_block (account_address config) bet) tx_path
          ''signing failed: '' ''Transaction constructed and signed'') (\<lambda>(d, nonce).
      pio_bind (prove_tx H (unwrap_or ''snip36'' current_exe)
          (e2e_prove_args config (prover_url_of (ca_prover_url args) e) reference_block tx_path proof_path) proof_path
          ''failed to run prove command'' ''proving failed'') (\<lambda>_.
        pio_return (Inr (d, nonce, expected_outcome A reference_block player_felt)))))))"

section \<open>The settlement message\<close>

text \<open>The characters of an arrow in UTF-8.\<close>

definition arrow :: string where
  "arrow = byte_string [0xe2, 0x86, 0x92]"

definition check_outcome :: "u8 \<Rightarrow> u8 \<Rightarrow> string list \<Rightarrow> ('w, unit) driver" where
  "check_outcome outcome expected_won elems =
     (let msg_outcome = (if elems ! 3 = ''0x0'' then 0 else 1 :: u8);
          msg_won = (if elems ! 4 = ''0x1'' then 1 else 0 :: u8) in
      pio_bind (if msg_outcome = outcome then pass ''Outcome matches client-side Poseidon hash''
          else fail (''Outcome mismatch: contract says '' @ dec_string (unat msg_outcome) @ '', expected '' @ dec_string (unat outcome)) NoCause) (\<lambda>_.
      if msg_won = expected_won then pass (''Game result verified: '' @ (if msg_won = 1 then ''PLAYER WINS'' else ''HOUSE WINS''))
      else fail ''Win/loss mismatch'' NoCause))"

definition check_settlement :: "u8 \<Rightarrow> u8 \<Rightarrow> json \<Rightarrow> ('w, unit) driver" where
  "check_settlement outcome bet messages_json =
     (let expected_won = (if outcome = bet then 1 else 0) in
      case get_array ''l2_to_l1_messages'' messages_json of
        Some (msg # _) \<Rightarrow>
          (case get_array ''payload'' msg of
             Some p \<Rightarrow>
               (let elems = str_elements p in
                if length elems \<ge> 5 then check_outcome outcome expected_won elems
                else fail (''Unexpected payload length: '' @ dec_string (length elems)) NoCause)
           | None \<Rightarrow> fail ''No payload in settlement message'' NoCause)
      | _ \<Rightarrow> fail_bail (''No L2'' @ arrow @ ''L1 messages in output'') NoCause ''empty messages'')"

text \<open>The messages that the prover has written beside the proof.\<close>

definition read_messages :: "('f, 're) app_lib \<Rightarrow> 'w host \<Rightarrow> string \<Rightarrow> string \<Rightarrow> ('w, json) driver" where
  "read_messages A H proof_path missing =
     (let messages_file = with_extension proof_path ''raw_messages.json'' in
      pio_bind (on_world_io (ho_exists H messages_file)) (\<lambda>ex.
      if \<not> ex then fail_bail missing NoCause ''missing raw_messages.json''
      else
        pio_bind (wrap_err ''failed to read raw_messages.json'' Text (on_world (ho_read_to_string H messages_file))) (\<lambda>messages_str.
          wrap_err ''invalid JSON in raw_messages.json'' Text (pio_return (al_from_str A messages_str)))))"

definition coinflip_verify ::
  "('f, 're) app_lib \<Rightarrow> 'w host \<Rightarrow> e2e_coinflip_args \<Rightarrow> u8 \<Rightarrow> u8 \<Rightarrow> ('w, unit) driver" where
  "coinflip_verify A H args outcome bet =
     pio_bind (step H 6 ''Verify settlement message'') (\<lambda>_.
     pio_bind (read_messages A H (path_join (ca_output_dir args) ''coinflip.proof'') ''raw_messages.json not found'') (\<lambda>messages_json.
       check_settlement outcome bet messages_json))"

section \<open>Submission and the whole test\<close>

definition await_inclusion :: "'w host \<Rightarrow> config \<Rightarrow> string \<Rightarrow> ('w, unit) driver" where
  "await_inclusion H config rpc_tx_hash =
     pio_bind (pio_result (on_world_wait (wait_for_tx (ho_net H) (rpc_url config) rpc_tx_hash 180 5))) (\<lambda>r.
     case r of
       Inr receipt \<Rightarrow> pass (''Tx included in block '' @ dec_string (unat (unwrap_or 0 (receipt_block_number receipt))))
     | Inl e \<Rightarrow> fail_bail ''Tx not confirmed: '' (Rpc_cause e) ''tx confirmation failed'')"

definition coinflip_submit ::
  "('f, 're) app_lib \<Rightarrow> 'w host \<Rightarrow> config \<Rightarrow> e2e_coinflip_args \<Rightarrow> 'f identity \<Rightarrow> u64 \<Rightarrow> ('w, unit) driver" where
  "coinflip_submit A H config args d nonce =
     pio_bind (step H 7 ''Submit via RPC'') (\<lambda>_.
     pio_bind (e2e_read_proof A H (path_join (ca_output_dir args) ''coinflip.proof'') ''empty proof'') (\<lambda>(proof_b64, proof_facts).
     pio_bind (wrap_err ''signing failed: '' Sign_cause (pio_return (sign_and_build_payload (al_felt A) (al_crypto A)
         (submission_params (al_felt A) d nonce proof_b64 proof_facts)))) (\<lambda>(local_tx_hash, invoke_tx).
     pio_bind (rpc_submit H (rpc_url config) invoke_tx [1..<Suc max_attempts]) (\<lambda>rpc_tx_hash.
     case rpc_tx_hash of
       None \<Rightarrow> bail ''RPC submission failed''
     | Some h \<Rightarrow> await_inclusion H config h))))"

definition coinflip_body ::
  "('f, 're) app_lib \<Rightarrow> 'w host \<Rightarrow> string option \<Rightarrow> config \<Rightarrow> env \<Rightarrow> e2e_coinflip_args \<Rightarrow> ('w, unit) driver" where
  "coinflip_body A H current_exe config e args =
     (let account_name = ''e2e-test-account-2''; bet = min (ca_bet args) 1 in
      pio_bind (coinflip_check_prereqs H config) (\<lambda>_.
      pio_bind (wrap_err [] Text (on_world (ho_create_dir_all H (ca_output_dir args)))) (\<lambda>_.
      pio_bind (coinflip_import H config account_name) (\<lambda>_.
      pio_bind (coinflip_compile H config) (\<lambda>_.
      pio_bind (coinflip_declare A H config account_name) (\<lambda>class_hash.
      pio_bind (coinflip_deploy A H config account_name class_hash) (\<lambda>(contract_address, reference_block).
      pio_bind (coinflip_prove A H current_exe config e args contract_address reference_block bet) (\<lambda>(d, nonce, outcome).
      pio_bind (coinflip_verify A H args outcome bet) (\<lambda>_.
      if ca_prove_only args then pass ''All artifacts saved locally''
      else coinflip_submit A H config args d nonce)))))))))"

definition coinflip_run ::
  "bool \<Rightarrow> ('f, 're) app_lib \<Rightarrow> 'w host \<Rightarrow> env_lib \<Rightarrow> string option \<Rightarrow> env \<Rightarrow> string option \<Rightarrow> e2e_coinflip_args \<Rightarrow> ('w, unit) driver" where
  "coinflip_run overflow_checks A H E current_exe env0 env_file args = (case from_env E env_file env0 of (r, e) \<Rightarrow>
     pio_bind (wrap_err [] Config_cause (pio_return r)) (\<lambda>config.
       counted (timed H (coinflip_body A H current_exe config e args)) (summary overflow_checks H)))"

section \<open>The report\<close>

lemma stage_coinflip_setup:
  "stage (prover_prereqs H config msg)" "stage (silent_import H config n failed stop)" "stage (coinflip_compile H config)"
  "stage (coinflip_declare A H config n)" "stage (coinflip_deploy A H config n h)"
  unfolding prover_prereqs_def silent_import_def coinflip_compile_def coinflip_declare_def coinflip_deploy_def
  by (intro stage_intros stage_shared)+

lemma stage_coinflip_game:
  "stage (single_construct A H config calldata p f ok)" "stage (read_messages A H p missing)"
  "stage (check_outcome outcome won elems)" "stage (await_inclusion H config h)"
  unfolding single_construct_def read_messages_def check_outcome_def await_inclusion_def Let_def
  by (intro stage_intros stage_shared)+

lemma stage_check_settlement: "stage (check_settlement outcome bet v)"
  unfolding check_settlement_def Let_def
  by (cases "get_array ''l2_to_l1_messages'' v"; simp only: option.case)
     (intro stage_intros, (auto split: list.split intro!: stage_intros stage_coinflip_game)[1])

lemma stage_coinflip_body: "stage (timed H (coinflip_body A H exe config e args))"
  unfolding timed_def coinflip_body_def coinflip_check_prereqs_def coinflip_import_def coinflip_prove_def coinflip_verify_def
    coinflip_submit_def Let_def
  by (intro stage_intros stage_shared stage_coinflip_setup stage_coinflip_game stage_check_settlement stage_rpc_submit)

interpretation coinflip_e2e: counted_run "timed H (coinflip_body A H exe config e args)" "summary oc H"
  by unfold_locales (rule stage_coinflip_body closes_summary)+

section \<open>Returning\<close>

lemma returns_coinflip_setup:
  assumes "clock_laws (ho_net H) time"
  shows "returns (prover_prereqs H config msg)" "returns (silent_import H config n failed stop)" "returns (coinflip_compile H config)"
    "returns (coinflip_declare A H config n)" "returns (coinflip_deploy A H config n h)" "returns (await_inclusion H config h)"
  unfolding prover_prereqs_def silent_import_def coinflip_compile_def coinflip_declare_def coinflip_deploy_def await_inclusion_def
  by (intro returns_intros returns_shared returns_deploy(2)[OF assms] returns_wait[OF assms]; simp)+

lemma returns_coinflip_game:
  "returns (single_construct A H config calldata p f ok)" "returns (read_messages A H p missing)"
  "returns (check_outcome outcome won elems)"
  unfolding single_construct_def read_messages_def check_outcome_def Let_def by (intro returns_intros returns_shared)+

lemma returns_check_settlement: "returns (check_settlement outcome bet v)"
  unfolding check_settlement_def Let_def
  by (cases "get_array ''l2_to_l1_messages'' v"; simp only: option.case)
     (intro returns_intros, (auto split: list.split intro!: returns_intros returns_coinflip_game)[1])

lemma returns_coinflip_body:
  assumes "clock_laws (ho_net H) time"
  shows "returns (timed H (coinflip_body A H exe config e args))"
  unfolding timed_def coinflip_body_def coinflip_check_prereqs_def coinflip_import_def coinflip_prove_def coinflip_verify_def
    coinflip_submit_def Let_def
  by (intro returns_intros returns_shared returns_coinflip_setup[OF assms] returns_coinflip_game returns_check_settlement returns_rpc_submit)

lemma coinflip_run_verdict:
  assumes "clock_laws (ho_net H) time" and "from_env E env_file env0 = (Inr config, e)"
  shows "\<exists>r s' es. coinflip_run oc A H E exe env0 env_file args s = Some (r, s') \<and> ap_events s' = ap_events s @ es \<and>
     rp_passed s' = of_nat (count_events is_pass es) \<and> rp_failed s' = of_nat (count_events is_fail es) \<and>
     (r = Inr () \<longrightarrow> rp_failed s' = 0) \<and> (\<forall>n. r = Inl (Exit n) \<longrightarrow> n = 1 \<and> rp_failed s' \<noteq> 0)"
proof -
  have run: "coinflip_run oc A H E exe env0 env_file args =
      counted (timed H (coinflip_body A H exe config e args)) (summary oc H)"
    by (simp add: coinflip_run_def assms(2) wrap_err_def pio_map_err_def pio_bind_def fun_eq_iff)
  show ?thesis unfolding run by (rule coinflip_e2e.counted_ends[OF returns_coinflip_body[OF assms(1)] returns_summary])
qed

section \<open>The outcome\<close>

lemma last_byte: "nat_be (Suc n) v ! n = word_of_nat (v mod 256)"
  by (simp add: nth_append)

lemma expected_outcome_parity:
  assumes "felt_library (al_felt A)"
  shows "unat (expected_outcome A b p) =
     felt_to_biguint (al_felt A) (pedersen_hash (al_crypto A) (felt_from_u64 (al_felt A) b) p) mod 2"
proof -
  let ?v = "felt_to_biguint (al_felt A) (pedersen_hash (al_crypto A) (felt_from_u64 (al_felt A) b) p)"
  have "felt_to_bytes_be (al_felt A) (pedersen_hash (al_crypto A) (felt_from_u64 (al_felt A) b) p) ! 31 = word_of_nat (?v mod 256)"
    using last_byte[of 31 ?v] felt_library.to_bytes_be[OF assms] by simp
  then have "unat (expected_outcome A b p) = unat (and (word_of_nat (?v mod 256) :: u8) 1)"
    by (simp add: expected_outcome_def)
  also have "\<dots> = ?v mod 256 mod 2"
    by (simp add: and_one_eq unat_mod unsigned_of_nat take_bit_nat_eq_self)
  also have "\<dots> = ?v mod 2" by (simp add: mod_mod_cancel)
  finally show ?thesis .
qed

lemma check_outcome_counts:
  assumes "check_outcome outcome won elems s = Some (Inr u, s')" and "rp_failed s = 0" "rp_failed s' = 0"
  shows "outcome = (if elems ! 3 = ''0x0'' then 0 else 1) \<and> won = (if elems ! 4 = ''0x1'' then 1 else 0)"
proof -
  have two: "(2 :: u32) \<noteq> 0" "(1 :: u32) + 1 \<noteq> 0" by simp_all
  show ?thesis using assms two unfolding check_outcome_def Let_def
    by (auto simp: pio_iffs pass_def fail_def split: if_splits)
qed

text \<open>The message agrees with the outcome.\<close>

definition settlement_agrees :: "json \<Rightarrow> u8 \<Rightarrow> u8 \<Rightarrow> bool" where
  "settlement_agrees messages_json outcome bet \<longleftrightarrow>
     (\<exists>msg rest p. get_array ''l2_to_l1_messages'' messages_json = Some (msg # rest) \<and> get_array ''payload'' msg = Some p \<and>
        5 \<le> length (str_elements p) \<and> outcome = (if str_elements p ! 3 = ''0x0'' then 0 else 1) \<and>
        (str_elements p ! 4 = ''0x1'' \<longleftrightarrow> outcome = bet))"

lemma check_settlement_counts:
  assumes "check_settlement outcome bet v s = Some (Inr u, s')" and z: "rp_failed s = 0" "rp_failed s' = 0"
  shows "settlement_agrees v outcome bet"
proof -
  have nf: "fail m c s \<noteq> Some (Inr x, s')" for m c x using z by (auto simp: fail_def)
  from assms(1) obtain msg rest p where m: "get_array ''l2_to_l1_messages'' v = Some (msg # rest)" "get_array ''payload'' msg = Some p"
    "5 \<le> length (str_elements p)" and c: "check_outcome outcome (if outcome = bet then 1 else 0) (str_elements p) s = Some (Inr u, s')"
    unfolding check_settlement_def Let_def
    by (auto simp: nf split: option.splits list.splits if_splits)
  from check_outcome_counts[OF c z] m show ?thesis by (auto simp: settlement_agrees_def split: if_splits)
qed

lemma clean_coinflip_setup:
  "clean (coinflip_check_prereqs H config)" "clean (coinflip_import H config n)" "clean (coinflip_compile H config)"
  "clean (coinflip_declare A H config n)" "clean (coinflip_deploy A H config n h)" "clean (await_inclusion H config h)"
  "clean (single_construct A H config calldata p f ok)" "clean (read_messages A H p missing)"
  unfolding coinflip_check_prereqs_def prover_prereqs_def coinflip_import_def silent_import_def coinflip_compile_def
    coinflip_declare_def coinflip_deploy_def await_inclusion_def single_construct_def read_messages_def Let_def
  by (intro clean_bind clean_cases clean_shared clean_report clean_quiet quiet_result quiet_basic)+

lemma clean_coinflip_prove: "clean (coinflip_prove A H exe config e args c b bet)"
  unfolding coinflip_prove_def Let_def
  by (intro clean_bind clean_cases clean_shared clean_coinflip_setup clean_report clean_quiet quiet_result quiet_basic)

lemma clean_coinflip_submit: "clean (coinflip_submit A H config args d nonce)"
proof -
  have "clean_if (\<lambda>h. h \<noteq> None) m \<Longrightarrow> (\<And>h. clean (k h)) \<Longrightarrow> clean (pio_bind m (\<lambda>r. case r of None \<Rightarrow> bail b | Some h \<Rightarrow> k h))"
    for m :: "('w, string option) driver" and k :: "string \<Rightarrow> ('w, unit) driver" and b
    unfolding clean_def clean_if_def by (auto simp: pio_iffs split: option.splits)
  note sub = this[OF clean_rpc_submit]
  show ?thesis unfolding coinflip_submit_def
    by (intro clean_bind[OF clean_step(2)] clean_bind[OF clean_transaction(4)] clean_bind[OF clean_quiet] clean_cases(2) sub
        clean_coinflip_setup quiet_result quiet_basic)
qed

text \<open>
  C15: when the test of the coin flip ends well, the game was proved at the block of the deployment, and the
  settlement message that the prover then left beside the proof agrees with the game: its outcome is the
  parity of the Pedersen hash of that block and the player, and it declares the player the winner exactly
  when that is the player's bet. Unless the test only proves, this very game was then submitted.
\<close>

theorem coinflip_run_sound:
  assumes "felt_library (al_felt A)" and "coinflip_run oc A H E exe env0 env_file args s = Some (Inr (), s')"
  shows "\<exists>config e player h contract block d nonce outcome messages_json sa sb sc sd se sf.
     from_env E env_file env0 = (Inr config, e) \<and> felt_from_hex_msg (al_felt A) (account_address config) = Inr player \<and>
     coinflip_deploy A H config ''e2e-test-account-2'' h sa = Some (Inr (contract, block), sb) \<and>
     coinflip_prove A H exe config e args contract block (min (ca_bet args) 1) sb = Some (Inr (d, nonce, outcome), sc) \<and>
     step H 6 ''Verify settlement message'' sc = Some (Inr (), sd) \<and>
     read_messages A H (path_join (ca_output_dir args) ''coinflip.proof'') ''raw_messages.json not found'' sd = Some (Inr messages_json, se) \<and>
     unat outcome = felt_to_biguint (al_felt A) (pedersen_hash (al_crypto A) (felt_from_u64 (al_felt A) block) player) mod 2 \<and>
     settlement_agrees messages_json outcome (min (ca_bet args) 1) \<and>
     check_settlement outcome (min (ca_bet args) 1) messages_json se = Some (Inr (), sf) \<and>
     (ca_prove_only args \<or> (\<exists>sg. coinflip_submit A H config args d nonce sf = Some (Inr (), sg)))"
proof -
  from assms(2) obtain config e where env: "from_env E env_file env0 = (Inr config, e)"
    and c: "counted (timed H (coinflip_body A H exe config e args)) (summary oc H) s = Some (Inr (), s')"
    unfolding coinflip_run_def wrap_err_def by (auto simp: pio_iffs split: prod.splits)
  obtain s0 s1 where z: "rp_failed s0 = 0" "rp_failed s1 = 0"
    and body: "coinflip_body A H exe config e args s0 = Some (Inr (), s1)"
    using counted_summary_Inr[OF stage_coinflip_body c] by blast
  let ?n = "''e2e-test-account-2''" and ?bet = "min (ca_bet args) 1"
  from body obtain h ca b d nonce outcome sa sb sc sd se sf sg sh where
    st: "coinflip_check_prereqs H config s0 = Some (Inr (), sa)"
      "wrap_err [] Text (on_world (ho_create_dir_all H (ca_output_dir args))) sa = Some (Inr (), sb)"
      "coinflip_import H config ?n sb = Some (Inr (), sc)" "coinflip_compile H config sc = Some (Inr (), sd)"
      "coinflip_declare A H config ?n sd = Some (Inr h, se)" "coinflip_deploy A H config ?n h se = Some (Inr (ca, b), sf)"
    and pr: "coinflip_prove A H exe config e args ca b ?bet sf = Some (Inr (d, nonce, outcome), sg)"
    and ve: "coinflip_verify A H args outcome ?bet sg = Some (Inr (), sh)"
    and sub: "(if ca_prove_only args then pass ''All artifacts saved locally'' else coinflip_submit A H config args d nonce) sh = Some (Inr (), s1)"
    unfolding coinflip_body_def Let_def pio_bind_Inr_iff by (elim exE conjE) (auto simp: pio_bind_Inr_iff)
  have f: "rp_failed sg = 0"
    using z(1) cleanD[OF clean_coinflip_setup(1) st(1)] cleanD[OF clean_quiet[OF quiet_result(2)[OF quiet_basic(2)]] st(2)]
      cleanD[OF clean_coinflip_setup(2) st(3)] cleanD[OF clean_coinflip_setup(3) st(4)] cleanD[OF clean_coinflip_setup(4) st(5)]
      cleanD[OF clean_coinflip_setup(5) st(6)] cleanD[OF clean_coinflip_prove pr] by simp
  have g: "rp_failed sh = 0"
    using cleanD[OF clean_cases(1)[OF clean_report(1) clean_coinflip_submit] sub] z(2) by simp
  from ve obtain v si sj where i: "step H 6 ''Verify settlement message'' sg = Some (Inr (), si)"
    and r: "read_messages A H (path_join (ca_output_dir args) ''coinflip.proof'') ''raw_messages.json not found'' si = Some (Inr v, sj)"
    and k: "check_settlement outcome ?bet v sj = Some (Inr (), sh)"
    unfolding coinflip_verify_def pio_bind_Inr_iff by auto
  have "rp_failed sj = 0" using f cleanD[OF clean_step(2) i] cleanD[OF clean_coinflip_setup(8) r] by simp
  from check_settlement_counts[OF k this g] have ag: "settlement_agrees v outcome ?bet" .
  from pr obtain player where "felt_from_hex_msg (al_felt A) (account_address config) = Inr player" "outcome = expected_outcome A b player"
    unfolding coinflip_prove_def Let_def wrap_err_def by (auto simp: pio_iffs)
  moreover have "ca_prove_only args \<or> (\<exists>sg. coinflip_submit A H config args d nonce sh = Some (Inr (), sg))"
    using sub by (auto split: if_splits)
  ultimately show ?thesis using env st(6) pr i r k ag expected_outcome_parity[OF assms(1), of b player] by blast
qed

section \<open>A game that is verified\<close>

text \<open>The deployment is in block 9, and the hash of 9 and the player 1 is odd: tails, on which the player bets.\<close>

definition toss_args :: e2e_coinflip_args where
  "toss_args = \<lparr> ca_prover_url = None, ca_output_dir = ''out'', ca_prove_only = False, ca_bet = 4 \<rparr>"

definition toss_messages :: json where
  "toss_messages = JObj [(''l2_to_l1_messages'', JArr [JObj [(''payload'', jstrs [''0x1'', ''0x9'', ''0x1'', ''0x1'', ''0x1''])]])]"

lemma toss_payload:
  "get_array ''l2_to_l1_messages'' toss_messages = Some [JObj [(''payload'', jstrs [''0x1'', ''0x9'', ''0x1'', ''0x1'', ''0x1''])]]"
  "get_array ''payload'' (JObj [(''payload'', jstrs fs)]) = Some (map JStr fs)"
  by (simp_all add: toss_messages_def jstrs_def)

lemma toss_outcome: "expected_outcome (lab_lib v) 9 (felt_of_nat 1) = 1"
proof -
  have "felt_to_biguint stark_felt (pedersen_hash demo_crypto (felt_from_u64 stark_felt 9) (felt_of_nat 1)) = 33"
    by (simp add: demo_crypto_def stark_felt_def stark_prime_def)
  then have "unat (expected_outcome (lab_lib v) 9 (felt_of_nat 1)) = unat (1 :: u8)"
    using expected_outcome_parity[of "lab_lib v" 9 "felt_of_nat 1"] stark_felt_library by (simp add: lab_lib_simps)
  then show ?thesis by (simp only: unsigned_word_eqI)
qed

lemma toss_parses: "\<exists>xs. parse_felts stark_felt (game_calldata ''0xe'' 9 ''0x1'' 1) = Inr xs"
proof -
  obtain a where "felt_from_hex_msg stark_felt PLAY_SELECTOR = Inr a" using game_selector by blast
  moreover have "\<exists>x. felt_from_hex_msg stark_felt ''0xe'' = Inr x"
    by (simp add: felt_from_hex_msg_def stark_felt_def stark_from_hex_def starts_with_def stark_prime_def hex_val_def)
  moreover obtain b where "felt_from_hex_msg stark_felt (fmt_hex 9) = Inr b" using game_fmt[of 9] by (auto simp: stark_prime_def)
  moreover obtain c where "felt_from_hex_msg stark_felt (fmt_hex (Suc 0)) = Inr c" using game_fmt[of 1] by (auto simp: stark_prime_def)
  ultimately show ?thesis by (auto simp: game_calldata_def parse_felts_def game_felts)
qed

lemma lab_single_construct:
  assumes "parse_felts stark_felt calldata = Inr xs"
  shows "\<exists>d. id_key d = felt_of_nat 2 \<and>
     goes (single_construct (lab_lib v) lab_host demo_config calldata p f ok) w (d, 5) (w + 3000)"
proof -
  let ?d = "\<lparr> id_calldata = xs, id_sender = felt_of_nat 1, id_key = felt_of_nat 2,
      id_chain_id = felt_from_bytes_be stark_felt (replicate 22 0 @ as_bytes ''SN_SEPOLIA'') \<rparr>"
  have k: "id_key ?d = felt_of_nat 2" by simp
  have s: "goes (on_world_io (sleep (ho_net lab_host) (from_secs 3))) w () (w + 3000)" for w
    by (rule goes_on_world(3)) (simp add: lab_simps from_secs_def)
  have n: "goes (wrap_err [] Rpc_cause (on_world (get_nonce (ho_net lab_host) url a))) w 5 w" for url a w
    by (rule goes_on_world(1)) (simp add: lab_simps)
  have "goes (single_construct (lab_lib v) lab_host demo_config calldata p f ok) w (?d, 5) (w + 3000)"
    unfolding single_construct_def
    by (rule goes_bind[OF lab_identity[OF assms]], rule goes_bind[OF s], rule goes_bind[OF n], rule goes_bind[OF lab_write[OF k]],
        rule goes_return)
  with k show ?thesis by blast
qed

lemma lab_silent_import: "goes (silent_import lab_host config n failed stop) w () w"
  unfolding silent_import_def
  by (rule goes_bind[OF lab_step], rule goes_bind[OF goes_on_world(2)], simp add: lab_simps, rule lab_verify_account)

lemma lab_prover_prereqs: "goes (prover_prereqs lab_host config msg) w () w"
  unfolding prover_prereqs_def by (rule goes_bind[OF lab_commands(1) lab_commands(2)])

lemma lab_read_messages: "goes (read_messages (lab_lib v) lab_host p missing) w v w"
  unfolding read_messages_def Let_def
  by (rule goes_bind[OF goes_on_world(3)], simp add: lab_simps, simp only: if_False simp_thms,
      rule goes_bind[OF goes_on_world(1)], simp add: lab_simps, rule goes_wrap, simp add: lab_simps)

lemma lab_mkdir: "goes (wrap_err [] Text (on_world (ho_create_dir_all lab_host p))) w () w"
  by (rule goes_on_world(1)) (simp add: lab_simps)

lemma lab_await: "goes (await_inclusion lab_host config h) w () w"
  unfolding await_inclusion_def by (rule goes_bind[OF goes_on_world(4)], simp add: lab_simps, simp add: lab_simps)

lemma toss_submit:
  assumes "id_key d = felt_of_nat 2"
  shows "goes (coinflip_submit (lab_lib v) lab_host demo_config args d nonce) w () (w + 6)"
proof -
  have gw: "gateway_url demo_config = None" by (simp add: demo_config_def)
  from lab_submit_tx[OF gw] have sub: "goes (rpc_submit lab_host (rpc_url demo_config) tx [1..<Suc max_attempts]) w (Some ''0xd'') (w + 6)" for tx w
    by (simp only: submit_tx_def gw option.case)
  obtain b where b: "goes (e2e_read_proof (lab_lib v) lab_host (path_join (ca_output_dir args) ''coinflip.proof'') ''empty proof'') w (b, []) w"
    using lab_read_proof by blast
  obtain h payload where h: "sign_and_build_payload stark_felt demo_crypto (submission_params stark_felt d nonce b []) = Inr (h, payload)"
    using game_payload[of "submission_params stark_felt d nonce b []"] assms by (auto simp: submission_params_def)
  show ?thesis unfolding coinflip_submit_def lab_lib_simps(1,2)
    by (rule goes_bind[OF lab_step], rule goes_bind[OF b], simp only: prod.case, rule goes_bind[OF goes_wrap[OF h]], simp only: prod.case,
        rule goes_bind[OF sub], simp only: option.case, rule lab_await)
qed

lemma toss_prove:
  "\<exists>d. id_key d = felt_of_nat 2 \<and>
     goes (coinflip_prove (lab_lib v) lab_host exe demo_config e args ''0xe'' 9 1) w (d, 5, 1) (w + 3000)"
proof -
  obtain xs where xs: "parse_felts stark_felt (game_calldata ''0xe'' 9 ''0x1'' 1) = Inr xs" using toss_parses by blast
  obtain d where d: "id_key d = felt_of_nat 2" "goes (single_construct (lab_lib v) lab_host demo_config (game_calldata ''0xe'' 9 ''0x1'' 1)
      (path_join (ca_output_dir args) ''coinflip_tx.json'') ''signing failed: '' ''Transaction constructed and signed'') w (d, 5) (w + 3000)"
    using lab_single_construct[OF xs] by blast
  have "goes (coinflip_prove (lab_lib v) lab_host exe demo_config e args ''0xe'' 9 1) w (d, 5, 1) (w + 3000)"
    unfolding coinflip_prove_def Let_def game_config lab_lib_simps(1)
    by (rule goes_bind[OF lab_step], rule goes_bind[OF goes_wrap[OF game_felts(1)]], rule goes_bind[OF d(2)], simp only: prod.case,
        rule goes_bind[OF lab_prove], simp only: toss_outcome goes_return)
  with d(1) show ?thesis by blast
qed

lemma toss_verify: "goes (coinflip_verify (lab_lib toss_messages) lab_host args 1 1) w () w"
proof -
  have "goes (check_outcome 1 1 [''0x1'', ''0x9'', ''0x1'', ''0x1'', ''0x1'']) w () w"
    unfolding check_outcome_def Let_def by (rule goes_bind, simp, rule goes_pass, simp add: goes_pass)
  then have "goes (check_settlement 1 1 toss_messages) w () w"
    unfolding check_settlement_def toss_payload(1) option.case list.case Let_def toss_payload(2) str_elements_jstrs by simp
  then show ?thesis unfolding coinflip_verify_def
    by - (rule goes_bind[OF lab_step], rule goes_bind[OF lab_read_messages])
qed

lemma toss_body: "\<exists>w'. goes (coinflip_body (lab_lib toss_messages) lab_host exe demo_config lab_env toss_args) 1 () w'"
proof -
  obtain d where d: "id_key d = felt_of_nat 2"
    "goes (coinflip_prove (lab_lib toss_messages) lab_host exe demo_config lab_env toss_args ''0xe'' 9 1) 1 (d, 5, 1) (1 + 3000)"
    using toss_prove by blast
  have bet: "min (ca_bet toss_args) 1 = 1" and po: "\<not> ca_prove_only toss_args" by (simp_all add: toss_args_def)
  have dec: "goes (coinflip_declare (lab_lib v) lab_host demo_config n) w ''0xe'' w" for v n w
    unfolding coinflip_declare_def
    by (rule goes_bind[OF lab_step], rule goes_bind[OF lab_declared], simp only: option.case, rule goes_bind[OF goes_pass], rule goes_return)
  have dep: "goes (coinflip_deploy (lab_lib v) lab_host demo_config n h) w (''0xe'', 9) w" for v n h w
    unfolding coinflip_deploy_def
    by (rule goes_bind[OF lab_step], rule goes_bind[OF lab_deploy], simp only: prod.case, rule goes_bind[OF lab_step],
        rule goes_bind[OF lab_wait_deploy], rule goes_return)
  have comp: "goes (coinflip_compile lab_host demo_config) w () w" for w
    unfolding coinflip_compile_def by (rule goes_bind[OF lab_step lab_compile])
  have "goes (coinflip_body (lab_lib toss_messages) lab_host exe demo_config lab_env toss_args) 1 () (1 + 3000 + 6)"
    unfolding coinflip_body_def Let_def bet if_not_P[OF po] coinflip_check_prereqs_def coinflip_import_def
    by (rule goes_bind[OF lab_prover_prereqs], rule goes_bind[OF lab_mkdir], rule goes_bind[OF lab_silent_import], rule goes_bind[OF comp],
        rule goes_bind[OF dec], rule goes_bind[OF dep], simp only: prod.case, rule goes_bind[OF d(2)], simp only: prod.case,
        rule goes_bind[OF toss_verify], rule toss_submit[OF d(1)])
  then show ?thesis by blast
qed

theorem coinflip_run_sound_witness:
  "felt_library (al_felt (lab_lib toss_messages)) \<and>
   (\<exists>s' messages_json. coinflip_run True (lab_lib toss_messages) lab_host lab_env_lib None lab_env None toss_args lab_state = Some (Inr (), s') \<and>
     al_from_str (lab_lib toss_messages) ''AB'' = Inr messages_json \<and> settlement_agrees messages_json 1 1)"
proof -
  have F: "felt_library (al_felt (lab_lib toss_messages))" by (simp add: lab_lib_simps stark_felt_library)
  have w: "1 = ap_world lab_state" by (simp add: lab_state_def)
  obtain w' where "goes (coinflip_body (lab_lib toss_messages) lab_host None demo_config lab_env toss_args) (ap_world lab_state) () w'"
    using toss_body unfolding w by blast
  from goes_counted[OF this lab_now] obtain s' where
    r: "coinflip_run True (lab_lib toss_messages) lab_host lab_env_lib None lab_env None toss_args lab_state = Some (Inr (), s')"
    unfolding coinflip_run_def lab_from_env prod.case wrap_err_def by (auto simp: pio_map_err_def pio_bind_def map_err_def)
  from coinflip_run_sound[OF F r] obtain outcome v p sd se where
    m: "read_messages (lab_lib toss_messages) lab_host p ''raw_messages.json not found'' sd = Some (Inr v, se)"
    and a: "settlement_agrees v outcome (min (ca_bet toss_args) 1)" by blast
  from lab_read_messages[of toss_messages p "''raw_messages.json not found''" "ap_world sd"] m have "v = toss_messages"
    by (auto simp: goes_def)
  note a = a[unfolded this]
  then have "outcome = 1" by (auto simp: settlement_agrees_def toss_payload(1) jstrs_def toss_args_def str_elements_def List.map_filter_def)
  with a have "settlement_agrees toss_messages 1 1" by (simp add: toss_args_def)
  with F r show ?thesis by (auto simp: lab_lib_simps)
qed

end
