(* ===== verification/E2eCounter.thy ===== *)
theory E2eCounter
  imports DriverLab CounterSafety
begin

text \<open>
  The end-to-end test of the counter (\<open>counter/src/e2e.rs\<close>): it deploys a counter, then proves, submits and
  checks one transaction per virtual block, and at the end compares the counter with the sum.
\<close>

section \<open>Names and calldata\<close>

definition e2e_account_name :: "string \<Rightarrow> driver_end + string" where
  "e2e_account_name address =
     (let hex = trim_start_matches ''0x'' address; start = length hex - 8 in
      if is_char_boundary hex start then Inr (''snip36-e2e-'' @ drop start hex)
      else Inl (DriverPanic ''byte index is not a char boundary''))"

definition encode_account_calls :: "(string \<times> string \<times> string list) list \<Rightarrow> string list" where
  "encode_account_calls calls = fmt_hex (length calls) #
     concat (map (\<lambda>(to, selector, call_calldata). to # selector # fmt_hex (length call_calldata) # call_calldata) calls)"

record e2e_args =
  ea_prover_url :: "string option"
  ea_output_dir :: string
  ea_snos_blocks :: u32
  ea_counter_increments :: u64
  ea_increments_per_snos :: u32
  ea_prove_only :: bool

text \<open>The sums are computed before the test starts.\<close>

definition e2e_increments :: "bool \<Rightarrow> e2e_args \<Rightarrow> driver_end + u64 \<times> u64" where
  "e2e_increments overflow_checks args =
     and_then (u64_arith overflow_checks (unat (ea_counter_increments args) * unat (ea_increments_per_snos args))) (\<lambda>increment_per_block.
     and_then (u64_arith overflow_checks (unat increment_per_block * unat (ea_snos_blocks args))) (\<lambda>total_expected.
       Inr (increment_per_block, total_expected)))"

definition e2e_calls :: "e2e_args \<Rightarrow> string \<Rightarrow> string list" where
  "e2e_calls args contract_address = encode_account_calls (replicate (unat (ea_increments_per_snos args))
     (contract_address, INCREMENT_SELECTOR, [fmt_hex (unat (ea_counter_increments args))]))"

definition try_read_counter :: "'w host \<Rightarrow> config \<Rightarrow> string \<Rightarrow> ('w, u64 option) driver" where
  "try_read_counter H config contract_address =
     pio_bind (pio_result (on_world (starknet_call (ho_net H) (rpc_url config) contract_address GET_COUNTER_SELECTOR []))) (\<lambda>r.
       pio_return (Inr (case r of Inr (hex # _) \<Rightarrow> parse_u64_hex hex | _ \<Rightarrow> None)))"

section \<open>Setting up\<close>

definition e2e_check_prereqs :: "'w host \<Rightarrow> config \<Rightarrow> bool \<Rightarrow> ('w, unit) driver" where
  "e2e_check_prereqs H config require_local_prover =
     pio_bind (check_commands H) (\<lambda>_.
     if require_local_prover then
       pio_bind (require_file H (runner_bin config) (''starknet_transaction_prover not found at '' @ runner_bin config @
           ''. Run `snip36 setup` first or provide --prover-url.'')) (\<lambda>_.
         require_file H (prover_bin config) (''stwo-run-and-prove not found at '' @ prover_bin config @
           ''. Run `snip36 setup` first or provide --prover-url.''))
     else pio_return (Inr ()))"

definition e2e_import :: "'w host \<Rightarrow> config \<Rightarrow> string \<Rightarrow> ('w, unit) driver" where
  "e2e_import H config account_name =
     pio_bind (step H 0 ''Import account into sncast'') (\<lambda>_.
     pio_bind (wrap_err ''failed to run sncast account import'' Text
         (on_world (ho_output H ''sncast'' (import_args config account_name) None))) (\<lambda>out.
     let combined = format_cmd_output out in
     if out_success out then pass (''sncast account ready: '' @ account_name)
     else if str_contains ''already exists'' combined then pass (''sncast account already exists: '' @ account_name)
     else fail_bail (''Could not import account into sncast: '' @ unwrap_or combined (str_prefix combined 500)) NoCause
            ''cannot proceed without sncast account''))"

definition e2e_declare :: "('f, 're) app_lib \<Rightarrow> 'w host \<Rightarrow> config \<Rightarrow> string \<Rightarrow> ('w, string) driver" where
  "e2e_declare A H config account_name =
     pio_bind (step H 2 ''Declare contract class'') (\<lambda>_.
     pio_bind (sncast_declare H config account_name ''Counter'') (\<lambda>combined.
     case class_hash_of A combined of
       None \<Rightarrow> fail_bail ''Could not determine class hash'' NoCause ''declare failed''
     | Some h \<Rightarrow>
         pio_bind (pass ''Contract declared'') (\<lambda>_.
         case parse_hex_from_output (al_regex A) ''transaction_hash'' combined of
           None \<Rightarrow> pio_return (Inr h)
         | Some tx \<Rightarrow>
             pio_bind (wrap_err ''declare tx not confirmed'' Rpc_cause
                (on_world_wait (wait_for_tx (ho_net H) (rpc_url config) tx 120 3))) (\<lambda>_. pio_return (Inr h)))))"

text \<open>Steps 0 to 4: the address of the contract and the block that has it.\<close>

definition e2e_setup ::
  "('f, 're) app_lib \<Rightarrow> 'w host \<Rightarrow> config \<Rightarrow> string \<Rightarrow> ('w, string \<times> u64) driver" where
  "e2e_setup A H config account_name =
     pio_bind (e2e_import H config account_name) (\<lambda>_.
     pio_bind (verify_account H config (\<lambda>nonce. ''Account verified on-chain (nonce: '' @ fmt_hex (unat nonce) @ '')'')
         ''Could not verify account on-chain: '' ''cannot proceed without account'') (\<lambda>_.
     pio_bind (step H 1 ''Compile counter contract'') (\<lambda>_.
     pio_bind (compile_contracts H config ''Contract compiled'' ''Contract compilation failed: '') (\<lambda>_.
     pio_bind (e2e_declare A H config account_name) (\<lambda>class_hash.
     pio_bind (step H 3 ''Deploy counter contract'') (\<lambda>_.
     pio_bind (sncast_deploy A H config account_name class_hash ''Contract deployed'') (\<lambda>(contract_address, deploy_tx_hash).
     pio_bind (step H 4 ''Wait for deploy tx inclusion'') (\<lambda>_.
     pio_bind (wait_deploy H config deploy_tx_hash) (\<lambda>deploy_block.
       pio_return (Inr (contract_address, deploy_block)))))))))))"

definition initial_counter :: "'w host \<Rightarrow> config \<Rightarrow> string \<Rightarrow> u64 \<Rightarrow> ('w, u64) driver" where
  "initial_counter H config contract_address deploy_block =
     pio_bind (pio_result (on_world_wait (wait_for_block_after (ho_net H) (rpc_url config) deploy_block 120 3))) (\<lambda>_.
     pio_bind (try_read_counter H config contract_address) (\<lambda>c. pio_return (Inr (unwrap_or 0 c))))"

section \<open>One block\<close>

definition block_label :: "u32 \<Rightarrow> nat \<Rightarrow> string" where
  "block_label snos_blocks block_idx =
     (if snos_blocks = 1 then ''Prove and submit''
      else ''Block '' @ dec_string block_idx @ ''/'' @ dec_string (unat snos_blocks))"

definition e2e_proof_path :: "e2e_args \<Rightarrow> nat \<Rightarrow> string" where
  "e2e_proof_path args block_idx = path_join (ea_output_dir args) (''e2e_'' @ dec_string block_idx @ ''.proof'')"

definition e2e_construct ::
  "('f, 're) app_lib \<Rightarrow> 'w host \<Rightarrow> config \<Rightarrow> e2e_args \<Rightarrow> 'f identity \<Rightarrow> string list \<Rightarrow> u64 \<Rightarrow> nat \<Rightarrow> ('w, u64) driver" where
  "e2e_construct A H config args d calldata reference_block block_idx =
     pio_bind (wrap_err [] Rpc_cause (on_world (get_nonce_at_block (ho_net H) (rpc_url config) (account_address config)
         (JObj [(''block_number'', ju64 reference_block)])))) (\<lambda>nonce.
     pio_bind (write_signed_tx A H config d calldata nonce
         (path_join (ea_output_dir args) (''e2e_tx_'' @ dec_string block_idx @ ''.json''))
         ''signing failed: '' ''Transaction constructed and signed'') (\<lambda>_.
       pio_return (Inr nonce)))"

definition e2e_prove ::
  "'w host \<Rightarrow> config \<Rightarrow> e2e_args \<Rightarrow> string option \<Rightarrow> string \<Rightarrow> u64 \<Rightarrow> nat \<Rightarrow> ('w, unit) driver" where
  "e2e_prove H config args prover_url exe reference_block block_idx =
     prove_tx H exe (e2e_prove_args config prover_url reference_block
         (path_join (ea_output_dir args) (''e2e_tx_'' @ dec_string block_idx @ ''.json'')) (e2e_proof_path args block_idx))
       (e2e_proof_path args block_idx) ''failed to run prove command'' (''proving failed for block '' @ dec_string block_idx)"

definition e2e_keep_proof :: "'w host \<Rightarrow> e2e_args \<Rightarrow> nat \<Rightarrow> ('w, unit) driver" where
  "e2e_keep_proof H args block_idx =
     pio_bind (on_world_io (ho_exists H (with_extension (e2e_proof_path args block_idx) ''raw_messages.json''))) (\<lambda>_.
       pass ''Proof and proof_facts saved locally'')"

definition e2e_submit ::
  "('f, 're) app_lib \<Rightarrow> 'w host \<Rightarrow> config \<Rightarrow> e2e_args \<Rightarrow> 'f identity \<Rightarrow> u64 \<Rightarrow> nat \<Rightarrow> ('w, string) driver" where
  "e2e_submit A H config args d nonce block_idx =
     pio_bind (e2e_read_proof A H (e2e_proof_path args block_idx) (''empty proof for block '' @ dec_string block_idx)) (\<lambda>(proof_b64, proof_facts).
     pio_bind (wrap_err ''signing failed: '' Sign_cause (pio_return (sign_and_build_payload (al_felt A) (al_crypto A)
         (submission_params (al_felt A) d nonce proof_b64 proof_facts)))) (\<lambda>(local_tx_hash, invoke_tx).
     pio_bind (\<lambda>s. Some (Inr (rp_failed s), s)) (\<lambda>fails_before.
     pio_bind (submit_tx H config (felt_lower_hex (al_felt A) local_tx_hash) invoke_tx) (\<lambda>accepted_tx_hash.
     case accepted_tx_hash of
       Some h \<Rightarrow> pio_return (Inr h)
     | None \<Rightarrow>
         pio_bind (\<lambda>s. (if rp_failed s = fails_before then fail ''Submission not accepted after all retries'' NoCause
                        else pio_return (Inr ())) s) (\<lambda>_.
           bail (''RPC submission failed for block '' @ dec_string block_idx))))))"

definition e2e_inclusion :: "'w host \<Rightarrow> config \<Rightarrow> string \<Rightarrow> nat \<Rightarrow> ('w, u64) driver" where
  "e2e_inclusion H config rpc_tx_hash block_idx =
     pio_bind (pio_result (on_world_wait (wait_for_tx (ho_net H) (rpc_url config) rpc_tx_hash 180 5))) (\<lambda>r.
     case r of
       Inl e \<Rightarrow> fail_bail ''Tx not confirmed: '' (Rpc_cause e) (''tx confirmation failed for block '' @ dec_string block_idx)
     | Inr receipt \<Rightarrow>
         (let bn = unwrap_or 0 (receipt_block_number receipt) in
          pio_bind (pio_result (on_world_wait (wait_for_block_after (ho_net H) (rpc_url config) bn 120 3))) (\<lambda>_.
            pio_return (Inr bn))))"

definition check_counter :: "u64 option \<Rightarrow> u64 \<Rightarrow> nat \<Rightarrow> ('w, unit) driver" where
  "check_counter counter_after expected block_idx = (case counter_after of
      Some actual \<Rightarrow>
        if actual = expected then pass (''Counter verified: '' @ dec_string (unat actual) @ '' (expected '' @ dec_string (unat expected) @ '')'')
        else fail_bail (''Counter mismatch: got '' @ dec_string (unat actual) @ '', expected '' @ dec_string (unat expected)) NoCause
               (''counter verification failed for block '' @ dec_string block_idx)
    | None \<Rightarrow> fail_bail ''Could not read counter value'' NoCause (''counter read failed for block '' @ dec_string block_idx))"

definition e2e_verify ::
  "bool \<Rightarrow> 'w host \<Rightarrow> config \<Rightarrow> string \<Rightarrow> u64 \<Rightarrow> u64 \<Rightarrow> nat \<Rightarrow> ('w, unit) driver" where
  "e2e_verify overflow_checks H config contract_address initial increment_per_block block_idx =
     pio_bind (try_read_counter H config contract_address) (\<lambda>counter_after.
     pio_bind (pio_return (u64_arith overflow_checks (unat increment_per_block * block_idx))) (\<lambda>inc.
     pio_bind (pio_return (u64_arith overflow_checks (unat initial + unat inc))) (\<lambda>expected.
       check_counter counter_after expected block_idx)))"

text \<open>What stays the same from block to block.\<close>

record 'f e2e_plan =
  pl_args :: e2e_args
  pl_prover_url :: "string option"
  pl_exe :: string
  pl_identity :: "'f identity"
  pl_calldata :: "string list"
  pl_contract :: string
  pl_initial :: u64
  pl_increment :: u64

definition e2e_block ::
  "bool \<Rightarrow> ('f, 're) app_lib \<Rightarrow> 'w host \<Rightarrow> config \<Rightarrow> 'f e2e_plan \<Rightarrow> u64 \<Rightarrow> nat \<Rightarrow> ('w, u64) driver" where
  "e2e_block overflow_checks A H config p reference_block block_idx =
     (let args = pl_args p in
      pio_bind (pio_return (u32_arith overflow_checks (4 + block_idx))) (\<lambda>n.
      pio_bind (step H n (block_label (ea_snos_blocks args) block_idx)) (\<lambda>_.
      pio_bind (e2e_construct A H config args (pl_identity p) (pl_calldata p) reference_block block_idx) (\<lambda>nonce.
      pio_bind (e2e_prove H config args (pl_prover_url p) (pl_exe p) reference_block block_idx) (\<lambda>_.
      if ea_prove_only args then pio_bind (e2e_keep_proof H args block_idx) (\<lambda>_. pio_return (Inr reference_block))
      else
        pio_bind (e2e_submit A H config args (pl_identity p) nonce block_idx) (\<lambda>rpc_tx_hash.
        pio_bind (e2e_inclusion H config rpc_tx_hash block_idx) (\<lambda>bn.
        pio_bind (e2e_verify overflow_checks H config (pl_contract p) (pl_initial p) (pl_increment p) block_idx) (\<lambda>_.
          pio_return (Inr bn)))))))))"

fun e2e_blocks ::
  "bool \<Rightarrow> ('f, 're) app_lib \<Rightarrow> 'w host \<Rightarrow> config \<Rightarrow> 'f e2e_plan \<Rightarrow> u64 \<Rightarrow> nat list \<Rightarrow> ('w, unit) driver" where
  "e2e_blocks overflow_checks A H config p reference_block [] = pio_return (Inr ())"
| "e2e_blocks overflow_checks A H config p reference_block (block_idx # rest) =
     pio_bind (e2e_block overflow_checks A H config p reference_block block_idx) (\<lambda>bn.
       e2e_blocks overflow_checks A H config p bn rest)"

section \<open>The test\<close>

definition check_final :: "u32 \<Rightarrow> u64 \<Rightarrow> u64 \<Rightarrow> u64 option \<Rightarrow> u64 \<Rightarrow> ('w, unit) driver" where
  "check_final snos_blocks initial total_expected final_counter expected_final = (case final_counter of
      Some actual \<Rightarrow>
        if actual = expected_final then
          pass (''All '' @ dec_string (unat snos_blocks) @ '' blocks verified: counter '' @ dec_string (unat initial) @
            '' -> '' @ dec_string (unat actual) @ '' (+'' @ dec_string (unat total_expected) @ '')'')
        else fail (''Final counter mismatch: got '' @ dec_string (unat actual) @ '', expected '' @ dec_string (unat expected_final) @
            '' (initial '' @ dec_string (unat initial) @ '' + '' @ dec_string (unat total_expected) @ '')'') NoCause
    | None \<Rightarrow> fail ''Could not read final counter'' NoCause)"

definition e2e_final ::
  "bool \<Rightarrow> 'w host \<Rightarrow> config \<Rightarrow> e2e_args \<Rightarrow> string \<Rightarrow> u64 \<Rightarrow> u64 \<Rightarrow> ('w, unit) driver" where
  "e2e_final overflow_checks H config args contract_address initial total_expected =
     pio_bind (pio_return (u32_arith overflow_checks (5 + unat (ea_snos_blocks args)))) (\<lambda>n.
     if ea_prove_only args then
       pio_bind (step H n ''Prove-only complete'') (\<lambda>_.
         pass (''All '' @ dec_string (unat (ea_snos_blocks args)) @ '' block(s) proved -- artifacts saved to '' @ ea_output_dir args))
     else
       pio_bind (step H n ''Final verification'') (\<lambda>_.
       pio_bind (try_read_counter H config contract_address) (\<lambda>final_counter.
       pio_bind (pio_return (u64_arith overflow_checks (unat initial + unat total_expected))) (\<lambda>expected_final.
         check_final (ea_snos_blocks args) initial total_expected final_counter expected_final))))"

definition e2e_body ::
  "bool \<Rightarrow> ('f, 're) app_lib \<Rightarrow> 'w host \<Rightarrow> string option \<Rightarrow> config \<Rightarrow> env \<Rightarrow> e2e_args \<Rightarrow> ('w, unit) driver" where
  "e2e_body overflow_checks A H current_exe config e args =
     (let prover_url = prover_url_of (ea_prover_url args) e in
      pio_bind (pio_return (e2e_account_name (account_address config))) (\<lambda>account_name.
      pio_bind (pio_return (e2e_increments overflow_checks args)) (\<lambda>(increment_per_block, total_expected).
      pio_bind (e2e_check_prereqs H config (prover_url = None)) (\<lambda>_.
      pio_bind (wrap_err [] Text (on_world (ho_create_dir_all H (ea_output_dir args)))) (\<lambda>_.
      pio_bind (e2e_setup A H config account_name) (\<lambda>(contract_address, deploy_block).
      let calldata = e2e_calls args contract_address in
      pio_bind (parse_identity A config calldata) (\<lambda>d.
      pio_bind (initial_counter H config contract_address deploy_block) (\<lambda>initial.
      pio_bind (e2e_blocks overflow_checks A H config
          \<lparr> pl_args = args, pl_prover_url = prover_url, pl_exe = unwrap_or ''snip36'' current_exe, pl_identity = d,
            pl_calldata = calldata, pl_contract = contract_address, pl_initial = initial, pl_increment = increment_per_block \<rparr>
          deploy_block [1..<Suc (unat (ea_snos_blocks args))]) (\<lambda>_.
        e2e_final overflow_checks H config args contract_address initial total_expected)))))))))"

definition e2e_run ::
  "bool \<Rightarrow> ('f, 're) app_lib \<Rightarrow> 'w host \<Rightarrow> env_lib \<Rightarrow> string option \<Rightarrow> env \<Rightarrow> string option \<Rightarrow> e2e_args \<Rightarrow> ('w, unit) driver" where
  "e2e_run overflow_checks A H E current_exe env0 env_file args = (case from_env E env_file env0 of (r, e) \<Rightarrow>
     pio_bind (wrap_err [] Config_cause (pio_return r)) (\<lambda>config.
       counted (timed H (e2e_body overflow_checks A H current_exe config e args)) (summary overflow_checks H)))"

section \<open>The report\<close>

lemma stage_e2e_names: "stage (pio_return (e2e_account_name a))" "stage (pio_return (e2e_increments oc args))"
  by (auto simp: e2e_account_name_def e2e_increments_def u64_arith_def Let_def and_then_def stage_basic split: sum.split)

lemma stage_e2e_read: "stage (try_read_counter H config c)" "stage (initial_counter H config c b)"
  unfolding initial_counter_def try_read_counter_def by (intro stage_intros)+

lemma stage_e2e_setup: "stage (e2e_check_prereqs H config b)" "stage (e2e_setup A H config n)"
  unfolding e2e_check_prereqs_def e2e_setup_def e2e_import_def e2e_declare_def Let_def
  by (intro stage_intros stage_shared)+

lemma stage_e2e_count: "stage (\<lambda>s. Some (Inr (f s), s))"
  by (auto simp: stage_def tallies_def count_events_def intro: exI[of _ "[]"])

lemma stage_e2e_submit: "stage (e2e_submit A H config args d nonce i)"
proof -
  have "stage (\<lambda>s. (if rp_failed s = n then fail msg c else pio_return (Inr ())) s)" for n msg c
    by (rule stage_state) (intro stage_intros)
  then show ?thesis unfolding e2e_submit_def by (intro stage_intros stage_shared stage_e2e_count)
qed

lemma stage_e2e_block: "stage (e2e_block oc A H config p b i)"
  unfolding e2e_block_def e2e_construct_def e2e_prove_def e2e_keep_proof_def e2e_inclusion_def e2e_verify_def check_counter_def Let_def
  by (intro stage_intros stage_shared stage_e2e_submit stage_e2e_read)

lemma stage_e2e_blocks: "stage (e2e_blocks oc A H config p b is)"
  by (induction "is" arbitrary: b; simp only: e2e_blocks.simps; (intro stage_intros stage_e2e_block | assumption)+)

lemma stage_e2e_body: "stage (timed H (e2e_body oc A H exe config e args))"
  unfolding timed_def e2e_body_def e2e_final_def check_final_def Let_def
  by (intro stage_intros stage_shared stage_e2e_names stage_e2e_setup stage_e2e_read stage_e2e_blocks)

interpretation counter_e2e: counted_run "timed H (e2e_body oc A H exe config e args)" "summary oc H"
  by unfold_locales (rule stage_e2e_body closes_summary)+

section \<open>Returning\<close>

lemma returns_e2e_setup:
  assumes "clock_laws (ho_net H) time"
  shows "returns (e2e_setup A H config n)" "returns (initial_counter H config c b)"
  unfolding e2e_setup_def e2e_import_def e2e_declare_def initial_counter_def try_read_counter_def Let_def
  by (intro returns_intros returns_shared returns_deploy(2)[OF assms] returns_wait[OF assms] returns_wait_block[OF assms]; simp)+

lemma returns_e2e_submit: "returns (e2e_submit A H config args d nonce i)"
proof -
  have "returns (\<lambda>s. (if rp_failed s = n then fail msg c else pio_return (Inr ())) s)" for n msg c
    by (rule returns_state) (intro returns_intros)
  moreover have "returns (\<lambda>s. Some (Inr (rp_failed s), s))" by (simp add: returns_def)
  ultimately show ?thesis unfolding e2e_submit_def by (intro returns_intros returns_shared)
qed

lemma returns_e2e_block:
  assumes "clock_laws (ho_net H) time"
  shows "returns (e2e_block oc A H config p b i)"
  unfolding e2e_block_def e2e_construct_def e2e_prove_def e2e_keep_proof_def e2e_inclusion_def e2e_verify_def check_counter_def
    try_read_counter_def Let_def
  by (intro returns_intros returns_shared returns_e2e_submit returns_wait[OF assms] returns_wait_block[OF assms]; simp)

lemma returns_e2e_blocks:
  assumes "clock_laws (ho_net H) time"
  shows "returns (e2e_blocks oc A H config p b is)"
  by (induction "is" arbitrary: b; simp only: e2e_blocks.simps; (intro returns_intros returns_e2e_block[OF assms] | assumption)+)

lemma returns_e2e_body:
  assumes "clock_laws (ho_net H) time"
  shows "returns (timed H (e2e_body oc A H exe config e args))"
  unfolding timed_def e2e_body_def e2e_final_def check_final_def e2e_check_prereqs_def try_read_counter_def Let_def
  by (intro returns_intros returns_shared returns_e2e_setup[OF assms] returns_e2e_blocks[OF assms])

text \<open>
  C1: the end-to-end test of the counter always ends, with a report that can be trusted: its counters are
  the numbers of \<open>PASS\<close> and \<open>FAIL\<close> lines it wrote, it ends well only with no failure counted, and it exits
  only with status 1 and after a failure that it counted.
\<close>

theorem e2e_run_verdict:
  assumes "clock_laws (ho_net H) time" and "from_env E env_file env0 = (Inr config, e)"
  shows "\<exists>r s' es. e2e_run oc A H E exe env0 env_file args s = Some (r, s') \<and> ap_events s' = ap_events s @ es \<and>
     rp_passed s' = of_nat (count_events is_pass es) \<and> rp_failed s' = of_nat (count_events is_fail es) \<and>
     (r = Inr () \<longrightarrow> rp_failed s' = 0) \<and> (\<forall>n. r = Inl (Exit n) \<longrightarrow> n = 1 \<and> rp_failed s' \<noteq> 0)"
proof -
  have run: "e2e_run oc A H E exe env0 env_file args =
      counted (timed H (e2e_body oc A H exe config e args)) (summary oc H)"
    by (simp add: e2e_run_def assms(2) wrap_err_def pio_map_err_def pio_bind_def fun_eq_iff)
  show ?thesis unfolding run by (rule counter_e2e.counted_ends[OF returns_e2e_body[OF assms(1)] returns_summary])
qed

section \<open>What a passing test has seen\<close>

lemma e2e_increments_Inr:
  assumes "e2e_increments oc args = Inr (inc, tot)"
  shows "tot = inc * word_of_nat (unat (ea_snos_blocks args))"
    and "oc \<Longrightarrow> unat tot = unat (ea_counter_increments args) * unat (ea_increments_per_snos args) * unat (ea_snos_blocks args)"
proof -
  from assms have i: "u64_arith oc (unat (ea_counter_increments args) * unat (ea_increments_per_snos args)) = Inr inc"
    and t: "u64_arith oc (unat inc * unat (ea_snos_blocks args)) = Inr tot"
    by (auto simp: e2e_increments_def and_then_def split: sum.splits)
  show "tot = inc * word_of_nat (unat (ea_snos_blocks args))" using u64_arith_Inr[OF t] by simp
  show "unat tot = unat (ea_counter_increments args) * unat (ea_increments_per_snos args) * unat (ea_snos_blocks args)" if oc
    using u64_arith_Inr[OF t] u64_arith_Inr[OF i] that by metis
qed

lemma clean_e2e_submit: "clean (e2e_submit A H config args d nonce i)"
proof -
  have "rp_failed s' = rp_failed s" if "e2e_submit A H config args d nonce i s = Some (Inr h, s')" for s h s'
  proof -
    from that obtain b f s1 where r: "e2e_read_proof A H (e2e_proof_path args i) (''empty proof for block '' @ dec_string i) s = Some (Inr (b, f), s1)"
      and "\<exists>h' tx. submit_tx H config h' tx s1 = Some (Inr (Some h), s')"
      unfolding e2e_submit_def
      by (auto simp: pio_iffs wrap_err_def bail_def split: option.splits)
    with clean_submit_tx[unfolded clean_if_def] cleanD[OF clean_transaction(4) r] show ?thesis by fastforce
  qed
  then show ?thesis by (simp add: clean_def)
qed

lemma clean_e2e_read: "clean (try_read_counter H config c)" "clean (initial_counter H config c b)"
  unfolding initial_counter_def try_read_counter_def by (intro clean_intros)+

lemma clean_e2e_setup: "clean (e2e_check_prereqs H config b)" "clean (e2e_setup A H config n)"
  unfolding e2e_check_prereqs_def e2e_setup_def e2e_import_def e2e_declare_def Let_def
  by (intro clean_bind clean_cases clean_shared clean_report clean_quiet quiet_result quiet_basic)+

text \<open>
  One block of a test that submits, from the reference block \<open>b\<close> and the state \<open>s\<close> to the next ones: the transaction
  is signed and proved at \<open>b\<close>, submitted and included in the block that becomes the reference block, and after
  that the counter is read.
\<close>

definition block_seen ::
  "('f, 're) app_lib \<Rightarrow> 'w host \<Rightarrow> config \<Rightarrow> 'f e2e_plan \<Rightarrow> u64 \<Rightarrow> nat \<Rightarrow> u64 \<Rightarrow> 'w report \<Rightarrow> u64 \<Rightarrow> 'w report \<Rightarrow> bool" where
  "block_seen A H config p expected i b s b' s' \<longleftrightarrow>
     (\<exists>n nonce h receipt w s1 s2 s3 s4 s5 s6.
        step H n (block_label (ea_snos_blocks (pl_args p)) i) s = Some (Inr (), s1) \<and>
        e2e_construct A H config (pl_args p) (pl_identity p) (pl_calldata p) b i s1 = Some (Inr nonce, s2) \<and>
        e2e_prove H config (pl_args p) (pl_prover_url p) (pl_exe p) b i s2 = Some (Inr (), s3) \<and>
        e2e_submit A H config (pl_args p) (pl_identity p) nonce i s3 = Some (Inr h, s4) \<and>
        wait_for_tx (ho_net H) (rpc_url config) h 180 5 (ap_world s4) = Some (Inr receipt, w) \<and>
        b' = unwrap_or 0 (receipt_block_number receipt) \<and> e2e_inclusion H config h i s4 = Some (Inr b', s5) \<and>
        try_read_counter H config (pl_contract p) s5 = Some (Inr (Some expected), s6) \<and>
        check_counter (Some expected) expected i s6 = Some (Inr (), s'))"

lemma e2e_verify_Inr:
  assumes "e2e_verify oc H config c initial inc i s = Some (Inr u, s')"
  shows "\<exists>s1. try_read_counter H config c s = Some (Inr (Some (initial + inc * word_of_nat i)), s1) \<and>
     check_counter (Some (initial + inc * word_of_nat i)) (initial + inc * word_of_nat i) i s1 = Some (Inr (), s')"
proof -
  from assms obtain ca s1 a v where rd: "try_read_counter H config c s = Some (Inr ca, s1)"
    and a: "u64_arith oc (unat inc * i) = Inr a" and v: "u64_arith oc (unat initial + unat a) = Inr v"
    and k: "check_counter ca v i s1 = Some (Inr u, s')"
    unfolding e2e_verify_def pio_bind_Inr_iff pio_return_iff by metis
  from k have "ca = Some v" by (cases ca) (auto simp: check_counter_def split: if_splits)
  then show ?thesis using rd k u64_arith_Inr[OF a] u64_arith_Inr[OF v] by simp
qed

lemma clean_e2e_verify: "clean (e2e_verify oc H config c initial inc i)"
  unfolding e2e_verify_def check_counter_def try_read_counter_def by (intro clean_intros)

lemma clean_e2e_inclusion: "clean (e2e_inclusion H config h i)"
  unfolding e2e_inclusion_def Let_def by (intro clean_intros)

lemma clean_e2e_block: "clean (e2e_block oc A H config p b i)"
  unfolding e2e_block_def e2e_construct_def e2e_prove_def e2e_keep_proof_def Let_def
  by (intro clean_bind clean_cases clean_shared clean_report clean_e2e_submit clean_e2e_verify clean_e2e_inclusion clean_quiet quiet_result quiet_basic)

lemma e2e_inclusion_Inr:
  assumes "e2e_inclusion H config h i s = Some (Inr b, s')"
  shows "\<exists>receipt w. wait_for_tx (ho_net H) (rpc_url config) h 180 5 (ap_world s) = Some (Inr receipt, w) \<and>
     b = unwrap_or 0 (receipt_block_number receipt)"
  using assms unfolding e2e_inclusion_def pio_bind_Inr_iff pio_result_iff Let_def
  by (elim exE conjE) (auto simp: on_world_wait_def pio_bind_Inr_iff split: option.splits sum.splits)

lemma e2e_block_seen:
  assumes "e2e_block oc A H config p b i s = Some (Inr bn, s')" and "\<not> ea_prove_only (pl_args p)"
  shows "block_seen A H config p (pl_initial p + pl_increment p * word_of_nat i) i b s bn s'"
proof -
  from assms obtain n s1 nonce s2 s3 h s4 s5 where
    "step H n (block_label (ea_snos_blocks (pl_args p)) i) s = Some (Inr (), s1)"
    "e2e_construct A H config (pl_args p) (pl_identity p) (pl_calldata p) b i s1 = Some (Inr nonce, s2)"
    "e2e_prove H config (pl_args p) (pl_prover_url p) (pl_exe p) b i s2 = Some (Inr (), s3)"
    "e2e_submit A H config (pl_args p) (pl_identity p) nonce i s3 = Some (Inr h, s4)"
    and inc: "e2e_inclusion H config h i s4 = Some (Inr bn, s5)"
    and ver: "e2e_verify oc H config (pl_contract p) (pl_initial p) (pl_increment p) i s5 = Some (Inr (), s')"
    unfolding e2e_block_def Let_def pio_iffs by (auto simp: pio_iffs)
  with e2e_inclusion_Inr[OF inc] e2e_verify_Inr[OF ver] show ?thesis unfolding block_seen_def by blast
qed

lemma e2e_blocks_seen:
  assumes "e2e_blocks oc A H config p b is s = Some (Inr u, s')" and "\<not> ea_prove_only (pl_args p)"
  shows "rp_failed s' = rp_failed s \<and> (\<exists>bn st. bn 0 = b \<and> st 0 = s \<and> st (length is) = s' \<and>
     (\<forall>j < length is. block_seen A H config p (pl_initial p + pl_increment p * word_of_nat (is ! j)) (is ! j)
        (bn j) (st j) (bn (Suc j)) (st (Suc j))))"
  using assms(1)
proof (induction "is" arbitrary: b s)
  case Nil
  then show ?case by (auto intro: exI[of _ "\<lambda>_. b"] exI[of _ "\<lambda>_. s"])
next
  case (Cons i rest)
  then obtain b1 s1 where e: "e2e_block oc A H config p b i s = Some (Inr b1, s1)"
    and r: "e2e_blocks oc A H config p b1 rest s1 = Some (Inr u, s')" by (auto simp: pio_iffs)
  from Cons.IH[OF r] obtain bn st where f: "rp_failed s' = rp_failed s1" and bn: "bn 0 = b1" "st 0 = s1" "st (length rest) = s'"
    and k: "\<forall>j < length rest. block_seen A H config p (pl_initial p + pl_increment p * word_of_nat (rest ! j)) (rest ! j)
        (bn j) (st j) (bn (Suc j)) (st (Suc j))" by blast
  have "block_seen A H config p (pl_initial p + pl_increment p * word_of_nat ((i # rest) ! j)) ((i # rest) ! j)
      (case_nat b bn j) (case_nat s st j) (case_nat b bn (Suc j)) (case_nat s st (Suc j))" if "j < length (i # rest)" for j
    using that k bn e2e_block_seen[OF e assms(2)] by (cases j) simp_all
  with f bn cleanD[OF clean_e2e_block e] show ?case
    by (intro conjI exI[of _ "case_nat b bn"] exI[of _ "case_nat s st"]) auto
qed

lemma e2e_final_Inr:
  assumes "e2e_final oc H config args c initial tot s = Some (Inr u, s')" and "\<not> ea_prove_only args" and "rp_failed s' = 0" "rp_failed s = 0"
  shows "\<exists>n s1 s2. step H n ''Final verification'' s = Some (Inr (), s1) \<and>
     try_read_counter H config c s1 = Some (Inr (Some (initial + tot)), s2) \<and> (oc \<longrightarrow> unat (initial + tot) = unat initial + unat tot)"
proof -
  from assms(1,2) obtain n s1 fc s2 v where st: "step H n ''Final verification'' s = Some (Inr (), s1)"
    and rd: "try_read_counter H config c s1 = Some (Inr fc, s2)"
    and v: "u64_arith oc (unat initial + unat tot) = Inr v"
    and f: "check_final (ea_snos_blocks args) initial tot fc v s2 = Some (Inr u, s')"
    unfolding e2e_final_def pio_bind_Inr_iff pio_return_iff if_not_P[OF assms(2)] by (elim exE conjE) force
  have "rp_failed s1 = 0" using cleanD[OF clean_step(2) st] assms by simp
  then have "rp_failed s2 = 0" using cleanD[OF clean_e2e_read(1) rd] by simp
  then have "fc = Some v" using f assms(3) by (cases fc) (auto simp: check_final_def fail_def split: if_splits)
  then show ?thesis using st rd u64_arith_Inr[OF v] by auto
qed

text \<open>
  C13: a test that submits its proofs and ends well has carried its blocks through one after the other: each is
  signed and proved at the block that included the one before it, the first one at the block of the
  deployment, it is accepted and included, and then the counter is read as the initial value plus one
  increment per block so far. At the end the counter is read as the initial value plus the announced total,
  which in a build with overflow checks is the sum over the natural numbers.
\<close>

theorem e2e_run_sound:
  assumes "e2e_run oc A H E exe env0 env_file args s = Some (Inr (), s')" and "\<not> ea_prove_only args"
  shows "\<exists>config e name contract d initial inc tot n bn st s1 s2 s3 s4 s5.
     from_env E env_file env0 = (Inr config, e) \<and>
     e2e_setup A H config name s1 = Some (Inr (contract, bn 0), s2) \<and>
     parse_identity A config (e2e_calls args contract) s2 = Some (Inr d, s3) \<and>
     initial_counter H config contract (bn 0) s3 = Some (Inr initial, st 0) \<and>
     (\<forall>j < unat (ea_snos_blocks args). block_seen A H config
        \<lparr> pl_args = args, pl_prover_url = prover_url_of (ea_prover_url args) e, pl_exe = unwrap_or ''snip36'' exe, pl_identity = d,
          pl_calldata = e2e_calls args contract, pl_contract = contract, pl_initial = initial, pl_increment = inc \<rparr>
        (initial + inc * word_of_nat (Suc j)) (Suc j) (bn j) (st j) (bn (Suc j)) (st (Suc j))) \<and>
     step H n ''Final verification'' (st (unat (ea_snos_blocks args))) = Some (Inr (), s4) \<and>
     try_read_counter H config contract s4 = Some (Inr (Some (initial + tot)), s5) \<and>
     tot = inc * word_of_nat (unat (ea_snos_blocks args)) \<and>
     (oc \<longrightarrow> unat (initial + tot) = unat initial +
        unat (ea_counter_increments args) * unat (ea_increments_per_snos args) * unat (ea_snos_blocks args))"
proof -
  from assms(1) obtain config e where env: "from_env E env_file env0 = (Inr config, e)"
    and c: "counted (timed H (e2e_body oc A H exe config e args)) (summary oc H) s = Some (Inr (), s')"
    unfolding e2e_run_def wrap_err_def by (auto simp: pio_iffs split: prod.splits)
  obtain s0 s1 where s0: "rp_failed s0 = 0" "rp_failed s1 = 0"
    and body: "e2e_body oc A H exe config e args s0 = Some (Inr (), s1)"
    using counted_summary_Inr[OF stage_e2e_body c] by blast
  from body obtain name inc tot u3 u4 contract deploy_block s2 s3 s4 d s5 initial s6 u7 s7 where
    i: "Inr (inc, tot) = e2e_increments oc args"
    and p: "e2e_check_prereqs H config (prover_url_of (ea_prover_url args) e = None) s0 = Some (Inr u3, s2)"
    and m: "wrap_err [] Text (on_world (ho_create_dir_all H (ea_output_dir args))) s2 = Some (Inr u4, s3)"
    and st: "e2e_setup A H config name s3 = Some (Inr (contract, deploy_block), s4)"
    and d: "parse_identity A config (e2e_calls args contract) s4 = Some (Inr d, s5)"
    and r: "initial_counter H config contract deploy_block s5 = Some (Inr initial, s6)"
    and bl: "e2e_blocks oc A H config
          \<lparr> pl_args = args, pl_prover_url = prover_url_of (ea_prover_url args) e, pl_exe = unwrap_or ''snip36'' exe, pl_identity = d,
            pl_calldata = e2e_calls args contract, pl_contract = contract, pl_initial = initial, pl_increment = inc \<rparr>
          deploy_block [1..<Suc (unat (ea_snos_blocks args))] s6 = Some (Inr u7, s7)"
    and f: "e2e_final oc H config args contract initial tot s7 = Some (Inr (), s1)"
    unfolding e2e_body_def Let_def pio_bind_Inr_iff pio_return_iff
    by (elim exE conjE) (auto simp: pio_bind_Inr_iff simp del: upt_Suc)
  have "rp_failed s6 = 0"
    using s0(1) cleanD[OF clean_e2e_setup(1) p] cleanD[OF clean_e2e_setup(2) st] cleanD[OF clean_transaction(1) d]
      cleanD[OF clean_e2e_read(2) r] cleanD[OF clean_quiet[OF quiet_result(2)[OF quiet_basic(2)]] m] by simp
  with e2e_blocks_seen[OF bl] assms(2) obtain bn st where b: "rp_failed s7 = 0" "bn 0 = deploy_block" "st 0 = s6"
    "st (length [1..<Suc (unat (ea_snos_blocks args))]) = s7"
    "\<forall>j < length [1..<Suc (unat (ea_snos_blocks args))]. block_seen A H config
        \<lparr> pl_args = args, pl_prover_url = prover_url_of (ea_prover_url args) e, pl_exe = unwrap_or ''snip36'' exe, pl_identity = d,
          pl_calldata = e2e_calls args contract, pl_contract = contract, pl_initial = initial, pl_increment = inc \<rparr>
        (initial + inc * word_of_nat ([1..<Suc (unat (ea_snos_blocks args))] ! j)) ([1..<Suc (unat (ea_snos_blocks args))] ! j)
        (bn j) (st j) (bn (Suc j)) (st (Suc j))"
    by (auto simp del: upt_Suc)
  from e2e_final_Inr[OF f assms(2) s0(2) b(1)] obtain n s8 s9 where
    fin: "step H n ''Final verification'' s7 = Some (Inr (), s8)"
    and rd: "try_read_counter H config contract s8 = Some (Inr (Some (initial + tot)), s9)"
    and ov: "oc \<longrightarrow> unat (initial + tot) = unat initial + unat tot" by blast
  have len: "length [1..<Suc k] = k" and nth: "j < k \<Longrightarrow> [1..<Suc k] ! j = Suc j" for j k by (simp_all del: upt_Suc)
  have "oc \<longrightarrow> unat (initial + tot) = unat initial +
        unat (ea_counter_increments args) * unat (ea_increments_per_snos args) * unat (ea_snos_blocks args)"
    using ov e2e_increments_Inr(2)[OF i[symmetric]] by simp
  moreover from b(5)[unfolded len] have "\<forall>j < unat (ea_snos_blocks args). block_seen A H config
        \<lparr> pl_args = args, pl_prover_url = prover_url_of (ea_prover_url args) e, pl_exe = unwrap_or ''snip36'' exe, pl_identity = d,
          pl_calldata = e2e_calls args contract, pl_contract = contract, pl_initial = initial, pl_increment = inc \<rparr>
        (initial + inc * word_of_nat (Suc j)) (Suc j) (bn j) (st j) (bn (Suc j)) (st (Suc j))"
    by (simp add: nth del: upt_Suc)
  ultimately show ?thesis
    using env st[folded b(2)] d r[folded b(2,3)] fin[folded b(4)[unfolded len]] rd e2e_increments_Inr(1)[OF i[symmetric]]
    by (intro exI conjI) assumption+
qed

section \<open>The multicall\<close>

lemma parse_felts_append:
  "parse_felts F (xs @ ys) = Inr zs \<Longrightarrow> \<exists>as bs. parse_felts F xs = Inr as \<and> parse_felts F ys = Inr bs \<and> zs = as @ bs"
  by (auto simp: parse_felts_def collect_result_Inr list_all2_append1)

lemma parse_felts_length: "parse_felts F xs = Inr ys \<Longrightarrow> length ys = length xs"
  by (auto simp: parse_felts_def collect_result_Inr dest: list_all2_lengthD)

definition call_parses :: "'f felt_lib \<Rightarrow> string \<times> string \<times> string list \<Rightarrow> 'f \<times> 'f \<times> 'f list \<Rightarrow> bool" where
  "call_parses F call_texts parsed = (case (call_texts, parsed) of ((to, selector, args), (to', selector', args')) \<Rightarrow>
     felt_from_hex_msg F to = Inr to' \<and> felt_from_hex_msg F selector = Inr selector' \<and> parse_felts F args = Inr args')"

lemma decode_encoded_calls:
  assumes "felt_library F" and "\<forall>(to, selector, args) \<in> set calls. length args < stark_prime"
    and "parse_felts F (concat (map (\<lambda>(to, selector, args). to # selector # fmt_hex (length args) # args) calls)) = Inr xs"
  shows "\<exists>cs. decode_calls F (length calls) xs = Some cs \<and> list_all2 (call_parses F) calls cs"
  using assms(2,3)
proof (induction calls arbitrary: xs)
  case Nil
  then show ?case by (simp add: parse_felts_def)
next
  case (Cons c calls)
  obtain to selector args where c: "c = (to, selector, args)" by (cases c)
  from Cons.prems(2)[unfolded c list.map concat.simps prod.case, THEN parse_felts_append] obtain as bs
    where a: "parse_felts F (to # selector # fmt_hex (length args) # args) = Inr as" and xs: "xs = as @ bs"
      and b: "parse_felts F (concat (map (\<lambda>(to, selector, args). to # selector # fmt_hex (length args) # args) calls)) = Inr bs"
    by blast
  from a obtain t f n ys where as: "as = t # f # n # ys" "felt_from_hex_msg F to = Inr t" "felt_from_hex_msg F selector = Inr f"
    "felt_from_hex_msg F (fmt_hex (length args)) = Inr n" "parse_felts F args = Inr ys"
    by (auto simp: parse_felts_def result_iffs)
  have "felt_to_biguint F n = length ys"
    using fmt_hex_parses[OF assms(1) as(4)] Cons.prems(1) parse_felts_length[OF as(5)] by (simp add: c)
  moreover obtain cs where "decode_calls F (length calls) bs = Some cs" "list_all2 (call_parses F) calls cs"
    using Cons.IH[OF _ b] Cons.prems(1) by auto
  moreover have "call_parses F c (t, f, ys)" by (simp add: c as call_parses_def)
  ultimately show ?case by (simp add: c xs as(1) Let_def)
qed

lemma encoded_calls_decode:
  assumes "felt_library F" and "length calls < stark_prime"
    and "\<forall>(to, selector, args) \<in> set calls. length args < stark_prime"
    and "parse_felts F (encode_account_calls calls) = Inr xs"
  shows "\<exists>cs. decode_multicall F xs = Some cs \<and> list_all2 (call_parses F) calls cs"
proof -
  from assms(4) obtain n ys where xs: "xs = n # ys" "felt_from_hex_msg F (fmt_hex (length calls)) = Inr n"
    and "parse_felts F (concat (map (\<lambda>(to, selector, args). to # selector # fmt_hex (length args) # args) calls)) = Inr ys"
    by (auto simp: encode_account_calls_def parse_felts_def result_iffs)
  from decode_encoded_calls[OF assms(1,3) this(3)] fmt_hex_parses[OF assms(1) xs(2) assms(2)]
  show ?thesis by (simp add: decode_multicall_def xs(1))
qed

text \<open>
  C30: encoding and decoding account calls: when the encoded texts parse as field elements, an account decodes
  them to the calls that were encoded, in their order, each with its target, its selector and its arguments.
\<close>

theorem encode_account_calls_decodes:
  assumes "felt_library F" and "length calls < stark_prime"
    and "\<forall>(to, selector, args) \<in> set calls. length args < stark_prime"
    and "parse_felts F (encode_account_calls calls) = Inr xs"
  shows "\<exists>cs. decode_multicall F xs = Some cs \<and> list_all2 (call_parses F) calls cs"
  using assms by (rule encoded_calls_decode)

section \<open>A test that passes\<close>

definition trial_args :: e2e_args where
  "trial_args = \<lparr> ea_prover_url = None, ea_output_dir = ''out'', ea_snos_blocks = 1, ea_counter_increments = 3,
     ea_increments_per_snos = 2, ea_prove_only = False \<rparr>"

lemma trial_parses: "\<exists>xs. parse_felts stark_felt (e2e_calls trial_args ''0xe'') = Inr xs"
proof -
  have "\<exists>x. felt_from_hex_msg stark_felt INCREMENT_SELECTOR = Inr x" "\<exists>x. felt_from_hex_msg stark_felt ''0xe'' = Inr x"
    by (simp_all add: INCREMENT_SELECTOR_def felt_from_hex_msg_def stark_felt_def stark_from_hex_def starts_with_def
        stark_prime_def hex_val_def)
  then obtain a b where "felt_from_hex_msg stark_felt INCREMENT_SELECTOR = Inr a" "felt_from_hex_msg stark_felt ''0xe'' = Inr b"
    by blast
  moreover obtain c where "felt_from_hex_msg stark_felt (fmt_hex 2) = Inr c" using game_fmt[of 2] by (auto simp: stark_prime_def)
  moreover obtain d where "felt_from_hex_msg stark_felt (fmt_hex 3) = Inr d" using game_fmt[of 3] by (auto simp: stark_prime_def)
  moreover obtain f where "felt_from_hex_msg stark_felt (fmt_hex (Suc 0)) = Inr f" using game_fmt[of 1] by (auto simp: stark_prime_def)
  moreover have "e2e_calls trial_args ''0xe'' = [fmt_hex 2, ''0xe'', INCREMENT_SELECTOR, fmt_hex 1, fmt_hex 3,
      ''0xe'', INCREMENT_SELECTOR, fmt_hex 1, fmt_hex 3]"
  proof -
    have "replicate 2 y = [y, y]" for y :: "string \<times> string \<times> string list" by (simp add: numeral_2_eq_2)
    then show ?thesis by (simp add: e2e_calls_def encode_account_calls_def trial_args_def)
  qed
  ultimately show ?thesis by (simp add: parse_felts_def)
qed

lemma trial_setup: "goes (e2e_setup (lab_lib v) lab_host demo_config n) w (''0xe'', 9) w"
proof -
  have i: "goes (e2e_import lab_host demo_config n) w () w"
    unfolding e2e_import_def
    by (rule goes_bind[OF lab_step], rule goes_bind[OF goes_on_world(1)], simp add: lab_simps, simp add: lab_simps Let_def)
  have d: "goes (e2e_declare (lab_lib v) lab_host demo_config n) w ''0xe'' w"
    unfolding e2e_declare_def
    by (rule goes_bind[OF lab_step], rule goes_bind[OF lab_declare], simp only: lab_parse option.case,
        rule goes_bind[OF goes_pass], rule goes_bind[OF goes_on_world(5)], simp add: lab_simps, rule goes_return)
  show ?thesis unfolding e2e_setup_def
    by (rule goes_bind[OF i], rule goes_bind[OF lab_verify_account], rule goes_bind[OF lab_step], rule goes_bind[OF lab_compile],
        rule goes_bind[OF d], rule goes_bind[OF lab_step], rule goes_bind[OF lab_deploy], simp only: prod.case,
        rule goes_bind[OF lab_step], rule goes_bind[OF lab_wait_deploy], rule goes_return)
qed

lemma trial_read: "goes (try_read_counter lab_host config c) (unat (n :: u64)) (Some n) (unat n)"
  unfolding try_read_counter_def
  by (rule goes_bind[OF goes_on_world(2)], simp add: lab_simps, simp only: sum.case list.case parse_u64_hex_fmt goes_return)

lemma trial_reads: "goes (try_read_counter lab_host config c) 1 (Some 1) 1" "goes (try_read_counter lab_host config c) 7 (Some 7) 7"
  using trial_read[of config c 1] trial_read[of config c 7] by simp_all

lemma trial_submit:
  assumes "id_key d = felt_of_nat 2"
  shows "goes (e2e_submit (lab_lib v) lab_host demo_config args d nonce i) 1 ''0xd'' 7"
proof -
  have gw: "gateway_url demo_config = None" by (simp add: demo_config_def)
  obtain b where b: "goes (e2e_read_proof (lab_lib v) lab_host (e2e_proof_path args i) (''empty proof for block '' @ dec_string i)) 1 (b, []) 1"
    using lab_read_proof by blast
  obtain h payload where h: "sign_and_build_payload stark_felt demo_crypto (submission_params stark_felt d nonce b []) = Inr (h, payload)"
    using game_payload[of "submission_params stark_felt d nonce b []"] assms by (auto simp: submission_params_def)
  have c: "goes (\<lambda>s. Some (Inr (f s), s)) w x w" if "\<forall>s :: nat report. f s = x" for f w and x :: u32
    using that by (simp add: goes_def)
  have n: "goes (pio_bind (\<lambda>s. Some (Inr (rp_failed s), s)) k) w y w'" if "\<And>n. goes (k n) w y w'"
    for k :: "u32 \<Rightarrow> (nat, string) driver" and w y w' using that by (auto simp: goes_def pio_bind_def)
  show ?thesis unfolding e2e_submit_def lab_lib_simps(1,2)
    by (rule goes_bind[OF b], simp only: prod.case, rule goes_bind[OF goes_wrap[OF h]], simp only: prod.case, rule n,
        rule goes_bind[OF lab_submit_tx[OF gw]], simp add: goes_return)
qed

lemma trial_block:
  assumes "pl_args p = trial_args" "id_key (pl_identity p) = felt_of_nat 2" "pl_initial p = 1" "pl_increment p = 6"
  shows "goes (e2e_block True (lab_lib v) lab_host demo_config p b 1) 1 9 7"
proof -
  have c: "goes (e2e_construct (lab_lib v) lab_host demo_config args d cd b i) w 5 w" if "id_key d = felt_of_nat 2" for args d cd i w
    unfolding e2e_construct_def
    by (rule goes_bind[OF goes_on_world(1)], simp add: lab_simps, rule goes_bind[OF lab_write[OF that]], rule goes_return)
  have i: "goes (e2e_inclusion lab_host demo_config h k) w 9 w" for h k w
    unfolding e2e_inclusion_def
    by (rule goes_bind[OF goes_on_world(4)], simp add: lab_simps, simp only: sum.case lab_block Let_def unwrap_or_simps,
        rule goes_bind[OF goes_on_world(4)], simp add: lab_simps, rule goes_return)
  have v: "goes (e2e_verify True lab_host demo_config k 1 6 1) 7 () 7" for k
    unfolding e2e_verify_def
    by (rule goes_bind[OF trial_reads(2)]) (simp add: u64_arith_def check_counter_def goes_pass)
  have u: "u32_arith True (4 + 1) = Inr 5" by (simp add: u32_arith_def)
  have po: "\<not> ea_prove_only (pl_args p)" by (simp add: assms trial_args_def)
  show ?thesis unfolding e2e_block_def Let_def u e2e_prove_def if_not_P[OF po]
    by (rule goes_bind[OF goes_return], rule goes_bind[OF lab_step], rule goes_bind[OF c[OF assms(2)]], rule goes_bind[OF lab_prove],
        rule goes_bind[OF trial_submit[OF assms(2)]], rule goes_bind[OF i], simp only: assms(3,4), rule goes_bind[OF v], rule goes_return)
qed

lemma trial_body: "goes (e2e_body True (lab_lib v) lab_host exe demo_config lab_env trial_args) 1 () 7"
proof -
  obtain xs where xs: "parse_felts stark_felt (e2e_calls trial_args ''0xe'') = Inr xs" using trial_parses by blast
  have "trim_start_matches ''0x'' ''0x1'' = ''1''"
    using trim_0x_fmt_hex[of 1] by (simp add: fmt_hex_def lower_hex_def nat_digits.simps digit_char_def)
  then have n: "e2e_account_name (account_address demo_config) = Inr ''snip36-e2e-1''"
    unfolding game_config by (simp add: e2e_account_name_def is_char_boundary_def Let_def)
  have inc: "e2e_increments True trial_args = Inr (6, 6)"
    by (simp add: e2e_increments_def u64_arith_def trial_args_def)
  have pre: "goes (e2e_check_prereqs lab_host demo_config b) w () w" for b w
    unfolding e2e_check_prereqs_def
    by (cases b; simp only: if_True if_False; rule goes_bind[OF lab_commands(1)];
        (rule goes_return | rule goes_bind[OF lab_commands(2)], rule lab_commands(2)))
  have wb: "goes (pio_result (on_world_wait (wait_for_block_after (ho_net lab_host) url 9 120 3))) w (Inr 10) w" for url w
    by (rule goes_on_world(4)) (simp add: lab_simps)
  have mk: "goes (wrap_err [] Text (on_world (ho_create_dir_all lab_host p))) w () w" for p w
    by (rule goes_on_world(1)) (simp add: lab_simps)
  have ini: "goes (initial_counter lab_host demo_config c 9) 1 1 1" for c
    unfolding initial_counter_def
    by (rule goes_bind[OF wb], rule goes_bind[OF trial_reads(1)], simp only: unwrap_or_simps goes_return)
  have one: "[1..<Suc (unat (ea_snos_blocks trial_args))] = [1]" by (simp add: trial_args_def)
  have fin: "goes (e2e_final True lab_host demo_config trial_args c 1 6) 7 () 7" for c
  proof -
    have po: "\<not> ea_prove_only trial_args" and u: "u32_arith True (5 + unat (ea_snos_blocks trial_args)) = Inr 6"
      by (simp_all add: trial_args_def u32_arith_def)
    show ?thesis unfolding e2e_final_def if_not_P[OF po] u
      by (rule goes_bind[OF goes_return], rule goes_bind[OF lab_step], rule goes_bind[OF trial_reads(2)])
         (simp add: u64_arith_def check_final_def goes_pass)
  qed
  show ?thesis unfolding e2e_body_def Let_def n inc one e2e_blocks.simps
    by (rule goes_bind[OF goes_return], rule goes_bind[OF goes_return], simp only: prod.case, rule goes_bind[OF pre],
        rule goes_bind[OF mk], rule goes_bind[OF trial_setup], simp only: prod.case,
        rule goes_bind[OF lab_identity[OF xs]], rule goes_bind[OF ini], rule goes_bind, rule goes_bind[OF trial_block],
        simp, simp, simp, simp, rule goes_return, rule fin)
qed

lemma trial_passes: "\<exists>s'. e2e_run True (lab_lib v) lab_host lab_env_lib exe lab_env None trial_args lab_state = Some (Inr (), s')"
proof -
  have w: "1 = ap_world lab_state" by (simp add: lab_state_def)
  from goes_counted[OF trial_body[unfolded w] lab_now] show ?thesis
    unfolding e2e_run_def lab_from_env prod.case wrap_err_def by (simp add: pio_map_err_def pio_bind_def map_err_def)
qed

theorem e2e_run_verdict_witness:
  "clock_laws (ho_net lab_host) (\<lambda>w. w) \<and> from_env lab_env_lib None lab_env = (Inr demo_config, lab_env) \<and>
   (\<exists>s' es. e2e_run True (lab_lib JNull) lab_host lab_env_lib None lab_env None trial_args lab_state = Some (Inr (), s') \<and>
     ap_events s' = es \<and> rp_passed s' = of_nat (count_events is_pass es) \<and> rp_failed s' = 0)"
proof -
  obtain s' where r: "e2e_run True (lab_lib JNull) lab_host lab_env_lib None lab_env None trial_args lab_state = Some (Inr (), s')"
    using trial_passes by blast
  have "ap_events lab_state = []" by (simp add: lab_state_def)
  with e2e_run_verdict[OF lab_clock lab_from_env, of True "lab_lib JNull" None trial_args lab_state] r lab_clock lab_from_env
  show ?thesis by auto
qed

theorem e2e_run_sound_witness:
  "\<not> ea_prove_only trial_args \<and>
   (\<exists>s' p b b' s1 s2 s3 s4.
     e2e_run True (lab_lib JNull) lab_host lab_env_lib None lab_env None trial_args lab_state = Some (Inr (), s') \<and>
     pl_args p = trial_args \<and>
     block_seen (lab_lib JNull) lab_host demo_config p (pl_initial p + pl_increment p) 1 b s1 b' s2 \<and>
     try_read_counter lab_host demo_config (pl_contract p) s3 = Some (Inr (Some (pl_initial p + pl_increment p)), s4) \<and>
     unat (pl_initial p + pl_increment p) = unat (pl_initial p) + 6)"
proof -
  obtain s' where r: "e2e_run True (lab_lib JNull) lab_host lab_env_lib None lab_env None trial_args lab_state = Some (Inr (), s')"
    using trial_passes by blast
  have po: "\<not> ea_prove_only trial_args" and one: "unat (ea_snos_blocks trial_args) = 1"
    and six: "unat (ea_counter_increments trial_args) * unat (ea_increments_per_snos trial_args) = 6"
    by (simp_all add: trial_args_def)
  from e2e_run_sound[OF r po] obtain config e d contract initial inc tot bn st s4 s5 where
    env: "from_env lab_env_lib None lab_env = (Inr config, e)"
    and b: "block_seen (lab_lib JNull) lab_host config
        \<lparr> pl_args = trial_args, pl_prover_url = prover_url_of (ea_prover_url trial_args) e, pl_exe = unwrap_or ''snip36'' None, pl_identity = d,
          pl_calldata = e2e_calls trial_args contract, pl_contract = contract, pl_initial = initial, pl_increment = inc \<rparr>
        (initial + inc * word_of_nat (Suc 0)) (Suc 0) (bn 0) (st 0) (bn (Suc 0)) (st (Suc 0))"
    and rd: "try_read_counter lab_host config contract s4 = Some (Inr (Some (initial + tot)), s5)"
    and u: "tot = inc * word_of_nat 1" "unat (initial + tot) = unat initial + 6"
    unfolding one six by (elim exE conjE) (drule spec[of _ 0], simp)
  from env have c: "config = demo_config" by (simp add: lab_from_env)
  let ?p = "\<lparr> pl_args = trial_args, pl_prover_url = prover_url_of (ea_prover_url trial_args) e, pl_exe = unwrap_or ''snip36'' None, pl_identity = d,
      pl_calldata = e2e_calls trial_args contract, pl_contract = contract, pl_initial = initial, pl_increment = inc \<rparr>"
  have "pl_args ?p = trial_args" "block_seen (lab_lib JNull) lab_host demo_config ?p (pl_initial ?p + pl_increment ?p) 1 (bn 0) (st 0) (bn 1) (st 1)"
    "try_read_counter lab_host demo_config (pl_contract ?p) s4 = Some (Inr (Some (pl_initial ?p + pl_increment ?p)), s5)"
    "unat (pl_initial ?p + pl_increment ?p) = unat (pl_initial ?p) + 6"
    using b rd u c by simp_all
  with r po show ?thesis by blast
qed

theorem encode_account_calls_decodes_witness:
  "\<exists>xs cs. felt_library stark_felt \<and>
     parse_felts stark_felt (encode_account_calls [(''0x1'', ''0x3'', [''0x7'', ''0x2'']), (''0x2'', ''0x1'', [])]) = Inr xs \<and>
     decode_multicall stark_felt xs = Some cs \<and>
     list_all2 (call_parses stark_felt) [(''0x1'', ''0x3'', [''0x7'', ''0x2'']), (''0x2'', ''0x1'', [])] cs"
proof -
  let ?calls = "[(''0x1'', ''0x3'', [''0x7'', ''0x2'']), (''0x2'', ''0x1'', [] :: string list)]"
  have "fmt_hex 0 = ''0x0''" "fmt_hex 2 = ''0x2''" by (simp_all add: fmt_hex_def lower_hex_def nat_digits.simps digit_char_def)
  moreover have "\<exists>z. felt_from_hex_msg stark_felt ''0x0'' = Inr z"
    by (simp add: felt_from_hex_msg_def stark_felt_def stark_from_hex_def starts_with_def stark_prime_def hex_val_def)
  ultimately obtain xs where xs: "parse_felts stark_felt (encode_account_calls ?calls) = Inr xs"
    by (auto simp: encode_account_calls_def parse_felts_def game_felts numeral_2_eq_2[symmetric])
  have "length ?calls < stark_prime" "\<forall>(to, selector, args) \<in> set ?calls. length args < stark_prime"
    by (simp_all add: stark_prime_def)
  from encode_account_calls_decodes[OF stark_felt_library this xs] xs stark_felt_library show ?thesis by blast
qed

end
