(* ===== verification/E2eMessages.thy ===== *)
theory E2eMessages
  imports E2eCoinFlip E2eCounter
begin

text \<open>
  The end-to-end test of messages to the first layer (\<open>messages/src/e2e.rs\<close>, and \<open>counter/src/e2e_messages.rs\<close>,
  which differs in two texts): it deploys the messenger, proves one \<open>send_message\<close> and looks at the messages that
  the prover has written.
\<close>

section \<open>Arguments and calldata\<close>

definition SEND_MESSAGE_SELECTOR :: string where
  "SEND_MESSAGE_SELECTOR = ''0x12ead94ae9d3f9d2bdb6b847cf255f1f398193a1f88884a0ae8e18f24a037b6''"

record e2e_messages_args =
  ma_prover_url :: "string option"
  ma_output_dir :: string
  ma_prove_only :: bool
  ma_to_address :: string
  ma_payload :: string

definition payload_strs :: "e2e_messages_args \<Rightarrow> string list" where
  "payload_strs args = map trim (split_char (CHR '','') (ma_payload args))"

definition messages_calldata :: "string \<Rightarrow> e2e_messages_args \<Rightarrow> string list" where
  "messages_calldata contract_address args =
     (let inner_calldata = ma_to_address args # fmt_hex (length (payload_strs args)) # payload_strs args in
      [''0x1'', contract_address, SEND_MESSAGE_SELECTOR, fmt_hex (length inner_calldata)] @ inner_calldata)"

text \<open>The two texts: an arrow and a dash.\<close>

record message_texts =
  mt_arrow :: string
  mt_dash :: string

section \<open>Setting up\<close>

definition messages_check_prereqs :: "'w host \<Rightarrow> config \<Rightarrow> ('w, unit) driver" where
  "messages_check_prereqs H config = prover_prereqs H config
     (''stwo-run-and-prove not found at '' @ prover_bin config @ ''. Run `snip36 setup` first.'')"

definition messages_import :: "'w host \<Rightarrow> config \<Rightarrow> string \<Rightarrow> ('w, unit) driver" where
  "messages_import H config account_name =
     silent_import H config account_name ''Could not verify account on-chain: '' ''cannot proceed without account''"

definition messages_compile :: "'w host \<Rightarrow> config \<Rightarrow> ('w, unit) driver" where
  "messages_compile H config =
     pio_bind (step H 1 ''Compile messenger contract'') (\<lambda>_.
       compile_contracts H config ''Contract compiled'' ''Compilation failed: '')"

text \<open>The result of the wait for the declaration is dropped.\<close>

definition messages_declare :: "('f, 're) app_lib \<Rightarrow> 'w host \<Rightarrow> config \<Rightarrow> string \<Rightarrow> ('w, string) driver" where
  "messages_declare A H config account_name =
     pio_bind (step H 2 ''Declare Messenger class'') (\<lambda>_.
     pio_bind (declared_class A H config ''Messenger'') (\<lambda>already.
     case already of
       Some h \<Rightarrow> pio_bind (pass ''Messenger already declared'') (\<lambda>_. pio_return (Inr h))
     | None \<Rightarrow>
         pio_bind (sncast_declare H config account_name ''Messenger'') (\<lambda>combined.
         case class_hash_of A combined of
           None \<Rightarrow> fail_bail ''Could not determine class hash'' NoCause ''declare failed''
         | Some h \<Rightarrow>
             pio_bind (case parse_hex_from_output (al_regex A) ''transaction_hash'' combined of
                 None \<Rightarrow> pio_return (Inr ())
               | Some tx \<Rightarrow> pio_bind (pio_result (on_world_wait (wait_for_tx (ho_net H) (rpc_url config) tx 120 3))) (\<lambda>_.
                   pio_return (Inr ()))) (\<lambda>_.
             pio_bind (pass ''Messenger declared'') (\<lambda>_. pio_return (Inr h))))))"

definition messages_deploy ::
  "('f, 're) app_lib \<Rightarrow> 'w host \<Rightarrow> config \<Rightarrow> string \<Rightarrow> string \<Rightarrow> ('w, string \<times> u64) driver" where
  "messages_deploy A H config account_name class_hash =
     pio_bind (step H 3 ''Deploy messenger contract'') (\<lambda>_.
     pio_bind (sncast_deploy A H config account_name class_hash ''Messenger deployed'') (\<lambda>(contract_address, deploy_tx_hash).
     pio_bind (step H 4 ''Wait for deploy tx inclusion'') (\<lambda>_.
     pio_bind (wait_deploy H config deploy_tx_hash) (\<lambda>reference_block.
       pio_return (Inr (contract_address, reference_block))))))"

section \<open>Proving and looking at the messages\<close>

definition messages_prove ::
  "('f, 're) app_lib \<Rightarrow> 'w host \<Rightarrow> string option \<Rightarrow> config \<Rightarrow> env \<Rightarrow> e2e_messages_args \<Rightarrow> string \<Rightarrow> u64 \<Rightarrow>
     ('w, 'f identity \<times> u64) driver" where
  "messages_prove A H current_exe config e args contract_address reference_block =
     (let tx_path = path_join (ma_output_dir args) ''msg_tx.json'';
          proof_path = path_join (ma_output_dir args) ''msg.proof'' in
      pio_bind (step H 5 ''Prove send_message transaction'') (\<lambda>_.
      pio_bind (single_construct A H config (messages_calldata contract_address args) tx_path
          ''signing failed: '' ''Transaction constructed and signed'') (\<lambda>(d, nonce).
      pio_bind (prove_tx H (unwrap_or ''snip36'' current_exe)
          (e2e_prove_args config (prover_url_of (ma_prover_url args) e) reference_block tx_path proof_path) proof_path
          ''failed to run prove command'' ''proving failed'') (\<lambda>_.
        pio_return (Inr (d, nonce))))))"

text \<open>How the first message compares with the one that was sent is logged, and changes nothing.\<close>

definition check_messages :: "json \<Rightarrow> ('w, unit) driver" where
  "check_messages messages_json = (case get_array ''l2_to_l1_messages'' messages_json of
      Some (first_msg # msgs) \<Rightarrow> pass (''raw_messages.json contains '' @ dec_string (length (first_msg # msgs)) @ '' message(s)'')
    | _ \<Rightarrow> fail_bail ''raw_messages.json has no l2_to_l1_messages'' NoCause ''empty messages'')"

definition messages_verify ::
  "message_texts \<Rightarrow> ('f, 're) app_lib \<Rightarrow> 'w host \<Rightarrow> e2e_messages_args \<Rightarrow> ('w, unit) driver" where
  "messages_verify T A H args =
     pio_bind (step H 6 (''Verify L2'' @ mt_arrow T @ ''L1 messages output'')) (\<lambda>_.
     pio_bind (read_messages A H (path_join (ma_output_dir args) ''msg.proof'')
         (''raw_messages.json not found '' @ mt_dash T @ '' prover did not return L2'' @ mt_arrow T @ ''L1 messages'')) (\<lambda>messages_json.
       check_messages messages_json))"

definition messages_submit ::
  "('f, 're) app_lib \<Rightarrow> 'w host \<Rightarrow> config \<Rightarrow> e2e_messages_args \<Rightarrow> 'f identity \<Rightarrow> u64 \<Rightarrow> ('w, unit) driver" where
  "messages_submit A H config args d nonce =
     pio_bind (step H 7 ''Submit via RPC'') (\<lambda>_.
     pio_bind (e2e_read_proof A H (path_join (ma_output_dir args) ''msg.proof'') ''empty proof'') (\<lambda>(proof_b64, proof_facts).
     pio_bind (wrap_err ''signing failed: '' Sign_cause (pio_return (sign_and_build_payload (al_felt A) (al_crypto A)
         (submission_params (al_felt A) d nonce proof_b64 proof_facts)))) (\<lambda>(local_tx_hash, invoke_tx).
     pio_bind (submit_tx H config (felt_lower_hex (al_felt A) local_tx_hash) invoke_tx) (\<lambda>rpc_tx_hash.
     case rpc_tx_hash of
       None \<Rightarrow> bail ''Submission failed''
     | Some h \<Rightarrow> await_inclusion H config h))))"

section \<open>The test\<close>

definition messages_body ::
  "message_texts \<Rightarrow> ('f, 're) app_lib \<Rightarrow> 'w host \<Rightarrow> string option \<Rightarrow> config \<Rightarrow> env \<Rightarrow> e2e_messages_args \<Rightarrow> ('w, unit) driver" where
  "messages_body T A H current_exe config e args =
     (let account_name = ''e2e-test-account-2'' in
      pio_bind (messages_check_prereqs H config) (\<lambda>_.
      pio_bind (wrap_err [] Text (on_world (ho_create_dir_all H (ma_output_dir args)))) (\<lambda>_.
      pio_bind (messages_import H config account_name) (\<lambda>_.
      pio_bind (messages_compile H config) (\<lambda>_.
      pio_bind (messages_declare A H config account_name) (\<lambda>class_hash.
      pio_bind (messages_deploy A H config account_name class_hash) (\<lambda>(contract_address, reference_block).
      pio_bind (messages_prove A H current_exe config e args contract_address reference_block) (\<lambda>(d, nonce).
      pio_bind (messages_verify T A H args) (\<lambda>_.
      if ma_prove_only args then pass ''Proof and messages saved locally''
      else messages_submit A H config args d nonce)))))))))"

definition messages_run_with ::
  "message_texts \<Rightarrow> bool \<Rightarrow> ('f, 're) app_lib \<Rightarrow> 'w host \<Rightarrow> env_lib \<Rightarrow> string option \<Rightarrow> env \<Rightarrow> string option \<Rightarrow> e2e_messages_args \<Rightarrow>
     ('w, unit) driver" where
  "messages_run_with T overflow_checks A H E current_exe env0 env_file args = (case from_env E env_file env0 of (r, e) \<Rightarrow>
     pio_bind (wrap_err [] Config_cause (pio_return r)) (\<lambda>config.
       counted (timed H (messages_body T A H current_exe config e args)) (summary overflow_checks H)))"

definition messages_run ::
  "bool \<Rightarrow> ('f, 're) app_lib \<Rightarrow> 'w host \<Rightarrow> env_lib \<Rightarrow> string option \<Rightarrow> env \<Rightarrow> string option \<Rightarrow> e2e_messages_args \<Rightarrow> ('w, unit) driver" where
  "messages_run = messages_run_with \<lparr> mt_arrow = arrow, mt_dash = byte_string [0xe2, 0x80, 0x94] \<rparr>"

definition counter_messages_run ::
  "bool \<Rightarrow> ('f, 're) app_lib \<Rightarrow> 'w host \<Rightarrow> env_lib \<Rightarrow> string option \<Rightarrow> env \<Rightarrow> string option \<Rightarrow> e2e_messages_args \<Rightarrow> ('w, unit) driver" where
  "counter_messages_run = messages_run_with \<lparr> mt_arrow = ''->'', mt_dash = ''--'' \<rparr>"

section \<open>The report\<close>

lemma stage_check_messages: "stage (check_messages v)"
  unfolding check_messages_def by (auto split: option.split list.split intro!: stage_intros)

lemma stage_messages_body: "stage (timed H (messages_body T A H exe config e args))"
  unfolding timed_def messages_body_def messages_check_prereqs_def messages_import_def messages_compile_def messages_declare_def
    messages_deploy_def messages_prove_def messages_verify_def messages_submit_def Let_def
  by (intro stage_intros stage_shared stage_coinflip_setup stage_coinflip_game stage_check_messages)

interpretation messages_e2e: counted_run "timed H (messages_body T A H exe config e args)" "summary oc H"
  by unfold_locales (rule stage_messages_body closes_summary)+

lemma returns_messages_body:
  assumes "clock_laws (ho_net H) time"
  shows "returns (timed H (messages_body T A H exe config e args))"
proof -
  have c: "returns (check_messages v)" for v :: json
    unfolding check_messages_def by (auto split: option.split list.split intro!: returns_intros)
  show ?thesis
    unfolding timed_def messages_body_def messages_check_prereqs_def messages_import_def messages_compile_def messages_declare_def
      messages_deploy_def messages_prove_def messages_verify_def messages_submit_def Let_def
    by (intro returns_intros returns_shared returns_coinflip_setup[OF assms] returns_coinflip_game returns_deploy(2)[OF assms]
        returns_wait[OF assms] c; simp)
qed

lemma messages_run_verdict:
  assumes "clock_laws (ho_net H) time" and "from_env E env_file env0 = (Inr config, e)"
  shows "\<exists>r s' es. messages_run_with T oc A H E exe env0 env_file args s = Some (r, s') \<and> ap_events s' = ap_events s @ es \<and>
     rp_passed s' = of_nat (count_events is_pass es) \<and> rp_failed s' = of_nat (count_events is_fail es) \<and>
     (r = Inr () \<longrightarrow> rp_failed s' = 0) \<and> (\<forall>n. r = Inl (Exit n) \<longrightarrow> n = 1 \<and> rp_failed s' \<noteq> 0)"
proof -
  have run: "messages_run_with T oc A H E exe env0 env_file args =
      counted (timed H (messages_body T A H exe config e args)) (summary oc H)"
    by (simp add: messages_run_with_def assms(2) wrap_err_def pio_map_err_def pio_bind_def fun_eq_iff)
  show ?thesis unfolding run by (rule messages_e2e.counted_ends[OF returns_messages_body[OF assms(1)] returns_summary])
qed

section \<open>The calldata\<close>

text \<open>
  C6: the transaction of the message test makes exactly the call that was asked for: an account decodes its
  calldata to one call of \<open>send_message\<close> on the messenger, with the address, the length of the payload and
  the payload.
\<close>

theorem messages_calldata_decodes:
  assumes "felt_library F" and "length (payload_strs args) + 2 < stark_prime"
    and "parse_felts F (messages_calldata contract_address args) = Inr xs"
  shows "\<exists>to selector addr n payload. decode_multicall F xs = Some [(to, selector, addr # n # payload)] \<and>
     felt_from_hex_msg F contract_address = Inr to \<and> felt_from_hex_msg F SEND_MESSAGE_SELECTOR = Inr selector \<and>
     felt_from_hex_msg F (ma_to_address args) = Inr addr \<and> felt_to_biguint F n = length payload \<and>
     parse_felts F (payload_strs args) = Inr payload"
proof -
  let ?inner = "ma_to_address args # fmt_hex (length (payload_strs args)) # payload_strs args"
  have "fmt_hex 1 = ''0x1''" by (simp add: fmt_hex_def lower_hex_def nat_digits.simps digit_char_def)
  then have e: "messages_calldata contract_address args = encode_account_calls [(contract_address, SEND_MESSAGE_SELECTOR, ?inner)]"
    by (simp add: messages_calldata_def encode_account_calls_def Let_def)
  have "length [(contract_address, SEND_MESSAGE_SELECTOR, ?inner)] < stark_prime"
    "\<forall>(to, selector, args) \<in> set [(contract_address, SEND_MESSAGE_SELECTOR, ?inner)]. length args < stark_prime"
    using assms(2) by simp_all
  from encoded_calls_decode[OF assms(1) this assms(3)[unfolded e]] obtain to selector ys where
    d: "decode_multicall F xs = Some [(to, selector, ys)]" "felt_from_hex_msg F contract_address = Inr to"
      "felt_from_hex_msg F SEND_MESSAGE_SELECTOR = Inr selector" "parse_felts F ?inner = Inr ys"
    by (auto simp: call_parses_def list_all2_Cons1)
  then obtain addr n payload where y: "ys = addr # n # payload" "felt_from_hex_msg F (ma_to_address args) = Inr addr"
    "felt_from_hex_msg F (fmt_hex (length (payload_strs args))) = Inr n" "parse_felts F (payload_strs args) = Inr payload"
    by (auto simp: parse_felts_def result_iffs)
  have "felt_to_biguint F n = length payload"
    using fmt_hex_parses[OF assms(1) y(3)] assms(2) parse_felts_length[OF y(4)] by simp
  with d y show ?thesis by blast
qed

section \<open>A message that is not the one sent\<close>

definition letter_args :: e2e_messages_args where
  "letter_args = \<lparr> ma_prover_url = None, ma_output_dir = ''out'', ma_prove_only = False, ma_to_address = ''0x3'',
     ma_payload = ''0x1,0x2'' \<rparr>"

definition stray_messages :: json where
  "stray_messages = JObj [(''l2_to_l1_messages'', JArr [JObj [(''to_address'', JStr ''0x7''), (''payload'', JArr [])]])]"

lemma letter_payload: "payload_strs letter_args = [''0x1'', ''0x2'']"
proof -
  have "trim ''0x1'' = ''0x1''" "trim ''0x2'' = ''0x2''" by (rule trim_printable, simp add: printable_def)+
  then show ?thesis by (simp add: payload_strs_def letter_args_def)
qed

lemma letter_parses: "\<exists>xs. parse_felts stark_felt (messages_calldata ''0xe'' letter_args) = Inr xs"
proof -
  note letter_payload
  moreover have "\<exists>x. felt_from_hex_msg stark_felt ''0xe'' = Inr x" "\<exists>x. felt_from_hex_msg stark_felt SEND_MESSAGE_SELECTOR = Inr x"
    by (simp_all add: SEND_MESSAGE_SELECTOR_def felt_from_hex_msg_def stark_felt_def stark_from_hex_def starts_with_def stark_prime_def hex_val_def)
  moreover obtain b where "felt_from_hex_msg stark_felt (fmt_hex 4) = Inr b" using game_fmt[of 4] by (auto simp: stark_prime_def)
  moreover obtain c where "felt_from_hex_msg stark_felt (fmt_hex 2) = Inr c" using game_fmt[of 2] by (auto simp: stark_prime_def)
  ultimately show ?thesis by (auto simp: messages_calldata_def parse_felts_def game_felts letter_args_def numeral_2_eq_2[symmetric])
qed

theorem messages_calldata_decodes_witness:
  "\<exists>xs to selector addr n payload. felt_library stark_felt \<and>
     parse_felts stark_felt (messages_calldata ''0xe'' letter_args) = Inr xs \<and>
     decode_multicall stark_felt xs = Some [(to, selector, addr # n # payload)] \<and> length payload = 2"
proof -
  obtain xs where xs: "parse_felts stark_felt (messages_calldata ''0xe'' letter_args) = Inr xs" using letter_parses by blast
  have p: "length (payload_strs letter_args) = 2" by (simp add: letter_payload)
  then have "length (payload_strs letter_args) + 2 < stark_prime" by (simp add: stark_prime_def)
  from messages_calldata_decodes[OF stark_felt_library this xs] obtain to selector addr n payload where
    "decode_multicall stark_felt xs = Some [(to, selector, addr # n # payload)]" "parse_felts stark_felt (payload_strs letter_args) = Inr payload"
    by blast
  with xs p stark_felt_library parse_felts_length show ?thesis by metis
qed

lemma letter_prove:
  "\<exists>d. id_key d = felt_of_nat 2 \<and>
     goes (messages_prove (lab_lib v) lab_host exe demo_config e letter_args ''0xe'' b) w (d, 5) (w + 3000)"
proof -
  obtain xs where xs: "parse_felts stark_felt (messages_calldata ''0xe'' letter_args) = Inr xs" using letter_parses by blast
  obtain d where d: "id_key d = felt_of_nat 2" "goes (single_construct (lab_lib v) lab_host demo_config (messages_calldata ''0xe'' letter_args)
      (path_join (ma_output_dir letter_args) ''msg_tx.json'') ''signing failed: '' ''Transaction constructed and signed'') w (d, 5) (w + 3000)"
    using lab_single_construct[OF xs] by blast
  have "goes (messages_prove (lab_lib v) lab_host exe demo_config e letter_args ''0xe'' b) w (d, 5) (w + 3000)"
    unfolding messages_prove_def Let_def
    by (rule goes_bind[OF lab_step], rule goes_bind[OF d(2)], simp only: prod.case, rule goes_bind[OF lab_prove], rule goes_return)
  with d(1) show ?thesis by blast
qed

lemma letter_submit:
  assumes "id_key d = felt_of_nat 2"
  shows "goes (messages_submit (lab_lib v) lab_host demo_config args d nonce) w () (w + 6)"
proof -
  have gw: "gateway_url demo_config = None" by (simp add: demo_config_def)
  obtain b where b: "goes (e2e_read_proof (lab_lib v) lab_host (path_join (ma_output_dir args) ''msg.proof'') ''empty proof'') w (b, []) w"
    using lab_read_proof by blast
  obtain h payload where h: "sign_and_build_payload stark_felt demo_crypto (submission_params stark_felt d nonce b []) = Inr (h, payload)"
    using game_payload[of "submission_params stark_felt d nonce b []"] assms by (auto simp: submission_params_def)
  show ?thesis unfolding messages_submit_def lab_lib_simps(1,2)
    by (rule goes_bind[OF lab_step], rule goes_bind[OF b], simp only: prod.case, rule goes_bind[OF goes_wrap[OF h]], simp only: prod.case,
        rule goes_bind[OF lab_submit_tx[OF gw]], simp only: option.case, rule lab_await)
qed

lemma letter_body: "\<exists>w'. goes (messages_body T (lab_lib stray_messages) lab_host exe demo_config lab_env letter_args) w () w'"
proof -
  obtain d where d: "id_key d = felt_of_nat 2"
    "goes (messages_prove (lab_lib stray_messages) lab_host exe demo_config lab_env letter_args ''0xe'' 9) w (d, 5) (w + 3000)"
    using letter_prove by blast
  have po: "\<not> ma_prove_only letter_args" by (simp add: letter_args_def)
  have dec: "goes (messages_declare (lab_lib v) lab_host demo_config n) w ''0xe'' w" for v n w
    unfolding messages_declare_def
    by (rule goes_bind[OF lab_step], rule goes_bind[OF lab_declared], simp only: option.case, rule goes_bind[OF goes_pass], rule goes_return)
  have dep: "goes (messages_deploy (lab_lib v) lab_host demo_config n h) w (''0xe'', 9) w" for v n h w
    unfolding messages_deploy_def
    by (rule goes_bind[OF lab_step], rule goes_bind[OF lab_deploy], simp only: prod.case, rule goes_bind[OF lab_step],
        rule goes_bind[OF lab_wait_deploy], rule goes_return)
  have comp: "goes (messages_compile lab_host demo_config) w () w" for w
    unfolding messages_compile_def by (rule goes_bind[OF lab_step lab_compile])
  have ver: "goes (messages_verify T (lab_lib stray_messages) lab_host letter_args) w () w" for w
  proof -
    have "goes (check_messages stray_messages) w () w" unfolding check_messages_def by (simp add: stray_messages_def goes_pass)
    then show ?thesis unfolding messages_verify_def by - (rule goes_bind[OF lab_step], rule goes_bind[OF lab_read_messages])
  qed
  have "goes (messages_body T (lab_lib stray_messages) lab_host exe demo_config lab_env letter_args) w () (w + 3000 + 6)"
    unfolding messages_body_def Let_def if_not_P[OF po] messages_check_prereqs_def messages_import_def
    by (rule goes_bind[OF lab_prover_prereqs], rule goes_bind[OF lab_mkdir], rule goes_bind[OF lab_silent_import], rule goes_bind[OF comp],
        rule goes_bind[OF dec], rule goes_bind[OF dep], simp only: prod.case, rule goes_bind[OF d(2)], simp only: prod.case,
        rule goes_bind[OF ver], rule letter_submit[OF d(1)])
  then show ?thesis by blast
qed

text \<open>
  C34: the message test does not check the message: on a node that answers it ends well although the only
  message beside the proof goes to another address and carries another payload than the one it sent.
\<close>

theorem stray_message_passes:
  "\<exists>s' msg. messages_run True (lab_lib stray_messages) lab_host lab_env_lib None lab_env None letter_args lab_state = Some (Inr (), s') \<and>
     rp_failed s' = 0 \<and> get_array ''l2_to_l1_messages'' stray_messages = Some [msg] \<and>
     get_str ''to_address'' msg \<noteq> Some (ma_to_address letter_args) \<and>
     map_option str_elements (get_array ''payload'' msg) \<noteq> Some (payload_strs letter_args)"
proof -
  let ?T = "\<lparr> mt_arrow = arrow, mt_dash = byte_string [0xe2, 0x80, 0x94] \<rparr>"
  obtain w' where "goes (messages_body ?T (lab_lib stray_messages) lab_host None demo_config lab_env letter_args) (ap_world lab_state) () w'"
    using letter_body by blast
  from goes_counted[OF this lab_now] obtain s' where
    r: "messages_run True (lab_lib stray_messages) lab_host lab_env_lib None lab_env None letter_args lab_state = Some (Inr (), s')"
    unfolding messages_run_def messages_run_with_def lab_from_env prod.case wrap_err_def by (auto simp: pio_map_err_def pio_bind_def map_err_def)
  have "rp_failed s' = 0"
    using messages_run_verdict[OF lab_clock lab_from_env, of ?T True "lab_lib stray_messages" None letter_args lab_state] r
    by (auto simp: messages_run_def)
  moreover have "str_elements [] = []" by (simp add: str_elements_def List.map_filter_def)
  ultimately show ?thesis using r by (auto simp: stray_messages_def letter_payload) (simp add: letter_args_def)
qed

end
