(* ===== verification/E2eSettlement.thy ===== *)
theory E2eSettlement
  imports E2eCoinFlip
begin

text \<open>
  The end-to-end test of the settlement (\<open>coinflip/src/e2e_settlement.rs\<close>): it deploys the game and the bank,
  deposits and matches a bet, proves the game, submits the proof through the gateway and settles. How an
  amount is printed is a parameter.
\<close>

section \<open>Helpers\<close>

record e2e_settlement_args =
  sa_prover_url :: "string option"
  sa_output_dir :: string
  sa_prove_only :: bool
  sa_bet :: u8
  sa_bet_amount :: f64

definition settlement_check_prereqs :: "'w host \<Rightarrow> config \<Rightarrow> ('w, unit) driver" where
  "settlement_check_prereqs H config =
     prover_prereqs H config ''stwo-run-and-prove not found. Run `snip36 setup` first.''"

text \<open>A wait whose result is dropped.\<close>

definition wait_quietly :: "'w host \<Rightarrow> config \<Rightarrow> string option \<Rightarrow> ('w, unit) driver" where
  "wait_quietly H config t = (case t of
      None \<Rightarrow> pio_return (Inr ())
    | Some tx \<Rightarrow> pio_bind (pio_result (on_world_wait (wait_for_tx (ho_net H) (rpc_url config) tx 120 3))) (\<lambda>_. pio_return (Inr ())))"

definition declare_and_deploy ::
  "('f, 're) app_lib \<Rightarrow> 'w host \<Rightarrow> config \<Rightarrow> string \<Rightarrow> string \<Rightarrow> string \<Rightarrow> ('w, string) driver" where
  "declare_and_deploy A H config account_name contract_name constructor_calldata =
     pio_bind (wrap_err [] Text (on_world (ho_output H ''sncast'' [''--account'', account_name, ''declare'',
         ''--contract-name'', contract_name, ''--url'', rpc_url config] (Some (contracts_dir config))))) (\<lambda>declare_output.
     let declare_text = format_cmd_output declare_output in
     pio_bind (pio_return (ok_or (Bail (contract_name @ '' declare failed: '' @ declare_text) NoCause) (class_hash_of A declare_text))) (\<lambda>class_hash.
     pio_bind (wait_quietly H config (parse_hex_from_output (al_regex A) ''transaction_hash'' declare_text)) (\<lambda>_.
     pio_bind (on_world_io (ho_random16 H)) (\<lambda>bytes.
     let deploy_args = [''--account'', account_name, ''deploy'', ''--class-hash'', class_hash, ''--salt'', ''0x'' @ hex_encode bytes,
           ''--url'', rpc_url config] @ (if constructor_calldata = [] then [] else [''--constructor-calldata'', constructor_calldata]) in
     pio_bind (wrap_err [] Text (on_world (ho_output H ''sncast'' deploy_args None))) (\<lambda>deploy_output.
     let deploy_text = format_cmd_output deploy_output in
     pio_bind (pio_return (ok_or (Bail (contract_name @ '' deploy failed: '' @ deploy_text) NoCause)
         (parse_hex_from_output (al_regex A) ''contract_address'' deploy_text))) (\<lambda>contract_address.
     pio_bind (wait_quietly H config (parse_hex_from_output (al_regex A) ''transaction_hash'' deploy_text)) (\<lambda>_.
       pio_return (Inr contract_address))))))))"

definition settle_invoke ::
  "('f, 're) app_lib \<Rightarrow> 'w host \<Rightarrow> config \<Rightarrow> string \<Rightarrow> string \<Rightarrow> string \<Rightarrow> string \<Rightarrow> ('w, string) driver" where
  "settle_invoke A H config account_name contract_address function_name calldata =
     pio_bind (wrap_err [] Text (on_world (ho_output H ''sncast'' [''--account'', account_name, ''invoke'', ''--url'', rpc_url config,
         ''--contract-address'', contract_address, ''--function'', function_name, ''--calldata'', calldata] None))) (\<lambda>out.
     let combined = format_cmd_output out in
     pio_bind (pio_return (ok_or (Bail (function_name @ '' invoke failed: '' @ combined) NoCause)
         (parse_hex_from_output (al_regex A) ''transaction_hash'' combined))) (\<lambda>h.
     pio_bind (wrap_err (function_name @ '' tx not confirmed: '' @ h) Rpc_cause
         (on_world_wait (wait_for_tx (ho_net H) (rpc_url config) h 120 3))) (\<lambda>_.
       pio_return (Inr h))))"

definition get_strk_balance :: "'w host \<Rightarrow> config \<Rightarrow> string \<Rightarrow> ('w, u128) driver" where
  "get_strk_balance H config address =
     pio_bind (pio_result (on_world (starknet_call (ho_net H) (rpc_url config) STRK_TOKEN BALANCE_OF_SELECTOR [address]))) (\<lambda>r.
       pio_return (Inr (case r of Inr result \<Rightarrow> snd (first_wei result) | Inl _ \<Rightarrow> 0)))"

section \<open>Deployment and bet\<close>

definition settlement_import :: "'w host \<Rightarrow> config \<Rightarrow> string \<Rightarrow> ('w, unit) driver" where
  "settlement_import H config account_name =
     silent_import H config account_name ''Could not verify account: '' ''cannot proceed''"

definition settlement_deploy ::
  "('f, 're) app_lib \<Rightarrow> 'w host \<Rightarrow> config \<Rightarrow> string \<Rightarrow> ('w, string \<times> string) driver" where
  "settlement_deploy A H config account_name =
     pio_bind (step H 1 ''Compile contracts'') (\<lambda>_.
     pio_bind (compile_contracts H config ''Contracts compiled'' ''Compilation failed: '') (\<lambda>_.
     pio_bind (step H 2 ''Deploy CoinFlip contract'') (\<lambda>_.
     pio_bind (declare_and_deploy A H config account_name ''CoinFlip'' []) (\<lambda>coinflip_address.
     pio_bind (pass (''CoinFlip: '' @ coinflip_address)) (\<lambda>_.
     pio_bind (step H 3 ''Deploy CoinFlipBank contract'') (\<lambda>_.
     pio_bind (declare_and_deploy A H config account_name ''CoinFlipBank'' (account_address config)) (\<lambda>bank_address.
     pio_bind (pass (''CoinFlipBank: '' @ bank_address)) (\<lambda>_.
       pio_return (Inr (coinflip_address, bank_address))))))))))"

definition settlement_fund :: "('f, 're) app_lib \<Rightarrow> 'w host \<Rightarrow> config \<Rightarrow> string \<Rightarrow> string \<Rightarrow> ('w, unit) driver" where
  "settlement_fund A H config account_name bank_address =
     pio_bind (step H 4 ''Approve and fund bank'') (\<lambda>_.
     pio_bind (settle_invoke A H config account_name STRK_TOKEN ''approve'' (bank_address @ '' '' @ max_approval @ '' 0x0'')) (\<lambda>_.
     pio_bind (pass ''Approved STRK for bank'') (\<lambda>_.
     pio_bind (settle_invoke A H config account_name STRK_TOKEN ''transfer'' (bank_address @ '' '' @ fmt_hex (10 ^ 18) @ '' 0x0'')) (\<lambda>_.
       pass ''Funded bank with 1 STRK''))))"

definition settlement_deposit ::
  "(f64 \<Rightarrow> string) \<Rightarrow> ('f, 're) app_lib \<Rightarrow> 'w host \<Rightarrow> config \<Rightarrow> e2e_settlement_args \<Rightarrow> string \<Rightarrow> string \<Rightarrow> u8 \<Rightarrow> ('w, string \<times> u64) driver" where
  "settlement_deposit show_amount A H config args account_name bank_address bet =
     pio_bind (step H 5 ''Player deposit'') (\<lambda>_.
     pio_bind (on_world_io (ho_random16 H)) (\<lambda>bytes.
     let session_felt = ''0x'' @ hex_encode bytes in
     pio_bind (wrap_err [] Rpc_cause (on_world (block_number (ho_net H) (rpc_url config)))) (\<lambda>pre_deposit_block.
     pio_bind (settle_invoke A H config account_name bank_address ''deposit'' (session_felt @ '' '' @
         fmt_hex (unat (wei_of_f64 (sa_bet_amount args))) @ '' 0x0 '' @ fmt_hex (unat pre_deposit_block) @ '' '' @ fmt_hex (unat bet))) (\<lambda>_.
     pio_bind (pass (''Player deposited '' @ show_amount (sa_bet_amount args) @ '' STRK'')) (\<lambda>_.
       pio_return (Inr (session_felt, pre_deposit_block)))))))"

definition settlement_match ::
  "('f, 're) app_lib \<Rightarrow> 'w host \<Rightarrow> config \<Rightarrow> string \<Rightarrow> string \<Rightarrow> string \<Rightarrow> u64 \<Rightarrow> ('w, u64 \<times> u128) driver" where
  "settlement_match A H config account_name bank_address session_felt pre_deposit_block =
     pio_bind (step H 6 ''Bank match deposit'') (\<lambda>_.
     pio_bind (settle_invoke A H config account_name bank_address ''match_deposit'' session_felt) (\<lambda>match_tx.
     pio_bind (wrap_err [] Rpc_cause (on_world_wait (wait_for_tx (ho_net H) (rpc_url config) match_tx 120 3))) (\<lambda>match_receipt.
     let match_block = unwrap_or 0 (receipt_block_number match_receipt); reference_block = max match_block pre_deposit_block in
     pio_bind (pass (''Bank matched (block '' @ dec_string (unat match_block) @ ''), seed_block: '' @ dec_string (unat reference_block))) (\<lambda>_.
     pio_bind (get_strk_balance H config (account_address config)) (\<lambda>balance_before.
       pio_return (Inr (reference_block, balance_before)))))))"

section \<open>The proof\<close>

definition settlement_prove ::
  "('f, 're) app_lib \<Rightarrow> 'w host \<Rightarrow> string option \<Rightarrow> config \<Rightarrow> env \<Rightarrow> e2e_settlement_args \<Rightarrow> string \<Rightarrow> u64 \<Rightarrow> u8 \<Rightarrow>
     ('w, 'f identity \<times> u64 \<times> u8) driver" where
  "settlement_prove A H current_exe config e args coinflip_address reference_block bet =
     (let tx_path = path_join (sa_output_dir args) ''settlement_tx.json'';
          proof_path = path_join (sa_output_dir args) ''settlement.proof'' in
      pio_bind (step H 7 ''Prove coin flip'') (\<lambda>_.
      pio_bind (wrap_err [] Text (pio_return (felt_from_hex_msg (al_felt A) (account_address config)))) (\<lambda>player_felt.
      pio_bind (single_construct A H config (game_calldata coinflip_address reference_block (account_address config) bet) tx_path
          ''signing: '' ''Transaction constructed'') (\<lambda>(d, nonce).
      pio_bind (prove_tx H (unwrap_or ''snip36'' current_exe)
          (e2e_prove_args config (prover_url_of (sa_prover_url args) e) reference_block tx_path proof_path) proof_path
          ''prove command failed'' ''proving failed'') (\<lambda>_.
        pio_return (Inr (d, nonce, expected_outcome A reference_block player_felt)))))))"

text \<open>A message that is there and long enough is compared; anything else is passed over.\<close>

definition compare_outcome :: "u8 \<Rightarrow> json \<Rightarrow> ('w, unit) driver" where
  "compare_outcome outcome msg_json =
     (case get_array ''l2_to_l1_messages'' msg_json of
        Some (first # _) \<Rightarrow>
          (case get_array ''payload'' first of
             Some payload \<Rightarrow>
               (let elems = str_elements payload; msg_outcome = (if elems ! 3 = ''0x0'' then 0 else 1 :: u8) in
                if length elems \<ge> 5 then
                  if msg_outcome = outcome then pass ''Settlement message matches expected outcome''
                  else fail (''Outcome mismatch: msg='' @ dec_string (unat msg_outcome) @ '', expected='' @ dec_string (unat outcome)) NoCause
                else pio_return (Inr ()))
           | None \<Rightarrow> pio_return (Inr ()))
      | _ \<Rightarrow> pio_return (Inr ()))"

definition settlement_message :: "('f, 're) app_lib \<Rightarrow> 'w host \<Rightarrow> e2e_settlement_args \<Rightarrow> u8 \<Rightarrow> ('w, unit) driver" where
  "settlement_message A H args outcome =
     (let messages_file = with_extension (path_join (sa_output_dir args) ''settlement.proof'') ''raw_messages.json'' in
      pio_bind (on_world_io (ho_exists H messages_file)) (\<lambda>ex.
      if \<not> ex then pio_return (Inr ())
      else
        pio_bind (wrap_err [] Text (on_world (ho_read_to_string H messages_file))) (\<lambda>msg_str.
        pio_bind (wrap_err [] Text (pio_return (al_from_str A msg_str))) (\<lambda>msg_json.
          compare_outcome outcome msg_json))))"

section \<open>Submission and settlement\<close>

definition settlement_read_proof ::
  "('f, 're) app_lib \<Rightarrow> 'w host \<Rightarrow> string \<Rightarrow> ('w, string \<times> 'f list) driver" where
  "settlement_read_proof A H proof_path =
     pio_bind (wrap_err [] Text (on_world (ho_read_to_string H proof_path))) (\<lambda>proof_text.
     pio_bind (wrap_err [] Text (on_world (ho_read_to_string H (with_extension proof_path ''proof_facts'')))) (\<lambda>proof_facts_str.
     pio_bind (wrap_err ''parse proof_facts: '' Proof_cause
        (pio_return (parse_proof_facts_json (al_strings_from_str A) proof_facts_str))) (\<lambda>proof_facts_hex.
     pio_bind (wrap_err [] Text (pio_return (parse_felts (al_felt A) proof_facts_hex))) (\<lambda>proof_facts.
       pio_return (Inr (trim proof_text, proof_facts))))))"

fun settle_gateway :: "'w host \<Rightarrow> string \<Rightarrow> json \<Rightarrow> nat list \<Rightarrow> ('w, bool) driver" where
  "settle_gateway H url tx [] = pio_return (Inr False)"
| "settle_gateway H url tx (attempt # rest) =
     pio_bind (pio_result (on_world (http_send (ho_net H) url tx))) (\<lambda>response.
     case response of
       Inr resp \<Rightarrow>
         (let body = unwrap_or JNull (result_ok (resp_json resp));
              code = unwrap_or [] (get_str ''code'' body); msg = unwrap_or [] (get_str ''message'' body) in
          if code = ''TRANSACTION_RECEIVED'' then
            pio_bind (pass (''Proof accepted (attempt '' @ dec_string attempt @ '')'')) (\<lambda>_. pio_return (Inr True))
          else if (str_contains ''too recent'' msg \<or> str_contains ''stored block hash: 0'' msg) \<and> attempt < 20 then
            pio_bind (on_world_io (sleep (ho_net H) (from_secs 10))) (\<lambda>_. settle_gateway H url tx rest)
          else pio_bind (fail ''Rejected: '' (Body body)) (\<lambda>_. pio_return (Inr False)))
     | Inl e \<Rightarrow> pio_bind (fail ''Request failed: '' (Text e)) (\<lambda>_. pio_return (Inr False)))"

definition settlement_submit ::
  "('f, 're) app_lib \<Rightarrow> 'w host \<Rightarrow> config \<Rightarrow> e2e_settlement_args \<Rightarrow> 'f identity \<Rightarrow> u64 \<Rightarrow> ('w, unit) driver" where
  "settlement_submit A H config args d nonce =
     pio_bind (step H 8 ''Submit proof on-chain'') (\<lambda>_.
     pio_bind (settlement_read_proof A H (path_join (sa_output_dir args) ''settlement.proof'')) (\<lambda>(proof_b64, proof_facts).
     pio_bind (wrap_err ''signing: '' Sign_cause (pio_return (sign_and_build_payload (al_felt A) (al_crypto A)
         (submission_params (al_felt A) d nonce proof_b64 proof_facts)))) (\<lambda>(h, invoke_tx).
     pio_bind (settle_gateway H (trim_end_matches ''/'' (unwrap_or [] (gateway_url config)) @ ''/gateway/add_transaction'')
         invoke_tx [1..<21]) (\<lambda>accepted.
     if \<not> accepted then bail ''proof submission failed''
     else
       pio_bind (pio_result (on_world_wait (wait_for_tx (ho_net H) (rpc_url config) (felt_lower_hex (al_felt A) h) 600 5))) (\<lambda>r.
       case r of
         Inr receipt \<Rightarrow> pass (''Proof tx included in block '' @ dec_string (unat (unwrap_or 0 (receipt_block_number receipt))))
       | Inl e \<Rightarrow> fail_bail ''Proof tx not confirmed: '' (Rpc_cause e) ''proof tx failed'')))))"

definition settlement_settle ::
  "('f, 're) app_lib \<Rightarrow> 'w host \<Rightarrow> config \<Rightarrow> string \<Rightarrow> string \<Rightarrow> string \<Rightarrow> u64 \<Rightarrow> ('w, unit) driver" where
  "settlement_settle A H config account_name bank_address session_felt reference_block =
     pio_bind (step H 9 ''Settle on-chain'') (\<lambda>_.
     pio_bind (settle_invoke A H config account_name bank_address ''settle'' (session_felt @ '' '' @ fmt_hex (unat reference_block))) (\<lambda>_.
       pass ''Settlement tx confirmed''))"

definition settlement_balances ::
  "(u128 \<Rightarrow> string) \<Rightarrow> 'w host \<Rightarrow> config \<Rightarrow> bool \<Rightarrow> u128 \<Rightarrow> ('w, unit) driver" where
  "settlement_balances show_strk H config expected_won balance_before =
     pio_bind (step H 10 ''Verify settlement'') (\<lambda>_.
     pio_bind (get_strk_balance H config (account_address config)) (\<lambda>balance_after.
     let diff = (if balance_after > balance_before then balance_after - balance_before else 0) in
     if expected_won then
       if diff > 0 then pass (''Player balance increased by '' @ show_strk diff @ '' STRK (won)'')
       else fail (''Player balance did NOT increase (expected win, diff=0)'') NoCause
     else pass (''Player lost, balance diff: '' @ show_strk diff @ '' STRK'')))"

text \<open>The summary of this test prints no sum.\<close>

definition settlement_summary :: "'w host \<Rightarrow> nat \<Rightarrow> ('w, unit) driver" where
  "settlement_summary H e2e_start =
     pio_bind (finish_last_step H) (\<lambda>_.
     pio_bind (on_world_io (now (ho_net H))) (\<lambda>t.
     pio_bind (print_timings (t - e2e_start)) (\<lambda>_. verdict)))"

definition settlement_body ::
  "(f64 \<Rightarrow> string) \<Rightarrow> (u128 \<Rightarrow> string) \<Rightarrow> ('f, 're) app_lib \<Rightarrow> 'w host \<Rightarrow> string option \<Rightarrow> config \<Rightarrow> env \<Rightarrow> e2e_settlement_args \<Rightarrow>
     ('w, unit) driver" where
  "settlement_body show_amount show_strk A H current_exe config e args =
     (let account_name = ''playground-master''; bet = min (sa_bet args) 1 in
      pio_bind (settlement_check_prereqs H config) (\<lambda>_.
      pio_bind (wrap_err [] Text (on_world (ho_create_dir_all H (sa_output_dir args)))) (\<lambda>_.
      pio_bind (settlement_import H config account_name) (\<lambda>_.
      pio_bind (settlement_deploy A H config account_name) (\<lambda>(coinflip_address, bank_address).
      pio_bind (settlement_fund A H config account_name bank_address) (\<lambda>_.
      pio_bind (settlement_deposit show_amount A H config args account_name bank_address bet) (\<lambda>(session_felt, pre_deposit_block).
      pio_bind (settlement_match A H config account_name bank_address session_felt pre_deposit_block) (\<lambda>(reference_block, balance_before).
      pio_bind (settlement_prove A H current_exe config e args coinflip_address reference_block bet) (\<lambda>(d, nonce, outcome).
      pio_bind (settlement_message A H args outcome) (\<lambda>_.
      if sa_prove_only args then pass ''Artifacts saved''
      else
        pio_bind (settlement_submit A H config args d nonce) (\<lambda>_.
        pio_bind (settlement_settle A H config account_name bank_address session_felt reference_block) (\<lambda>_.
          settlement_balances show_strk H config (outcome = bet) balance_before))))))))))))"

definition settlement_run ::
  "(f64 \<Rightarrow> string) \<Rightarrow> (u128 \<Rightarrow> string) \<Rightarrow> ('f, 're) app_lib \<Rightarrow> 'w host \<Rightarrow> env_lib \<Rightarrow> string option \<Rightarrow> env \<Rightarrow> string option \<Rightarrow>
     e2e_settlement_args \<Rightarrow> ('w, unit) driver" where
  "settlement_run show_amount show_strk A H E current_exe env0 env_file args = (case from_env E env_file env0 of (r, e) \<Rightarrow>
     pio_bind (wrap_err [] Config_cause (pio_return r)) (\<lambda>config.
       counted (timed H (settlement_body show_amount show_strk A H current_exe config e args)) (settlement_summary H)))"

section \<open>The report\<close>

lemma stage_settlement_helpers:
  "stage (wait_quietly H config h)" "stage (pio_return (ok_or (Bail b NoCause) r))" "stage (get_strk_balance H config a)"
  unfolding wait_quietly_def get_strk_balance_def
  by (intro stage_intros, simp add: ok_or_def stage_basic split: option.split, intro stage_intros)

lemma stage_settlement_calls:
  "stage (declare_and_deploy A H config n c k)" "stage (settle_invoke A H config n c f d)"
  unfolding declare_and_deploy_def settle_invoke_def Let_def by (intro stage_intros stage_settlement_helpers)+

lemma stage_settle_gateway: "stage (settle_gateway H url tx attempts)"
  by (induction attempts; simp only: settle_gateway.simps Let_def; (intro stage_intros | assumption)+)

lemma stage_compare_outcome: "stage (compare_outcome outcome v)"
  unfolding compare_outcome_def Let_def
  by (cases "get_array ''l2_to_l1_messages'' v"; simp only: option.case)
     (intro stage_intros, (auto split: list.split option.split intro!: stage_intros)[1])

lemma stage_settlement_body: "stage (timed H (settlement_body sa ss A H exe config e args))"
  unfolding timed_def settlement_body_def settlement_check_prereqs_def settlement_import_def settlement_deploy_def settlement_fund_def
    settlement_deposit_def settlement_match_def settlement_prove_def settlement_message_def settlement_submit_def
    settlement_read_proof_def settlement_settle_def settlement_balances_def Let_def
  by (intro stage_intros stage_shared stage_coinflip_setup stage_coinflip_game stage_settlement_helpers stage_settlement_calls
      stage_settle_gateway stage_compare_outcome)

lemma closes_settlement_summary: "closes (settlement_summary H t)"
  unfolding settlement_summary_def
  by (intro closes_bind closes_verdict stage_finish_last_step stage_basic stage_print_timings)

interpretation settlement_e2e: counted_run "timed H (settlement_body sa ss A H exe config e args)" "settlement_summary H"
  by unfold_locales (rule stage_settlement_body closes_settlement_summary)+

section \<open>Returning\<close>

lemma returns_settlement_calls:
  assumes "clock_laws (ho_net H) time"
  shows "returns (wait_quietly H config h)" "returns (declare_and_deploy A H config n c k)" "returns (settle_invoke A H config n c f d)"
    "returns (get_strk_balance H config a)"
proof -
  show w: "returns (wait_quietly H config h)" for h
    unfolding wait_quietly_def by (intro returns_intros returns_wait[OF assms]; simp)
  show "returns (declare_and_deploy A H config n c k)" "returns (settle_invoke A H config n c f d)" "returns (get_strk_balance H config a)"
    unfolding declare_and_deploy_def settle_invoke_def get_strk_balance_def Let_def
    by (intro returns_intros returns_wait[OF assms] w; simp)+
qed

lemma returns_settle_gateway: "returns (settle_gateway H url tx attempts)"
  by (induction attempts; simp only: settle_gateway.simps Let_def; (intro returns_intros | assumption)+)

lemma returns_compare_outcome: "returns (compare_outcome outcome v)"
  unfolding compare_outcome_def Let_def
  by (cases "get_array ''l2_to_l1_messages'' v"; simp only: option.case)
     (intro returns_intros, (auto split: list.split option.split intro!: returns_intros)[1])

lemma returns_settlement_body:
  assumes "clock_laws (ho_net H) time"
  shows "returns (timed H (settlement_body sa ss A H exe config e args))"
  unfolding timed_def settlement_body_def settlement_check_prereqs_def settlement_import_def settlement_deploy_def settlement_fund_def
    settlement_deposit_def settlement_match_def settlement_prove_def settlement_message_def settlement_submit_def
    settlement_read_proof_def settlement_settle_def settlement_balances_def Let_def
  by (intro returns_intros returns_shared returns_coinflip_setup[OF assms] returns_coinflip_game returns_settlement_calls[OF assms]
      returns_settle_gateway returns_compare_outcome returns_wait[OF assms]; simp)

lemma settlement_run_verdict:
  assumes "clock_laws (ho_net H) time" and "from_env E env_file env0 = (Inr config, e)"
  shows "\<exists>r s' es. settlement_run sa ss A H E exe env0 env_file args s = Some (r, s') \<and> ap_events s' = ap_events s @ es \<and>
     rp_passed s' = of_nat (count_events is_pass es) \<and> rp_failed s' = of_nat (count_events is_fail es) \<and>
     (r = Inr () \<longrightarrow> rp_failed s' = 0) \<and> (\<forall>n. r = Inl (Exit n) \<longrightarrow> n = 1 \<and> rp_failed s' \<noteq> 0)"
proof -
  have run: "settlement_run sa ss A H E exe env0 env_file args =
      counted (timed H (settlement_body sa ss A H exe config e args)) (settlement_summary H)"
    by (simp add: settlement_run_def assms(2) wrap_err_def pio_map_err_def pio_bind_def fun_eq_iff)
  have "returns (settlement_summary H t)" for t
    unfolding settlement_summary_def print_timings_def
    by (intro returns_bind returns_step returns_on_world returns_state[OF returns_emit_all]) (simp add: returns_def verdict_def)
  from settlement_e2e.counted_ends[OF returns_settlement_body[OF assms(1)] this] show ?thesis unfolding run by blast
qed

section \<open>What a passing test has seen\<close>

lemma clean_settlement_calls:
  "clean (wait_quietly H config h)" "clean (declare_and_deploy A H config n c k)" "clean (settle_invoke A H config n c f d)"
  "clean (get_strk_balance H config a)" "clean (settlement_read_proof A H p)"
proof -
  show w: "clean (wait_quietly H config h)" for h unfolding wait_quietly_def by (intro clean_intros)
  show "clean (declare_and_deploy A H config n c k)" "clean (settle_invoke A H config n c f d)" "clean (get_strk_balance H config a)"
    "clean (settlement_read_proof A H p)"
    unfolding declare_and_deploy_def settle_invoke_def get_strk_balance_def settlement_read_proof_def Let_def
    by (intro clean_bind w clean_cases clean_quiet quiet_result quiet_basic)+
qed

lemmas clean_settlement_intros = clean_bind clean_cases clean_shared clean_settlement_calls clean_coinflip_setup clean_report
  clean_quiet quiet_result quiet_basic

lemma clean_settlement_stages:
  "clean (settlement_check_prereqs H config)" "clean (settlement_import H config n)" "clean (settlement_deploy A H config n)"
  "clean (settlement_fund A H config n b)" "clean (settlement_deposit sa A H config args n b bet)"
  "clean (settlement_match A H config n b sf pre)" "clean (settlement_prove A H exe config e args c rb bet)"
  "clean (settlement_settle A H config n b sf rb)"
  unfolding settlement_check_prereqs_def prover_prereqs_def settlement_import_def silent_import_def settlement_deploy_def settlement_fund_def
    settlement_deposit_def settlement_match_def settlement_prove_def settlement_settle_def Let_def
  by (intro clean_settlement_intros)+

lemma clean_settle_gateway: "clean_if (\<lambda>b. b) (settle_gateway H url tx attempts)"
proof (induction attempts)
  case (Cons a rest)
  show ?case unfolding settle_gateway.simps Let_def
    by (intro clean_if_bind clean_if_cases Cons clean_if_not clean_intros clean_if_clean) auto
qed (auto simp: clean_if_def)

lemma clean_settlement_submit: "clean (settlement_submit A H config args d nonce)"
proof -
  have sub: "clean_if (\<lambda>b. b) m \<Longrightarrow> clean k \<Longrightarrow> clean (pio_bind m (\<lambda>r. if \<not> r then bail b else k))"
    for m :: "('w, bool) driver" and k :: "('w, unit) driver" and b
    unfolding clean_def clean_if_def by (auto simp: pio_iffs split: if_splits)
  show ?thesis unfolding settlement_submit_def
    by (intro clean_bind[OF clean_step(2)] clean_bind[OF clean_settlement_calls(5)] clean_bind[OF clean_quiet] clean_cases sub
        clean_settle_gateway clean_report quiet_result quiet_basic)
qed

definition at_most_one :: "('w, 'a) driver \<Rightarrow> bool" where
  "at_most_one m \<longleftrightarrow> (\<forall>s x s'. m s = Some (Inr x, s') \<longrightarrow> rp_failed s' = rp_failed s \<or> rp_failed s' = rp_failed s + 1)"

lemma at_most_one_bind: "clean m \<Longrightarrow> (\<And>x. at_most_one (k x)) \<Longrightarrow> at_most_one (pio_bind m k)"
  unfolding at_most_one_def clean_def pio_bind_Inr_iff by metis

lemma at_most_one_compare: "at_most_one (compare_outcome outcome v)"
  by (auto simp: at_most_one_def compare_outcome_def pass_def fail_def Let_def split: option.splits list.splits if_splits)

lemma at_most_one_message: "at_most_one (settlement_message A H args outcome)"
proof -
  have "at_most_one a \<Longrightarrow> at_most_one b \<Longrightarrow> at_most_one (if c then a else b)" for a b :: "('w, unit) driver" and c by simp
  note cases = this
  have ret: "at_most_one (pio_return (Inr u))" for u :: unit by (simp add: at_most_one_def)
  show ?thesis unfolding settlement_message_def Let_def
    by (intro at_most_one_bind cases ret at_most_one_compare clean_quiet quiet_result quiet_basic)
qed

lemma settlement_balances_counts:
  assumes "settlement_balances ss H config won before s = Some (Inr u, s')"
  shows "rp_failed s' = rp_failed s + 1 \<or> rp_failed s' = rp_failed s \<and>
     (won \<longrightarrow> (\<exists>s1 after s2. step H 10 ''Verify settlement'' s = Some (Inr (), s1) \<and>
        get_strk_balance H config (account_address config) s1 = Some (Inr after, s2) \<and> before < after))"
proof -
  from assms obtain s1 s2 after where st: "step H 10 ''Verify settlement'' s = Some (Inr (), s1)"
    and g: "get_strk_balance H config (account_address config) s1 = Some (Inr after, s2)"
    and f: "won \<and> before < after \<and> rp_failed s' = rp_failed s2 \<or> rp_failed s' = rp_failed s2 + 1 \<or> \<not> won \<and> rp_failed s' = rp_failed s2"
    unfolding settlement_balances_def Let_def pio_bind_Inr_iff
    by (elim exE conjE) (fastforce simp: pass_def fail_def split: if_splits)
  show ?thesis using f g st cleanD[OF clean_step(2) st] cleanD[OF clean_settlement_calls(4) g] by metis
qed

lemma clean_settlement_summary: "clean (settlement_summary H t)"
  unfolding settlement_summary_def by (intro clean_bind clean_step clean_closing) (intro clean_quiet quiet_basic)

lemma settlement_deposit_Inr:
  assumes "settlement_deposit sa A H config args n bank bet s = Some (Inr (session, pre), s')"
  shows "\<exists>w0 s1 t s2. block_number (ho_net H) (rpc_url config) w0 = (Inr pre, ap_world s1) \<and>
     settle_invoke A H config n bank ''deposit'' (session @ '' '' @ fmt_hex (unat (wei_of_f64 (sa_bet_amount args))) @
     '' 0x0 '' @ fmt_hex (unat pre) @ '' '' @ fmt_hex (unat bet)) s1 = Some (Inr t, s2)"
proof -
  from assms obtain t0 t1 t t2 where "wrap_err [] Rpc_cause (on_world (block_number (ho_net H) (rpc_url config))) t0 = Some (Inr pre, t1)"
    and "settle_invoke A H config n bank ''deposit'' (session @ '' '' @ fmt_hex (unat (wei_of_f64 (sa_bet_amount args))) @
     '' 0x0 '' @ fmt_hex (unat pre) @ '' '' @ fmt_hex (unat bet)) t1 = Some (Inr t, t2)"
    unfolding settlement_deposit_def Let_def by (auto simp: pio_iffs)
  moreover from this(1) have "block_number (ho_net H) (rpc_url config) (ap_world t0) = (Inr pre, ap_world t1)"
    by (auto simp: wrap_err_def pio_iffs on_world_def split: prod.splits)
  ultimately show ?thesis by blast
qed

lemma settlement_match_Inr:
  assumes "settlement_match A H config n bank session pre s = Some (Inr (block, balance), s')"
  shows "\<exists>match_tx receipt s1 s2 w. settle_invoke A H config n bank ''match_deposit'' session s1 = Some (Inr match_tx, s2) \<and>
     wait_for_tx (ho_net H) (rpc_url config) match_tx 120 3 (ap_world s2) = Some (Inr receipt, w) \<and>
     block = max (unwrap_or 0 (receipt_block_number receipt)) pre"
proof -
  from assms obtain match_tx receipt s1 s2 s3 where "settle_invoke A H config n bank ''match_deposit'' session s1 = Some (Inr match_tx, s2)"
    and "wrap_err [] Rpc_cause (on_world_wait (wait_for_tx (ho_net H) (rpc_url config) match_tx 120 3)) s2 = Some (Inr receipt, s3)"
    and "block = max (unwrap_or 0 (receipt_block_number receipt)) pre"
    unfolding settlement_match_def Let_def by (auto simp: pio_iffs)
  moreover from this(2) obtain w where "wait_for_tx (ho_net H) (rpc_url config) match_tx 120 3 (ap_world s2) = Some (Inr receipt, w)"
    by (auto simp: wrap_err_def pio_iffs on_world_wait_def split: option.splits prod.splits)
  ultimately show ?thesis by blast
qed

lemma settlement_prove_Inr:
  assumes "settlement_prove A H exe config e args coin block bet s = Some (Inr (d, nonce, outcome), s')"
  shows "\<exists>player. felt_from_hex_msg (al_felt A) (account_address config) = Inr player \<and> outcome = expected_outcome A block player"
  using assms unfolding settlement_prove_def Let_def wrap_err_def by (auto simp: pio_iffs)

text \<open>
  C14: a settlement test that ends well has carried one bet through, step by step: the deposit, the match and the
  settlement that the bank confirmed name the same session; the game is proved, submitted and settled with
  one seed block, the later of the block in the receipt of the match (0 when it has no number) and the
  chain head that was read before the deposit was sent; and a player who wins by the Pedersen hash of that
  block and the player has, after the settlement, a higher balance than after the match.
\<close>

theorem settlement_run_sound:
  assumes "settlement_run sa ss A H E exe env0 env_file args s = Some (Inr (), s')" and "\<not> sa_prove_only args"
  shows "\<exists>config e coin bank session pre block balance player d nonce outcome s1 s2 s3 s4 s5 s6 s7.
     from_env E env_file env0 = (Inr config, e) \<and> felt_from_hex_msg (al_felt A) (account_address config) = Inr player \<and>
     settlement_deposit sa A H config args ''playground-master'' bank (min (sa_bet args) 1) s1 = Some (Inr (session, pre), s2) \<and>
     (\<exists>w0 t1 t t2. block_number (ho_net H) (rpc_url config) w0 = (Inr pre, ap_world t1) \<and>
        settle_invoke A H config ''playground-master'' bank ''deposit'' (session @ '' '' @ fmt_hex (unat (wei_of_f64 (sa_bet_amount args))) @
        '' 0x0 '' @ fmt_hex (unat pre) @ '' '' @ fmt_hex (unat (min (sa_bet args) 1))) t1 = Some (Inr t, t2)) \<and>
     settlement_match A H config ''playground-master'' bank session pre s2 = Some (Inr (block, balance), s3) \<and>
     (\<exists>match_tx receipt t1 t2 w. settle_invoke A H config ''playground-master'' bank ''match_deposit'' session t1 = Some (Inr match_tx, t2) \<and>
        wait_for_tx (ho_net H) (rpc_url config) match_tx 120 3 (ap_world t2) = Some (Inr receipt, w) \<and>
        block = max (unwrap_or 0 (receipt_block_number receipt)) pre) \<and>
     settlement_prove A H exe config e args coin block (min (sa_bet args) 1) s3 = Some (Inr (d, nonce, outcome), s4) \<and>
     outcome = expected_outcome A block player \<and>
     settlement_message A H args outcome s4 = Some (Inr (), s5) \<and>
     settlement_submit A H config args d nonce s5 = Some (Inr (), s6) \<and>
     settlement_settle A H config ''playground-master'' bank session block s6 = Some (Inr (), s7) \<and>
     (outcome = min (sa_bet args) 1 \<longrightarrow> (\<exists>t1 after t2. step H 10 ''Verify settlement'' s7 = Some (Inr (), t1) \<and>
        get_strk_balance H config (account_address config) t1 = Some (Inr after, t2) \<and> balance < after))"
proof -
  let ?n = "''playground-master''" and ?bet = "min (sa_bet args) 1"
  from assms(1) obtain config e where env: "from_env E env_file env0 = (Inr config, e)"
    and c: "counted (timed H (settlement_body sa ss A H exe config e args)) (settlement_summary H) s = Some (Inr (), s')"
    unfolding settlement_run_def wrap_err_def by (auto simp: pio_iffs split: prod.splits)
  obtain s0 s1 where z: "rp_failed s0 = 0" "rp_failed s1 = 0"
    and body: "settlement_body sa ss A H exe config e args s0 = Some (Inr (), s1)"
    using counted_timed_Inr[OF stage_settlement_body closes_settlement_summary clean_settlement_summary c] by blast
  from body obtain coin bank session pre block before d nonce outcome sa1 sb sc sd se sf sg sh si sj sk where
    st: "settlement_check_prereqs H config s0 = Some (Inr (), sa1)"
      "wrap_err [] Text (on_world (ho_create_dir_all H (sa_output_dir args))) sa1 = Some (Inr (), sb)"
      "settlement_import H config ?n sb = Some (Inr (), sc)" "settlement_deploy A H config ?n sc = Some (Inr (coin, bank), sd)"
      "settlement_fund A H config ?n bank sd = Some (Inr (), se)"
    and dep: "settlement_deposit sa A H config args ?n bank ?bet se = Some (Inr (session, pre), sf)"
    and mat: "settlement_match A H config ?n bank session pre sf = Some (Inr (block, before), sg)"
    and pr: "settlement_prove A H exe config e args coin block ?bet sg = Some (Inr (d, nonce, outcome), sh)"
    and msg: "settlement_message A H args outcome sh = Some (Inr (), si)"
    and sub: "settlement_submit A H config args d nonce si = Some (Inr (), sj)"
    and set: "settlement_settle A H config ?n bank session block sj = Some (Inr (), sk)"
    and bal: "settlement_balances ss H config (outcome = ?bet) before sk = Some (Inr (), s1)"
    using assms(2) unfolding settlement_body_def Let_def pio_bind_Inr_iff by (elim exE conjE) (auto simp: pio_bind_Inr_iff)
  have "rp_failed sh = 0"
    using z(1) cleanD[OF clean_settlement_stages(1) st(1)] cleanD[OF clean_quiet[OF quiet_result(2)[OF quiet_basic(2)]] st(2)]
      cleanD[OF clean_settlement_stages(2) st(3)] cleanD[OF clean_settlement_stages(3) st(4)] cleanD[OF clean_settlement_stages(4) st(5)]
      cleanD[OF clean_settlement_stages(5) dep] cleanD[OF clean_settlement_stages(6) mat] cleanD[OF clean_settlement_stages(7) pr] by simp
  moreover have "rp_failed si = rp_failed sh \<or> rp_failed si = rp_failed sh + 1" using msg at_most_one_message unfolding at_most_one_def by blast
  moreover have "rp_failed sk = rp_failed si"
    using cleanD[OF clean_settlement_submit sub] cleanD[OF clean_settlement_stages(8) set] by simp
  ultimately have "rp_failed sk = 0 \<or> rp_failed sk = 1" by auto
  then have "rp_failed s1 \<noteq> rp_failed sk + 1" using z(2) by auto
  with settlement_balances_counts[OF bal] have w: "outcome = ?bet \<longrightarrow>
      (\<exists>s1 after s2. step H 10 ''Verify settlement'' sk = Some (Inr (), s1) \<and> get_strk_balance H config (account_address config) s1 = Some (Inr after, s2) \<and> before < after)" by blast
  from settlement_prove_Inr[OF pr] obtain player where
    "felt_from_hex_msg (al_felt A) (account_address config) = Inr player" "outcome = expected_outcome A block player" by blast
  moreover note settlement_match_Inr[OF mat]
  ultimately show ?thesis using env w dep settlement_deposit_Inr[OF dep] mat pr msg sub set
    by - (rule exI[of _ config], rule exI[of _ e], rule exI[of _ coin], rule exI[of _ bank], rule exI[of _ session], rule exI[of _ pre],
        rule exI[of _ block], rule exI[of _ before], rule exI[of _ player], rule exI[of _ d], rule exI[of _ nonce], rule exI[of _ outcome],
        rule exI[of _ se], rule exI[of _ sf], rule exI[of _ sg], rule exI[of _ sh], rule exI[of _ si], rule exI[of _ sj], rule exI[of _ sk], intro conjI, assumption+)
qed

section \<open>A bet that is settled\<close>

text \<open>The head before the deposit is block 10 and the receipt of the match has block 9, so the seed block is 10; the hash of 10 and the player 1 is even: heads, and the player wins.\<close>

definition stake_args :: e2e_settlement_args where
  "stake_args = \<lparr> sa_prover_url = None, sa_output_dir = ''out'', sa_prove_only = False, sa_bet = 0, sa_bet_amount = F64 1 0 \<rparr>"

lemma stake_outcome: "expected_outcome (lab_lib v) 10 (felt_of_nat 1) = 0"
proof -
  have "felt_to_biguint stark_felt (pedersen_hash demo_crypto (felt_from_u64 stark_felt 10) (felt_of_nat 1)) = 36"
    by (simp add: demo_crypto_def stark_felt_def stark_prime_def)
  then have "unat (expected_outcome (lab_lib v) 10 (felt_of_nat 1)) = unat (0 :: u8)"
    using expected_outcome_parity[of "lab_lib v" 10 "felt_of_nat 1"] stark_felt_library by (simp add: lab_lib_simps)
  then show ?thesis by (simp only: unsigned_word_eqI)
qed

lemma stake_parses: "\<exists>xs. parse_felts stark_felt (game_calldata ''0xe'' 10 ''0x1'' 0) = Inr xs"
proof -
  obtain a where "felt_from_hex_msg stark_felt PLAY_SELECTOR = Inr a" using game_selector by blast
  moreover have "\<exists>x. felt_from_hex_msg stark_felt ''0xe'' = Inr x"
    by (simp add: felt_from_hex_msg_def stark_felt_def stark_from_hex_def starts_with_def stark_prime_def hex_val_def)
  moreover obtain b where "felt_from_hex_msg stark_felt (fmt_hex 10) = Inr b" using game_fmt[of 10] by (auto simp: stark_prime_def)
  moreover obtain c where "felt_from_hex_msg stark_felt (fmt_hex 0) = Inr c" using game_fmt[of 0] by (auto simp: stark_prime_def)
  ultimately show ?thesis by (auto simp: game_calldata_def parse_felts_def game_felts)
qed

lemma lab_invoke: "goes (settle_invoke (lab_lib v) lab_host config n c f d) w ''0xe'' w"
  unfolding settle_invoke_def Let_def
  by (rule goes_bind[OF goes_on_world(1)], simp add: lab_simps, simp only: lab_text lab_parse ok_or_simps, rule goes_bind[OF goes_return],
      rule goes_bind[OF goes_on_world(5)], simp add: lab_simps, rule goes_return)

lemma lab_declare_deploy: "goes (declare_and_deploy (lab_lib v) lab_host config n c k) w ''0xe'' w"
proof -
  have q: "goes (wait_quietly lab_host config (Some tx)) w () w" for tx w
    unfolding wait_quietly_def option.case by (rule goes_bind[OF goes_on_world(4)], simp add: lab_simps, rule goes_return)
  show ?thesis unfolding declare_and_deploy_def Let_def
    by (rule goes_bind[OF goes_on_world(1)], simp add: lab_simps, simp only: lab_text lab_parse ok_or_simps, rule goes_bind[OF goes_return],
        rule goes_bind[OF q], rule goes_bind[OF goes_on_world(3)], simp add: lab_simps, rule goes_bind[OF goes_on_world(1)], simp add: lab_simps,
        simp only: lab_text lab_parse ok_or_simps, rule goes_bind[OF goes_return], rule goes_bind[OF q], rule goes_return)
qed

lemma lab_strk: "goes (get_strk_balance lab_host config a) (unat (b :: u128)) b (unat b)"
proof -
  have "parse_u128_hex (fmt_hex (unat b)) = Some b"
    using unsigned_less[where 'b = 128 and 'a = nat, of b] by (simp add: parse_u128_hex_def trim_0x_fmt_hex from_str_radix16_lower_hex)
  then show ?thesis unfolding get_strk_balance_def
    by - (rule goes_bind[OF goes_on_world(2)], simp add: lab_simps, simp add: first_wei_def Let_def goes_return)
qed

lemma stake_prove:
  "\<exists>d. id_key d = felt_of_nat 2 \<and>
     goes (settlement_prove (lab_lib v) lab_host exe demo_config e args ''0xe'' 10 0) w (d, 5, 0) (w + 3000)"
proof -
  obtain xs where xs: "parse_felts stark_felt (game_calldata ''0xe'' 10 ''0x1'' 0) = Inr xs" using stake_parses by blast
  obtain d where d: "id_key d = felt_of_nat 2" "goes (single_construct (lab_lib v) lab_host demo_config (game_calldata ''0xe'' 10 ''0x1'' 0)
      (path_join (sa_output_dir args) ''settlement_tx.json'') ''signing: '' ''Transaction constructed'') w (d, 5) (w + 3000)"
    using lab_single_construct[OF xs] by blast
  have "goes (settlement_prove (lab_lib v) lab_host exe demo_config e args ''0xe'' 10 0) w (d, 5, 0) (w + 3000)"
    unfolding settlement_prove_def Let_def game_config lab_lib_simps(1)
    by (rule goes_bind[OF lab_step], rule goes_bind[OF goes_wrap[OF game_felts(1)]], rule goes_bind[OF d(2)], simp only: prod.case,
        rule goes_bind[OF lab_prove], simp only: stake_outcome goes_return)
  with d(1) show ?thesis by blast
qed

lemma stake_submit:
  assumes "id_key d = felt_of_nat 2"
  shows "goes (settlement_submit (lab_lib v) lab_host demo_config args d nonce) w () w"
proof -
  have f: "parse_proof_facts_json (al_strings_from_str (lab_lib v)) ''AB'' = Inr []" "parse_felts stark_felt [] = Inr []"
    by (simp_all add: lab_lib_simps parse_proof_facts_json_def parse_felts_def)
  have rp: "goes (settlement_read_proof (lab_lib v) lab_host p) w (trim ''AB'', []) w" for p w
    unfolding settlement_read_proof_def lab_lib_simps(1)
    by (rule goes_bind[OF goes_on_world(1)], simp add: lab_simps, rule goes_bind[OF goes_on_world(1)], simp add: lab_simps,
        rule goes_bind[OF goes_wrap[OF f(1)]], rule goes_bind[OF goes_wrap[OF f(2)]], rule goes_return)
  obtain h payload where h: "sign_and_build_payload stark_felt demo_crypto (submission_params stark_felt d nonce (trim ''AB'') []) = Inr (h, payload)"
    using game_payload[of "submission_params stark_felt d nonce (trim ''AB'') []"] assms by (auto simp: submission_params_def)
  have t: "get_str ''method'' payload = None"
    using h by (auto simp: sign_and_build_payload_def and_then_def Let_def split: sum.splits)
  have upt: "[1..<21] = 1 # [2..<(21 :: nat)]" by (simp add: upt_rec)
  have sg: "goes (settle_gateway lab_host url payload [1..<21]) w True w" for url w
    unfolding upt settle_gateway.simps
    by (rule goes_bind[OF goes_on_world(2)], simp add: lab_host_def lab_net_def lab_after_def t,
        simp add: Let_def, rule goes_bind[OF goes_pass], rule goes_return)
  show ?thesis unfolding settlement_submit_def lab_lib_simps(1,2)
    by (rule goes_bind[OF lab_step], rule goes_bind[OF rp], simp only: prod.case, rule goes_bind[OF goes_wrap[OF h]], simp only: prod.case,
        rule goes_bind[OF sg], simp only: simp_thms if_False, rule goes_bind[OF goes_on_world(4)], simp add: lab_simps, simp add: lab_simps)
qed

lemma stake_setup:
  "goes (settlement_deploy (lab_lib v) lab_host config n) w (''0xe'', ''0xe'') w" "goes (settlement_fund (lab_lib v) lab_host config n b) w () w"
  "goes (settlement_deposit sa (lab_lib v) lab_host config args n b bet) w (''0x'', 10) w"
  "goes (settlement_settle (lab_lib v) lab_host config n b session block) w () w"
proof -
  show "goes (settlement_deploy (lab_lib v) lab_host config n) w (''0xe'', ''0xe'') w"
    unfolding settlement_deploy_def
    by (rule goes_bind[OF lab_step], rule goes_bind[OF lab_compile], rule goes_bind[OF lab_step], rule goes_bind[OF lab_declare_deploy],
        rule goes_bind[OF goes_pass], rule goes_bind[OF lab_step], rule goes_bind[OF lab_declare_deploy], rule goes_bind[OF goes_pass],
        rule goes_return)
  show "goes (settlement_fund (lab_lib v) lab_host config n b) w () w"
    unfolding settlement_fund_def
    by (rule goes_bind[OF lab_step], rule goes_bind[OF lab_invoke], rule goes_bind[OF goes_pass], rule goes_bind[OF lab_invoke], rule goes_pass)
  have "hex_encode [] = []" by (simp add: hex_encode_def)
  then have s: "''0x'' @ hex_encode [] = ''0x''" by simp
  show "goes (settlement_deposit sa (lab_lib v) lab_host config args n b bet) w (''0x'', 10) w"
    unfolding settlement_deposit_def Let_def
    by (rule goes_bind[OF lab_step], rule goes_bind[OF goes_on_world(3)], simp add: lab_simps, simp only: s,
        rule goes_bind[OF goes_on_world(1)], simp add: lab_simps, rule goes_bind[OF lab_invoke], rule goes_bind[OF goes_pass], rule goes_return)
  show "goes (settlement_settle (lab_lib v) lab_host config n b session block) w () w"
    unfolding settlement_settle_def by (rule goes_bind[OF lab_step], rule goes_bind[OF lab_invoke], rule goes_pass)
qed

lemma stake_match: "goes (settlement_match (lab_lib v) lab_host config n b session 10) 1 (10, 1) 1"
proof -
  have w: "goes (wrap_err [] Rpc_cause (on_world_wait (wait_for_tx (ho_net lab_host) (rpc_url config) h 120 3))) w lab_receipt w" for h w
    by (rule goes_on_world(5)) (simp add: lab_simps)
  have m: "max (unwrap_or 0 (receipt_block_number lab_receipt)) 10 = 10" by (simp add: lab_block)
  have b: "goes (get_strk_balance lab_host config a) 1 1 1" for a using lab_strk[of config a 1] by simp
  show ?thesis unfolding settlement_match_def Let_def
    by (rule goes_bind[OF lab_step], rule goes_bind[OF lab_invoke], rule goes_bind[OF w], simp only: m, rule goes_bind[OF goes_pass],
        rule goes_bind[OF b], rule goes_return)
qed

lemma stake_balances: "goes (settlement_balances ss lab_host config True 1) 3001 () 3001"
proof -
  have b: "goes (get_strk_balance lab_host config a) 3001 3001 3001" for a using lab_strk[of config a 3001] by simp
  show ?thesis unfolding settlement_balances_def Let_def
    by (rule goes_bind[OF lab_step], rule goes_bind[OF b]) (simp add: goes_pass)
qed

lemma stake_body: "goes (settlement_body sa ss (lab_lib JNull) lab_host exe demo_config lab_env stake_args) 1 () 3001"
proof -
  obtain d where d: "id_key d = felt_of_nat 2"
    "goes (settlement_prove (lab_lib JNull) lab_host exe demo_config lab_env stake_args ''0xe'' 10 0) 1 (d, 5, 0) 3001"
    using stake_prove[of JNull exe lab_env stake_args 1] by auto
  have bet: "min (sa_bet stake_args) 1 = 0" and po: "\<not> sa_prove_only stake_args" by (simp_all add: stake_args_def)
  have won: "((0 :: u8) = 0) = True" by simp
  have msg: "goes (settlement_message (lab_lib JNull) lab_host stake_args 0) w () w" for w
  proof -
    have "goes (compare_outcome 0 JNull) w () w" unfolding compare_outcome_def get_array_def by (simp add: goes_return)
    moreover have "goes (on_world_io (ho_exists lab_host p)) w True w" "goes (wrap_err [] Text (on_world (ho_read_to_string lab_host p))) w ''AB'' w"
      "goes (wrap_err [] Text (pio_return (al_from_str (lab_lib JNull) ''AB''))) w JNull w" for p
      by (rule goes_on_world(3), simp add: lab_simps, rule goes_on_world(1), simp add: lab_simps, rule goes_wrap, simp add: lab_simps)
    ultimately show ?thesis unfolding settlement_message_def Let_def
      by - (rule goes_bind, assumption, simp only: simp_thms if_False, rule goes_bind, assumption, rule goes_bind)
  qed
  show ?thesis unfolding settlement_body_def Let_def bet if_not_P[OF po] settlement_check_prereqs_def settlement_import_def
    by (rule goes_bind[OF lab_prover_prereqs], rule goes_bind[OF lab_mkdir], rule goes_bind[OF lab_silent_import], rule goes_bind[OF stake_setup(1)],
        simp only: prod.case, rule goes_bind[OF stake_setup(2)], rule goes_bind[OF stake_setup(3)], simp only: prod.case,
        rule goes_bind[OF stake_match], simp only: prod.case, rule goes_bind[OF d(2)], simp only: prod.case won, rule goes_bind[OF msg],
        rule goes_bind[OF stake_submit[OF d(1)]], rule goes_bind[OF stake_setup(4)], rule stake_balances)
qed

lemma stake_passes: "\<exists>s'. settlement_run sa ss (lab_lib JNull) lab_host lab_env_lib exe lab_env None stake_args lab_state = Some (Inr (), s')"
proof -
  have w: "1 = ap_world lab_state" by (simp add: lab_state_def)
  let ?s0 = "lab_state\<lparr> rp_passed := 0, rp_failed := 0, rp_timings := [], rp_step := None \<rparr>"
  have "ap_world ?s0 = 1" by (simp add: lab_state_def)
  then obtain s1 where s1: "settlement_body sa ss (lab_lib JNull) lab_host exe demo_config lab_env stake_args ?s0 = Some (Inr (), s1)" "rp_failed s1 = 0"
    using goesD[of _ ?s0] stake_body by fastforce
  have "goes (finish_last_step lab_host) (ap_world s1) () (ap_world s1)"
    by (auto simp: goes_def finish_last_step_def pio_bind_def on_world_io_def lab_now split: option.split)
  from goesD[OF this] obtain s2 where s2: "finish_last_step lab_host s1 = Some (Inr (), s2)" "rp_failed s2 = 0" using s1(2) by auto
  obtain s3 where "print_timings (ap_world s2 - 1) s2 = Some (Inr (), s3)" "rp_failed s3 = 0"
    unfolding print_timings_def using goesD[where s = s2, OF goes_emit_all] s2(2) by metis
  then show ?thesis
    unfolding settlement_run_def lab_from_env prod.case wrap_err_def
    by (simp add: pio_map_err_def pio_bind_def map_err_def counted_def timed_def reset_report_def on_world_io_def lab_now s1 s2
        settlement_summary_def verdict_def w[symmetric])
qed

lemma stake_seed:
  assumes "settlement_match (lab_lib v) lab_host config n b session 10 s = Some (Inr (block, balance), s')"
  shows "block = 10"
  using assms unfolding settlement_match_def Let_def wrap_err_def
  by (auto simp: pio_iffs on_world_wait_def lab_simps lab_block split: prod.splits)

theorem settlement_run_sound_witness:
  "\<not> sa_prove_only stake_args \<and>
   (\<exists>s' bank session balance after s1 s2 t1 t2.
     settlement_run (\<lambda>_. []) (\<lambda>_. []) (lab_lib JNull) lab_host lab_env_lib None lab_env None stake_args lab_state = Some (Inr (), s') \<and>
     settlement_settle (lab_lib JNull) lab_host demo_config ''playground-master'' bank session 10 s1 = Some (Inr (), s2) \<and>
     expected_outcome (lab_lib JNull) 10 (felt_of_nat 1) = min (sa_bet stake_args) 1 \<and>
     get_strk_balance lab_host demo_config ''0x1'' t1 = Some (Inr after, t2) \<and> balance < after)"
proof -
  obtain s' where r: "settlement_run (\<lambda>_. []) (\<lambda>_. []) (lab_lib JNull) lab_host lab_env_lib None lab_env None stake_args lab_state = Some (Inr (), s')"
    using stake_passes by blast
  have po: "\<not> sa_prove_only stake_args" and bet: "min (sa_bet stake_args) 1 = 0" by (simp_all add: stake_args_def)
  from settlement_run_sound[OF r po, unfolded lab_from_env prod.inject sum.inject lab_lib_simps(1) bet]
  obtain bank session pre block balance player outcome s1 s2 s3 s6 s7 where
    dep: "settlement_deposit (\<lambda>_. []) (lab_lib JNull) lab_host demo_config stake_args ''playground-master'' bank 0 s1 = Some (Inr (session, pre), s2)"
    and mat: "settlement_match (lab_lib JNull) lab_host demo_config ''playground-master'' bank session pre s2 = Some (Inr (block, balance), s3)"
    and player: "felt_from_hex_msg stark_felt (account_address demo_config) = Inr player"
    and outcome: "outcome = expected_outcome (lab_lib JNull) block player"
    and set: "settlement_settle (lab_lib JNull) lab_host demo_config ''playground-master'' bank session block s6 = Some (Inr (), s7)"
    and won: "outcome = 0 \<longrightarrow> (\<exists>t1 after t2. step lab_host 10 ''Verify settlement'' s7 = Some (Inr (), t1) \<and>
        get_strk_balance lab_host demo_config (account_address demo_config) t1 = Some (Inr after, t2) \<and> balance < after)" by blast
  from stake_setup(3)[of "\<lambda>_. []" JNull demo_config stake_args "''playground-master''" bank 0 "ap_world s1"] dep have "pre = 10"
    by (auto simp: goes_def)
  then have "block = 10" using stake_seed mat by blast
  moreover have "player = felt_of_nat 1" using player game_config(1) game_felts(1) by simp
  ultimately have "outcome = 0" using outcome stake_outcome by simp
  with r po set won \<open>block = 10\<close> game_config(1) stake_outcome bet show ?thesis by auto
qed

end
