(* ===== verification/Health.thy ===== *)
theory Health
  imports DriverLab CoinFlip Counter
begin

text \<open>
  The health check of the playground (\<open>counter/src/health.rs\<close>): the node answers, the master account has funds,
  the account class is declared, and a counter can be deployed, incremented and read. A failed check is
  counted and the next one still runs; only the full flow stops at its first failure.
\<close>

section \<open>The checks of the node\<close>

definition check_pass :: "string \<Rightarrow> string \<Rightarrow> ('w, unit) driver" where
  "check_pass name detail = pass (if detail = [] then name else name @ '' ('' @ detail @ '')'')"

definition check_fail :: "string \<Rightarrow> string \<Rightarrow> cause \<Rightarrow> ('w, unit) driver" where
  "check_fail name detail c = fail (if detail = [] \<and> c = NoCause then name else name @ '' -- '' @ detail) c"

definition check_rpc :: "'w host \<Rightarrow> config \<Rightarrow> ('w, unit) driver" where
  "check_rpc H config =
     pio_bind (pio_result (on_world (block_number (ho_net H) (rpc_url config)))) (\<lambda>r.
     case r of
       Inl e \<Rightarrow> check_fail ''RPC reachable'' [] (Rpc_cause e)
     | Inr block \<Rightarrow>
         if block > 0 then
           pio_bind (check_pass ''RPC reachable'' (''block '' @ dec_string (unat block))) (\<lambda>_.
           pio_bind (pio_result (on_world (rpc_chain_id (ho_net H) (rpc_url config)))) (\<lambda>c.
           case c of
             Inr chain \<Rightarrow> check_pass ''Chain ID'' chain
           | Inl e \<Rightarrow> check_fail ''Chain ID'' [] (Rpc_cause e)))
         else check_fail ''RPC reachable'' (''unexpected block number: '' @ dec_string (unat block)) NoCause)"

text \<open>
  \<open><<\<close> on 128 bits: an amount out of range panics in a build with overflow checks, and is taken modulo 128
  without them.
\<close>

definition u128_shl :: "bool \<Rightarrow> u128 \<Rightarrow> nat \<Rightarrow> driver_end + u128" where
  "u128_shl overflow_checks x n =
     (if overflow_checks \<and> 128 \<le> n then Inl (DriverPanic ''attempt to shift left with overflow'')
      else Inr (push_bit (n mod 128) x))"

definition u128_add :: "bool \<Rightarrow> u128 \<Rightarrow> u128 \<Rightarrow> driver_end + u128" where
  "u128_add overflow_checks a b =
     (if overflow_checks \<and> 2 ^ 128 \<le> unat a + unat b then Inl (DriverPanic ''attempt to add with overflow'') else Inr (a + b))"

definition balance_wei :: "bool \<Rightarrow> string list \<Rightarrow> driver_end + u128" where
  "balance_wei overflow_checks vs =
     (let low = unwrap_or 0 (parse_u128_hex (vs ! 0));
          high = (if length vs > 1 then unwrap_or 0 (parse_u128_hex (vs ! 1)) else 0) in
      and_then (u128_shl overflow_checks high 128) (\<lambda>shifted. u128_add overflow_checks low shifted))"

text \<open>
  The balance in STRK is a quotient of \<open>f64\<close>; it is at least 1 exactly when the balance, rounded to 53 bits, is at
  least \<open>10 ^ 18\<close>, a number of 53 bits. Its two decimals are text, a parameter.
\<close>

definition check_balance :: "bool \<Rightarrow> (u128 \<Rightarrow> string) \<Rightarrow> 'w host \<Rightarrow> config \<Rightarrow> ('w, unit) driver" where
  "check_balance overflow_checks show_strk H config =
     pio_bind (pio_result (on_world (starknet_call (ho_net H) (rpc_url config) STRK_TOKEN BALANCE_OF_SELECTOR [account_address config]))) (\<lambda>r.
     case r of
       Inl e \<Rightarrow> check_fail ''Balance check'' [] (Rpc_cause e)
     | Inr vs \<Rightarrow>
         if vs = [] then check_fail ''Balance check'' ''empty result'' NoCause
         else
           pio_bind (pio_return (balance_wei overflow_checks vs)) (\<lambda>wei.
           if 10 ^ 18 \<le> round53 (unat wei) then check_pass ''STRK balance'' (show_strk wei @ '' STRK'')
           else check_fail ''STRK balance too low'' (show_strk wei @ '' STRK < 1.0 STRK minimum'') NoCause))"

definition check_oz_class :: "'w host \<Rightarrow> config \<Rightarrow> ('w, unit) driver" where
  "check_oz_class H config =
     pio_bind (pio_result (on_world (get_class (ho_net H) (rpc_url config) OZ_ACCOUNT_CLASS_HASH))) (\<lambda>r.
     case r of
       Inr _ \<Rightarrow> check_pass ''OZ class declared'' (take 18 OZ_ACCOUNT_CLASS_HASH @ ''...'')
     | Inl e \<Rightarrow> check_fail ''OZ class declared'' [] (Rpc_cause e))"

section \<open>The full flow\<close>

text \<open>A part of the flow gives \<open>None\<close> when the flow returns there.\<close>

definition flow_stop :: "('w, unit) driver \<Rightarrow> ('w, 'a option) driver" where
  "flow_stop m = pio_bind m (\<lambda>_. pio_return (Inr None))"

definition flow_bind :: "('w, 'a option) driver \<Rightarrow> ('a \<Rightarrow> ('w, unit) driver) \<Rightarrow> ('w, unit) driver" where
  "flow_bind m k = pio_bind m (\<lambda>r. case r of None \<Rightarrow> pio_return (Inr ()) | Some x \<Rightarrow> k x)"

text \<open>\<open>&h[..h.len().min(18)]\<close> and three dots\<close>

definition clip18 :: "string \<Rightarrow> driver_end + string" where
  "clip18 h = (case str_prefix h (min (length h) 18) of
      Some p \<Rightarrow> Inr (p @ ''...'')
    | None \<Rightarrow> Inl (DriverPanic ''byte index 18 is not a char boundary''))"

definition flow_prereqs :: "'w host \<Rightarrow> ('w, unit option) driver" where
  "flow_prereqs H =
     pio_bind (missing_command H [''sncast'', ''scarb'']) (\<lambda>m.
     case m of
       Some cmd \<Rightarrow> flow_stop (check_fail (cmd @ '' not in PATH'') ''skipping full flow'' NoCause)
     | None \<Rightarrow> pio_return (Inr (Some ())))"

definition flow_compile :: "'w host \<Rightarrow> config \<Rightarrow> ('w, unit option) driver" where
  "flow_compile H config =
     pio_bind (pio_result (on_world (ho_output H ''scarb'' [''build''] (Some (contracts_dir config))))) (\<lambda>build.
     case build of
       Inl e \<Rightarrow> flow_stop (check_fail ''Compile counter'' [] (Text e))
     | Inr out \<Rightarrow>
         if out_success out then pio_bind (check_pass ''Compile counter'' []) (\<lambda>_. pio_return (Inr (Some ())))
         else pio_bind (clip500 (format_cmd_output out)) (\<lambda>p. flow_stop (check_fail ''Compile counter'' p NoCause)))"

definition flow_declare :: "('f, 're) app_lib \<Rightarrow> 'w host \<Rightarrow> config \<Rightarrow> string \<Rightarrow> ('w, string option) driver" where
  "flow_declare A H config account =
     pio_bind (pio_result (on_world (ho_output H ''sncast'' [''--account'', account, ''declare'', ''--contract-name'', ''Counter'',
         ''--url'', rpc_url config] (Some (contracts_dir config))))) (\<lambda>declare.
     case declare of
       Inl e \<Rightarrow> flow_stop (check_fail ''Declare counter'' [] (Text e))
     | Inr out \<Rightarrow>
         (case class_hash_of A (format_cmd_output out) of
            None \<Rightarrow> flow_stop (check_fail ''Declare counter'' ''could not parse class_hash'' NoCause)
          | Some h \<Rightarrow> pio_bind (pio_return (clip18 h)) (\<lambda>p. pio_bind (check_pass ''Declare counter'' p) (\<lambda>_. pio_return (Inr (Some h))))))"

definition flow_deploy ::
  "('f, 're) app_lib \<Rightarrow> 'w host \<Rightarrow> config \<Rightarrow> string \<Rightarrow> string \<Rightarrow> ('w, (string \<times> string option) option) driver" where
  "flow_deploy A H config account class_hash =
     pio_bind (on_world_io (ho_random16 H)) (\<lambda>bytes.
     pio_bind (pio_result (on_world (ho_output H ''sncast'' [''--account'', account, ''deploy'', ''--class-hash'', class_hash,
         ''--salt'', ''0x'' @ hex_encode bytes, ''--url'', rpc_url config] None))) (\<lambda>deploy.
     case deploy of
       Inl e \<Rightarrow> flow_stop (check_fail ''Deploy counter'' [] (Text e))
     | Inr out \<Rightarrow>
         (let combined = format_cmd_output out in
          case parse_hex_from_output (al_regex A) ''contract_address'' combined of
            None \<Rightarrow> flow_stop (check_fail ''Deploy counter'' ''could not parse contract_address'' NoCause)
          | Some addr \<Rightarrow> pio_bind (pio_return (clip18 addr)) (\<lambda>p.
              pio_bind (check_pass ''Deploy counter'' p) (\<lambda>_.
                pio_return (Inr (Some (addr, parse_hex_from_output (al_regex A) ''transaction_hash'' combined))))))))"

text \<open>Without a hash the deployment counts as confirmed; a receipt without a block passes without a line.\<close>

definition flow_deployed :: "'w host \<Rightarrow> config \<Rightarrow> string option \<Rightarrow> ('w, unit option) driver" where
  "flow_deployed H config deploy_tx = (case deploy_tx of
      None \<Rightarrow> pio_return (Inr (Some ()))
    | Some tx \<Rightarrow>
        pio_bind (pio_result (on_world_wait (wait_for_tx (ho_net H) (rpc_url config) tx 120 3))) (\<lambda>r.
        case r of
          Inl _ \<Rightarrow> flow_stop (check_fail ''Deploy tx confirmation'' ''timeout'' NoCause)
        | Inr receipt \<Rightarrow>
            (case receipt_block_number receipt of
               None \<Rightarrow> pio_return (Inr (Some ()))
             | Some bn \<Rightarrow>
                 pio_bind (pio_result (on_world_wait (wait_for_block_after (ho_net H) (rpc_url config) bn 120 3))) (\<lambda>_.
                 pio_bind (check_pass ''Deploy tx confirmed'' (''block '' @ dec_string (unat bn))) (\<lambda>_. pio_return (Inr (Some ())))))))"

definition flow_invoke :: "('f, 're) app_lib \<Rightarrow> 'w host \<Rightarrow> config \<Rightarrow> string \<Rightarrow> string \<Rightarrow> ('w, string option) driver" where
  "flow_invoke A H config account contract_address =
     pio_bind (pio_result (on_world (ho_output H ''sncast'' [''--account'', account, ''invoke'', ''--contract-address'', contract_address,
         ''--function'', ''increment'', ''--calldata'', ''0x1'', ''--url'', rpc_url config] None))) (\<lambda>invoke.
     case invoke of
       Inl e \<Rightarrow> flow_stop (check_fail ''Invoke increment'' [] (Text e))
     | Inr out \<Rightarrow>
         (case parse_hex_from_output (al_regex A) ''transaction_hash'' (format_cmd_output out) of
            None \<Rightarrow> flow_stop (check_fail ''Invoke increment'' ''could not parse tx hash'' NoCause)
          | Some tx \<Rightarrow> pio_bind (pio_return (clip18 tx)) (\<lambda>p. pio_bind (check_pass ''Invoke increment'' p) (\<lambda>_. pio_return (Inr (Some tx))))))"

definition flow_invoked :: "'w host \<Rightarrow> config \<Rightarrow> string \<Rightarrow> ('w, unit option) driver" where
  "flow_invoked H config invoke_tx =
     pio_bind (pio_result (on_world_wait (wait_for_tx (ho_net H) (rpc_url config) invoke_tx 120 3))) (\<lambda>r.
     case r of
       Inl _ \<Rightarrow> flow_stop (check_fail ''Invoke tx confirmation'' ''timeout'' NoCause)
     | Inr receipt \<Rightarrow>
         pio_bind (check_pass ''Invoke tx confirmed'' []) (\<lambda>_.
         pio_bind (case receipt_block_number receipt of
             None \<Rightarrow> pio_return (Inr ())
           | Some bn \<Rightarrow> pio_bind (pio_result (on_world_wait (wait_for_block_after (ho_net H) (rpc_url config) bn 120 3))) (\<lambda>_.
               pio_return (Inr ()))) (\<lambda>_.
           pio_return (Inr (Some ())))))"

definition flow_read :: "'w host \<Rightarrow> config \<Rightarrow> string \<Rightarrow> ('w, unit) driver" where
  "flow_read H config contract_address =
     pio_bind (pio_result (on_world (starknet_call (ho_net H) (rpc_url config) contract_address GET_COUNTER_SELECTOR []))) (\<lambda>r.
     case r of
       Inl e \<Rightarrow> check_fail ''Read counter'' [] (Rpc_cause e)
     | Inr vs \<Rightarrow>
         (let counter = counter_value_of vs in
          if counter \<ge> 1 then check_pass ''Counter value'' (dec_string (unat counter))
          else check_fail ''Counter value'' (''expected >= 1, got '' @ dec_string (unat counter)) NoCause))"

definition check_full_flow :: "('f, 're) app_lib \<Rightarrow> 'w host \<Rightarrow> config \<Rightarrow> ('w, unit) driver" where
  "check_full_flow A H config =
     (let account = ''ci-health-check'' in
      flow_bind (flow_prereqs H) (\<lambda>_.
      pio_bind (pio_result (on_world (ho_output H ''sncast'' (import_args config account @ [''--silent'']) None))) (\<lambda>_.
      flow_bind (flow_compile H config) (\<lambda>_.
      flow_bind (flow_declare A H config account) (\<lambda>class_hash.
      flow_bind (flow_deploy A H config account class_hash) (\<lambda>(contract_address, deploy_tx).
      flow_bind (flow_deployed H config deploy_tx) (\<lambda>_.
      flow_bind (flow_invoke A H config account contract_address) (\<lambda>invoke_tx.
      flow_bind (flow_invoked H config invoke_tx) (\<lambda>_.
        flow_read H config contract_address)))))))))"

section \<open>The health check\<close>

text \<open>The line with the first ten and the last six bytes of the account panics inside a character.\<close>

definition account_line :: "string \<Rightarrow> driver_end + string" where
  "account_line address =
     (case str_prefix address (min 10 (length address)) of
        None \<Rightarrow> Inl (DriverPanic ''byte index 10 is not a char boundary'')
      | Some p \<Rightarrow>
          (let start = length address - 6 in
           if is_char_boundary address start then Inr (p @ ''...'' @ drop start address)
           else Inl (DriverPanic ''byte index is not a char boundary'')))"

definition health_body ::
  "bool \<Rightarrow> (u128 \<Rightarrow> string) \<Rightarrow> ('f, 're) app_lib \<Rightarrow> 'w host \<Rightarrow> config \<Rightarrow> bool \<Rightarrow> ('w, unit) driver" where
  "health_body overflow_checks show_strk A H config quick =
     pio_bind (pio_return (account_line (account_address config))) (\<lambda>_.
     pio_bind (check_rpc H config) (\<lambda>_.
     pio_bind (check_balance overflow_checks show_strk H config) (\<lambda>_.
     pio_bind (check_oz_class H config) (\<lambda>_.
     if \<not> quick \<and> private_key config \<noteq> [] then check_full_flow A H config
     else pio_return (Inr ())))))"

definition health_run ::
  "bool \<Rightarrow> (u128 \<Rightarrow> string) \<Rightarrow> ('f, 're) app_lib \<Rightarrow> 'w host \<Rightarrow> env_lib \<Rightarrow> env \<Rightarrow> string option \<Rightarrow> bool \<Rightarrow> ('w, unit) driver" where
  "health_run overflow_checks show_strk A H E env0 env_file quick = (case from_env E env_file env0 of (r, e) \<Rightarrow>
     pio_bind (wrap_err [] Config_cause (pio_return r)) (\<lambda>config.
       counted (health_body overflow_checks show_strk A H config quick) (\<lambda>_. verdict)))"

section \<open>The report\<close>

lemma stage_checks: "stage (check_pass n d)" "stage (check_fail n d c)"
  unfolding check_pass_def check_fail_def by (intro stage_intros)+

lemma stage_values: "stage (pio_return (balance_wei oc vs))" "stage (pio_return (clip18 h))" "stage (pio_return (account_line a))"
  by (auto simp: balance_wei_def u128_shl_def u128_add_def clip18_def account_line_def Let_def and_then_def stage_basic split: option.split)

lemma stage_flow:
  "stage m \<Longrightarrow> stage (flow_stop m)" "stage m' \<Longrightarrow> (\<And>x. stage (k x)) \<Longrightarrow> stage (flow_bind m' k)"
  unfolding flow_stop_def flow_bind_def by (intro stage_intros; assumption)+

lemma stage_node_checks: "stage (check_rpc H config)" "stage (check_balance oc sh H config)" "stage (check_oz_class H config)"
  unfolding check_rpc_def check_balance_def check_oz_class_def by (intro stage_intros stage_checks stage_values)+

lemma stage_full_flow: "stage (check_full_flow A H config)"
  unfolding check_full_flow_def flow_prereqs_def flow_compile_def flow_declare_def flow_deploy_def flow_deployed_def flow_invoke_def
    flow_invoked_def flow_read_def Let_def
  by (intro stage_flow stage_intros stage_checks stage_values stage_missing_command stage_commands)

lemma stage_health_body: "stage (health_body oc sh A H config quick)"
  unfolding health_body_def by (intro stage_intros stage_values stage_node_checks stage_full_flow)

interpretation health: counted_run "health_body oc sh A H config quick" "\<lambda>_. verdict"
  by unfold_locales (rule stage_health_body closes_verdict)+

lemma returns_flow:
  "returns m \<Longrightarrow> returns (flow_stop m)" "returns m' \<Longrightarrow> (\<And>x. returns (k x)) \<Longrightarrow> returns (flow_bind m' k)"
  unfolding flow_stop_def flow_bind_def by (intro returns_intros; assumption)+

lemma returns_checks: "returns (check_pass n d)" "returns (check_fail n d c)"
  unfolding check_pass_def check_fail_def by (intro returns_intros)+

lemma returns_health_body:
  assumes "clock_laws (ho_net H) time"
  shows "returns (health_body oc sh A H config quick)"
  unfolding health_body_def check_rpc_def check_balance_def check_oz_class_def check_full_flow_def flow_prereqs_def flow_compile_def
    flow_declare_def flow_deploy_def flow_deployed_def flow_invoke_def flow_invoked_def flow_read_def Let_def
  by (intro returns_flow returns_intros returns_checks returns_missing_command returns_commands returns_wait[OF assms]
      returns_wait_block[OF assms]; simp)

text \<open>
  The health check always ends, and its exit status tells whether a check has failed: it counts the lines it
  writes, ends well only with no failure counted, and exits only with status 1 and after one. Otherwise it
  panics.
\<close>

lemma health_run_verdict:
  assumes "clock_laws (ho_net H) time" and "from_env E env_file env0 = (Inr config, e)"
  shows "\<exists>r s' es. health_run oc sh A H E env0 env_file quick s = Some (r, s') \<and> ap_events s' = ap_events s @ es \<and>
     rp_passed s' = of_nat (count_events is_pass es) \<and> rp_failed s' = of_nat (count_events is_fail es) \<and>
     (r = Inr () \<longrightarrow> rp_failed s' = 0) \<and> (\<forall>n. r = Inl (Exit n) \<longrightarrow> n = 1 \<and> rp_failed s' \<noteq> 0)"
proof -
  have run: "health_run oc sh A H E env0 env_file quick = counted (health_body oc sh A H config quick) (\<lambda>_. verdict)"
    by (simp add: health_run_def assms(2) wrap_err_def pio_map_err_def pio_bind_def fun_eq_iff)
  have "returns verdict" by (simp add: returns_def verdict_def)
  from health.counted_ends[OF returns_health_body[OF assms(1)] this] show ?thesis unfolding run by blast
qed

section \<open>What a healthy playground has\<close>

text \<open>A check either counts one failure, or none and what it looks for is there.\<close>

definition scores :: "bool \<Rightarrow> ('w, unit) driver \<Rightarrow> bool" where
  "scores P m \<longleftrightarrow> (\<forall>s u s'. m s = Some (Inr u, s') \<longrightarrow> rp_failed s' = rp_failed s \<and> P \<or> rp_failed s' = rp_failed s + 1)"

definition scores_at :: "('w report \<Rightarrow> bool) \<Rightarrow> ('w, unit) driver \<Rightarrow> bool" where
  "scores_at P m \<longleftrightarrow> (\<forall>s u s'. m s = Some (Inr u, s') \<longrightarrow> rp_failed s' = rp_failed s \<and> P s \<or> rp_failed s' = rp_failed s + 1)"

definition flow_scores :: "bool \<Rightarrow> ('w, 'a option) driver \<Rightarrow> bool" where
  "flow_scores P m \<longleftrightarrow> (\<forall>s r s'. m s = Some (Inr r, s') \<longrightarrow>
     (if r = None then rp_failed s' = rp_failed s + 1 else rp_failed s' = rp_failed s \<and> P))"

lemma scores_basic: "P \<Longrightarrow> scores P (check_pass n d)" "scores P (check_fail n d c)"
  by (auto simp: scores_def check_pass_def check_fail_def pass_def fail_def)

lemma scores_bind: "clean m \<Longrightarrow> (\<And>s x s'. m s = Some (Inr x, s') \<Longrightarrow> scores P (k x)) \<Longrightarrow> scores P (pio_bind m k)"
  unfolding scores_def clean_def pio_bind_Inr_iff by metis

lemma check_pass_clean: "clean (check_pass n d)"
  unfolding check_pass_def by (rule clean_report)

lemma scores_call:
  assumes "\<And>w r w'. m w = (r, w') \<Longrightarrow> scores P (k r)"
  shows "scores P (pio_bind (pio_result (on_world m)) k)"
proof (rule scores_bind, intro clean_quiet quiet_result quiet_basic)
  fix s r s' assume "pio_result (on_world m) s = Some (Inr r, s')"
  then obtain w w' where "m w = (r, w')" by (auto simp: pio_result_iff on_world_def split: prod.splits)
  then show "scores P (k r)" by (rule assms)
qed

lemma scores_at_call:
  assumes "\<And>s r w'. m (ap_world s) = (r, w') \<Longrightarrow> scores (P s) (k r)"
  shows "scores_at P (pio_bind (pio_result (on_world m)) k)"
proof (unfold scores_at_def, intro allI impI)
  fix s u s' assume "pio_bind (pio_result (on_world m)) k s = Some (Inr u, s')"
  then obtain r w' where m: "m (ap_world s) = (r, w')" and k: "k r (s\<lparr>ap_world := w'\<rparr>) = Some (Inr u, s')"
    by (auto simp: pio_bind_Inr_iff pio_result_iff on_world_def split: prod.splits)
  have "rp_failed (s\<lparr>ap_world := w'\<rparr>) = rp_failed s" by (cases s) simp
  with assms[OF m, unfolded scores_def] k show "rp_failed s' = rp_failed s \<and> P s \<or> rp_failed s' = rp_failed s + 1" by fastforce
qed

lemma scores_rpc:
  "scores_at (\<lambda>s. \<exists>w' b. block_number (ho_net H) (rpc_url config) (ap_world s) = (Inr b, w') \<and> b > 0) (check_rpc H config)"
proof -
  have go: "scores P (pio_bind (check_pass n d) (\<lambda>_. pio_bind (pio_result (on_world m)) (\<lambda>c.
      case c of Inr chain \<Rightarrow> check_pass n' chain | Inl e \<Rightarrow> check_fail n' [] (Rpc_cause e))))" if P for P n d m n'
    using that by (intro scores_bind scores_call check_pass_clean) (auto intro!: scores_basic split: sum.split)
  show ?thesis unfolding check_rpc_def by (intro scores_at_call) (auto intro!: scores_basic go split: sum.split)
qed

lemma scores_balance:
  "scores_at (\<lambda>s. \<exists>w' vs wei.
      starknet_call (ho_net H) (rpc_url config) STRK_TOKEN BALANCE_OF_SELECTOR [account_address config] (ap_world s) = (Inr vs, w') \<and>
      vs \<noteq> [] \<and> balance_wei oc vs = Inr wei \<and> 10 ^ 18 \<le> round53 (unat wei)) (check_balance oc sh H config)"
proof -
  have "scores P (pio_bind (pio_return r) (\<lambda>wei. if Q wei then check_pass n (f wei) else check_fail n' (g wei) NoCause))"
    if "\<And>wei. r = Inr wei \<Longrightarrow> Q wei \<Longrightarrow> P" for P r Q n f n' g
    using that by (intro scores_bind) (auto intro!: scores_basic clean_quiet quiet_basic simp: pio_return_iff)
  note val = this
  show ?thesis unfolding check_balance_def
    by (intro scores_at_call) (auto intro!: scores_basic val split: sum.split simp del: power_numeral)
qed

lemma scores_oz_class:
  "scores_at (\<lambda>s. \<exists>w' c. get_class (ho_net H) (rpc_url config) OZ_ACCOUNT_CLASS_HASH (ap_world s) = (Inr c, w')) (check_oz_class H config)"
  unfolding check_oz_class_def by (intro scores_at_call) (auto intro!: scores_basic split: sum.split)

lemma scores_read:
  assumes "\<And>w vs w'. starknet_call (ho_net H) (rpc_url config) c GET_COUNTER_SELECTOR [] w = (Inr vs, w') \<Longrightarrow> counter_value_of vs \<ge> 1 \<Longrightarrow> P"
  shows "scores P (flow_read H config c)"
  unfolding flow_read_def Let_def by (intro scores_call) (auto intro!: scores_basic intro: assms split: sum.split)

text \<open>The counter that the flow has deployed, incremented and read.\<close>

definition counter_seen :: "('f, 're) app_lib \<Rightarrow> 'w host \<Rightarrow> config \<Rightarrow> bool" where
  "counter_seen A H config \<longleftrightarrow> (\<exists>h c t i s1 s2 s3 s4 w w' vs.
     flow_deploy A H config ''ci-health-check'' h s1 = Some (Inr (Some (c, t)), s2) \<and>
     flow_invoke A H config ''ci-health-check'' c s3 = Some (Inr (Some i), s4) \<and>
     starknet_call (ho_net H) (rpc_url config) c GET_COUNTER_SELECTOR [] w = (Inr vs, w') \<and> counter_value_of vs \<ge> 1)"

text \<open>The parts of the flow.\<close>

lemma flow_scores_stop: "flow_scores P (flow_stop (check_fail n d c))"
  by (auto simp: flow_scores_def flow_stop_def check_fail_def fail_def pio_iffs)

lemma flow_scores_go: "P \<Longrightarrow> flow_scores P (pio_return (Inr (Some x)))"
  by (auto simp: flow_scores_def)

lemma flow_scores_bind: "clean m \<Longrightarrow> (\<And>x. flow_scores P (k x)) \<Longrightarrow> flow_scores P (pio_bind m k)"
  unfolding flow_scores_def clean_def pio_bind_Inr_iff by metis

lemma flow_scores_cases:
  "flow_scores P a \<Longrightarrow> flow_scores P b \<Longrightarrow> flow_scores P (if c then a else b)"
  "flow_scores P d \<Longrightarrow> (\<And>x. flow_scores P (l x)) \<Longrightarrow> flow_scores P (case q of None \<Rightarrow> d | Some x \<Rightarrow> l x)"
  "(\<And>e. flow_scores P (f e)) \<Longrightarrow> (\<And>x. flow_scores P (g x)) \<Longrightarrow> flow_scores P (case r of Inl e \<Rightarrow> f e | Inr x \<Rightarrow> g x)"
  by (auto split: option.split sum.split)

lemma scores_flow_bind:
  "flow_scores True m \<Longrightarrow> (\<And>s x s'. m s = Some (Inr (Some x), s') \<Longrightarrow> scores P (k x)) \<Longrightarrow> scores P (flow_bind m k)"
  unfolding flow_bind_def scores_def flow_scores_def pio_bind_Inr_iff
  by (auto simp: pio_return_iff split: option.splits if_splits) (metis option.distinct(1))+

lemma scores_prod: "(\<And>y z. x = (y, z) \<Longrightarrow> scores P (k y z)) \<Longrightarrow> scores P (case x of (y, z) \<Rightarrow> k y z)"
  by (cases x) simp

lemma scores_full_flow: "scores (counter_seen A H config) (check_full_flow A H config)"
proof -
  have c: "clean (pio_result (on_world m))" "clean (pio_result (on_world_wait q))" "clean (on_world_io i)" "clean (pio_return r)" for m q i r
    by (intro clean_quiet quiet_result quiet_basic)+
  note fs = flow_scores_bind flow_scores_cases flow_scores_stop flow_scores_go c check_pass_clean clean_missing_command clean_commands
  have p: "flow_scores True (flow_prereqs H)" "flow_scores True (flow_compile H config)" "flow_scores True (flow_declare A H config a)"
    "flow_scores True (flow_deploy A H config a h)" "flow_scores True (flow_deployed H config tx)"
    "flow_scores True (flow_invoke A H config a ca)" "flow_scores True (flow_invoked H config tx')" for a h tx ca tx'
    unfolding flow_prereqs_def flow_compile_def flow_declare_def flow_deploy_def flow_deployed_def flow_invoke_def flow_invoked_def Let_def
    by (intro fs clean_bind clean_cases TrueI)+
  show ?thesis unfolding check_full_flow_def Let_def
    by (intro scores_flow_bind p scores_bind c scores_prod scores_read) (unfold counter_seen_def, blast)
qed

text \<open>
  C29: a health check that ends well has found what it looks for: at its start the node is past block 0, then the
  account is seen with at least one STRK, up to the rounding of the balance to 53 bits, then the account
  class is declared, and unless the flow is skipped a counter was deployed, incremented and read as at
  least 1.
\<close>

theorem health_run_sound:
  assumes "health_run oc sh A H E env0 env_file quick s = Some (Inr (), s')"
  shows "\<exists>config e s0 s1 s2 s3. from_env E env_file env0 = (Inr config, e) \<and> ap_world s0 = ap_world s \<and>
     check_rpc H config s0 = Some (Inr (), s1) \<and>
     (\<exists>w' b. block_number (ho_net H) (rpc_url config) (ap_world s) = (Inr b, w') \<and> b > 0) \<and>
     check_balance oc sh H config s1 = Some (Inr (), s2) \<and>
     (\<exists>w' vs wei. starknet_call (ho_net H) (rpc_url config) STRK_TOKEN BALANCE_OF_SELECTOR [account_address config] (ap_world s1) = (Inr vs, w') \<and>
        vs \<noteq> [] \<and> balance_wei oc vs = Inr wei \<and> 10 ^ 18 \<le> round53 (unat wei)) \<and>
     check_oz_class H config s2 = Some (Inr (), s3) \<and>
     (\<exists>w' c. get_class (ho_net H) (rpc_url config) OZ_ACCOUNT_CLASS_HASH (ap_world s2) = (Inr c, w')) \<and>
     (\<not> quick \<and> private_key config \<noteq> [] \<longrightarrow> counter_seen A H config)"
proof -
  from assms obtain config e where env: "from_env E env_file env0 = (Inr config, e)"
    and c: "counted (health_body oc sh A H config quick) (\<lambda>_. verdict) s = Some (Inr (), s')"
    unfolding health_run_def wrap_err_def by (auto simp: pio_iffs split: prod.splits)
  let ?flow = "if \<not> quick \<and> private_key config \<noteq> [] then check_full_flow A H config else pio_return (Inr ())"
  from c obtain s0 s1 where r: "reset_report s = Some (Inr (), s0)" and b: "health_body oc sh A H config quick s0 = Some (Inr (), s1)"
    and v: "verdict s1 = Some (Inr (), s')" unfolding counted_def by (auto simp: pio_bind_Inr_iff)
  have z: "rp_failed s0 = 0" "rp_failed s1 = 0" using r v by (auto simp: reset_report_def verdict_def split: if_splits)
  from b obtain s2 s3 s4 where
    m: "check_rpc H config s0 = Some (Inr (), s2)" "check_balance oc sh H config s2 = Some (Inr (), s3)"
      "check_oz_class H config s3 = Some (Inr (), s4)" "?flow s4 = Some (Inr (), s1)"
    unfolding health_body_def by (auto simp: pio_iffs)
  have flow: "scores (\<not> quick \<and> private_key config \<noteq> [] \<longrightarrow> counter_seen A H config) ?flow"
    using scores_full_flow[of A H config] by (auto simp: scores_def)
  have w: "ap_world s0 = ap_world s" using r by (auto simp: reset_report_def)
  have n: "(1 :: u32) \<noteq> 0" "(1 :: u32) + 1 \<noteq> 0" "(1 :: u32) + 1 + 1 \<noteq> 0" "(1 :: u32) + 1 + 1 + 1 \<noteq> 0" by simp_all
  have "\<exists>w' b. block_number (ho_net H) (rpc_url config) (ap_world s) = (Inr b, w') \<and> b > 0"
    "\<exists>w' vs wei. starknet_call (ho_net H) (rpc_url config) STRK_TOKEN BALANCE_OF_SELECTOR [account_address config] (ap_world s2) = (Inr vs, w') \<and>
        vs \<noteq> [] \<and> balance_wei oc vs = Inr wei \<and> 10 ^ 18 \<le> round53 (unat wei)"
    "\<exists>w' c. get_class (ho_net H) (rpc_url config) OZ_ACCOUNT_CLASS_HASH (ap_world s3) = (Inr c, w')"
    "\<not> quick \<and> private_key config \<noteq> [] \<longrightarrow> counter_seen A H config"
    using z n m(1)[THEN scores_rpc[unfolded scores_at_def, rule_format], unfolded w] m(2)[THEN scores_balance[unfolded scores_at_def, rule_format]]
      m(3)[THEN scores_oz_class[unfolded scores_at_def, rule_format]] m(4)[THEN flow[unfolded scores_def, rule_format]]
    by (elim disjE conjE; simp)+
  with env w m(1-3) show ?thesis by blast
qed

section \<open>The high half of the balance\<close>

lemma parse_u128_hex_fmt: "parse_u128_hex (fmt_hex (unat w)) = Some w"
proof -
  have "unat w < 2 ^ 128" using unsigned_less[where 'b = 128 and 'a = nat, of w] by simp
  then show ?thesis by (simp add: parse_u128_hex_def trim_0x_fmt_hex from_str_radix16_lower_hex)
qed

text \<open>
  C33: the shift of the high half of the balance never does what it is written for. In a build with overflow
  checks the balance check panics on every non-empty answer of the token; in a build without them it
  judges the sum of the two halves, so that a balance whose low half is below the minimum can pass.
\<close>

theorem balance_shift_out_of_range:
  assumes "starknet_call (ho_net H) (rpc_url config) STRK_TOKEN BALANCE_OF_SELECTOR [account_address config] (ap_world s) =
      (Inr vs, w)" and "vs \<noteq> []"
  shows "check_balance True show_strk H config s =
       Some (Inl (DriverPanic ''attempt to shift left with overflow''), s\<lparr> ap_world := w \<rparr>) \<and>
     (\<forall>low high. vs = [fmt_hex (unat low), fmt_hex (unat high)] \<longrightarrow>
       check_balance False show_strk H config s =
         (if 10 ^ 18 \<le> round53 (unat (low + high)) then check_pass ''STRK balance'' (show_strk (low + high) @ '' STRK'')
          else check_fail ''STRK balance too low'' (show_strk (low + high) @ '' STRK < 1.0 STRK minimum'') NoCause)
         (s\<lparr> ap_world := w \<rparr>))"
  unfolding check_balance_def
  by (simp add: pio_bind_def pio_result_def on_world_def assms balance_wei_def u128_shl_def u128_add_def parse_u128_hex_fmt)

theorem balance_shift_out_of_range_witness:
  "check_balance True (\<lambda>_. []) lab_host demo_config lab_state =
     Some (Inl (DriverPanic ''attempt to shift left with overflow''), lab_state)"
proof -
  have "starknet_call (ho_net lab_host) (rpc_url demo_config) STRK_TOKEN BALANCE_OF_SELECTOR [account_address demo_config]
      (ap_world lab_state) = (Inr [fmt_hex 1], 1)"
    by (simp add: starknet_call_def rio_bind_apply rio_lift_apply lab_host_simps lab_call lab_answers lab_state_def str_elements_def map_filter_simps)
  from balance_shift_out_of_range[OF this] show ?thesis by (simp add: lab_state_def)
qed

section \<open>A healthy playground\<close>

lemma fit_balance: "(10 :: nat) ^ 18 \<le> round53 (10 ^ 18)"
proof -
  have "bit_len (10 ^ 18) = 60" by (simp add: bit_len.simps)
  then show ?thesis by (simp add: round53_def Let_def)
qed

lemma fit_checks: "goes (check_pass n d) w () w"
  unfolding check_pass_def by (rule goes_pass)

lemma fit_flow_bind: "goes m w (Some x) w1 \<Longrightarrow> goes (k x) w1 () w2 \<Longrightarrow> goes (flow_bind m k) w () w2"
  unfolding flow_bind_def by (rule goes_bind, assumption) simp

lemma fit_go: "goes (pio_bind (check_pass n d) (\<lambda>_. pio_return (Inr x))) w x w"
  by (rule goes_bind[OF fit_checks goes_return])

lemma fit_clip: "clip18 ''0xe'' = Inr ''0xe...''"
  by (simp add: clip18_def str_prefix_def is_char_boundary_def)

lemma fit_node: "goes (check_rpc lab_host config) w () w" "goes (check_oz_class lab_host config) w () w"
  unfolding check_rpc_def check_oz_class_def
  by (rule goes_bind[OF goes_on_world(2)], simp add: lab_simps, simp, rule goes_bind[OF fit_checks],
      rule goes_bind[OF goes_on_world(2)], simp add: lab_simps, simp add: fit_checks)
     (rule goes_bind[OF goes_on_world(2)], simp add: lab_simps, simp add: fit_checks)

lemma fit_money: "goes (check_balance False sh lab_host config) (10 ^ 18) () (10 ^ 18)"
proof -
  have p: "parse_u128_hex (fmt_hex (10 ^ 18)) = Some (word_of_nat (10 ^ 18))"
    by (simp add: parse_u128_hex_def trim_0x_fmt_hex from_str_radix16_lower_hex)
  have u: "unat (word_of_nat (10 ^ 18) :: u128) = 10 ^ 18" by (simp add: unsigned_of_nat take_bit_nat_eq_self)
  have b: "balance_wei False [fmt_hex (10 ^ 18)] = Inr (word_of_nat (10 ^ 18))"
    unfolding balance_wei_def by (simp only: nth_Cons_0 p) (simp add: u128_shl_def u128_add_def)
  have s: "starknet_call (ho_net lab_host) url c f a (10 ^ 18) = (Inr [fmt_hex (10 ^ 18)], 10 ^ 18)" for url c f a
    by (simp only: lab_host_simps lab_starknet_call)
  show ?thesis unfolding check_balance_def
    by (rule goes_bind[OF goes_on_world(2)], rule s, simp only: sum.case list.distinct if_False b,
        rule goes_bind[OF goes_return], simp only: u fit_balance if_True fit_checks)
qed

lemma fit_flow: "goes (check_full_flow (lab_lib v) lab_host config) (unat (n :: u64)) () (unat n)" if "1 \<le> n"
proof -
  have "goes (flow_prereqs lab_host) w (Some ()) w" for w
    unfolding flow_prereqs_def by (rule goes_bind[OF lab_missing], simp only: option.case, rule goes_return)
  moreover have "goes (flow_compile lab_host config) w (Some ()) w" for w
    unfolding flow_compile_def
    by (rule goes_bind[OF goes_on_world(2)], simp add: lab_simps, simp only: sum.case lab_text if_True, rule fit_go)
  moreover have "goes (flow_declare (lab_lib v) lab_host config a) w (Some ''0xe'') w" for a w
    unfolding flow_declare_def
    by (rule goes_bind[OF goes_on_world(2)], simp add: lab_simps, simp only: sum.case lab_text lab_parse option.case fit_clip,
        rule goes_bind[OF goes_return], rule fit_go)
  moreover have "goes (flow_deploy (lab_lib v) lab_host config a h) w (Some (''0xe'', Some ''0xe'')) w" for a h w
    unfolding flow_deploy_def
    by (rule goes_bind[OF goes_on_world(3)], simp add: lab_simps, rule goes_bind[OF goes_on_world(2)], simp add: lab_simps,
        simp only: sum.case lab_text lab_parse option.case fit_clip Let_def, rule goes_bind[OF goes_return], rule fit_go)
  moreover have "goes (flow_deployed lab_host config (Some tx)) w (Some ()) w" for tx w
    unfolding flow_deployed_def option.case
    by (rule goes_bind[OF goes_on_world(4)], simp add: lab_simps, simp only: sum.case lab_block option.case,
        rule goes_bind[OF goes_on_world(4)], simp add: lab_simps, rule fit_go)
  moreover have "goes (flow_invoke (lab_lib v) lab_host config a c) w (Some ''0xe'') w" for a c w
    unfolding flow_invoke_def
    by (rule goes_bind[OF goes_on_world(2)], simp add: lab_simps, simp only: sum.case lab_text lab_parse option.case fit_clip,
        rule goes_bind[OF goes_return], rule fit_go)
  moreover have "goes (flow_invoked lab_host config tx) w (Some ()) w" for tx w
    unfolding flow_invoked_def
    by (rule goes_bind[OF goes_on_world(4)], simp add: lab_simps, simp only: sum.case lab_block option.case, rule goes_bind[OF fit_checks],
        rule goes_bind, rule goes_bind[OF goes_on_world(4)], simp add: lab_simps, rule goes_return, rule goes_return)
  moreover have "goes (flow_read lab_host config c) (unat n) () (unat n)" for c
    unfolding flow_read_def Let_def
    by (rule goes_bind[OF goes_on_world(2)], simp add: lab_simps)
       (simp only: sum.case counter_value_of_def list.case parse_u64_hex_fmt unwrap_or_simps that if_True fit_checks)
  moreover have "goes (pio_result (on_world (ho_output lab_host a b c))) w (Inr lab_output) w" for a b c w
    by (rule goes_on_world(2)) (simp add: lab_simps)
  ultimately show ?thesis unfolding check_full_flow_def Let_def
    by - (rule fit_flow_bind, assumption, rule goes_bind, assumption, (rule fit_flow_bind, assumption)+, simp only: prod.case,
      (rule fit_flow_bind, assumption)+, assumption)
qed

definition fit_state :: "nat report" where
  "fit_state = lab_state\<lparr> ap_world := 10 ^ 18 \<rparr>"

lemma fit_passes: "\<exists>s'. health_run False sh (lab_lib v) lab_host lab_env_lib lab_env None False fit_state = Some (Inr (), s')"
proof -
  have w: "ap_world fit_state = 10 ^ 18" "unat ((10 :: u64) ^ 18) = 10 ^ 18" by (simp_all add: fit_state_def)
  have a: "account_line (account_address demo_config) = Inr ''0x1...0x1''"
    by (simp add: game_config account_line_def str_prefix_def is_char_boundary_def Let_def)
  have k: "(\<not> False \<and> private_key demo_config \<noteq> []) = True" by (simp add: game_config)
  have "goes (check_full_flow (lab_lib v) lab_host demo_config) (10 ^ 18) () (10 ^ 18)"
    using fit_flow[of "10 ^ 18" v demo_config] unfolding w(2) by simp
  then have "goes (health_body False sh (lab_lib v) lab_host demo_config False) (10 ^ 18) () (10 ^ 18)"
    unfolding health_body_def a k if_True
    by - (rule goes_bind[OF goes_return], rule goes_bind[OF fit_node(1)], rule goes_bind[OF fit_money], rule goes_bind[OF fit_node(2)])
  from goes_verdict[OF this[folded w(1)]] show ?thesis
    unfolding health_run_def lab_from_env prod.case wrap_err_def by (simp add: pio_map_err_def pio_bind_def map_err_def)
qed

theorem health_run_sound_witness:
  "\<exists>s'. health_run False (\<lambda>_. []) (lab_lib JNull) lab_host lab_env_lib lab_env None False fit_state = Some (Inr (), s') \<and>
     (\<exists>w' b. block_number (ho_net lab_host) (rpc_url demo_config) (ap_world fit_state) = (Inr b, w') \<and> b > 0) \<and>
     counter_seen (lab_lib JNull) lab_host demo_config"
proof -
  obtain s' where r: "health_run False (\<lambda>_. []) (lab_lib JNull) lab_host lab_env_lib lab_env None False fit_state = Some (Inr (), s')"
    using fit_passes by blast
  have "private_key demo_config \<noteq> []" by (simp add: game_config)
  with health_run_sound[OF r, unfolded lab_from_env prod.inject sum.inject] r show ?thesis by blast
qed

end
