(* ===== verification/Spec2Isabelle.thy ===== *)
theory Spec2Isabelle
  imports CliUtil Config ProofCodec WebProver Playground E2eMessages E2eSettlement Health
begin

text \<open>
  \<^bold>\<open>The SNIP-36 prover, its core library and its applications.\<close>

  The repository proves Starknet transactions off chain. A client builds and signs an invoke
  transaction, a \<^emph>\<open>virtual OS\<close> runs it against the state of a reference block that is fetched over
  JSON-RPC together with Merkle proofs, a prover turns the run into a proof with \<^emph>\<open>proof facts\<close>, and
  the transaction is submitted again with the proof attached and a signature that covers the facts.
  The parts, from the bottom up:

  \<^item> \<open>crates/snip36-core\<close>: configuration, field and signing code, the JSON-RPC client, the proof codec
    and the helpers for command output;
  \<^item> \<open>crates/blockifier-reexecution-wasm\<close>: the state reader over JSON-RPC;
  \<^item> \<open>crates/starknet-transaction-prover-wasm\<close>: the virtual block executor, the storage proofs, the
    committer utilities, the classes provider, the runner and the prover;
  \<^item> \<open>crates/snip36-virtual-os\<close> and \<open>crates/snip36-web-prover\<close>: one run from a configuration, and the
    whole proof of a block as the browser calls it;
  \<^item> \<open>apps/coinflip\<close> and \<open>apps/counter\<close>: servers that take bets and batches of increments, prove them in
    background tasks and submit them, and \<open>apps/playground\<close>, which serves both; beside them the command-line tests and the health check of these
    apps, of \<open>apps/messages\<close> and of the bank that settles the bets.

  \<^bold>\<open>Conventions.\<close> A struct is a \<open>record\<close>, an enum a \<open>datatype\<close>, a machine integer a word of its width.
  \<open>Result\<close> is a sum with the error on the left; a panic is a value of its own (\<open>failure\<close> of
  \<open>Prelude\<close>, \<open>task_end\<close> of \<open>AppHost\<close>, \<open>driver_end\<close> of \<open>Driver\<close>). An operation with effects is a function of the world:
  \<open>io\<close> and \<open>rio\<close> (\<open>Prelude\<close>) always return, \<open>pio\<close> (\<open>AppHost\<close>) may not return, and has the value
  \<open>None\<close> when a wait runs forever or panics in its clock; a call of the host is taken to return. An error message that quotes a value carries the value. Logging is left out.

  \<^bold>\<open>What is a parameter.\<close> Code that is not in the repository is an argument of the definitions that
  use it, usually a record of functions: the Stark field (\<open>felt_lib\<close>, with the laws of the locale
  \<open>felt_library\<close>, interpreted on \<open>stark_felt\<close>), Poseidon, Pedersen and ECDSA (\<open>crypto_lib\<close>), base64
  (locale \<open>base64_codec\<close>, interpreted on the standard alphabet), the regular expressions, the HTTP
  transport and the clock (\<open>net\<close>, with \<open>clock_laws\<close>), the typed readers of Starknet JSON, the
  blockifier, the proof client, node and leaf serialisation, the committer, the Starknet OS and the
  Stwo prover, and for the servers the host (\<open>host\<close>: processes, files, environment, randomness) and
  the session store of the server crate (locale \<open>session_store\<close>, interpreted on a function). The
  insertion-ordered maps of the code are lists (\<open>insert_map\<close> in \<open>Prelude\<close>, interpreted on
  \<open>im_insert\<close>). Each theorem with a hypothesis about a parameter has a witness at a concrete one.
  The locale \<open>counted_run\<close> is the contract between a command-line test and its report; it is interpreted on
  the five tests and the health check.

  \<^bold>\<open>Theories.\<close>

  \<^item> \<open>Prelude\<close>, \<open>Wire\<close>, \<open>Json\<close>: results, effects, insertion-ordered maps; hexadecimal and big-endian
    text; JSON values. They hold the \<open>iff\<close> collections that the other proofs run on.
  \<^item> \<open>Felt\<close>, \<open>Signing\<close> (\<open>types.rs\<close>, \<open>signing.rs\<close>): the invoke v3 hash with its proof facts. The
    hash commits to every field of the transaction, the packed bounds lose no bit, and the submitted
    payload decodes to the transaction that was hashed.
  \<^item> \<open>Config\<close>, \<open>Base64\<close>, \<open>ProofCodec\<close>, \<open>CliUtil\<close> (\<open>config.rs\<close>, \<open>proof.rs\<close>, \<open>cli_util.rs\<close>): the chain id
    agrees with its reference encoding and is injective; decoding a packed proof gives the low words.
  \<^item> \<open>Net\<close>, \<open>Rpc\<close> (\<open>rpc.rs\<close>): requests and the two polling loops. The loops are partial functions; when
    the clock runs and the durations are within the timer's range they return, with the answer of a
    round or a timeout after the deadline.
  \<^item> \<open>StateReader\<close> (\<open>state_reader/*.rs\<close>, \<open>errors.rs\<close>, \<open>utils.rs\<close>), \<open>StateMaps\<close> (\<open>serde_utils.rs\<close>): when a
    read succeeds, what an unknown contract or class gives, block headers, the form of initial reads.
  \<^item> \<open>Executor\<close> (\<open>virtual_block_executor.rs\<close>): a finished execution has no reverted transaction and the
    messages of all of them; the simulated reader answers exactly from the reads.
  \<^item> \<open>ProofQuery\<close>, \<open>StorageProofs\<close> (\<open>storage_proofs.rs\<close>), \<open>Committer\<close> (\<open>committer_utils.rs\<close>): splitting a
    query loses nothing, fetching in chunks equals one unlimited request, the facts database holds
    all nodes, leaves and placeholders, and a state diff without deletions is accepted.
  \<^item> \<open>Runner\<close> (\<open>classes_provider.rs\<close>, \<open>runner.rs\<close>), \<open>Prover\<close> (\<open>config.rs\<close>, \<open>errors.rs\<close>, \<open>proving/*.rs\<close>,
    \<open>snip36-virtual-os\<close>), \<open>WebProver\<close> (\<open>snip36-web-prover\<close>): what the OS is given, which inputs are
    refused, and that \<open>prove_block\<close> proves the very transaction that it returns, hashes and signs, and
    never one that the prover refuses.
  \<^item> \<open>AppHost\<close>, \<open>AppTask\<close>: the effects of a server, event streams, and the rules that carry \<^emph>\<open>returns\<close>
    and \<^emph>\<open>streams properly\<close> through a task.
  \<^item> \<open>CoinFlip\<close> (\<open>coinflip/src/state.rs\<close>, the handlers of \<open>routes.rs\<close>), \<open>CoinFlipPlay\<close> (\<open>play_coinflip\<close>),
    \<open>CoinFlipSafety\<close>, \<open>CoinFlipTask\<close>: the commitment protocol as an inductive step relation on the shared
    state, the refinement of every route to one of its steps, and the invariant of its traces; the play
    task ends, the client's stream has one last event of the task with at most lines of the prover after
    it, and a result stands for an accepted transaction.
  \<^item> \<open>Counter\<close>, \<open>CounterTask\<close>, \<open>CounterSafety\<close> (\<open>counter/src/routes.rs\<close>): sessions are isolated, also from
    the tasks of batches; the task of a batch ends, moves the reference block to the block of the receipt
    of the transaction that it has submitted, and signs a multicall that makes the announced calls.
  \<^item> \<open>Playground\<close> (\<open>playground/src/main.rs\<close>): the server that merges the routes of both apps with the generic
    ones, and its runs: for every sequence of requests, with tasks in between, a committed bet is granted
    one game at most, and only to what was committed.
  \<^item> \<open>Driver\<close>: what the command-line tests share, taken from \<open>counter/src/e2e.rs\<close> where it is the same
    everywhere: the counters and times of the report, the commands, signing, proving and submission. A
    stage keeps the counters in line with the lines it writes; \<open>DriverLab\<close> is a small node and host on
    which the witnesses run whole tests.
  \<^item> \<open>E2eCounter\<close> (\<open>counter/src/e2e.rs\<close>), \<open>E2eCoinFlip\<close> (\<open>coinflip/src/e2e.rs\<close>), \<open>E2eSettlement\<close>
    (\<open>coinflip/src/e2e_settlement.rs\<close>), \<open>E2eMessages\<close> (\<open>messages/src/e2e.rs\<close> and its copy
    \<open>counter/src/e2e_messages.rs\<close>), \<open>Health\<close> (\<open>counter/src/health.rs\<close>): a run returns with a verdict that
    agrees with the report, a run that ends well has seen what the test is for, and the calldata decodes
    to the calls that were meant.

  \<^bold>\<open>Bounds and loops.\<close> There is no fuel. Loops over data are structural recursions; the polling loops
  are \<open>partial_function (option)\<close> and proved to return under \<open>clock_laws\<close> (reading the time gives the
  time, sleeping advances it, nothing turns it back, and durations of \<open>u32\<close> milliseconds are added and
  slept without a panic; all callers use constants of at most ten minutes); the retry loops of the tasks run over the list
  of their twenty attempts.

  \<^bold>\<open>Interleaving.\<close> A handler of a server is modelled as one run. What a handler writes to the shared
  state is a single step of the protocol, so the executions of concurrent handlers are sequences of
  such steps; the reads before the write, such as the test for an existing deployment or for an open bet
  in \<open>confirm_deposit\<close>, may see an older state in the program. A run of the playground handles its requests one
  after another; the steps of background tasks on the world and the sessions come between them in any way.
  A task of the coin flip leaves bets and deployments alone.

  \<^bold>\<open>Not modelled.\<close> The library roots (module declarations), the extractor (it writes a
  constant of another crate to a file), the first version of the state reader that no module declares, the
  Cairo contracts, the vendored contracts and the web front end. Of the modelled parts: log lines that are
  not part of an event stream or a report, the content of the lines that a prover process prints, HTTP headers, sockets, and the
  conversions between JavaScript and Rust values in the binding of the web prover.
\<close>

end
